(* ===== verification/KwarmPrelude.thy ===== *)
theory KwarmPrelude
  imports Main "HOL-Library.Word" "HOL-Library.Multiset"
begin

text \<open>
  Shared vocabulary of the development: Go's fixed-width signed integers and the lemmas
  that read them as \<open>int\<close>, reads of Go maps (a missing key gives the zero value), Go
  error values, decimal printing as done by the verb \<open>%d\<close>, and small facts on lists and
  multisets that several components use.
\<close>

section \<open>Collections of facts\<close>

text \<open>
  \<open>kwarm_defs\<close> holds the definitions that a proof about a whole handler opens together;
  \<open>go_int\<close> holds the facts that move a comparison or an increment of a machine integer
  to \<open>int\<close>.
\<close>

named_theorems kwarm_defs
named_theorems go_int

section \<open>Go integers\<close>

text \<open>Go's \<open>int\<close> is 64 bits wide on the platforms kwarm is built for (amd64, arm64).\<close>

type_synonym go_int = "64 word"
type_synonym int32 = "32 word"
type_synonym int64 = "64 word"

lemma sint_less_iff [go_int]: "x <s y \<longleftrightarrow> sint x < sint y"
  by (simp add: word_sless_alt)

lemma sint_le_iff [go_int]: "x \<le>s y \<longleftrightarrow> sint x \<le> sint y"
  by (simp add: word_sle_eq)

lemma sint_upper: "sint (x :: 'a::len word) < 2 ^ (LENGTH('a) - 1)"
  by (rule sint_lt)

lemma sint_lower: "- (2 ^ (LENGTH('a) - 1)) \<le> sint (x :: 'a::len word)"
  by (rule sint_ge)

text \<open>Adding or removing one is exact when it stays between the two operands of a test.\<close>

lemma sint_inc:
  fixes x y :: "'a::len word"
  assumes "sint x < sint y" and "1 < LENGTH('a)"
  shows "sint (x + 1) = sint x + 1"
proof -
  have one: "sint (1 :: 'a word) = 1"
    using assms(2) by (cases "LENGTH('a)") auto
  have "sint x + 1 < 2 ^ (LENGTH('a) - 1)"
    using assms(1) sint_upper [of y] by linarith
  moreover have "- (2 ^ (LENGTH('a) - 1)) \<le> sint x + 1"
    using sint_lower [of x] by linarith
  ultimately show ?thesis
    using assms(2) by (simp add: sint_word_ariths(1) one signed_take_bit_int_eq_self)
qed

lemma sint_dec:
  fixes x :: "'a::len word"
  assumes "0 < sint x" and "1 < LENGTH('a)"
  shows "sint (x - 1) = sint x - 1"
proof -
  have one: "sint (1 :: 'a word) = 1"
    using assms(2) by (cases "LENGTH('a)") auto
  have "sint x - 1 < 2 ^ (LENGTH('a) - 1)"
    using sint_upper [of x] by linarith
  moreover have "- (2 ^ (LENGTH('a) - 1)) \<le> (0 :: int)"
    by simp
  then have "- (2 ^ (LENGTH('a) - 1)) \<le> sint x - 1"
    using assms(1) by linarith
  ultimately show ?thesis
    using assms(2) by (simp add: sint_word_ariths(2) one signed_take_bit_int_eq_self)
qed

lemma sint_eq_iff: "sint x = sint y \<longleftrightarrow> x = y"
  by (auto intro: signed_word_eqI)

lemma sint_of_nat_small:
  assumes "n < 2 ^ (LENGTH('a::len) - 1)"
  shows "sint (of_nat n :: 'a word) = int n"
proof -
  have upper: "int n < 2 ^ (LENGTH('a) - 1)"
    using assms by (metis of_nat_less_iff of_nat_numeral of_nat_power)
  have lower: "- (2 ^ (LENGTH('a) - 1)) \<le> int n"
    by (rule order_trans [of _ 0]) simp_all
  show ?thesis
    using signed_take_bit_int_eq_self [OF lower upper] by (simp add: signed_of_nat)
qed

section \<open>Go maps\<close>

text \<open>
  A read \<open>m[k]\<close> of a Go map gives the element type's zero value when the key is absent.
\<close>

definition map_read :: "('k \<rightharpoonup> 'v::zero) \<Rightarrow> 'k \<Rightarrow> 'v" where
  "map_read m k = (case m k of None \<Rightarrow> 0 | Some v \<Rightarrow> v)"

lemma map_read_upd [simp]: "map_read (m(k \<mapsto> v)) j = (if j = k then v else map_read m j)"
  by (simp add: map_read_def)

lemma map_read_del [simp]: "map_read (m(k := None)) j = (if j = k then 0 else map_read m j)"
  by (simp add: map_read_def)

lemma map_read_empty [simp]: "map_read Map.empty k = 0"
  by (simp add: map_read_def)

text \<open>
  A Go map from strings to strings whose size the program reads, or that it ranges over, sorts
  or serialises, is an association list with distinct keys; its order means nothing.
\<close>

type_synonym gomap = "(string \<times> string) list"

definition map_read_str :: "('k \<rightharpoonup> string) \<Rightarrow> 'k \<Rightarrow> string" where
  "map_read_str m k = (case m k of None \<Rightarrow> '''' | Some v \<Rightarrow> v)"

section \<open>Go errors\<close>

text \<open>
  A Go \<open>error\<close>: a status error of the API server with its reason and message, another
  plain error with its text, or an error wrapped by \<open>fmt.Errorf\<close> with the verb \<open>%w\<close>,
  whose text is the prefix followed by the text of the wrapped error.
\<close>

datatype go_error =
    StatusError string string
  | PlainError string
  | WrapError string go_error

fun error_text :: "go_error \<Rightarrow> string" where
  "error_text (StatusError _ msg) = msg"
| "error_text (PlainError msg) = msg"
| "error_text (WrapError prefix e) = prefix @ error_text e"

section \<open>Decimal printing\<close>

text \<open>The verb \<open>%d\<close> of \<open>fmt.Sprintf\<close>: decimal digits, with a minus sign when negative.\<close>

definition digit_char :: "nat \<Rightarrow> char" where
  "digit_char d = char_of (48 + d)"

fun show_nat :: "nat \<Rightarrow> string" where
  "show_nat n = (if n < 10 then [digit_char n]
     else show_nat (n div 10) @ [digit_char (n mod 10)])"

declare show_nat.simps [simp del]

definition show_int :: "int \<Rightarrow> string" where
  "show_int i = (if i < 0 then CHR ''-'' # show_nat (nat (- i)) else show_nat (nat i))"

lemma show_nat_nonempty [simp]: "show_nat n \<noteq> []"
  by (subst show_nat.simps) simp

section \<open>Lists and multisets\<close>

text \<open>The sub-multiset of the images of the elements that satisfy a test.\<close>

definition mset_where :: "('a \<Rightarrow> bool) \<Rightarrow> ('a \<Rightarrow> 'b) \<Rightarrow> 'a list \<Rightarrow> 'b multiset" where
  "mset_where p f xs = mset (map f (filter p xs))"

lemma mset_where_Nil [simp]: "mset_where p f [] = {#}"
  by (simp add: mset_where_def)

lemma mset_where_Cons [simp]:
  "mset_where p f (x # xs) = (if p x then add_mset (f x) (mset_where p f xs) else mset_where p f xs)"
  by (simp add: mset_where_def)

lemma mset_where_append [simp]:
  "mset_where p f (xs @ ys) = mset_where p f xs + mset_where p f ys"
  by (simp add: mset_where_def)

lemma mset_where_none: "(\<And>x. x \<in> set xs \<Longrightarrow> \<not> p x) \<Longrightarrow> mset_where p f xs = {#}"
  by (induction xs) auto

lemma size_mset_where: "size (mset_where p f xs) = length (filter p xs)"
  by (induction xs) auto

end
