(* ===== verification/RateLimiter.thy ===== *)
theory RateLimiter
  imports KwarmPrelude
begin

text \<open>
  The rate limiter of \<open>internal/ratelimiter/ratelimiter.go\<close>: its two limits, the global
  counter and the per-node counters of slots in use, one definition per method, and the
  abstract contract the methods keep. The contract is the locale \<open>slot_limiter\<close>: a limiter
  holds a multiset of node names, one occurrence per slot, never more than the limits
  allow. The interpretation \<open>rl\<close> shows that the Go code implements it. Every method runs
  under the mutex \<open>mu\<close>; theory LimiterMutex models the mutex and the interleavings.
\<close>

section \<open>State and methods\<close>

record RateLimiter =
  maxConcurrentPulls :: go_int
  maxPullsPerNode :: go_int
  currentPulls :: go_int
  nodeCurrentPulls :: "string \<rightharpoonup> go_int"

definition NewRateLimiter :: "go_int \<Rightarrow> go_int \<Rightarrow> RateLimiter" where
  "NewRateLimiter maxConcurrent maxPerNode =
     (let maxConcurrent = (if maxConcurrent \<le>s 0 then 10 else maxConcurrent);
          maxPerNode = (if maxPerNode \<le>s 0 then 2 else maxPerNode)
      in \<lparr>maxConcurrentPulls = maxConcurrent, maxPullsPerNode = maxPerNode,
          currentPulls = 0, nodeCurrentPulls = Map.empty\<rparr>)"

definition TryAcquire :: "RateLimiter \<Rightarrow> string \<Rightarrow> bool \<times> RateLimiter" where
  "TryAcquire r nodeName =
     (if maxConcurrentPulls r \<le>s currentPulls r then (False, r)
      else if maxPullsPerNode r \<le>s map_read (nodeCurrentPulls r) nodeName then (False, r)
      else (True, r\<lparr>currentPulls := currentPulls r + 1,
              nodeCurrentPulls := (nodeCurrentPulls r)
                (nodeName \<mapsto> map_read (nodeCurrentPulls r) nodeName + 1)\<rparr>))"

text \<open>The three conditionals of \<open>Release\<close>, in the order of the source.\<close>

definition release_global :: "RateLimiter \<Rightarrow> RateLimiter" where
  "release_global r = (if 0 <s currentPulls r then r\<lparr>currentPulls := currentPulls r - 1\<rparr> else r)"

definition release_node :: "string \<Rightarrow> RateLimiter \<Rightarrow> RateLimiter" where
  "release_node nodeName r =
     (if 0 <s map_read (nodeCurrentPulls r) nodeName
      then r\<lparr>nodeCurrentPulls := (nodeCurrentPulls r)
               (nodeName \<mapsto> map_read (nodeCurrentPulls r) nodeName - 1)\<rparr>
      else r)"

definition release_drop :: "string \<Rightarrow> RateLimiter \<Rightarrow> RateLimiter" where
  "release_drop nodeName r =
     (if map_read (nodeCurrentPulls r) nodeName \<le>s 0
      then r\<lparr>nodeCurrentPulls := (nodeCurrentPulls r)(nodeName := None)\<rparr>
      else r)"

definition Release :: "RateLimiter \<Rightarrow> string \<Rightarrow> RateLimiter" where
  "Release r nodeName = release_drop nodeName (release_node nodeName (release_global r))"

definition CurrentPulls :: "RateLimiter \<Rightarrow> go_int" where
  "CurrentPulls r = currentPulls r"

definition CurrentPullsForNode :: "RateLimiter \<Rightarrow> string \<Rightarrow> go_int" where
  "CurrentPullsForNode r nodeName = map_read (nodeCurrentPulls r) nodeName"

definition MaxConcurrentPulls :: "RateLimiter \<Rightarrow> go_int" where
  "MaxConcurrentPulls r = maxConcurrentPulls r"

definition MaxPullsPerNode :: "RateLimiter \<Rightarrow> go_int" where
  "MaxPullsPerNode r = maxPullsPerNode r"

lemmas release_steps = Release_def release_global_def release_node_def release_drop_def

text \<open>The limits are written by the constructor only.\<close>

lemma TryAcquire_limits [simp]:
  "maxConcurrentPulls (snd (TryAcquire r n)) = maxConcurrentPulls r"
  "maxPullsPerNode (snd (TryAcquire r n)) = maxPullsPerNode r"
  by (simp_all add: TryAcquire_def)

lemma Release_limits [simp]:
  "maxConcurrentPulls (Release r n) = maxConcurrentPulls r"
  "maxPullsPerNode (Release r n) = maxPullsPerNode r"
  by (simp_all add: release_steps)

section \<open>The contract: a bounded multiset of slots\<close>

locale slot_limiter =
  fixes acquire :: "'l \<Rightarrow> 'n \<Rightarrow> bool \<times> 'l"
    and release :: "'l \<Rightarrow> 'n \<Rightarrow> 'l"
    and holds :: "'l \<Rightarrow> 'n multiset \<Rightarrow> bool"
    and cap :: "'l \<Rightarrow> int"
    and node_cap :: "'l \<Rightarrow> int"
  assumes holds_bounded: "holds l M \<Longrightarrow> int (size M) \<le> cap l \<and> int (count M n) \<le> node_cap l"
    and holds_unique: "holds l M \<Longrightarrow> holds l N \<Longrightarrow> M = N"
    and acquire_iff: "holds l M \<Longrightarrow>
      fst (acquire l n) \<longleftrightarrow> int (size M) < cap l \<and> int (count M n) < node_cap l"
    and acquire_holds: "holds l M \<Longrightarrow> fst (acquire l n) \<Longrightarrow> holds (snd (acquire l n)) (add_mset n M)"
    and acquire_refused: "\<not> fst (acquire l n) \<Longrightarrow> snd (acquire l n) = l"
    and release_holds: "holds l M \<Longrightarrow> n \<in># M \<Longrightarrow> holds (release l n) (M - {#n#})"
    and acquire_caps: "cap (snd (acquire l n)) = cap l" "node_cap (snd (acquire l n)) = node_cap l"
    and release_caps: "cap (release l n) = cap l" "node_cap (release l n) = node_cap l"
begin

text \<open>
  What a client relies on: a refused attempt changes nothing, and giving back the slot just
  taken restores the slots held before.
\<close>

lemma acquire_split:
  assumes "holds l M"
  obtains (refused) "acquire l n = (False, l)"
  | (granted) l' where "acquire l n = (True, l')" "holds l' (add_mset n M)"
proof (cases "fst (acquire l n)")
  case True
  with assms have "holds (snd (acquire l n)) (add_mset n M)" by (rule acquire_holds)
  with True granted show ?thesis by (metis prod.collapse)
next
  case False
  then show ?thesis using acquire_refused refused by (metis (full_types) prod.collapse)
qed

lemma acquire_release:
  assumes "holds l M" and "acquire l n = (True, l')"
  shows "holds (release l' n) M"
proof -
  from assms acquire_holds [of l M n] have "holds l' (add_mset n M)" by simp
  from release_holds [OF this, of n] show ?thesis by simp
qed

text \<open>A run of requests: each is an attempt to take a slot, or a slot given back.\<close>

fun run :: "('n + 'n) list \<Rightarrow> 'l \<Rightarrow> 'l" where
  "run [] l = l"
| "run (Inl n # rs) l = run rs (snd (acquire l n))"
| "run (Inr n # rs) l = run rs (release l n)"

text \<open>The slots a run leaves, when each slot given back was held.\<close>

fun slots_after :: "('n + 'n) list \<Rightarrow> 'l \<Rightarrow> 'n multiset \<Rightarrow> 'n multiset option" where
  "slots_after [] l M = Some M"
| "slots_after (Inl n # rs) l M =
     slots_after rs (snd (acquire l n)) (if fst (acquire l n) then add_mset n M else M)"
| "slots_after (Inr n # rs) l M =
     (if n \<in># M then slots_after rs (release l n) (M - {#n#}) else None)"

lemma run_holds:
  "holds l M \<Longrightarrow> slots_after rs l M = Some N \<Longrightarrow> holds (run rs l) N"
proof (induction rs arbitrary: l M)
  case Nil
  then show ?case by simp
next
  case (Cons r rs)
  then show ?case
    by (cases r) (auto split: if_splits simp: acquire_refused intro: acquire_holds release_holds)
qed

lemma run_caps: "cap (run rs l) = cap l \<and> node_cap (run rs l) = node_cap l"
proof (induction rs arbitrary: l)
  case (Cons r rs)
  then show ?case by (cases r) (simp_all add: acquire_caps release_caps)
qed simp

lemma run_bounded:
  assumes "holds l M" and "slots_after rs l M = Some N"
  shows "int (size N) \<le> cap l \<and> int (count N n) \<le> node_cap l"
  using holds_bounded [OF run_holds [OF assms], of n] run_caps [of rs l] by simp

end

section \<open>The code implements the contract\<close>

text \<open>
  \<open>rl_holds r M\<close>: the counters of \<open>r\<close> are the sizes of the multiset \<open>M\<close>, \<open>M\<close> is within both
  limits, and the map has no entry that is not positive (\<open>Release\<close> deletes those).
\<close>

definition rl_holds :: "RateLimiter \<Rightarrow> string multiset \<Rightarrow> bool" where
  "rl_holds r M \<longleftrightarrow>
     sint (currentPulls r) = int (size M) \<and>
     (\<forall>n. sint (map_read (nodeCurrentPulls r) n) = int (count M n)) \<and>
     dom (nodeCurrentPulls r) = set_mset M \<and>
     int (size M) \<le> sint (maxConcurrentPulls r) \<and>
     (\<forall>n. int (count M n) \<le> sint (maxPullsPerNode r))"

lemma rl_holds_new: "rl_holds (NewRateLimiter a b) {#}"
  by (auto simp: rl_holds_def NewRateLimiter_def Let_def go_int)

lemma TryAcquire_fst:
  assumes "rl_holds r M"
  shows "fst (TryAcquire r n) \<longleftrightarrow>
    int (size M) < sint (maxConcurrentPulls r) \<and> int (count M n) < sint (maxPullsPerNode r)"
  using assms by (auto simp: rl_holds_def TryAcquire_def go_int)

lemma TryAcquire_holds:
  assumes M: "rl_holds r M" and ok: "fst (TryAcquire r n)"
  shows "rl_holds (snd (TryAcquire r n)) (add_mset n M)"
proof -
  have below: "sint (currentPulls r) < sint (maxConcurrentPulls r)"
    "sint (map_read (nodeCurrentPulls r) n) < sint (maxPullsPerNode r)"
    using ok by (auto simp: TryAcquire_def go_int split: if_splits)
  then have "sint (currentPulls r + 1) = sint (currentPulls r) + 1"
    "sint (map_read (nodeCurrentPulls r) n + 1) = sint (map_read (nodeCurrentPulls r) n) + 1"
    by (auto intro: sint_inc)
  then show ?thesis
    using M below by (auto simp: rl_holds_def TryAcquire_def go_int)
qed

lemma Release_holds:
  assumes M: "rl_holds r M" and n: "n \<in># M"
  shows "rl_holds (Release r n) (M - {#n#})"
proof -
  have pos: "0 < count M n" using n by simp
  then have gpos: "0 < sint (currentPulls r)" and npos: "0 < sint (map_read (nodeCurrentPulls r) n)"
    using M n by (auto simp: rl_holds_def nonempty_has_size [symmetric])
  have dec: "sint (currentPulls r - 1) = sint (currentPulls r) - 1"
    "sint (map_read (nodeCurrentPulls r) n - 1) = sint (map_read (nodeCurrentPulls r) n) - 1"
    using gpos npos by (auto intro: sint_dec)
  have "int (count M n) \<le> sint (maxPullsPerNode r)"
    using M by (simp add: rl_holds_def)
  then have cap: "int (count M n) - 1 \<le> sint (maxPullsPerNode r)"
    by simp
  show ?thesis
    using M n pos gpos npos dec cap
    by (auto simp: rl_holds_def release_steps go_int size_Diff_singleton of_nat_diff
        in_diff_count domIff set_eq_iff Suc_le_eq)
qed

lemma new_limiter_first: "fst (TryAcquire (NewRateLimiter a b) n)"
  by (auto simp: NewRateLimiter_def TryAcquire_def Let_def go_int)

interpretation rl: slot_limiter TryAcquire Release rl_holds
  "\<lambda>r. sint (maxConcurrentPulls r)" "\<lambda>r. sint (maxPullsPerNode r)"
proof unfold_locales
  fix l M N n
  show "rl_holds l M \<Longrightarrow> int (size M) \<le> sint (maxConcurrentPulls l) \<and>
      int (count M n) \<le> sint (maxPullsPerNode l)"
    by (simp add: rl_holds_def)
  show "rl_holds l M \<Longrightarrow> rl_holds l N \<Longrightarrow> M = N"
    by (auto simp: rl_holds_def intro: multiset_eqI)
  show "\<not> fst (TryAcquire l n) \<Longrightarrow> snd (TryAcquire l n) = l"
    by (auto simp: TryAcquire_def)
qed (simp_all add: TryAcquire_fst TryAcquire_holds Release_holds)

section \<open>Accounts of the slots in use\<close>

text \<open>
  What the controller's passes do to the limiter can be told for any account \<open>holds\<close> of the slots
  in use that follows a slot taken and a slot given back. Three accounts are kept: the exact one
  of \<open>rl_holds\<close>; the bare fact that the counters are within the limits; and \<open>covers g d\<close>, by which
  the counters are short of the slots in use by at most \<open>g\<close> in all and \<open>d n\<close> on the node \<open>n\<close>. The
  last two survive what breaks the first, a slot given back that was not held.
\<close>

locale slot_account =
  fixes holds :: "RateLimiter \<Rightarrow> string multiset \<Rightarrow> bool"
  assumes acquired: "holds l M \<Longrightarrow> TryAcquire l n = (True, l') \<Longrightarrow> holds l' (add_mset n M)"
    and released: "holds l (add_mset n M) \<Longrightarrow> holds (Release l n) M"
begin

lemma returned: "holds l M \<Longrightarrow> TryAcquire l n = (True, l') \<Longrightarrow> holds (Release l' n) M"
  by (rule released, rule acquired)

end

text \<open>The counters as numbers.\<close>

definition used :: "RateLimiter \<Rightarrow> int" where
  "used l = sint (CurrentPulls l)"

definition used_on :: "RateLimiter \<Rightarrow> string \<Rightarrow> int" where
  "used_on l n = sint (CurrentPullsForNode l n)"

lemmas used_defs = used_def used_on_def CurrentPulls_def CurrentPullsForNode_def

definition within_limits :: "RateLimiter \<Rightarrow> bool" where
  "within_limits l \<longleftrightarrow> 0 \<le> used l \<and> used l \<le> sint (maxConcurrentPulls l) \<and>
     (\<forall>n. 0 \<le> used_on l n \<and> used_on l n \<le> sint (maxPullsPerNode l))"

definition covers :: "nat \<Rightarrow> (string \<Rightarrow> nat) \<Rightarrow> RateLimiter \<Rightarrow> string multiset \<Rightarrow> bool" where
  "covers g d l M \<longleftrightarrow> within_limits l \<and> int (size M) \<le> used l + int g \<and>
     (\<forall>n. int (count M n) \<le> used_on l n + int (d n))"

text \<open>What a slot taken and a slot given back do to the counters, whatever is held.\<close>

lemma TryAcquire_counters:
  assumes "TryAcquire l n = (True, l')"
  shows "used l < sint (maxConcurrentPulls l)" "used_on l n < sint (maxPullsPerNode l)"
    "used l' = used l + 1" "used_on l' m = used_on l m + (if m = n then 1 else 0)"
    "maxConcurrentPulls l' = maxConcurrentPulls l" "maxPullsPerNode l' = maxPullsPerNode l"
proof -
  show below: "used l < sint (maxConcurrentPulls l)" "used_on l n < sint (maxPullsPerNode l)"
    using assms by (auto simp: used_defs TryAcquire_def go_int split: if_splits)
  then have "sint (currentPulls l + 1) = sint (currentPulls l) + 1"
    "sint (map_read (nodeCurrentPulls l) n + 1) = sint (map_read (nodeCurrentPulls l) n) + 1"
    by (auto simp: used_defs intro: sint_inc)
  with assms show "used l' = used l + 1" "used_on l' m = used_on l m + (if m = n then 1 else 0)"
    "maxConcurrentPulls l' = maxConcurrentPulls l" "maxPullsPerNode l' = maxPullsPerNode l"
    by (auto simp: used_defs TryAcquire_def split: if_splits)
qed

lemma Release_counters:
  assumes "within_limits l"
  shows "used (Release l n) = (if used l = 0 then 0 else used l - 1)"
    "used_on (Release l n) m = (if m = n \<and> used_on l n \<noteq> 0 then used_on l n - 1 else used_on l m)"
proof -
  have pos: "0 \<le> used l" "0 \<le> used_on l n"
    using assms by (simp_all add: within_limits_def)
  show "used (Release l n) = (if used l = 0 then 0 else used l - 1)"
    using pos(1) sint_dec [of "currentPulls l"] by (auto simp: used_defs release_steps go_int)
  show "used_on (Release l n) m = (if m = n \<and> used_on l n \<noteq> 0 then used_on l n - 1 else used_on l m)"
    using pos(2) sint_dec [of "map_read (nodeCurrentPulls l) n"] by (auto simp: used_defs release_steps go_int)
qed

lemma within_limits_new: "within_limits (NewRateLimiter a b)"
  by (auto simp: within_limits_def used_defs NewRateLimiter_def Let_def go_int)

lemma within_limits_acquired:
  assumes "within_limits l" and "TryAcquire l n = (True, l')"
  shows "within_limits l'"
proof -
  note c = TryAcquire_counters [OF assms(2)]
  have "0 \<le> used_on l' m \<and> used_on l' m \<le> sint (maxPullsPerNode l')" for m
    using assms(1) c(2,6) c(4) [of m] by (cases "m = n") (simp_all add: within_limits_def)
  then show ?thesis
    using assms(1) c(1,3,5) by (simp add: within_limits_def)
qed

lemma within_limits_released:
  assumes "within_limits l"
  shows "within_limits (Release l n)"
proof -
  note c = Release_counters [OF assms, of n]
  have b: "0 \<le> used_on l m" "used_on l m \<le> sint (maxPullsPerNode l)" for m
    using assms by (simp_all add: within_limits_def)
  have "0 \<le> used_on (Release l n) m \<and> used_on (Release l n) m \<le> sint (maxPullsPerNode l)" for m
  proof (cases "m = n \<and> used_on l n \<noteq> 0")
    case True
    with b [of n] show ?thesis unfolding c(2) by simp
  next
    case False
    with b [of m] show ?thesis unfolding c(2) by simp
  qed
  moreover have "0 \<le> used (Release l n) \<and> used (Release l n) \<le> sint (maxConcurrentPulls l)"
  proof (cases "used l = 0")
    case True
    with assms show ?thesis unfolding c(1) by (simp add: within_limits_def)
  next
    case False
    with assms show ?thesis unfolding c(1) within_limits_def by simp
  qed
  ultimately show ?thesis by (simp add: within_limits_def)
qed

interpretation exact: slot_account rl_holds
proof unfold_locales
  fix l M n l'
  show "rl_holds l M \<Longrightarrow> TryAcquire l n = (True, l') \<Longrightarrow> rl_holds l' (add_mset n M)"
    using TryAcquire_holds [of l M n] by simp
  show "rl_holds l (add_mset n M) \<Longrightarrow> rl_holds (Release l n) M"
    using Release_holds [of l "add_mset n M" n] by simp
qed

interpretation bounded: slot_account "\<lambda>l M. within_limits l"
  by unfold_locales (rule within_limits_acquired within_limits_released, assumption+)+

lemma coversI:
  assumes "within_limits l" and "int (size M) \<le> used l + int g"
    and "\<And>n. int (count M n) \<le> used_on l n + int (d n)"
  shows "covers g d l M"
  using assms by (simp add: covers_def)

lemma coversD:
  assumes "covers g d l M"
  shows "within_limits l" "int (size M) \<le> used l + int g" "int (count M n) \<le> used_on l n + int (d n)"
  using assms by (simp_all add: covers_def)

interpretation covered: slot_account "covers g d" for g d
proof unfold_locales
  fix l M n l'
  show "covers g d l' (add_mset n M)" if h: "covers g d l M" and t: "TryAcquire l n = (True, l')"
  proof (rule coversI)
    note c = TryAcquire_counters [OF t]
    show "within_limits l'" by (rule within_limits_acquired [OF coversD(1) [OF h] t])
    show "int (size (add_mset n M)) \<le> used l' + int g" using coversD(2) [OF h] c(3) by simp
    show "int (count (add_mset n M) m) \<le> used_on l' m + int (d m)" for m
      using coversD(3) [OF h, of m] c(4) [of m] by simp
  qed
  show "covers g d (Release l n) M" if h: "covers g d l (add_mset n M)"
  proof (rule coversI)
    note w = coversD(1) [OF h]
    note c = Release_counters [OF w, of n]
    show "within_limits (Release l n)" by (rule within_limits_released [OF w])
    show "int (size M) \<le> used (Release l n) + int g"
      using coversD(2) [OF h] c(1) by (simp split: if_splits)
    show "int (count M m) \<le> used_on (Release l n) m + int (d m)" for m
      using coversD(3) [OF h, of m] c(2) [of m] by (simp split: if_splits)
  qed
qed

text \<open>An account with gaps from the exact one, for a new limiter, and after a change of the limiter alone.\<close>

lemma covers_start: "covers (size M) (count M) (NewRateLimiter a b) M"
  using within_limits_new [of a b] by (intro coversI) (simp_all add: within_limits_def)

lemma covers_changed:
  assumes "covers g d l M" and "within_limits l'"
  shows "covers (g + nat (used l - used l')) (\<lambda>n. d n + nat (used_on l n - used_on l' n)) l' M"
proof (rule coversI)
  show "int (size M) \<le> used l' + int (g + nat (used l - used l'))"
    using coversD(2) [OF assms(1)] by simp
  show "int (count M n) \<le> used_on l' n + int (d n + nat (used_on l n - used_on l' n))" for n
    using coversD(3) [OF assms(1), of n] by simp
qed (rule assms(2))

section \<open>Properties of the limiter\<close>

text \<open>
  (C5) Whatever the requests, in whatever order they come (attempts for any nodes, and slots
  given back by those who hold them), a limiter built by \<open>NewRateLimiter\<close> counts exactly the
  slots in use, globally and per node, and neither number ever passes its limit.
\<close>

theorem limiter_never_exceeds:
  assumes "rl.slots_after rs (NewRateLimiter a b) {#} = Some N"
  shows "sint (CurrentPulls (rl.run rs (NewRateLimiter a b))) = int (size N) \<and>
    int (size N) \<le> sint (MaxConcurrentPulls (NewRateLimiter a b)) \<and>
    (\<forall>n. sint (CurrentPullsForNode (rl.run rs (NewRateLimiter a b)) n) = int (count N n) \<and>
         int (count N n) \<le> sint (MaxPullsPerNode (NewRateLimiter a b)))"
  using rl.run_holds [OF rl_holds_new assms] rl.run_bounded [OF rl_holds_new assms]
  by (simp add: rl_holds_def CurrentPulls_def CurrentPullsForNode_def MaxConcurrentPulls_def
      MaxPullsPerNode_def)

lemma limiter_never_exceeds_witness:
  "rl.slots_after [Inl ''n1'', Inl ''n1'', Inl ''n2'', Inr ''n1''] (NewRateLimiter 2 1) {#}
     = Some {#''n2''#} \<and>
   int (size {#''n2''#}) \<le> sint (MaxConcurrentPulls (NewRateLimiter 2 1))"
proof -
  have h: "rl.slots_after [Inl ''n1'', Inl ''n1'', Inl ''n2'', Inr ''n1''] (NewRateLimiter 2 1) {#}
     = Some {#''n2''#}"
    by (simp add: NewRateLimiter_def TryAcquire_def go_int)
  from limiter_never_exceeds [OF h] h show ?thesis by simp
qed

text \<open>
  \<open>NewRateLimiter\<close> never builds a limiter that blocks everything: both limits are
  positive, equal to the argument when it is positive and to the default (10 and 2)
  otherwise, and the first attempt for any node succeeds.
\<close>

lemma new_limiter_usable:
  "0 < sint (MaxConcurrentPulls (NewRateLimiter a b)) \<and> 0 < sint (MaxPullsPerNode (NewRateLimiter a b)) \<and>
   MaxConcurrentPulls (NewRateLimiter a b) = (if 0 < sint a then a else 10) \<and>
   MaxPullsPerNode (NewRateLimiter a b) = (if 0 < sint b then b else 2) \<and>
   fst (TryAcquire (NewRateLimiter a b) n)"
  by (auto simp: NewRateLimiter_def MaxConcurrentPulls_def MaxPullsPerNode_def TryAcquire_def
      Let_def go_int)

text \<open>
  A slot given back for a node that holds none is not harmless: while any other slot is
  in use, \<open>Release\<close> still lowers the global counter and leaves every node's counter as it
  was. A limiter at its global limit then admits one more pull, and the slots in use
  (the sum over the nodes) are one more than the limit.
\<close>

lemma stray_release_breaks_limit:
  assumes "rl_holds r M" and "int (size M) = sint (MaxConcurrentPulls r)" and "M \<noteq> {#}"
    and "n \<notin># M" and "int (count M m) < sint (MaxPullsPerNode r)"
  shows "fst (TryAcquire (Release r n) m) \<and>
    (\<forall>k. sint (CurrentPullsForNode (snd (TryAcquire (Release r n) m)) k)
       = int (count (add_mset m M) k)) \<and>
    sint (MaxConcurrentPulls r) < int (size (add_mset m M))"
proof -
  have pos: "0 < sint (currentPulls r)"
    using assms(1,3) by (simp add: rl_holds_def nonempty_has_size)
  have rel: "currentPulls (Release r n) = currentPulls r - 1"
    "map_read (nodeCurrentPulls (Release r n)) k = map_read (nodeCurrentPulls r) k" for k
    using assms(1,4) pos
    by (auto simp: rl_holds_def release_steps go_int map_read_def domIff not_in_iff split: option.splits)
  have caps: "sint (currentPulls r - 1) < sint (maxConcurrentPulls r)"
    "sint (map_read (nodeCurrentPulls r) m) < sint (maxPullsPerNode r)"
    using assms pos sint_dec [OF pos]
    by (auto simp: rl_holds_def MaxConcurrentPulls_def MaxPullsPerNode_def)
  then have "sint (map_read (nodeCurrentPulls r) m + 1) = sint (map_read (nodeCurrentPulls r) m) + 1"
    by (intro sint_inc) auto
  then show ?thesis
    using assms(1,2) rel caps
    by (auto simp: rl_holds_def TryAcquire_def CurrentPullsForNode_def MaxConcurrentPulls_def go_int)
qed

lemma stray_release_breaks_limit_witness:
  "\<exists>r. rl_holds r {#''n1''#} \<and> fst (TryAcquire (Release r ''n2'') ''n2'') \<and>
     sint (MaxConcurrentPulls r) < int (size {#''n2'', ''n1''#})"
proof -
  let ?r = "snd (TryAcquire (NewRateLimiter 1 1) ''n1'')"
  have h: "rl_holds ?r {#''n1''#}"
    using TryAcquire_holds [OF rl_holds_new, of 1 1 "''n1''"] new_limiter_first [of 1 1 "''n1''"]
    by simp
  have lim: "sint (MaxConcurrentPulls ?r) = 1" "sint (MaxPullsPerNode ?r) = 1"
    by (simp_all add: MaxConcurrentPulls_def MaxPullsPerNode_def NewRateLimiter_def go_int)
  from stray_release_breaks_limit [OF h, of "''n2''" "''n2''"] h lim show ?thesis by auto
qed

end
