(* ===== verification/LimiterMutex.thy ===== *)
theory LimiterMutex
  imports RateLimiter
begin

text \<open>
  The mutex of \<open>internal/ratelimiter/ratelimiter.go\<close>. Goroutines call the limiter
  concurrently; each method takes \<open>mu\<close>, runs its statements one at a time and gives \<open>mu\<close>
  back when it returns (\<open>defer r.mu.Unlock()\<close>). A step here is one statement of one
  goroutine, and any goroutine may move next. The result is linearizability: the calls
  that have returned behave as if each had run at once, in the order of the unlocks.
  \<open>MaxConcurrentPulls\<close> and \<open>MaxPullsPerNode\<close> read fields that no method writes and take
  no lock, so they need no step here.
\<close>

section \<open>Calls, program points and steps\<close>

datatype call =
    CallTryAcquire string
  | CallRelease string
  | CallCurrentPulls
  | CallCurrentPullsForNode string

datatype reply = ReplyBool bool | ReplyUnit | ReplyInt go_int

text \<open>
  Where a goroutine is: outside the limiter, before \<open>Lock\<close>, at one of the statements of a
  method, or at the deferred \<open>Unlock\<close> with the value it returns.
\<close>

datatype point =
    Outside
  | BeforeLock call
  | AcquireGlobalTest string
  | AcquireNodeTest string
  | AcquireGlobalInc string
  | AcquireNodeInc string
  | ReleaseGlobal string
  | ReleaseNode string
  | ReleaseDrop string
  | ReadGlobal
  | ReadNode string
  | BeforeUnlock call reply

record machine =
  shared :: RateLimiter
  mu :: "nat option"
  at :: "nat \<Rightarrow> point"
  returned :: "(call \<times> reply) list"

fun first_point :: "call \<Rightarrow> point" where
  "first_point (CallTryAcquire n) = AcquireGlobalTest n"
| "first_point (CallRelease n) = ReleaseGlobal n"
| "first_point CallCurrentPulls = ReadGlobal"
| "first_point (CallCurrentPullsForNode n) = ReadNode n"

text \<open>One statement of a method body: the new shared state and the next program point.\<close>

fun body_step :: "point \<Rightarrow> RateLimiter \<Rightarrow> (RateLimiter \<times> point) option" where
  "body_step (AcquireGlobalTest n) r =
     Some (r, if maxConcurrentPulls r \<le>s currentPulls r
              then BeforeUnlock (CallTryAcquire n) (ReplyBool False) else AcquireNodeTest n)"
| "body_step (AcquireNodeTest n) r =
     Some (r, if maxPullsPerNode r \<le>s map_read (nodeCurrentPulls r) n
              then BeforeUnlock (CallTryAcquire n) (ReplyBool False) else AcquireGlobalInc n)"
| "body_step (AcquireGlobalInc n) r =
     Some (r\<lparr>currentPulls := currentPulls r + 1\<rparr>, AcquireNodeInc n)"
| "body_step (AcquireNodeInc n) r =
     Some (r\<lparr>nodeCurrentPulls := (nodeCurrentPulls r)(n \<mapsto> map_read (nodeCurrentPulls r) n + 1)\<rparr>,
           BeforeUnlock (CallTryAcquire n) (ReplyBool True))"
| "body_step (ReleaseGlobal n) r = Some (release_global r, ReleaseNode n)"
| "body_step (ReleaseNode n) r = Some (release_node n r, ReleaseDrop n)"
| "body_step (ReleaseDrop n) r = Some (release_drop n r, BeforeUnlock (CallRelease n) ReplyUnit)"
| "body_step ReadGlobal r = Some (r, BeforeUnlock CallCurrentPulls (ReplyInt (currentPulls r)))"
| "body_step (ReadNode n) r =
     Some (r, BeforeUnlock (CallCurrentPullsForNode n) (ReplyInt (map_read (nodeCurrentPulls r) n)))"
| "body_step Outside r = None"
| "body_step (BeforeLock c) r = None"
| "body_step (BeforeUnlock c v) r = None"

inductive mstep :: "machine \<Rightarrow> machine \<Rightarrow> bool" where
  enter: "at s t = Outside \<Longrightarrow> mstep s (s\<lparr>at := (at s)(t := BeforeLock c)\<rparr>)"
| lock: "at s t = BeforeLock c \<Longrightarrow> mu s = None \<Longrightarrow>
    mstep s (s\<lparr>mu := Some t, at := (at s)(t := first_point c)\<rparr>)"
| body: "body_step (at s t) (shared s) = Some (r, p) \<Longrightarrow>
    mstep s (s\<lparr>shared := r, at := (at s)(t := p)\<rparr>)"
| unlock: "at s t = BeforeUnlock c v \<Longrightarrow>
    mstep s (s\<lparr>mu := None, at := (at s)(t := Outside), returned := returned s @ [(c, v)]\<rparr>)"

inductive_cases mstepE: "mstep s s'"

definition start :: "RateLimiter \<Rightarrow> machine" where
  "start r = \<lparr>shared = r, mu = None, at = (\<lambda>_. Outside), returned = []\<rparr>"

inductive reaches :: "RateLimiter \<Rightarrow> machine \<Rightarrow> bool" for r where
  reaches_start: "reaches r (start r)"
| reaches_step: "reaches r s \<Longrightarrow> mstep s s' \<Longrightarrow> reaches r s'"

section \<open>The atomic specification\<close>

fun atomic :: "call \<Rightarrow> RateLimiter \<Rightarrow> reply \<times> RateLimiter" where
  "atomic (CallTryAcquire n) r = (ReplyBool (fst (TryAcquire r n)), snd (TryAcquire r n))"
| "atomic (CallRelease n) r = (ReplyUnit, Release r n)"
| "atomic CallCurrentPulls r = (ReplyInt (CurrentPulls r), r)"
| "atomic (CallCurrentPullsForNode n) r = (ReplyInt (CurrentPullsForNode r n), r)"

text \<open>The state after the calls of a history, and whether every reply is the atomic one.\<close>

fun replay :: "(call \<times> reply) list \<Rightarrow> RateLimiter \<Rightarrow> RateLimiter" where
  "replay [] r = r"
| "replay ((c, v) # h) r = replay h (snd (atomic c r))"

fun legal :: "(call \<times> reply) list \<Rightarrow> RateLimiter \<Rightarrow> bool" where
  "legal [] r = True"
| "legal ((c, v) # h) r = (fst (atomic c r) = v \<and> legal h (snd (atomic c r)))"

lemma replay_snoc: "replay (h @ [(c, v)]) r = snd (atomic c (replay h r))"
  by (induction h r rule: replay.induct) simp_all

lemma legal_snoc: "legal (h @ [(c, v)]) r \<longleftrightarrow> legal h r \<and> fst (atomic c (replay h r)) = v"
  by (induction h r rule: replay.induct) simp_all

section \<open>The invariant\<close>

text \<open>
  \<open>midway c p q r\<close>: a goroutine that took the lock for the call \<open>c\<close> in state \<open>q\<close> and is now
  at \<open>p\<close> has brought the shared state to \<open>r\<close>.
\<close>

fun midway :: "point \<Rightarrow> RateLimiter \<Rightarrow> RateLimiter \<Rightarrow> bool" where
  "midway (AcquireGlobalTest n) q r = (r = q)"
| "midway (AcquireNodeTest n) q r = (r = q \<and> \<not> maxConcurrentPulls q \<le>s currentPulls q)"
| "midway (AcquireGlobalInc n) q r =
     (r = q \<and> \<not> maxConcurrentPulls q \<le>s currentPulls q \<and>
      \<not> maxPullsPerNode q \<le>s map_read (nodeCurrentPulls q) n)"
| "midway (AcquireNodeInc n) q r =
     (r = q\<lparr>currentPulls := currentPulls q + 1\<rparr> \<and> \<not> maxConcurrentPulls q \<le>s currentPulls q \<and>
      \<not> maxPullsPerNode q \<le>s map_read (nodeCurrentPulls q) n)"
| "midway (ReleaseGlobal n) q r = (r = q)"
| "midway (ReleaseNode n) q r = (r = release_global q)"
| "midway (ReleaseDrop n) q r = (r = release_node n (release_global q))"
| "midway ReadGlobal q r = (r = q)"
| "midway (ReadNode n) q r = (r = q)"
| "midway (BeforeUnlock c v) q r = (atomic c q = (v, r))"
| "midway Outside q r = False"
| "midway (BeforeLock c) q r = False"

fun outside_lock :: "point \<Rightarrow> bool" where
  "outside_lock Outside = True"
| "outside_lock (BeforeLock c) = True"
| "outside_lock p = False"

lemma midway_inside: "midway p q r \<Longrightarrow> \<not> outside_lock p"
  by (cases p) simp_all

lemma midway_first: "midway (first_point c) q q"
  by (cases c) simp_all

lemma midway_body: "midway p q r \<Longrightarrow> body_step p r = Some (r', p') \<Longrightarrow> midway p' q r'"
  by (cases p) (auto simp: TryAcquire_def Release_def CurrentPulls_def CurrentPullsForNode_def)

lemma body_inside: "body_step p r = Some x \<Longrightarrow> \<not> outside_lock p"
  by (cases p) simp_all

text \<open>
  Only the holder of the mutex is inside a method, and what it has done so far started from
  the state the returned calls left.
\<close>

definition minv :: "RateLimiter \<Rightarrow> machine \<Rightarrow> bool" where
  "minv r0 s \<longleftrightarrow> legal (returned s) r0 \<and>
     (\<forall>t. \<not> outside_lock (at s t) \<longrightarrow> mu s = Some t) \<and>
     (case mu s of
        None \<Rightarrow> shared s = replay (returned s) r0
      | Some t \<Rightarrow> midway (at s t) (replay (returned s) r0) (shared s))"

lemma minv_start: "minv r (start r)"
  by (simp add: minv_def start_def)

lemma minv_holder: "minv r0 s \<Longrightarrow> \<not> outside_lock (at s t) \<Longrightarrow>
    mu s = Some t \<and> midway (at s t) (replay (returned s) r0) (shared s)"
  by (auto simp: minv_def)

lemma minv_step:
  assumes "mstep s s'" and inv: "minv r0 s"
  shows "minv r0 s'"
  using assms(1)
proof cases
  case (enter t c)
  with inv have "mu s \<noteq> Some t"
    by (auto simp: minv_def dest: midway_inside split: option.splits)
  with inv enter show ?thesis
    by (auto simp: minv_def split: option.splits)
next
  case (lock t c)
  with inv show ?thesis
    by (auto simp: minv_def midway_first)
next
  case (body t r p)
  with minv_holder [OF inv body_inside] have "mu s = Some t"
    "midway (at s t) (replay (returned s) r0) (shared s)" by auto
  with inv body midway_body show ?thesis
    by (auto simp: minv_def)
next
  case (unlock t c v)
  with minv_holder [OF inv, of t] have "mu s = Some t"
    "atomic c (replay (returned s) r0) = (v, shared s)" by auto
  with inv unlock show ?thesis
    by (auto simp: minv_def legal_snoc replay_snoc)
qed

lemma reaches_minv: "reaches r s \<Longrightarrow> minv r s"
  by (induction rule: reaches.induct) (auto intro: minv_start minv_step)

section \<open>Properties\<close>

text \<open>
  (C4) Linearizability. In every interleaving of the statements of any number of goroutines,
  the calls that have returned got the replies of the atomic methods run one after the
  other in the order of their unlocks, and whenever the mutex is free the limiter is in
  the state that sequential run leaves.
\<close>

theorem limiter_linearizable:
  assumes "reaches r s"
  shows "legal (returned s) r \<and> (mu s = None \<longrightarrow> shared s = replay (returned s) r)"
  using reaches_minv [OF assms] by (auto simp: minv_def)

definition demo_run :: "machine list" where
  "demo_run =
     (let s0 = start (NewRateLimiter 1 1);
          s1 = s0\<lparr>at := (at s0)(0 := BeforeLock (CallTryAcquire ''a''))\<rparr>;
          s2 = s1\<lparr>mu := Some 0, at := (at s1)(0 := AcquireGlobalTest ''a'')\<rparr>;
          s3 = s2\<lparr>at := (at s2)(0 := AcquireNodeTest ''a'')\<rparr>
      in [s0, s1, s2, s3])"

lemma demo_reaches: "reaches (NewRateLimiter 1 1) (last demo_run)"
proof -
  let ?r = "NewRateLimiter 1 1"
  let ?s0 = "start ?r"
  let ?s1 = "?s0\<lparr>at := (at ?s0)(0 := BeforeLock (CallTryAcquire ''a''))\<rparr>"
  let ?s2 = "?s1\<lparr>mu := Some 0, at := (at ?s1)(0 := first_point (CallTryAcquire ''a''))\<rparr>"
  have 1: "reaches ?r ?s1"
    by (rule reaches_step [OF reaches_start]) (rule mstep.enter, simp add: start_def)
  have 2: "reaches ?r ?s2"
    by (rule reaches_step [OF 1], rule mstep.lock) (simp_all add: start_def)
  have b: "body_step (at ?s2 0) (shared ?s2) = Some (shared ?s2, AcquireNodeTest ''a'')"
    by (simp add: start_def NewRateLimiter_def go_int)
  from reaches_step [OF 2 mstep.body [OF b]]
  show ?thesis by (simp add: demo_run_def Let_def)
qed

lemma limiter_linearizable_witness:
  "legal (returned (last demo_run)) (NewRateLimiter 1 1) \<and> mu (last demo_run) = Some 0"
  using limiter_linearizable [OF demo_reaches] by (simp add: demo_run_def Let_def)

text \<open>
  Mutual exclusion: two goroutines are never inside the limiter's methods at the same
  time, and the one inside is the one that holds the mutex.
\<close>

lemma limiter_mutual_exclusion:
  assumes "reaches r s" and "\<not> outside_lock (at s t)" and "\<not> outside_lock (at s u)"
  shows "t = u \<and> mu s = Some t"
  using minv_holder [OF reaches_minv [OF assms(1)] assms(2)]
    minv_holder [OF reaches_minv [OF assms(1)] assms(3)] by simp

lemma limiter_mutual_exclusion_witness:
  "mu (last demo_run) = Some 0 \<and> \<not> outside_lock (at (last demo_run) 0)"
  using limiter_mutual_exclusion [OF demo_reaches, of 0 0] by (simp add: demo_run_def Let_def)

end
