(* ===== verification/GoTime.thy ===== *)
theory GoTime
  imports KwarmPrelude
begin

text \<open>
  What kwarm uses of Go's package \<open>time\<close>. A \<open>Duration\<close> is a signed 64-bit count of
  nanoseconds. \<open>ParseDuration\<close>, \<open>Seconds\<close>, \<open>String\<close> and \<open>Sub\<close> follow the standard
  library; where it computes with \<open>float64\<close>, the rounding to 53 significant bits
  (half to even) is written out on exact fractions, all of which stay in the normal range.
  An instant is an unbounded count of nanoseconds.
\<close>

section \<open>Durations and instants\<close>

type_synonym instant = int
type_synonym duration = int64

definition Nanosecond :: nat where "Nanosecond = 1"
definition Microsecond :: nat where "Microsecond = 1000"
definition Millisecond :: nat where "Millisecond = 1000000"
definition Second :: nat where "Second = 1000000000"
definition Minute :: nat where "Minute = 60000000000"
definition Hour :: nat where "Hour = 3600000000000"

lemmas time_units = Nanosecond_def Microsecond_def Millisecond_def Second_def Minute_def Hour_def

text \<open>\<open>t.Sub(u)\<close>: the difference, or the nearest \<open>Duration\<close> when it does not fit.\<close>

definition time_sub :: "instant \<Rightarrow> instant \<Rightarrow> duration" where
  "time_sub t u = word_of_int (max (- (2 ^ 63)) (min (2 ^ 63 - 1) (t - u)))"

lemma sint_time_sub: "sint (time_sub t u) = max (- (2 ^ 63)) (min (2 ^ 63 - 1) (t - u))"
  by (simp add: time_sub_def signed_of_int signed_take_bit_int_eq_self)

section \<open>Rounding to float64\<close>

text \<open>
  A non-negative fraction is a numerator and a denominator. \<open>scale_up p q\<close> doublings bring
  \<open>p / q\<close> to at least \<open>2 ^ 52\<close>; \<open>scale_down p q\<close> halvings bring it below \<open>2 ^ 53\<close>.
\<close>

function scale_up :: "nat \<Rightarrow> nat \<Rightarrow> nat" where
  "scale_up p q = (if p = 0 \<or> 2 ^ 52 * q \<le> p then 0 else Suc (scale_up (2 * p) q))"
  by pat_completeness auto
termination
  by (relation "measure (\<lambda>(p, q). 2 ^ 52 * q - p)") auto

function scale_down :: "nat \<Rightarrow> nat \<Rightarrow> nat" where
  "scale_down p q = (if q = 0 \<or> p < 2 ^ 53 * q then 0 else Suc (scale_down p (2 * q)))"
  by pat_completeness auto
termination
  by (relation "measure (\<lambda>(p, q). p - q)") auto

declare scale_up.simps [simp del] scale_down.simps [simp del]

definition half_even :: "nat \<Rightarrow> nat \<Rightarrow> nat" where
  "half_even n d =
     (let k = n div d; r = n mod d
      in if d < 2 * r \<or> (d = 2 * r \<and> odd k) then Suc k else k)"

definition float64 :: "nat \<times> nat \<Rightarrow> nat \<times> nat" where
  "float64 x = (case x of (p, q) \<Rightarrow>
     let u = scale_up p q; d = scale_down p q
     in (half_even (p * 2 ^ u) (q * 2 ^ d) * 2 ^ d, 2 ^ u))"

definition frac_add :: "nat \<times> nat \<Rightarrow> nat \<times> nat \<Rightarrow> nat \<times> nat" where
  "frac_add x y = (fst x * snd y + fst y * snd x, snd x * snd y)"

definition frac_mul :: "nat \<times> nat \<Rightarrow> nat \<times> nat \<Rightarrow> nat \<times> nat" where
  "frac_mul x y = (fst x * fst y, snd x * snd y)"

definition frac_trunc :: "nat \<times> nat \<Rightarrow> nat" where
  "frac_trunc x = fst x div snd x"

text \<open>
  \<open>int64(d.Seconds())\<close>, where \<open>Seconds\<close> is
  \<open>float64(d / Second) + float64(d % Second) / 1e9\<close>: Go's quotient and remainder truncate
  towards zero, so a negative duration is the negation of the positive one.
\<close>

definition whole_seconds :: "duration \<Rightarrow> int64" where
  "whole_seconds d =
     (let a = nat \<bar>sint d\<bar>;
          s = frac_trunc (float64 (frac_add (float64 (a div Second, 1)) (float64 (a mod Second, Second))))
      in if sint d < 0 then - of_nat s else of_nat s)"

section \<open>ParseDuration\<close>

definition u64 :: "nat \<Rightarrow> nat" where
  "u64 n = n mod 2 ^ 64"

definition is_digit :: "char \<Rightarrow> bool" where
  "is_digit c \<longleftrightarrow> 48 \<le> (of_char c :: nat) \<and> (of_char c :: nat) \<le> 57"

definition digit_value :: "char \<Rightarrow> nat" where
  "digit_value c = of_char c - 48"

fun leadingInt :: "nat \<Rightarrow> string \<Rightarrow> (nat \<times> string) option" where
  "leadingInt x [] = Some (x, [])"
| "leadingInt x (c # s) =
     (if \<not> is_digit c then Some (x, c # s)
      else if 2 ^ 63 div 10 < x then None
      else let x' = u64 (x * 10 + digit_value c)
           in if 2 ^ 63 < x' then None else leadingInt x' s)"

fun leadingFraction :: "nat \<Rightarrow> nat \<Rightarrow> bool \<Rightarrow> string \<Rightarrow> nat \<times> nat \<times> string" where
  "leadingFraction x scale over [] = (x, scale, [])"
| "leadingFraction x scale over (c # s) =
     (if \<not> is_digit c then (x, scale, c # s)
      else if over then leadingFraction x scale True s
      else if (2 ^ 63 - 1) div 10 < x then leadingFraction x scale True s
      else let y = u64 (x * 10 + digit_value c)
           in if 2 ^ 63 < y then leadingFraction x scale True s
              else leadingFraction y (scale * 10) False s)"

lemma leadingInt_length: "leadingInt x s = Some (v, r) \<Longrightarrow> length r \<le> length s"
  by (induction x s rule: leadingInt.induct) (auto split: if_splits simp: Let_def)

lemma leadingFraction_length: "length (snd (snd (leadingFraction x sc ov s))) \<le> length s"
proof (induction s arbitrary: x sc ov)
  case (Cons c s)
  then show ?case
    by (simp add: Let_def le_SucI)
qed simp

definition unitMap :: "string \<rightharpoonup> nat" where
  "unitMap = map_of
     [(''ns'', Nanosecond), (''us'', Microsecond),
      ([char_of (194::nat), char_of (181::nat), CHR ''s''], Microsecond),
      ([char_of (206::nat), char_of (188::nat), CHR ''s''], Microsecond),
      (''ms'', Millisecond), (''s'', Second), (''m'', Minute), (''h'', Hour)]"

definition unit_char :: "char \<Rightarrow> bool" where
  "unit_char c \<longleftrightarrow> c \<noteq> CHR ''.'' \<and> \<not> is_digit c"

text \<open>
  One round of the loop reads a number (the digits before the point, the digits after it and
  their power of ten), then a unit (its nanoseconds), each with the rest of the text.
\<close>

definition parse_number :: "string \<Rightarrow> (nat \<times> nat \<times> nat \<times> string) option" where
  "parse_number s =
     (if s = [] \<or> \<not> (hd s = CHR ''.'' \<or> is_digit (hd s)) then None
      else case leadingInt 0 s of
        None \<Rightarrow> None
      | Some (v, s1) \<Rightarrow>
          let pre = length s1 \<noteq> length s
          in if s1 \<noteq> [] \<and> hd s1 = CHR ''.'' then
               (case leadingFraction 0 1 False (tl s1) of (f, scale, s2) \<Rightarrow>
                  let post = length s2 \<noteq> length (tl s1)
                  in if \<not> pre \<and> \<not> post then None else Some (v, f, scale, s2))
             else if \<not> pre then None else Some (v, 0, 1, s1))"

definition parse_unit :: "string \<Rightarrow> (nat \<times> string) option" where
  "parse_unit s =
     (if takeWhile unit_char s = [] then None
      else map_option (\<lambda>u. (u, dropWhile unit_char s)) (unitMap (takeWhile unit_char s)))"

definition component_value :: "nat \<Rightarrow> nat \<Rightarrow> nat \<Rightarrow> nat \<Rightarrow> nat option" where
  "component_value v f scale unit =
     (if 2 ^ 63 div unit < v then None
      else
        let v1 = u64 (v * unit)
        in if 0 < f then
             let v2 = u64 (v1 + frac_trunc (float64 (frac_mul (float64 (f, 1)) (float64 (unit, scale)))))
             in if 2 ^ 63 < v2 then None else Some v2
           else Some v1)"

definition parse_component :: "string \<Rightarrow> (nat \<times> string) option" where
  "parse_component s =
     (case parse_number s of
        None \<Rightarrow> None
      | Some (v, f, scale, s2) \<Rightarrow>
          (case parse_unit s2 of
             None \<Rightarrow> None
           | Some (unit, s3) \<Rightarrow> map_option (\<lambda>n. (n, s3)) (component_value v f scale unit)))"

lemma parse_number_length: "parse_number s = Some (v, f, sc, r) \<Longrightarrow> length r \<le> length s"
  using leadingFraction_length [of 0 1 False]
  by (auto simp: parse_number_def Let_def split: if_splits option.splits prod.splits
      dest!: leadingInt_length) (metis diff_le_self le_trans length_tl snd_conv)+

lemma parse_unit_shorter: "parse_unit s = Some (u, r) \<Longrightarrow> length r < length s"
proof -
  assume "parse_unit s = Some (u, r)"
  then have "takeWhile unit_char s \<noteq> []" "r = dropWhile unit_char s"
    by (auto simp: parse_unit_def split: if_splits)
  moreover have "length (takeWhile unit_char s) + length (dropWhile unit_char s) = length s"
    by (metis length_append takeWhile_dropWhile_id)
  ultimately show "length r < length s"
    by (cases "takeWhile unit_char s") auto
qed

lemma parse_component_shorter: "parse_component s = Some (v, r) \<Longrightarrow> length r < length s"
  by (auto simp: parse_component_def split: option.splits
      dest!: parse_number_length parse_unit_shorter)

function parse_components :: "nat \<Rightarrow> string \<Rightarrow> nat option" where
  "parse_components d s =
     (if s = [] then Some d
      else case parse_component s of
        None \<Rightarrow> None
      | Some (v, r) \<Rightarrow>
          let d' = u64 (d + v) in if 2 ^ 63 < d' then None else parse_components d' r)"
  by pat_completeness auto
termination
  by (relation "measure (\<lambda>(d, s). length s)") (auto dest: parse_component_shorter)

declare parse_components.simps [simp del]

text \<open>\<open>None\<close> stands for the error that \<open>time.ParseDuration\<close> returns.\<close>

definition ParseDuration :: "string \<Rightarrow> duration option" where
  "ParseDuration s =
     (let neg = s \<noteq> [] \<and> hd s = CHR ''-'';
          s = (if s \<noteq> [] \<and> (hd s = CHR ''-'' \<or> hd s = CHR ''+'') then tl s else s)
      in if s = ''0'' then Some 0
         else if s = [] then None
         else case parse_components 0 s of
           None \<Rightarrow> None
         | Some d \<Rightarrow> if neg then Some (- of_nat d)
                     else if 2 ^ 63 - 1 < d then None else Some (of_nat d))"

section \<open>Duration.String\<close>

text \<open>
  \<open>fmtFrac\<close> prints the last \<open>prec\<close> digits as a fraction, without trailing zeros, and drops
  them from the number.
\<close>

fun fmtFrac :: "nat \<Rightarrow> nat \<Rightarrow> bool \<Rightarrow> string \<Rightarrow> string \<times> nat" where
  "fmtFrac 0 v shown acc = (if shown then CHR ''.'' # acc else acc, v)"
| "fmtFrac (Suc prec) v shown acc =
     (let digit = v mod 10; shown' = (shown \<or> digit \<noteq> 0)
      in fmtFrac prec (v div 10) shown' (if shown' then digit_char digit # acc else acc))"

definition frac_string :: "nat \<Rightarrow> nat \<Rightarrow> string \<Rightarrow> string" where
  "frac_string prec u suffix = (case fmtFrac prec u False [] of (f, v) \<Rightarrow> show_nat v @ f @ suffix)"

definition abs_string :: "nat \<Rightarrow> string" where
  "abs_string u =
     (if u = 0 then ''0s''
      else if u < Microsecond then frac_string 0 u ''ns''
      else if u < Millisecond then frac_string 3 u [char_of (194::nat), char_of (181::nat), CHR ''s'']
      else if u < Second then frac_string 6 u ''ms''
      else case fmtFrac 9 u False [] of (f, secs) \<Rightarrow>
        let tail = show_nat (secs mod 60) @ f @ ''s''; mins = secs div 60; hours = mins div 60
        in if mins = 0 then tail
           else if hours = 0 then show_nat (mins mod 60) @ ''m'' @ tail
           else show_nat hours @ ''h'' @ show_nat (mins mod 60) @ ''m'' @ tail)"

definition duration_string :: "duration \<Rightarrow> string" where
  "duration_string d =
     (if sint d < 0 then CHR ''-'' # abs_string (nat (- sint d)) else abs_string (nat (sint d)))"

end
