(* ===== verification/Sha256.thy ===== *)
theory Sha256
  imports KwarmPrelude
begin

text \<open>
  What kwarm uses of Go's \<open>crypto/sha256\<close>: the digest of a byte string (FIPS 180-4), and
  its printing with the verb \<open>%x\<close>. Strings are lists of bytes, so \<open>char\<close> is a byte. The
  component theories rely on the length and the alphabet of the printed digest only.
\<close>

unbundle bit_operations_syntax

section \<open>Round functions\<close>

type_synonym w32 = "32 word"

definition rotr :: "nat \<Rightarrow> w32 \<Rightarrow> w32" where
  "rotr n x = word_rotr n x"

definition Ch :: "w32 \<Rightarrow> w32 \<Rightarrow> w32 \<Rightarrow> w32" where
  "Ch x y z = (x AND y) XOR (NOT x AND z)"

definition Maj :: "w32 \<Rightarrow> w32 \<Rightarrow> w32 \<Rightarrow> w32" where
  "Maj x y z = (x AND y) XOR (x AND z) XOR (y AND z)"

definition Sigma0 :: "w32 \<Rightarrow> w32" where
  "Sigma0 x = rotr 2 x XOR rotr 13 x XOR rotr 22 x"

definition Sigma1 :: "w32 \<Rightarrow> w32" where
  "Sigma1 x = rotr 6 x XOR rotr 11 x XOR rotr 25 x"

definition sigma0 :: "w32 \<Rightarrow> w32" where
  "sigma0 x = rotr 7 x XOR rotr 18 x XOR drop_bit 3 x"

definition sigma1 :: "w32 \<Rightarrow> w32" where
  "sigma1 x = rotr 17 x XOR rotr 19 x XOR drop_bit 10 x"

text \<open>
  The constants are the first 32 bits of the fractional parts of the cube roots of the first
  64 primes, and of the square roots of the first eight: \<open>int_root e is x r\<close> finds the bits of
  the root at the positions \<open>is\<close> (\<open>r\<close> holds those found so far), and the cast to 32 bits drops
  the integral part.
\<close>

fun int_root :: "nat \<Rightarrow> nat list \<Rightarrow> nat \<Rightarrow> nat \<Rightarrow> nat" where
  "int_root e [] x r = r"
| "int_root e (i # is) x r =
     (let r' = r + 2 ^ i in if r' ^ e \<le> x then int_root e is x r' else int_root e is x r)"

definition root_fraction :: "nat \<Rightarrow> nat \<Rightarrow> w32" where
  "root_fraction e p = of_nat (int_root e (rev [0..<36]) (p * 2 ^ (32 * e)) 0)"

definition primes_below :: "nat \<Rightarrow> nat list" where
  "primes_below n = filter (\<lambda>p. list_all (\<lambda>d. p mod d \<noteq> 0) [2..<p]) [2..<n]"

definition round_constants :: "w32 list" where
  "round_constants = map (root_fraction 3) (primes_below 312)"

definition initial_state :: "w32 list" where
  "initial_state = map (root_fraction 2) (primes_below 20)"

lemma primes_below_20: "primes_below 20 = [2, 3, 5, 7, 11, 13, 17, 19]"
  by (simp add: primes_below_def upt_rec_numeral)

lemma length_initial_state: "length initial_state = 8"
  by (simp add: initial_state_def primes_below_20)

lemma root_fraction_ends:
  "root_fraction 2 2 = 0x6a09e667" "root_fraction 3 2 = 0x428a2f98" "root_fraction 3 311 = 0xc67178f2"
  by (simp_all add: root_fraction_def upt_rec_numeral upt_rec [of 0] upt_rec [of "Suc 0"] numeral_2_eq_2 [symmetric])

section \<open>Padding and blocks\<close>

definition byte_value :: "char \<Rightarrow> nat" where
  "byte_value c = of_char c"

text \<open>Big-endian bytes of a number, and the number of four bytes.\<close>

fun be_bytes :: "nat \<Rightarrow> nat \<Rightarrow> nat list" where
  "be_bytes 0 x = []"
| "be_bytes (Suc k) x = be_bytes k (x div 256) @ [x mod 256]"

fun be_words :: "nat list \<Rightarrow> w32 list" where
  "be_words (a # b # c # d # bs) =
     of_nat (((a * 256 + b) * 256 + c) * 256 + d) # be_words bs"
| "be_words _ = []"

definition pad :: "nat list \<Rightarrow> nat list" where
  "pad m = m @ [128] @ replicate ((119 - length m mod 64) mod 64) 0 @ be_bytes 8 (8 * length m)"

fun schedule :: "nat \<Rightarrow> w32 list \<Rightarrow> w32 list" where
  "schedule 0 w = w"
| "schedule (Suc k) w =
     schedule k (w @ [sigma1 (w ! (length w - 2)) + w ! (length w - 7)
                      + sigma0 (w ! (length w - 15)) + w ! (length w - 16)])"

fun sha_round :: "w32 list \<Rightarrow> w32 \<times> w32 \<Rightarrow> w32 list" where
  "sha_round [a, b, c, d, e, f, g, h] (k, w) =
     (let t1 = h + Sigma1 e + Ch e f g + k + w;
          t2 = Sigma0 a + Maj a b c
      in [t1 + t2, a, b, c, d + t1, e, f, g])"
| "sha_round xs _ = xs"

definition compress :: "w32 list \<Rightarrow> w32 list \<Rightarrow> w32 list" where
  "compress st block = map2 (+) st (foldl sha_round st (zip round_constants (schedule 48 block)))"

fun sha_blocks :: "nat \<Rightarrow> w32 list \<Rightarrow> w32 list \<Rightarrow> w32 list" where
  "sha_blocks 0 st ws = st"
| "sha_blocks (Suc k) st ws = sha_blocks k (compress st (take 16 ws)) (drop 16 ws)"

text \<open>\<open>Sum256\<close>: the digest as its eight words, then as 32 bytes, then printed with \<open>%x\<close>.\<close>

definition sha256_words :: "string \<Rightarrow> w32 list" where
  "sha256_words s =
     (let ws = be_words (pad (map byte_value s)) in sha_blocks (length ws div 16) initial_state ws)"

definition Sum256 :: "string \<Rightarrow> nat list" where
  "Sum256 s = concat (map (\<lambda>w. be_bytes 4 (unat w)) (sha256_words s))"

definition hex_digit :: "nat \<Rightarrow> char" where
  "hex_digit d = (if d < 10 then char_of (48 + d) else char_of (87 + d))"

definition hex_string :: "nat list \<Rightarrow> string" where
  "hex_string bs = concat (map (\<lambda>b. [hex_digit (b div 16), hex_digit (b mod 16)]) bs)"

section \<open>Length and alphabet of the printed digest\<close>

lemma length_sha_round: "length st = 8 \<Longrightarrow> length (sha_round st kw) = 8"
  by (cases "(st, kw)" rule: sha_round.cases) (auto simp: Let_def)

lemma length_foldl_round: "length st = 8 \<Longrightarrow> length (foldl sha_round st kws) = 8"
  by (induction kws arbitrary: st) (auto simp: length_sha_round)

lemma length_compress: "length st = 8 \<Longrightarrow> length (compress st b) = 8"
  by (simp add: compress_def length_foldl_round)

lemma length_sha_blocks: "length st = 8 \<Longrightarrow> length (sha_blocks k st ws) = 8"
  by (induction k arbitrary: st ws) (auto simp: length_compress)

lemma length_be_bytes [simp]: "length (be_bytes k x) = k"
  by (induction k arbitrary: x) auto

lemma be_bytes_byte: "b \<in> set (be_bytes k x) \<Longrightarrow> b < 256"
  by (induction k arbitrary: x) auto

lemma length_Sum256 [simp]: "length (Sum256 s) = 32"
proof -
  have "length (sha256_words s) = 8"
    by (simp add: sha256_words_def Let_def length_sha_blocks length_initial_state)
  then show ?thesis
    by (simp add: Sum256_def length_concat comp_def sum_list_triv)
qed

lemma Sum256_byte: "b \<in> set (Sum256 s) \<Longrightarrow> b < 256"
  by (auto simp: Sum256_def dest: be_bytes_byte)

lemma length_hex_string [simp]: "length (hex_string bs) = 2 * length bs"
  by (induction bs) (auto simp: hex_string_def)

definition hex_alphabet :: string where
  "hex_alphabet = ''0123456789abcdef''"

lemma hex_digit_alphabet: "d < 16 \<Longrightarrow> hex_digit d \<in> set hex_alphabet"
proof -
  assume "d < 16"
  then have "d \<in> set [0..<16]" by simp
  then have "hex_digit d \<in> set (map hex_digit [0..<16])" by simp
  also have "map hex_digit [0..<16] = hex_alphabet"
    by code_simp
  finally show ?thesis .
qed

lemma hex_string_alphabet: "(\<And>b. b \<in> set bs \<Longrightarrow> b < 256) \<Longrightarrow> set (hex_string bs) \<subseteq> set hex_alphabet"
proof (induction bs)
  case (Cons b bs)
  then have "hex_digit (b div 16) \<in> set hex_alphabet" "hex_digit (b mod 16) \<in> set hex_alphabet"
    by (auto intro!: hex_digit_alphabet simp: less_mult_imp_div_less)
  with Cons show ?case by (simp add: hex_string_def)
qed (simp add: hex_string_def)

end
