(* ===== verification/ApiTypes.thy ===== *)
theory ApiTypes
  imports GoTime
begin

text \<open>
  The resources of \<open>api/v1alpha1\<close> (\<open>prepullimage_types.go\<close>, \<open>prepullpolicy_types.go\<close>) as
  records, field by field, and the parts of the Kubernetes types they embed that kwarm
  reads or writes. Every field has the prefix of its type, because Isabelle record fields
  share one name space. A Go pointer is an \<open>option\<close>, and so is a map whose being \<open>nil\<close> the
  code tests; \<open>int32\<close> and \<open>int64\<close> are machine words; a resource quantity is the text it
  is parsed from. The string types with constants stay strings, with one definition per
  constant.
\<close>

section \<open>Kubernetes types that the resources embed\<close>

record OwnerReference =
  owner_APIVersion :: string
  owner_Kind :: string
  owner_Name :: string
  owner_UID :: string
  owner_Controller :: bool
  owner_BlockOwnerDeletion :: bool

record ObjectMeta =
  meta_Name :: string
  meta_Namespace :: string
  meta_UID :: string
  meta_Generation :: int64
  meta_Labels :: "string \<rightharpoonup> string"
  meta_Annotations :: "(string \<rightharpoonup> string) option"
  meta_Finalizers :: "string list"
  meta_OwnerReferences :: "OwnerReference list"
  meta_DeletionTimestamp :: "instant option"

record Condition =
  cond_Type :: string
  cond_Status :: string
  cond_ObservedGeneration :: int64
  cond_LastTransitionTime :: instant
  cond_Reason :: string
  cond_Message :: string

definition ConditionTrue :: string where "ConditionTrue = ''True''"
definition ConditionFalse :: string where "ConditionFalse = ''False''"

record LocalObjectReference =
  ref_Name :: string

record ResourceClaim =
  claim_Name :: string
  claim_Request :: string

record ResourceRequirements =
  res_Requests :: "(string \<rightharpoonup> string) option"
  res_Limits :: "(string \<rightharpoonup> string) option"
  res_Claims :: "ResourceClaim list"

record LabelSelector =
  ls_MatchLabels :: "string \<rightharpoonup> string"
  ls_MatchExpressions :: "(string \<times> string \<times> string list) list"

text \<open>A namespaced name, the key of \<open>client.Get\<close>.\<close>

type_synonym objkey = "string \<times> string"

definition key_of :: "ObjectMeta \<Rightarrow> objkey" where
  "key_of m = (meta_Namespace m, meta_Name m)"

section \<open>PrePullPolicy\<close>

record PolicySelector =
  sel_MatchLabels :: gomap
  sel_Namespaces :: "string list"

record NodeSelector =
  nsel_MatchLabels :: gomap

record RetryPolicy =
  retry_MaxAttempts :: int32
  retry_BackoffSeconds :: int32

record ImagePullSecretsConfig =
  ips_Inherit :: bool
  ips_Additional :: "LocalObjectReference list"

record PrePullPolicySpec =
  pspec_Selector :: PolicySelector
  pspec_NodeSelector :: NodeSelector
  pspec_Resources :: ResourceRequirements
  pspec_Retry :: RetryPolicy
  pspec_Timeout :: string
  pspec_ImagePullSecrets :: ImagePullSecretsConfig

record PrePullPolicyStatus =
  pst_WatchedDeployments :: int32
  pst_LastUpdated :: "instant option"
  pst_Conditions :: "Condition list"

record PrePullPolicy =
  pol_Meta :: ObjectMeta
  pol_Spec :: PrePullPolicySpec
  pol_Status :: PrePullPolicyStatus

section \<open>PrePullImage\<close>

type_synonym PrePullImagePhase = string

definition PrePullImagePhasePending :: PrePullImagePhase where
  "PrePullImagePhasePending = ''Pending''"
definition PrePullImagePhaseInProgress :: PrePullImagePhase where
  "PrePullImagePhaseInProgress = ''InProgress''"
definition PrePullImagePhaseCompleted :: PrePullImagePhase where
  "PrePullImagePhaseCompleted = ''Completed''"
definition PrePullImagePhaseFailed :: PrePullImagePhase where
  "PrePullImagePhaseFailed = ''Failed''"

lemmas phase_defs = PrePullImagePhasePending_def PrePullImagePhaseInProgress_def
  PrePullImagePhaseCompleted_def PrePullImagePhaseFailed_def

type_synonym NodePullStatus = string

definition NodePullStatusPending :: NodePullStatus where
  "NodePullStatusPending = ''Pending''"
definition NodePullStatusPulling :: NodePullStatus where
  "NodePullStatusPulling = ''Pulling''"
definition NodePullStatusCompleted :: NodePullStatus where
  "NodePullStatusCompleted = ''Completed''"
definition NodePullStatusFailed :: NodePullStatus where
  "NodePullStatusFailed = ''Failed''"

lemmas node_status_defs = NodePullStatusPending_def NodePullStatusPulling_def
  NodePullStatusCompleted_def NodePullStatusFailed_def

lemma node_status_distinct [simp]:
  "NodePullStatusPending \<noteq> NodePullStatusPulling" "NodePullStatusPulling \<noteq> NodePullStatusPending"
  "NodePullStatusPending \<noteq> NodePullStatusCompleted" "NodePullStatusCompleted \<noteq> NodePullStatusPending"
  "NodePullStatusPending \<noteq> NodePullStatusFailed" "NodePullStatusFailed \<noteq> NodePullStatusPending"
  "NodePullStatusPulling \<noteq> NodePullStatusCompleted" "NodePullStatusCompleted \<noteq> NodePullStatusPulling"
  "NodePullStatusPulling \<noteq> NodePullStatusFailed" "NodePullStatusFailed \<noteq> NodePullStatusPulling"
  "NodePullStatusCompleted \<noteq> NodePullStatusFailed" "NodePullStatusFailed \<noteq> NodePullStatusCompleted"
  by (simp_all add: node_status_defs)

lemma phase_distinct [simp]:
  "PrePullImagePhasePending \<noteq> PrePullImagePhaseInProgress"
  "PrePullImagePhaseInProgress \<noteq> PrePullImagePhasePending"
  "PrePullImagePhasePending \<noteq> PrePullImagePhaseCompleted"
  "PrePullImagePhaseCompleted \<noteq> PrePullImagePhasePending"
  "PrePullImagePhasePending \<noteq> PrePullImagePhaseFailed"
  "PrePullImagePhaseFailed \<noteq> PrePullImagePhasePending"
  "PrePullImagePhaseInProgress \<noteq> PrePullImagePhaseCompleted"
  "PrePullImagePhaseCompleted \<noteq> PrePullImagePhaseInProgress"
  "PrePullImagePhaseInProgress \<noteq> PrePullImagePhaseFailed"
  "PrePullImagePhaseFailed \<noteq> PrePullImagePhaseInProgress"
  "PrePullImagePhaseCompleted \<noteq> PrePullImagePhaseFailed"
  "PrePullImagePhaseFailed \<noteq> PrePullImagePhaseCompleted"
  "PrePullImagePhasePending \<noteq> []" "PrePullImagePhaseInProgress \<noteq> []"
  "PrePullImagePhaseCompleted \<noteq> []" "PrePullImagePhaseFailed \<noteq> []"
  by (simp_all add: phase_defs)

record NodeTargetSelector =
  nts_Selector :: "LabelSelector option"
  nts_Names :: "string list"

record PrePullImageSpec =
  spec_Image :: string
  spec_ImageDigest :: string
  spec_Nodes :: NodeTargetSelector
  spec_ImagePullSecrets :: "LocalObjectReference list"
  spec_Resources :: ResourceRequirements
  spec_Retry :: RetryPolicy
  spec_Timeout :: string

record NodeStatus =
  ns_Node :: string
  ns_Status :: NodePullStatus
  ns_StartedAt :: "instant option"
  ns_CompletedAt :: "instant option"
  ns_Duration :: string
  ns_Error :: string
  ns_RetryCount :: int32
  ns_JobName :: string

record PullSummary =
  sum_Total :: int32
  sum_Pending :: int32
  sum_Pulling :: int32
  sum_Completed :: int32
  sum_Failed :: int32

record PrePullImageStatus =
  st_Phase :: PrePullImagePhase
  st_NodeStatus :: "NodeStatus list"
  st_Summary :: PullSummary
  st_Conditions :: "Condition list"
  st_StartTime :: "instant option"
  st_CompletionTime :: "instant option"

record PrePullImage =
  ppi_Meta :: ObjectMeta
  ppi_Spec :: PrePullImageSpec
  ppi_Status :: PrePullImageStatus

abbreviation ppi_Name :: "PrePullImage \<Rightarrow> string" where
  "ppi_Name p \<equiv> meta_Name (ppi_Meta p)"

abbreviation ppi_Nodes :: "PrePullImage \<Rightarrow> NodeStatus list" where
  "ppi_Nodes p \<equiv> st_NodeStatus (ppi_Status p)"

abbreviation ppi_Phase :: "PrePullImage \<Rightarrow> PrePullImagePhase" where
  "ppi_Phase p \<equiv> st_Phase (ppi_Status p)"

abbreviation ppi_MaxAttempts :: "PrePullImage \<Rightarrow> int32" where
  "ppi_MaxAttempts p \<equiv> retry_MaxAttempts (spec_Retry (ppi_Spec p))"

text \<open>Zero values, as Go gives a field that a composite literal leaves out.\<close>

definition zero_meta :: ObjectMeta where
  "zero_meta = \<lparr>meta_Name = '''', meta_Namespace = '''', meta_UID = '''', meta_Generation = 0,
     meta_Labels = Map.empty, meta_Annotations = None, meta_Finalizers = [],
     meta_OwnerReferences = [], meta_DeletionTimestamp = None\<rparr>"

definition zero_node_status :: NodeStatus where
  "zero_node_status = \<lparr>ns_Node = '''', ns_Status = '''', ns_StartedAt = None, ns_CompletedAt = None,
     ns_Duration = '''', ns_Error = '''', ns_RetryCount = 0, ns_JobName = ''''\<rparr>"

definition zero_summary :: PullSummary where
  "zero_summary = \<lparr>sum_Total = 0, sum_Pending = 0, sum_Pulling = 0, sum_Completed = 0, sum_Failed = 0\<rparr>"

definition zero_ppi_status :: PrePullImageStatus where
  "zero_ppi_status = \<lparr>st_Phase = '''', st_NodeStatus = [], st_Summary = zero_summary,
     st_Conditions = [], st_StartTime = None, st_CompletionTime = None\<rparr>"

end
