(* ===== verification/Kubernetes.thy ===== *)
theory Kubernetes
  imports ApiTypes RateLimiter
begin

text \<open>
  The interface to code that is not in the repository: the Kubernetes API server as seen
  through \<open>client.Client\<close> of controller-runtime, the clock, and the helper functions of
  apimachinery and controller-runtime that the controllers call. All of it is the record
  \<open>k8s\<close>, an argument of every definition that calls it; its type parameter \<open>'w\<close> is the
  state of the outside world, which each call may change. What a theorem needs of it is a
  named hypothesis (\<open>documented\<close> here, laws of the store in the component theories).
  The data types below are the parts of the Kubernetes types that kwarm reads or writes.
\<close>

section \<open>Kubernetes objects\<close>

record Container =
  c_Name :: string
  c_Image :: string
  c_Command :: "string list"
  c_Resources :: ResourceRequirements

record Toleration =
  tol_Operator :: string

record PodSpec =
  pod_NodeSelector :: "string \<rightharpoonup> string"
  pod_Tolerations :: "Toleration list"
  pod_RestartPolicy :: string
  pod_Containers :: "Container list"
  pod_InitContainers :: "Container list"
  pod_ImagePullSecrets :: "LocalObjectReference list"

record PodTemplateSpec =
  tmpl_Labels :: "string \<rightharpoonup> string"
  tmpl_Spec :: PodSpec

record JobSpec =
  jspec_TTLSecondsAfterFinished :: "int32 option"
  jspec_BackoffLimit :: "int32 option"
  jspec_ActiveDeadlineSeconds :: "int64 option"
  jspec_Template :: PodTemplateSpec

record JobCondition =
  jc_Type :: string
  jc_Status :: string
  jc_Message :: string

record BatchJobStatus =
  js_Active :: int32
  js_Succeeded :: int32
  js_Failed :: int32
  js_Conditions :: "JobCondition list"

record Job =
  job_Meta :: ObjectMeta
  job_Spec :: JobSpec
  job_Status :: BatchJobStatus

record NodeCondition =
  nc_Type :: string
  nc_Status :: string

record Node =
  node_Meta :: ObjectMeta
  node_Unschedulable :: bool
  node_Conditions :: "NodeCondition list"

record Deployment =
  dep_Meta :: ObjectMeta
  dep_Template :: PodTemplateSpec

text \<open>\<open>ctrl.Result\<close>, and the options of a list call on nodes.\<close>

record Result =
  Requeue :: bool
  RequeueAfter :: duration

definition no_requeue :: Result where
  "no_requeue = \<lparr>Requeue = False, RequeueAfter = 0\<rparr>"

type_synonym selector = "(string \<rightharpoonup> string) \<Rightarrow> bool"

datatype node_filter =
    AllNodes
  | NodesWithLabels "string \<rightharpoonup> string"
  | NodesSelected selector

section \<open>Library functions\<close>

record lib =
  IsNotFound :: "go_error \<Rightarrow> bool"
  IsAlreadyExists :: "go_error \<Rightarrow> bool"
  ContainsFinalizer :: "string list \<Rightarrow> string \<Rightarrow> bool"
  AddFinalizer :: "string list \<Rightarrow> string \<Rightarrow> string list"
  RemoveFinalizer :: "string list \<Rightarrow> string \<Rightarrow> string list"
  SetStatusCondition :: "Condition list \<Rightarrow> Condition \<Rightarrow> Condition list"
  LabelSelectorAsSelector :: "LabelSelector \<Rightarrow> go_error + selector"
  SelectorFromSet :: "(string \<rightharpoonup> string) \<Rightarrow> selector"

text \<open>
  What the documentation of these functions says and the controllers rely on: the error
  tests see through wrapping and exclude each other; the finalizer functions treat the list
  as a set; a set status condition is in the list and is the only one of its type;
  \<open>SelectorFromSet\<close> requires every pair of the set.
\<close>

definition documented :: "'a lib_scheme \<Rightarrow> bool" where
  "documented k \<longleftrightarrow>
     (\<forall>p e. IsNotFound k (WrapError p e) = IsNotFound k e) \<and>
     (\<forall>p e. IsAlreadyExists k (WrapError p e) = IsAlreadyExists k e) \<and>
     (\<forall>e. \<not> (IsNotFound k e \<and> IsAlreadyExists k e)) \<and>
     (\<forall>fs f. ContainsFinalizer k fs f \<longleftrightarrow> f \<in> set fs) \<and>
     (\<forall>fs f. set (AddFinalizer k fs f) = insert f (set fs)) \<and>
     (\<forall>fs f. set (RemoveFinalizer k fs f) = set fs - {f}) \<and>
     (\<forall>cs c. \<exists>c' \<in> set (SetStatusCondition k cs c). cond_Type c' = cond_Type c \<and>
        cond_Status c' = cond_Status c \<and> cond_Reason c' = cond_Reason c \<and>
        cond_Message c' = cond_Message c) \<and>
     (\<forall>m l. SelectorFromSet k m l \<longleftrightarrow> m \<subseteq>\<^sub>m l)"

section \<open>The API server and the clock\<close>

text \<open>The options of a delete: what becomes of the objects that the deleted one owns.\<close>

datatype DeletionPropagation =
    DeletePropagationOrphan
  | DeletePropagationBackground
  | DeletePropagationForeground

record DeleteOptions =
  PropagationPolicy :: "DeletionPropagation option"

text \<open>
  \<open>MapOrder\<close> is the order in which Go's \<open>range\<close> visits the keys of a map: unspecified, and
  chosen anew for every loop.
\<close>

record 'w k8s = lib +
  Now :: "'w \<Rightarrow> instant \<times> 'w"
  MapOrder :: "string list \<Rightarrow> 'w \<Rightarrow> string list \<times> 'w"
  GetPPI :: "objkey \<Rightarrow> 'w \<Rightarrow> (go_error + PrePullImage) \<times> 'w"
  ListPPI :: "'w \<Rightarrow> (go_error + PrePullImage list) \<times> 'w"
  CreatePPI :: "PrePullImage \<Rightarrow> 'w \<Rightarrow> (go_error + PrePullImage) \<times> 'w"
  UpdatePPI :: "PrePullImage \<Rightarrow> 'w \<Rightarrow> (go_error + PrePullImage) \<times> 'w"
  StatusUpdatePPI :: "PrePullImage \<Rightarrow> 'w \<Rightarrow> (go_error + PrePullImage) \<times> 'w"
  DeletePPI :: "PrePullImage \<Rightarrow> 'w \<Rightarrow> go_error option \<times> 'w"
  GetPolicy :: "objkey \<Rightarrow> 'w \<Rightarrow> (go_error + PrePullPolicy) \<times> 'w"
  ListPolicy :: "'w \<Rightarrow> (go_error + PrePullPolicy list) \<times> 'w"
  StatusUpdatePolicy :: "PrePullPolicy \<Rightarrow> 'w \<Rightarrow> (go_error + PrePullPolicy) \<times> 'w"
  GetDeployment :: "objkey \<Rightarrow> 'w \<Rightarrow> (go_error + Deployment) \<times> 'w"
  ListDeployment :: "string option \<Rightarrow> 'w \<Rightarrow> (go_error + Deployment list) \<times> 'w"
  UpdateDeployment :: "Deployment \<Rightarrow> 'w \<Rightarrow> (go_error + Deployment) \<times> 'w"
  ClientCreateJob :: "Job \<Rightarrow> 'w \<Rightarrow> (go_error + Job) \<times> 'w"
  ClientGetJob :: "objkey \<Rightarrow> 'w \<Rightarrow> (go_error + Job) \<times> 'w"
  ClientDeleteJob :: "DeleteOptions \<Rightarrow> objkey \<Rightarrow> 'w \<Rightarrow> go_error option \<times> 'w"
  ClientListJob :: "string \<Rightarrow> (string \<rightharpoonup> string) \<Rightarrow> 'w \<Rightarrow> (go_error + Job list) \<times> 'w"
  ListNode :: "node_filter \<Rightarrow> 'w \<Rightarrow> (go_error + Node list) \<times> 'w"

section \<open>The operator's state\<close>

text \<open>
  A call on the metrics registry of Prometheus (the argument of an observation is the
  duration whose \<open>Seconds()\<close> the code passes), or an event sent to the recorder: the
  object's kind and key, the event type, the reason and the message.
\<close>

datatype effect =
    PullDurationObserve string string string duration
  | ActivePullsInc
  | ActivePullsDec
  | QueueDepthSet int
  | PullsTotalInc string
  | PrePullImagesByPhaseSet string int
  | WatchedDeploymentsSet int
  | ReconcileTotalInc string string
  | ReconcileDurationObserve string duration
  | Event string objkey string string string

record 'w op =
  op_World :: 'w
  op_Limiter :: RateLimiter
  op_Effects :: "effect list"

definition world :: "('w \<Rightarrow> 'a \<times> 'w) \<Rightarrow> 'w op \<Rightarrow> 'a \<times> 'w op" where
  "world f s = (case f (op_World s) of (x, w) \<Rightarrow> (x, s\<lparr>op_World := w\<rparr>))"

definition emit :: "effect \<Rightarrow> 'w op \<Rightarrow> 'w op" where
  "emit e s = s\<lparr>op_Effects := op_Effects s @ [e]\<rparr>"

lemma world_frame [simp]:
  "op_Limiter (snd (world f s)) = op_Limiter s"
  "op_Effects (snd (world f s)) = op_Effects s"
  "op_World (snd (world f s)) = snd (f (op_World s))"
  "fst (world f s) = fst (f (op_World s))"
  by (simp_all add: world_def split: prod.splits)

lemma world_eqD: "world f s = (x, s') \<Longrightarrow>
    op_Limiter s' = op_Limiter s \<and> op_Effects s' = op_Effects s \<and> f (op_World s) = (x, op_World s')"
  by (auto simp: world_def split: prod.splits)

lemma emit_frame [simp]:
  "op_Limiter (emit e s) = op_Limiter s"
  "op_World (emit e s) = op_World s"
  "op_Effects (emit e s) = op_Effects s @ [e]"
  by (simp_all add: emit_def)

end
