(* ===== verification/Metrics.thy ===== *)
theory Metrics
  imports Kubernetes Complex_Main
begin

text \<open>
  The functions of \<open>internal/metrics/metrics.go\<close>, each the calls it makes on the Prometheus
  registry, in order. \<open>active_pulls\<close> and \<open>queue_depth\<close> read a gauge back from the calls, as
  Prometheus documents \<open>Inc\<close>, \<open>Dec\<close> and \<open>Set\<close>. A \<open>float64\<close> argument that is a count is
  the integer it is converted from.
\<close>

definition RecordPullDuration :: "string \<Rightarrow> string \<Rightarrow> string \<Rightarrow> duration \<Rightarrow> 'w op \<Rightarrow> 'w op" where
  "RecordPullDuration img node status d = emit (PullDurationObserve img node status d)"

definition IncrementActivePulls :: "'w op \<Rightarrow> 'w op" where
  "IncrementActivePulls = emit ActivePullsInc"

definition DecrementActivePulls :: "'w op \<Rightarrow> 'w op" where
  "DecrementActivePulls = emit ActivePullsDec"

definition SetQueueDepth :: "int \<Rightarrow> 'w op \<Rightarrow> 'w op" where
  "SetQueueDepth depth = emit (QueueDepthSet depth)"

definition IncrementPullsTotal :: "string \<Rightarrow> 'w op \<Rightarrow> 'w op" where
  "IncrementPullsTotal status = emit (PullsTotalInc status)"

definition SetPrePullImagesByPhase :: "string \<Rightarrow> int \<Rightarrow> 'w op \<Rightarrow> 'w op" where
  "SetPrePullImagesByPhase phase n = emit (PrePullImagesByPhaseSet phase n)"

definition SetWatchedDeployments :: "int \<Rightarrow> 'w op \<Rightarrow> 'w op" where
  "SetWatchedDeployments n = emit (WatchedDeploymentsSet n)"

definition RecordReconcile :: "string \<Rightarrow> string \<Rightarrow> duration \<Rightarrow> 'w op \<Rightarrow> 'w op" where
  "RecordReconcile controller result d s =
     emit (ReconcileDurationObserve controller d) (emit (ReconcileTotalInc controller result) s)"

lemmas metrics_defs = RecordPullDuration_def IncrementActivePulls_def DecrementActivePulls_def
  SetQueueDepth_def IncrementPullsTotal_def SetPrePullImagesByPhase_def SetWatchedDeployments_def
  RecordReconcile_def

section \<open>Reading the gauges back\<close>

fun active_delta :: "effect \<Rightarrow> int" where
  "active_delta ActivePullsInc = 1"
| "active_delta ActivePullsDec = - 1"
| "active_delta _ = 0"

definition active_pulls :: "effect list \<Rightarrow> int" where
  "active_pulls es = sum_list (map active_delta es)"

lemma active_pulls_simps [simp]:
  "active_pulls [] = 0"
  "active_pulls (es @ fs) = active_pulls es + active_pulls fs"
  "active_pulls (e # es) = active_delta e + active_pulls es"
  by (simp_all add: active_pulls_def)

fun pulls_total :: "string \<Rightarrow> effect list \<Rightarrow> nat" where
  "pulls_total status [] = 0"
| "pulls_total status (PullsTotalInc st # es) = (if st = status then 1 else 0) + pulls_total status es"
| "pulls_total status (_ # es) = pulls_total status es"

fun phase_gauge :: "string \<Rightarrow> effect list \<Rightarrow> int option" where
  "phase_gauge phase [] = None"
| "phase_gauge phase (PrePullImagesByPhaseSet p n # es) =
     (case phase_gauge phase es of
        None \<Rightarrow> if p = phase then Some n else None
      | Some m \<Rightarrow> Some m)"
| "phase_gauge phase (_ # es) = phase_gauge phase es"


section \<open>The registered metrics\<close>

text \<open>
  A metric as it is registered: its name and help text, its labels, and the buckets of a
  histogram. The literals of the buckets are exact rationals here.
\<close>

record metric =
  m_Name :: string
  m_Help :: string
  m_Labels :: "string list"
  m_Buckets :: "rat list"

definition PullDuration :: metric where
  "PullDuration = \<lparr>m_Name = ''kwarm_pull_duration_seconds'', m_Help = ''Duration of image pulls in seconds'',
     m_Labels = [''image'', ''node'', ''status''], m_Buckets = [5, 10, 30, 60, 120, 300, 600]\<rparr>"

definition ActivePulls :: metric where
  "ActivePulls = \<lparr>m_Name = ''kwarm_active_pulls'', m_Help = ''Number of currently active image pulls'',
     m_Labels = [], m_Buckets = []\<rparr>"

definition QueueDepth :: metric where
  "QueueDepth = \<lparr>m_Name = ''kwarm_queue_depth'', m_Help = ''Number of pending image pulls in queue'',
     m_Labels = [], m_Buckets = []\<rparr>"

definition PullsTotal :: metric where
  "PullsTotal = \<lparr>m_Name = ''kwarm_pulls_total'', m_Help = ''Total number of image pulls'',
     m_Labels = [''status''], m_Buckets = []\<rparr>"

definition PrePullImagesByPhase :: metric where
  "PrePullImagesByPhase = \<lparr>m_Name = ''kwarm_prepullimages_by_phase'',
     m_Help = ''Number of PrePullImage resources by phase'', m_Labels = [''phase''], m_Buckets = []\<rparr>"

definition WatchedDeployments :: metric where
  "WatchedDeployments = \<lparr>m_Name = ''kwarm_watched_deployments'', m_Help = ''Number of deployments being watched'',
     m_Labels = [], m_Buckets = []\<rparr>"

definition ReconcileTotal :: metric where
  "ReconcileTotal = \<lparr>m_Name = ''kwarm_reconcile_total'', m_Help = ''Total number of reconciliation operations'',
     m_Labels = [''controller'', ''result''], m_Buckets = []\<rparr>"

definition ReconcileDuration :: metric where
  "ReconcileDuration = \<lparr>m_Name = ''kwarm_reconcile_duration_seconds'',
     m_Help = ''Duration of reconciliation operations in seconds'', m_Labels = [''controller''],
     m_Buckets = [1/100, 5/100, 1/10, 25/100, 5/10, 1, 25/10, 5, 10]\<rparr>"

definition registered :: "metric list" where
  "registered = [PullDuration, ActivePulls, QueueDepth, PullsTotal, PrePullImagesByPhase,
     WatchedDeployments, ReconcileTotal, ReconcileDuration]"

text \<open>The metric of a call and the label values it passes; an event is no call of a metric.\<close>

fun metric_call :: "effect \<Rightarrow> (metric \<times> string list) option" where
  "metric_call (PullDurationObserve img node status d) = Some (PullDuration, [img, node, status])"
| "metric_call ActivePullsInc = Some (ActivePulls, [])"
| "metric_call ActivePullsDec = Some (ActivePulls, [])"
| "metric_call (QueueDepthSet n) = Some (QueueDepth, [])"
| "metric_call (PullsTotalInc status) = Some (PullsTotal, [status])"
| "metric_call (PrePullImagesByPhaseSet phase n) = Some (PrePullImagesByPhase, [phase])"
| "metric_call (WatchedDeploymentsSet n) = Some (WatchedDeployments, [])"
| "metric_call (ReconcileTotalInc controller result) = Some (ReconcileTotal, [controller, result])"
| "metric_call (ReconcileDurationObserve controller d) = Some (ReconcileDuration, [controller])"
| "metric_call (Event kind key etype reason message) = None"

lemmas metric_descs = PullDuration_def ActivePulls_def QueueDepth_def PullsTotal_def
  PrePullImagesByPhase_def WatchedDeployments_def ReconcileTotal_def ReconcileDuration_def

text \<open>
  What the client library checks when it registers and calls metrics holds of the table: no two
  registered metrics share a name, the buckets of the histograms increase, every call is on a
  registered metric and passes one value for each of its labels.
\<close>

lemma metric_calls_registered:
  "distinct (map m_Name registered) \<and> list_all (\<lambda>m. sorted_wrt (<) (m_Buckets m)) registered \<and>
   (case metric_call e of None \<Rightarrow> True | Some (m, values) \<Rightarrow> m \<in> set registered \<and> length values = length (m_Labels m))"
proof -
  have "distinct (map m_Name registered)" by (simp add: registered_def metric_descs)
  moreover have "list_all (\<lambda>m. sorted_wrt (<) (m_Buckets m)) registered"
    by (simp add: registered_def metric_descs)
  moreover have "case metric_call e of None \<Rightarrow> True
      | Some (m, values) \<Rightarrow> m \<in> set registered \<and> length values = length (m_Labels m)"
    by (cases e) (simp_all add: registered_def, simp_all add: metric_descs)
  ultimately show ?thesis by blast
qed

end
