(* ===== verification/Puller.thy ===== *)
theory Puller
  imports Sha256 Kubernetes
begin

text \<open>
  Pull jobs, after \<open>internal/puller/job.go\<close>: their names, their construction, and the calls
  that create, read, delete and list them. A job's name is built from the name of the
  PrePullImage and a hash of the node's name, and cut to 63 characters.
\<close>

section \<open>Names\<close>

definition JobNamePrefix :: string where "JobNamePrefix = ''kwarm-pull''"
definition LabelPrePullImage :: string where "LabelPrePullImage = ''kwarm.io/prepullimage''"
definition LabelNode :: string where "LabelNode = ''kwarm.io/node''"
definition LabelManagedBy :: string where "LabelManagedBy = ''app.kubernetes.io/managed-by''"
definition OperatorNamespace :: string where "OperatorNamespace = ''kwarm-system''"
definition DefaultTTLSecondsAfterFinished :: int32 where "DefaultTTLSecondsAfterFinished = 300"

definition hashNodeName :: "string \<Rightarrow> string" where
  "hashNodeName nodeName = take 8 (hex_string (Sum256 nodeName))"

definition GenerateJobName :: "string \<Rightarrow> string \<Rightarrow> string" where
  "GenerateJobName ppiName nodeName =
     (let name = JobNamePrefix @ ''-'' @ ppiName @ ''-'' @ hashNodeName nodeName
      in if 63 < length name then take 63 name else name)"

section \<open>Creating a job\<close>

definition pull_timeout :: "string \<Rightarrow> duration" where
  "pull_timeout timeout = (case ParseDuration timeout of
     None \<Rightarrow> of_nat (10 * Minute) | Some d \<Rightarrow> d)"

definition job_labels :: "string \<Rightarrow> string \<Rightarrow> (string \<rightharpoonup> string)" where
  "job_labels ppiName nodeName =
     [LabelPrePullImage \<mapsto> ppiName, LabelNode \<mapsto> nodeName, LabelManagedBy \<mapsto> ''kwarm'']"

text \<open>The composite literal of \<open>CreatePullJob\<close>; fields it leaves out have their zero value.\<close>

definition pull_job :: "PrePullImage \<Rightarrow> string \<Rightarrow> Job" where
  "pull_job ppi nodeName =
     \<lparr>job_Meta = zero_meta
        \<lparr>meta_Name := GenerateJobName (ppi_Name ppi) nodeName,
         meta_Namespace := OperatorNamespace,
         meta_Labels := job_labels (ppi_Name ppi) nodeName,
         meta_Annotations := Some
           [''kwarm.io/prepullimage-namespace'' \<mapsto> meta_Namespace (ppi_Meta ppi),
            ''kwarm.io/prepullimage-name'' \<mapsto> ppi_Name ppi,
            ''kwarm.io/prepullimage-uid'' \<mapsto> meta_UID (ppi_Meta ppi)]\<rparr>,
      job_Spec =
        \<lparr>jspec_TTLSecondsAfterFinished = Some DefaultTTLSecondsAfterFinished,
         jspec_BackoffLimit = Some 0,
         jspec_ActiveDeadlineSeconds = Some (whole_seconds (pull_timeout (spec_Timeout (ppi_Spec ppi)))),
         jspec_Template =
           \<lparr>tmpl_Labels = job_labels (ppi_Name ppi) nodeName,
            tmpl_Spec =
              \<lparr>pod_NodeSelector = [''kubernetes.io/hostname'' \<mapsto> nodeName],
               pod_Tolerations = [\<lparr>tol_Operator = ''Exists''\<rparr>],
               pod_RestartPolicy = ''Never'',
               pod_Containers =
                 [\<lparr>c_Name = ''pull'',
                   c_Image = spec_Image (ppi_Spec ppi),
                   c_Command = [''sh'', ''-c'',
                     ''echo '' @ [CHR 0x27] @ ''Image pulled successfully'' @ [CHR 0x27] @ '' && exit 0''],
                   c_Resources =
                     \<lparr>res_Requests = res_Requests (spec_Resources (ppi_Spec ppi)),
                      res_Limits = res_Limits (spec_Resources (ppi_Spec ppi)), res_Claims = []\<rparr>\<rparr>],
               pod_InitContainers = [],
               pod_ImagePullSecrets =
                 map (\<lambda>secret. \<lparr>ref_Name = ref_Name secret\<rparr>) (spec_ImagePullSecrets (ppi_Spec ppi))\<rparr>\<rparr>\<rparr>,
      job_Status = \<lparr>js_Active = 0, js_Succeeded = 0, js_Failed = 0, js_Conditions = []\<rparr>\<rparr>"

definition CreatePullJob ::
  "'w k8s \<Rightarrow> PrePullImage \<Rightarrow> string \<Rightarrow> 'w \<Rightarrow> (go_error + Job) \<times> 'w" where
  "CreatePullJob k ppi nodeName w =
     (case ClientCreateJob k (pull_job ppi nodeName) w of
        (Inl err, w1) \<Rightarrow> (Inl (WrapError ''failed to create job: '' err), w1)
      | (Inr job, w1) \<Rightarrow> (Inr job, w1))"

section \<open>Reading, deleting and listing jobs\<close>

definition GetJob :: "'w k8s \<Rightarrow> string \<Rightarrow> 'w \<Rightarrow> (go_error + Job) \<times> 'w" where
  "GetJob k jobName w = ClientGetJob k (OperatorNamespace, jobName) w"

definition DeleteJob :: "'w k8s \<Rightarrow> string \<Rightarrow> 'w \<Rightarrow> go_error option \<times> 'w" where
  "DeleteJob k jobName w =
     ClientDeleteJob k \<lparr>PropagationPolicy = Some DeletePropagationBackground\<rparr> (OperatorNamespace, jobName) w"

datatype JobStatus = JobStatusPending | JobStatusRunning | JobStatusSucceeded | JobStatusFailed

fun GetJobStatus :: "Job option \<Rightarrow> JobStatus" where
  "GetJobStatus None = JobStatusPending"
| "GetJobStatus (Some job) =
     (if 0 <s js_Succeeded (job_Status job) then JobStatusSucceeded
      else if 0 <s js_Failed (job_Status job) then JobStatusFailed
      else if 0 <s js_Active (job_Status job) then JobStatusRunning
      else JobStatusPending)"

fun failure_condition :: "JobCondition list \<Rightarrow> string" where
  "failure_condition [] = ''unknown failure''"
| "failure_condition (c # cs) =
     (if jc_Type c = ''Failed'' \<and> jc_Status c = ConditionTrue then jc_Message c
      else failure_condition cs)"

fun GetJobFailureMessage :: "Job option \<Rightarrow> string" where
  "GetJobFailureMessage None = ''''"
| "GetJobFailureMessage (Some job) = failure_condition (js_Conditions (job_Status job))"

definition ListJobsForPrePullImage :: "'w k8s \<Rightarrow> string \<Rightarrow> 'w \<Rightarrow> (go_error + Job list) \<times> 'w" where
  "ListJobsForPrePullImage k ppiName w =
     ClientListJob k OperatorNamespace [LabelPrePullImage \<mapsto> ppiName] w"

text \<open>The loop of \<open>CleanupJobsForPrePullImage\<close> stops at the first error.\<close>

fun delete_jobs :: "'w k8s \<Rightarrow> Job list \<Rightarrow> 'w \<Rightarrow> go_error option \<times> 'w" where
  "delete_jobs k [] w = (None, w)"
| "delete_jobs k (job # jobs) w =
     (case DeleteJob k (meta_Name (job_Meta job)) w of
        (Some err, w1) \<Rightarrow> (Some err, w1)
      | (None, w1) \<Rightarrow> delete_jobs k jobs w1)"

definition CleanupJobsForPrePullImage :: "'w k8s \<Rightarrow> string \<Rightarrow> 'w \<Rightarrow> go_error option \<times> 'w" where
  "CleanupJobsForPrePullImage k ppiName w =
     (case ListJobsForPrePullImage k ppiName w of
        (Inl err, w1) \<Rightarrow> (Some err, w1)
      | (Inr jobs, w1) \<Rightarrow> delete_jobs k jobs w1)"

end
