(* ===== verification/NodeFilter.thy ===== *)
theory NodeFilter
  imports Kubernetes
begin

text \<open>
  Which nodes receive an image: \<open>isNodeReady\<close> of \<open>internal/controller/deployment_controller.go\<close>
  and the loop over the listed nodes that both controllers share.
\<close>

fun ready_condition :: "NodeCondition list \<Rightarrow> bool" where
  "ready_condition [] = False"
| "ready_condition (c # cs) =
     (if nc_Type c = ''Ready'' then nc_Status c = ConditionTrue else ready_condition cs)"

definition isNodeReady :: "Node \<Rightarrow> bool" where
  "isNodeReady node = ready_condition (node_Conditions node)"

fun ready_node_names :: "Node list \<Rightarrow> string list" where
  "ready_node_names [] = []"
| "ready_node_names (node # nodes) =
     (if isNodeReady node \<and> \<not> node_Unschedulable node
      then meta_Name (node_Meta node) # ready_node_names nodes
      else ready_node_names nodes)"

lemma ready_node_names_eq:
  "ready_node_names nodes =
     map (\<lambda>n. meta_Name (node_Meta n)) (filter (\<lambda>n. isNodeReady n \<and> \<not> node_Unschedulable n) nodes)"
  by (induction nodes) auto

lemma isNodeReady_find:
  "isNodeReady n \<longleftrightarrow>
     (case find (\<lambda>c. nc_Type c = ''Ready'') (node_Conditions n) of
        None \<Rightarrow> False | Some c \<Rightarrow> nc_Status c = ConditionTrue)"
proof -
  have "ready_condition cs \<longleftrightarrow> (case find (\<lambda>c. nc_Type c = ''Ready'') cs of
      None \<Rightarrow> False | Some c \<Rightarrow> nc_Status c = ConditionTrue)" for cs
    by (induction cs) auto
  then show ?thesis by (simp add: isNodeReady_def)
qed

end
