(* ===== verification/ImageController.thy ===== *)
theory ImageController
  imports Puller Metrics NodeFilter
begin

text \<open>
  The PrePullImage controller of \<open>internal/controller/prepullimage_controller.go\<close>. A
  reconcile reads one PrePullImage, changes its local copy and writes it back; the copy is
  passed along explicitly, and the operator state \<open>op\<close> carries the outside world, the rate
  limiter shared by all reconciles, and the metric calls and events made so far. Log lines
  are left out. \<open>handleInProgress\<close> is the loop \<open>handleNodes\<close> over the node statuses, one
  definition per branch, then the summary and phase (\<open>conclude\<close>), then the status update.
\<close>

section \<open>Constants\<close>

definition FinalizerName :: string where "FinalizerName = ''kwarm.io/finalizer''"
definition ConditionTypeReady :: string where "ConditionTypeReady = ''Ready''"
definition DefaultRequeueDelay :: duration where "DefaultRequeueDelay = of_nat (5 * Second)"
definition CompletedTTL :: duration where "CompletedTTL = of_nat (1 * Hour)"

section \<open>Conditions and events\<close>

definition setCondition_PPI ::
  "'w k8s \<Rightarrow> string \<Rightarrow> string \<Rightarrow> string \<Rightarrow> string \<Rightarrow> PrePullImage \<Rightarrow> 'w op \<Rightarrow> PrePullImage \<times> 'w op"
where
  "setCondition_PPI k conditionType status reason message ppi s =
     (case world (Now k) s of (t, s1) \<Rightarrow>
        let condition = \<lparr>cond_Type = conditionType, cond_Status = status,
              cond_ObservedGeneration = meta_Generation (ppi_Meta ppi),
              cond_LastTransitionTime = t, cond_Reason = reason, cond_Message = message\<rparr>
        in (ppi\<lparr>ppi_Status := (ppi_Status ppi)
              \<lparr>st_Conditions := SetStatusCondition k (st_Conditions (ppi_Status ppi)) condition\<rparr>\<rparr>, s1))"

definition event_PPI :: "PrePullImage \<Rightarrow> string \<Rightarrow> string \<Rightarrow> string \<Rightarrow> 'w op \<Rightarrow> 'w op" where
  "event_PPI ppi etype reason message = emit (Event ''PrePullImage'' (key_of (ppi_Meta ppi)) etype reason message)"

section \<open>Target nodes\<close>

definition getTargetNodes_PPI :: "'w k8s \<Rightarrow> PrePullImage \<Rightarrow> 'w \<Rightarrow> (go_error + string list) \<times> 'w" where
  "getTargetNodes_PPI k ppi w =
     (let nodes = spec_Nodes (ppi_Spec ppi) in
      if 0 < length (nts_Names nodes) then (Inr (nts_Names nodes), w)
      else
        let opts = (case nts_Selector nodes of
              None \<Rightarrow> Inr AllNodes
            | Some sel \<Rightarrow> (case LabelSelectorAsSelector k sel of
                Inl err \<Rightarrow> Inl err | Inr selector \<Rightarrow> Inr (NodesSelected selector)))
        in case opts of
             Inl err \<Rightarrow> (Inl err, w)
           | Inr nf \<Rightarrow>
               (case ListNode k nf w of
                  (Inl err, w1) \<Rightarrow> (Inl err, w1)
                | (Inr items, w1) \<Rightarrow> (Inr (ready_node_names items), w1)))"

section \<open>Pull jobs of one node\<close>

definition mark_pulling :: "string \<Rightarrow> instant \<Rightarrow> NodeStatus \<Rightarrow> NodeStatus" where
  "mark_pulling jobName t ns =
     ns\<lparr>ns_JobName := jobName, ns_Status := NodePullStatusPulling, ns_StartedAt := Some t\<rparr>"

definition startPullJob ::
  "'w k8s \<Rightarrow> PrePullImage \<Rightarrow> NodeStatus \<Rightarrow> 'w \<Rightarrow> (go_error option \<times> NodeStatus) \<times> 'w" where
  "startPullJob k ppi ns w =
     (case CreatePullJob k ppi (ns_Node ns) w of
        (Inl err, w1) \<Rightarrow>
          if IsAlreadyExists k err then
            (case Now k w1 of (t, w2) \<Rightarrow>
               ((None, mark_pulling (GenerateJobName (ppi_Name ppi) (ns_Node ns)) t ns), w2))
          else ((Some err, ns), w1)
      | (Inr job, w1) \<Rightarrow>
          (case Now k w1 of (t, w2) \<Rightarrow> ((None, mark_pulling (meta_Name (job_Meta job)) t ns), w2)))"

definition checkJobStatus ::
  "'w k8s \<Rightarrow> NodeStatus \<Rightarrow> 'w \<Rightarrow> ((go_error + JobStatus) \<times> NodeStatus) \<times> 'w" where
  "checkJobStatus k ns w =
     (case GetJob k (ns_JobName ns) w of
        (Inl err, w1) \<Rightarrow>
          if IsNotFound k err then ((Inr JobStatusFailed, ns), w1) else ((Inl err, ns), w1)
      | (Inr job, w1) \<Rightarrow>
          let status = GetJobStatus (Some job)
          in ((Inr status,
               if status = JobStatusFailed then ns\<lparr>ns_Error := GetJobFailureMessage (Some job)\<rparr> else ns), w1))"

section \<open>The loop of handleInProgress\<close>

record tally =
  t_pending :: int32
  t_pulling :: int32
  t_completed :: int32
  t_failed :: int32
  t_requeue :: bool

definition zero_tally :: tally where
  "zero_tally = \<lparr>t_pending = 0, t_pulling = 0, t_completed = 0, t_failed = 0, t_requeue = False\<rparr>"

definition one_pending :: "tally \<Rightarrow> tally" where
  "one_pending c = c\<lparr>t_pending := t_pending c + 1, t_requeue := True\<rparr>"
definition one_pulling :: "tally \<Rightarrow> tally" where
  "one_pulling c = c\<lparr>t_pulling := t_pulling c + 1\<rparr>"
definition one_pulling_requeue :: "tally \<Rightarrow> tally" where
  "one_pulling_requeue c = c\<lparr>t_pulling := t_pulling c + 1, t_requeue := True\<rparr>"
definition one_completed :: "tally \<Rightarrow> tally" where
  "one_completed c = c\<lparr>t_completed := t_completed c + 1\<rparr>"
definition one_failed :: "tally \<Rightarrow> tally" where
  "one_failed c = c\<lparr>t_failed := t_failed c + 1\<rparr>"

lemmas tally_defs = one_pending_def one_pulling_def one_pulling_requeue_def one_completed_def
  one_failed_def

definition release_slot :: "string \<Rightarrow> 'w op \<Rightarrow> 'w op" where
  "release_slot node s = s\<lparr>op_Limiter := Release (op_Limiter s) node\<rparr>"

text \<open>
  A branch of the loop returns the new node status, the new counters and the new operator
  state.
\<close>

type_synonym 'w branch = "NodeStatus \<Rightarrow> tally \<Rightarrow> 'w op \<Rightarrow> NodeStatus \<times> tally \<times> 'w op"

definition handleNodePending :: "'w k8s \<Rightarrow> PrePullImage \<Rightarrow> 'w branch" where
  "handleNodePending k ppi ns c s =
     (case TryAcquire (op_Limiter s) (ns_Node ns) of
        (True, l) \<Rightarrow>
          (case world (startPullJob k ppi ns) (s\<lparr>op_Limiter := l\<rparr>) of
             ((Some err, ns1), s1) \<Rightarrow> (ns1, one_pending c, release_slot (ns_Node ns1) s1)
           | ((None, ns1), s1) \<Rightarrow> (ns1, one_pulling c, IncrementActivePulls s1))
      | (False, l) \<Rightarrow> (ns, one_pending c, s\<lparr>op_Limiter := l\<rparr>))"

definition handleNodeSucceeded :: "'w k8s \<Rightarrow> PrePullImage \<Rightarrow> 'w branch" where
  "handleNodeSucceeded k ppi ns c s =
     (case world (Now k) s of (t, s1) \<Rightarrow>
        let ns1 = ns\<lparr>ns_Status := NodePullStatusCompleted, ns_CompletedAt := Some t\<rparr>;
            (ns2, s2) = (case ns_StartedAt ns1 of
                None \<Rightarrow> (ns1, s1)
              | Some started \<Rightarrow>
                  let d = time_sub t started
                  in (ns1\<lparr>ns_Duration := duration_string d\<rparr>,
                      RecordPullDuration (spec_Image (ppi_Spec ppi)) (ns_Node ns1) ''success'' d s1));
            s3 = release_slot (ns_Node ns2) s2
        in (ns2, one_completed c, IncrementPullsTotal ''success'' (DecrementActivePulls s3)))"

definition handleNodeRetry :: "'w k8s \<Rightarrow> 'w branch" where
  "handleNodeRetry k ns c s =
     (let ns1 = ns\<lparr>ns_RetryCount := ns_RetryCount ns + 1, ns_Status := NodePullStatusPending,
                   ns_Error := ''''\<rparr>;
          s1 = snd (world (DeleteJob k (ns_JobName ns1)) s);
          s2 = DecrementActivePulls (release_slot (ns_Node ns1) s1)
      in (ns1, one_pending c, s2))"

definition handleNodeGaveUp :: "'w k8s \<Rightarrow> PrePullImage \<Rightarrow> 'w branch" where
  "handleNodeGaveUp k ppi ns c s =
     (case world (Now k) s of (t, s1) \<Rightarrow>
        let ns1 = ns\<lparr>ns_Status := NodePullStatusFailed, ns_CompletedAt := Some t,
                     ns_Error := ''max retries exceeded''\<rparr>;
            s2 = IncrementPullsTotal ''failed'' (DecrementActivePulls (release_slot (ns_Node ns1) s1));
            s3 = event_PPI ppi ''Warning'' ''PullFailed''
              (''Failed to pull image on node '' @ ns_Node ns1 @ '': '' @ ns_Error ns1) s2
        in (ns1, one_failed c, s3))"

definition handleNodePulling :: "'w k8s \<Rightarrow> PrePullImage \<Rightarrow> 'w branch" where
  "handleNodePulling k ppi ns c s =
     (case world (checkJobStatus k ns) s of
        ((Inl err, ns1), s1) \<Rightarrow> (ns1, one_pulling_requeue c, s1)
      | ((Inr JobStatusSucceeded, ns1), s1) \<Rightarrow> handleNodeSucceeded k ppi ns1 c s1
      | ((Inr JobStatusFailed, ns1), s1) \<Rightarrow>
          if ns_RetryCount ns1 <s ppi_MaxAttempts ppi then handleNodeRetry k ns1 c s1
          else handleNodeGaveUp k ppi ns1 c s1
      | ((Inr _, ns1), s1) \<Rightarrow> (ns1, one_pulling_requeue c, s1))"

definition handleNode :: "'w k8s \<Rightarrow> PrePullImage \<Rightarrow> 'w branch" where
  "handleNode k ppi ns c s =
     (if ns_Status ns = NodePullStatusPending then handleNodePending k ppi ns c s
      else if ns_Status ns = NodePullStatusPulling then handleNodePulling k ppi ns c s
      else if ns_Status ns = NodePullStatusCompleted then (ns, one_completed c, s)
      else if ns_Status ns = NodePullStatusFailed then (ns, one_failed c, s)
      else (ns, c, s))"

fun handleNodes ::
  "'w k8s \<Rightarrow> PrePullImage \<Rightarrow> NodeStatus list \<Rightarrow> tally \<Rightarrow> 'w op \<Rightarrow> NodeStatus list \<times> tally \<times> 'w op" where
  "handleNodes k ppi [] c s = ([], c, s)"
| "handleNodes k ppi (ns # nss) c s =
     (case handleNode k ppi ns c s of (ns', c', s') \<Rightarrow>
      case handleNodes k ppi nss c' s' of (nss', c'', s'') \<Rightarrow> (ns' # nss', c'', s''))"

section \<open>Summary, phase and status update\<close>

definition summary_of :: "NodeStatus list \<Rightarrow> tally \<Rightarrow> PullSummary" where
  "summary_of nss c = \<lparr>sum_Total = of_nat (length nss), sum_Pending = t_pending c,
     sum_Pulling = t_pulling c, sum_Completed = t_completed c, sum_Failed = t_failed c\<rparr>"

definition show32 :: "int32 \<Rightarrow> string" where
  "show32 n = show_int (sint n)"

definition set_Status :: "(PrePullImageStatus \<Rightarrow> PrePullImageStatus) \<Rightarrow> PrePullImage \<Rightarrow> PrePullImage" where
  "set_Status f ppi = ppi\<lparr>ppi_Status := f (ppi_Status ppi)\<rparr>"

definition conclude_failed :: "'w k8s \<Rightarrow> tally \<Rightarrow> PrePullImage \<Rightarrow> 'w op \<Rightarrow> PrePullImage \<times> 'w op" where
  "conclude_failed k c ppi s =
     (let ppi1 = set_Status (\<lambda>st. st\<lparr>st_Phase := PrePullImagePhaseFailed\<rparr>) ppi;
          total = show32 (sum_Total (st_Summary (ppi_Status ppi1)));
          (ppi2, s2) = setCondition_PPI k ConditionTypeReady ConditionFalse ''Failed''
            (''Pull failed on '' @ show32 (t_failed c) @ ''/'' @ total @ '' nodes'') ppi1 s
      in (ppi2, event_PPI ppi2 ''Warning'' ''PullPartiallyFailed''
            (''Image pulled to '' @ show32 (t_completed c) @ ''/'' @ total @ '' nodes, ''
             @ show32 (t_failed c) @ '' failed'') s2))"

definition conclude_completed :: "'w k8s \<Rightarrow> tally \<Rightarrow> PrePullImage \<Rightarrow> 'w op \<Rightarrow> PrePullImage \<times> 'w op" where
  "conclude_completed k c ppi s =
     (let ppi1 = set_Status (\<lambda>st. st\<lparr>st_Phase := PrePullImagePhaseCompleted\<rparr>) ppi;
          message = ''Image pulled to all '' @ show32 (t_completed c) @ '' nodes successfully'';
          (ppi2, s2) = setCondition_PPI k ConditionTypeReady ConditionTrue ''Completed'' message ppi1 s
      in (ppi2, event_PPI ppi2 ''Normal'' ''PullCompleted'' message s2))"

definition conclude :: "'w k8s \<Rightarrow> tally \<Rightarrow> PrePullImage \<Rightarrow> 'w op \<Rightarrow> PrePullImage \<times> 'w op" where
  "conclude k c ppi s =
     (if t_pending c = 0 \<and> t_pulling c = 0 then
        (case world (Now k) s of (t, s1) \<Rightarrow>
           let ppi1 = set_Status (\<lambda>st. st\<lparr>st_CompletionTime := Some t\<rparr>) ppi
           in if 0 <s t_failed c then conclude_failed k c ppi1 s1 else conclude_completed k c ppi1 s1)
      else setCondition_PPI k ConditionTypeReady ConditionFalse ''InProgress''
             (show32 (t_completed c) @ ''/'' @ show32 (sum_Total (st_Summary (ppi_Status ppi)))
              @ '' nodes completed'') ppi s)"

text \<open>Everything \<open>handleInProgress\<close> does before it writes the status.\<close>

definition progress :: "'w k8s \<Rightarrow> PrePullImage \<Rightarrow> 'w op \<Rightarrow> PrePullImage \<times> tally \<times> 'w op" where
  "progress k ppi s =
     (case handleNodes k ppi (ppi_Nodes ppi) zero_tally s of (nss, c, s1) \<Rightarrow>
        let ppi1 = set_Status (\<lambda>st. st\<lparr>st_NodeStatus := nss, st_Summary := summary_of nss c\<rparr>) ppi;
            s2 = SetQueueDepth (sint (t_pending c)) s1
        in case conclude k c ppi1 s2 of (ppi2, s3) \<Rightarrow> (ppi2, c, s3))"

section \<open>Phase metrics\<close>

text \<open>The map \<open>phases\<close> as its pairs; \<open>phases[phase]++\<close> adds a missing key with the count 1.\<close>

fun bump_phase :: "string \<Rightarrow> (string \<times> int) list \<Rightarrow> (string \<times> int) list" where
  "bump_phase p [] = [(p, 1)]"
| "bump_phase p ((q, n) # m) = (if p = q then (q, n + 1) # m else (q, n) # bump_phase p m)"

definition phase_label :: "PrePullImage \<Rightarrow> string" where
  "phase_label ppi = (if ppi_Phase ppi = '''' then PrePullImagePhasePending else ppi_Phase ppi)"

definition zero_phases :: "(string \<times> int) list" where
  "zero_phases = [(PrePullImagePhasePending, 0), (PrePullImagePhaseInProgress, 0),
     (PrePullImagePhaseCompleted, 0), (PrePullImagePhaseFailed, 0)]"

definition count_phases :: "PrePullImage list \<Rightarrow> (string \<times> int) list" where
  "count_phases ppis = foldl (\<lambda>m ppi. bump_phase (phase_label ppi) m) zero_phases ppis"

fun set_phase_gauges :: "(string \<times> int) list \<Rightarrow> string list \<Rightarrow> 'w op \<Rightarrow> 'w op" where
  "set_phase_gauges m [] s = s"
| "set_phase_gauges m (p # ps) s =
     set_phase_gauges m ps
       (SetPrePullImagesByPhase p (case map_of m p of None \<Rightarrow> 0 | Some n \<Rightarrow> n) s)"

definition updatePhaseMetrics :: "'w k8s \<Rightarrow> 'w op \<Rightarrow> 'w op" where
  "updatePhaseMetrics k s =
     (case world (ListPPI k) s of
        (Inl err, s1) \<Rightarrow> s1
      | (Inr items, s1) \<Rightarrow>
          let m = count_phases items
          in case world (MapOrder k (map fst m)) s1 of (ps, s2) \<Rightarrow> set_phase_gauges m ps s2)"

section \<open>The handlers of the phases\<close>

definition handleInProgress :: "'w k8s \<Rightarrow> PrePullImage \<Rightarrow> 'w op \<Rightarrow> (go_error + Result) \<times> 'w op" where
  "handleInProgress k ppi s =
     (case progress k ppi s of (ppi1, c, s1) \<Rightarrow>
      case world (StatusUpdatePPI k ppi1) s1 of
        (Inl err, s2) \<Rightarrow> (Inl err, s2)
      | (Inr _, s2) \<Rightarrow>
          let s3 = updatePhaseMetrics k s2
          in if t_requeue c then (Inr \<lparr>Requeue = False, RequeueAfter = DefaultRequeueDelay\<rparr>, s3)
             else (Inr no_requeue, s3))"

text \<open>The status \<open>handlePending\<close> writes when there are target nodes.\<close>

definition initial_status :: "string list \<Rightarrow> instant \<Rightarrow> PrePullImageStatus \<Rightarrow> PrePullImageStatus" where
  "initial_status targetNodes t st =
     st\<lparr>st_NodeStatus := map (\<lambda>n. zero_node_status\<lparr>ns_Node := n, ns_Status := NodePullStatusPending\<rparr>) targetNodes,
        st_Summary := zero_summary\<lparr>sum_Total := of_nat (length targetNodes),
                                   sum_Pending := of_nat (length targetNodes)\<rparr>,
        st_Phase := PrePullImagePhaseInProgress,
        st_StartTime := Some t\<rparr>"

definition handlePending :: "'w k8s \<Rightarrow> PrePullImage \<Rightarrow> 'w op \<Rightarrow> (go_error + Result) \<times> 'w op" where
  "handlePending k ppi s =
     (case world (getTargetNodes_PPI k ppi) s of
        (Inl err, s1) \<Rightarrow> (Inl err, s1)
      | (Inr targetNodes, s1) \<Rightarrow>
          if length targetNodes = 0 then
            (case setCondition_PPI k ConditionTypeReady ConditionTrue ''NoNodes'' ''No target nodes found''
                    (set_Status (\<lambda>st. st\<lparr>st_Phase := PrePullImagePhaseCompleted\<rparr>) ppi) s1 of
               (ppi1, s2) \<Rightarrow>
                 (case world (StatusUpdatePPI k ppi1) s2 of
                    (Inl err, s3) \<Rightarrow> (Inl err, s3)
                  | (Inr _, s3) \<Rightarrow> (Inr no_requeue, s3)))
          else
            (case world (Now k) s1 of (t, s2) \<Rightarrow>
             case setCondition_PPI k ConditionTypeReady ConditionFalse ''InProgress''
                    ''Pull operation in progress'' (set_Status (initial_status targetNodes t) ppi) s2 of
               (ppi1, s3) \<Rightarrow>
                 (case world (StatusUpdatePPI k ppi1) s3 of
                    (Inl err, s4) \<Rightarrow> (Inl err, s4)
                  | (Inr ppi2, s4) \<Rightarrow>
                      (Inr \<lparr>Requeue = True, RequeueAfter = 0\<rparr>,
                       event_PPI ppi2 ''Normal'' ''PullStarted''
                         (''Started pulling image to '' @ show_nat (length targetNodes) @ '' nodes'') s4))))"

definition handleCompleted :: "'w k8s \<Rightarrow> PrePullImage \<Rightarrow> 'w op \<Rightarrow> (go_error + Result) \<times> 'w op" where
  "handleCompleted k ppi s =
     (case st_CompletionTime (ppi_Status ppi) of
        None \<Rightarrow> (Inr \<lparr>Requeue = False, RequeueAfter = CompletedTTL\<rparr>, s)
      | Some completed \<Rightarrow>
          (case world (Now k) s of (t, s1) \<Rightarrow>
             let age = time_sub t completed
             in if CompletedTTL <s age then
                  (case world (DeletePPI k ppi) s1 of
                     (Some err, s2) \<Rightarrow> (Inl err, s2)
                   | (None, s2) \<Rightarrow> (Inr no_requeue, s2))
                else (Inr \<lparr>Requeue = False, RequeueAfter = CompletedTTL - age\<rparr>, s1)))"

definition handleFailed :: "'w k8s \<Rightarrow> PrePullImage \<Rightarrow> 'w op \<Rightarrow> (go_error + Result) \<times> 'w op" where
  "handleFailed k ppi s = handleCompleted k ppi s"

text \<open>The loop of \<open>handleDeletion\<close> over the node statuses.\<close>

fun release_pulling :: "NodeStatus list \<Rightarrow> 'w op \<Rightarrow> 'w op" where
  "release_pulling [] s = s"
| "release_pulling (ns # nss) s =
     release_pulling nss
       (if ns_Status ns = NodePullStatusPulling
        then DecrementActivePulls (release_slot (ns_Node ns) s) else s)"

definition set_finalizers :: "string list \<Rightarrow> PrePullImage \<Rightarrow> PrePullImage" where
  "set_finalizers fs ppi = ppi\<lparr>ppi_Meta := (ppi_Meta ppi)\<lparr>meta_Finalizers := fs\<rparr>\<rparr>"

definition handleDeletion :: "'w k8s \<Rightarrow> PrePullImage \<Rightarrow> 'w op \<Rightarrow> (go_error + Result) \<times> 'w op" where
  "handleDeletion k ppi s =
     (if ContainsFinalizer k (meta_Finalizers (ppi_Meta ppi)) FinalizerName then
        let s1 = release_pulling (ppi_Nodes ppi) s;
            s2 = snd (world (CleanupJobsForPrePullImage k (ppi_Name ppi)) s1);
            ppi1 = set_finalizers (RemoveFinalizer k (meta_Finalizers (ppi_Meta ppi)) FinalizerName) ppi
        in case world (UpdatePPI k ppi1) s2 of
             (Inl err, s3) \<Rightarrow> (Inl err, s3)
           | (Inr _, s3) \<Rightarrow> (Inr no_requeue, s3)
      else (Inr no_requeue, s))"

section \<open>Reconcile\<close>

definition dispatch_PPI :: "'w k8s \<Rightarrow> PrePullImage \<Rightarrow> 'w op \<Rightarrow> (go_error + Result) \<times> 'w op" where
  "dispatch_PPI k ppi s =
     (if meta_DeletionTimestamp (ppi_Meta ppi) \<noteq> None then handleDeletion k ppi s
      else if \<not> ContainsFinalizer k (meta_Finalizers (ppi_Meta ppi)) FinalizerName then
        (case world (UpdatePPI k (set_finalizers
                 (AddFinalizer k (meta_Finalizers (ppi_Meta ppi)) FinalizerName) ppi)) s of
           (Inl err, s1) \<Rightarrow> (Inl err, s1)
         | (Inr _, s1) \<Rightarrow> (Inr \<lparr>Requeue = True, RequeueAfter = 0\<rparr>, s1))
      else if ppi_Phase ppi = '''' \<or> ppi_Phase ppi = PrePullImagePhasePending then handlePending k ppi s
      else if ppi_Phase ppi = PrePullImagePhaseInProgress then handleInProgress k ppi s
      else if ppi_Phase ppi = PrePullImagePhaseCompleted then handleCompleted k ppi s
      else if ppi_Phase ppi = PrePullImagePhaseFailed then handleFailed k ppi s
      else (Inr no_requeue, s))"

definition reconcile_body_PPI :: "'w k8s \<Rightarrow> objkey \<Rightarrow> 'w op \<Rightarrow> (go_error + Result) \<times> 'w op" where
  "reconcile_body_PPI k req s =
     (case world (GetPPI k req) s of
        (Inl err, s1) \<Rightarrow> if IsNotFound k err then (Inr no_requeue, s1) else (Inl err, s1)
      | (Inr ppi, s1) \<Rightarrow> dispatch_PPI k ppi s1)"

text \<open>The deferred function runs last and records the reconcile, whatever its result.\<close>

definition Reconcile_PPI :: "'w k8s \<Rightarrow> objkey \<Rightarrow> 'w op \<Rightarrow> (go_error + Result) \<times> 'w op" where
  "Reconcile_PPI k req s =
     (case world (Now k) s of (startTime, s1) \<Rightarrow>
      case reconcile_body_PPI k req s1 of (res, s2) \<Rightarrow>
      case world (Now k) s2 of (t, s3) \<Rightarrow>
        (res, RecordReconcile ''prepullimage'' ''success'' (time_sub t startTime) s3))"

end
