(* ===== verification/ImageNodes.thy ===== *)
theory ImageNodes
  imports ImageController
begin

text \<open>
  What one pass of \<open>handleInProgress\<close> does to the node statuses. \<open>node_outcome\<close> lists the
  outcomes of the loop body as a step relation; every fact about the loop is a case analysis
  on it, lifted to the list. It yields the life cycle of a node (\<open>node_move\<close>), the bound on
  retries, the exact counters and the number of times a node can change.
\<close>

section \<open>The outcomes of the loop body\<close>

abbreviation node_pending :: "NodeStatus \<Rightarrow> bool" where
  "node_pending ns \<equiv> ns_Status ns = NodePullStatusPending"

abbreviation node_pulling :: "NodeStatus \<Rightarrow> bool" where
  "node_pulling ns \<equiv> ns_Status ns = NodePullStatusPulling"

abbreviation node_completed :: "NodeStatus \<Rightarrow> bool" where
  "node_completed ns \<equiv> ns_Status ns = NodePullStatusCompleted"

abbreviation node_failed :: "NodeStatus \<Rightarrow> bool" where
  "node_failed ns \<equiv> ns_Status ns = NodePullStatusFailed"

definition completed_node :: "instant \<Rightarrow> string \<Rightarrow> NodeStatus \<Rightarrow> NodeStatus" where
  "completed_node t d ns =
     ns\<lparr>ns_Status := NodePullStatusCompleted, ns_CompletedAt := Some t, ns_Duration := d\<rparr>"

definition retried_node :: "NodeStatus \<Rightarrow> NodeStatus" where
  "retried_node ns =
     ns\<lparr>ns_RetryCount := ns_RetryCount ns + 1, ns_Status := NodePullStatusPending, ns_Error := ''''\<rparr>"

definition failed_node :: "instant \<Rightarrow> NodeStatus \<Rightarrow> NodeStatus" where
  "failed_node t ns =
     ns\<lparr>ns_Status := NodePullStatusFailed, ns_CompletedAt := Some t, ns_Error := ''max retries exceeded''\<rparr>"

lemmas node_updates = mark_pulling_def completed_node_def retried_node_def failed_node_def

text \<open>
  \<open>node_outcome m l ns c ns' c' l' es\<close>: with at most \<open>m\<close> retries, the limiter \<open>l\<close>, the status
  \<open>ns\<close> and the counters \<open>c\<close>, the body may leave \<open>ns'\<close>, \<open>c'\<close> and \<open>l'\<close> and make the metric
  calls and events \<open>es\<close>.
\<close>

inductive node_outcome ::
  "int32 \<Rightarrow> RateLimiter \<Rightarrow> NodeStatus \<Rightarrow> tally \<Rightarrow> NodeStatus \<Rightarrow> tally \<Rightarrow> RateLimiter \<Rightarrow> effect list \<Rightarrow> bool"
  for m l ns c
where
  refused: "node_pending ns \<Longrightarrow> TryAcquire l (ns_Node ns) = (False, l) \<Longrightarrow>
    node_outcome m l ns c ns (one_pending c) l []"
| start_failed: "node_pending ns \<Longrightarrow> TryAcquire l (ns_Node ns) = (True, l1) \<Longrightarrow>
    node_outcome m l ns c ns (one_pending c) (Release l1 (ns_Node ns)) []"
| started: "node_pending ns \<Longrightarrow> TryAcquire l (ns_Node ns) = (True, l1) \<Longrightarrow>
    node_outcome m l ns c (mark_pulling j t ns) (one_pulling c) l1 [ActivePullsInc]"
| still_pulling: "node_pulling ns \<Longrightarrow> node_outcome m l ns c ns (one_pulling_requeue c) l []"
| succeeded: "node_pulling ns \<Longrightarrow> active_pulls es = - 1 \<Longrightarrow>
    node_outcome m l ns c (completed_node t d ns) (one_completed c) (Release l (ns_Node ns)) es"
| retried: "node_pulling ns \<Longrightarrow> ns_RetryCount ns <s m \<Longrightarrow>
    node_outcome m l ns c (retried_node ns) (one_pending c) (Release l (ns_Node ns)) [ActivePullsDec]"
| gave_up: "node_pulling ns \<Longrightarrow> \<not> ns_RetryCount ns <s m \<Longrightarrow> active_pulls es = - 1 \<Longrightarrow>
    node_outcome m l ns c (failed_node t ns) (one_failed c) (Release l (ns_Node ns)) es"
| was_completed: "node_completed ns \<Longrightarrow> node_outcome m l ns c ns (one_completed c) l []"
| was_failed: "node_failed ns \<Longrightarrow> node_outcome m l ns c ns (one_failed c) l []"
| unknown: "\<not> node_pending ns \<Longrightarrow> \<not> node_pulling ns \<Longrightarrow> \<not> node_completed ns \<Longrightarrow> \<not> node_failed ns \<Longrightarrow>
    node_outcome m l ns c ns c l []"

lemma TryAcquire_refused: "TryAcquire l n = (False, l') \<Longrightarrow> l' = l"
  using rl.acquire_refused [of l n] by simp

lemma startPullJob_cases:
  assumes "startPullJob k ppi ns w = ((e, ns'), w')"
  obtains (error) err where "e = Some err" "ns' = ns"
  | (ok) j t where "e = None" "ns' = mark_pulling j t ns"
  using assms
  by (auto simp: startPullJob_def split: prod.splits sum.splits if_splits)

lemma checkJobStatus_cases:
  assumes "checkJobStatus k ns w = ((r, ns'), w')"
  obtains (error) err where "r = Inl err" "ns' = ns"
  | (failed) msg where "r = Inr JobStatusFailed" "ns' = ns\<lparr>ns_Error := msg\<rparr>"
  | (other) st where "r = Inr st" "st \<noteq> JobStatusFailed" "ns' = ns"
proof -
  have "ns = ns\<lparr>ns_Error := ns_Error ns\<rparr>" by simp
  then show ?thesis
    using assms error failed failed [of "ns_Error ns"] other
    by (auto simp: checkJobStatus_def Let_def split: prod.splits sum.splits if_splits)
qed

lemma handleNodePending_outcome:
  assumes "handleNodePending k ppi ns c s = (ns', c', s')" and "node_pending ns"
  shows "\<exists>es. op_Effects s' = op_Effects s @ es \<and>
    node_outcome m (op_Limiter s) ns c ns' c' (op_Limiter s') es"
proof (cases "TryAcquire (op_Limiter s) (ns_Node ns)")
  case (Pair got l)
  show ?thesis
  proof (cases got)
    case False
    with assms Pair TryAcquire_refused [of "op_Limiter s" "ns_Node ns" l] show ?thesis
      by (auto simp: handleNodePending_def intro: node_outcome.refused)
  next
    case True
    let ?s0 = "s\<lparr>op_Limiter := l\<rparr>"
    obtain e ns1 s1 where w: "world (startPullJob k ppi ns) ?s0 = ((e, ns1), s1)"
      by (metis prod.collapse)
    note fr = world_eqD [OF w]
    then have "startPullJob k ppi ns (op_World s) = ((e, ns1), op_World s1)" by simp
    then show ?thesis
    proof (cases rule: startPullJob_cases)
      case (error err)
      with assms Pair True w fr show ?thesis
        by (auto simp: handleNodePending_def release_slot_def intro: node_outcome.start_failed)
    next
      case (ok j t)
      with assms Pair True w fr show ?thesis
        by (auto simp: handleNodePending_def IncrementActivePulls_def intro: node_outcome.started)
    qed
  qed
qed

lemma handleNodeSucceeded_outcome:
  assumes "handleNodeSucceeded k ppi ns c s = (ns', c', s')" and "node_pulling ns"
  shows "\<exists>es. op_Effects s' = op_Effects s @ es \<and>
    node_outcome m (op_Limiter s) ns c ns' c' (op_Limiter s') es"
proof -
  obtain t s1 where w: "world (Now k) s = (t, s1)" by (metis prod.collapse)
  note fr = world_eqD [OF w]
  show ?thesis
  proof (cases "ns_StartedAt ns")
    case None
    have "ns' = completed_node t (ns_Duration ns) ns" "c' = one_completed c"
      "op_Limiter s' = Release (op_Limiter s) (ns_Node ns)"
      "op_Effects s' = op_Effects s @ [ActivePullsDec, PullsTotalInc ''success'']"
      using assms None w fr
      by (auto simp: handleNodeSucceeded_def completed_node_def Let_def metrics_defs release_slot_def)
    with assms(2) show ?thesis by (auto intro: node_outcome.succeeded)
  next
    case (Some started)
    let ?d = "time_sub t started"
    have "ns' = completed_node t (duration_string ?d) ns" "c' = one_completed c"
      "op_Limiter s' = Release (op_Limiter s) (ns_Node ns)"
      "op_Effects s' = op_Effects s @ [PullDurationObserve (spec_Image (ppi_Spec ppi)) (ns_Node ns)
         ''success'' ?d, ActivePullsDec, PullsTotalInc ''success'']"
      using assms Some w fr
      by (auto simp: handleNodeSucceeded_def completed_node_def Let_def metrics_defs release_slot_def)
    with assms(2) show ?thesis by (auto intro: node_outcome.succeeded)
  qed
qed

lemma handleNodeRetry_outcome:
  assumes "handleNodeRetry k (ns\<lparr>ns_Error := msg\<rparr>) c s = (ns', c', s')"
    and "node_pulling ns" and "ns_RetryCount ns <s m"
  shows "\<exists>es. op_Effects s' = op_Effects s @ es \<and>
    node_outcome m (op_Limiter s) ns c ns' c' (op_Limiter s') es"
proof -
  have "ns' = retried_node ns" "c' = one_pending c" "op_Limiter s' = Release (op_Limiter s) (ns_Node ns)"
    "op_Effects s' = op_Effects s @ [ActivePullsDec]"
    using assms(1)
    by (auto simp: handleNodeRetry_def Let_def retried_node_def metrics_defs release_slot_def)
  with assms(2,3) show ?thesis by (auto intro: node_outcome.retried)
qed

lemma handleNodeGaveUp_outcome:
  assumes "handleNodeGaveUp k ppi (ns\<lparr>ns_Error := msg\<rparr>) c s = (ns', c', s')"
    and "node_pulling ns" and "\<not> ns_RetryCount ns <s m"
  shows "\<exists>es. op_Effects s' = op_Effects s @ es \<and>
    node_outcome m (op_Limiter s) ns c ns' c' (op_Limiter s') es"
proof -
  obtain t s1 where w: "world (Now k) s = (t, s1)" by (metis prod.collapse)
  note fr = world_eqD [OF w]
  have "ns' = failed_node t ns" "c' = one_failed c" "op_Limiter s' = Release (op_Limiter s) (ns_Node ns)"
    and es: "\<exists>es. op_Effects s' = op_Effects s @ es \<and> active_pulls es = - 1"
    using assms(1) w fr
    by (auto simp: handleNodeGaveUp_def Let_def failed_node_def metrics_defs release_slot_def
        event_PPI_def)
  with assms(2,3) show ?thesis by (auto intro: node_outcome.gave_up)
qed

lemma handleNodePulling_outcome:
  assumes "handleNodePulling k ppi ns c s = (ns', c', s')" and "node_pulling ns"
  shows "\<exists>es. op_Effects s' = op_Effects s @ es \<and>
    node_outcome (ppi_MaxAttempts ppi) (op_Limiter s) ns c ns' c' (op_Limiter s') es"
proof -
  obtain r ns1 s1 where w: "world (checkJobStatus k ns) s = ((r, ns1), s1)"
    by (metis prod.collapse)
  note fr = world_eqD [OF w]
  then have "checkJobStatus k ns (op_World s) = ((r, ns1), op_World s1)" by simp
  then show ?thesis
  proof (cases rule: checkJobStatus_cases)
    case (error err)
    with assms w fr show ?thesis
      by (auto simp: handleNodePulling_def intro: node_outcome.still_pulling)
  next
    case (failed msg)
    show ?thesis
    proof (cases "ns_RetryCount ns <s ppi_MaxAttempts ppi")
      case True
      with assms w failed have "handleNodeRetry k (ns\<lparr>ns_Error := msg\<rparr>) c s1 = (ns', c', s')"
        by (simp add: handleNodePulling_def)
      from handleNodeRetry_outcome [OF this assms(2) True] fr show ?thesis by simp
    next
      case False
      with assms w failed have "handleNodeGaveUp k ppi (ns\<lparr>ns_Error := msg\<rparr>) c s1 = (ns', c', s')"
        by (simp add: handleNodePulling_def)
      from handleNodeGaveUp_outcome [OF this assms(2) False] fr show ?thesis by simp
    qed
  next
    case (other st)
    show ?thesis
    proof (cases "st = JobStatusSucceeded")
      case True
      with assms w other have "handleNodeSucceeded k ppi ns c s1 = (ns', c', s')"
        by (simp add: handleNodePulling_def)
      from handleNodeSucceeded_outcome [OF this assms(2)] fr show ?thesis by simp
    next
      case False
      with assms w fr other show ?thesis
        by (cases st) (auto simp: handleNodePulling_def intro: node_outcome.still_pulling)
    qed
  qed
qed

lemma handleNode_outcome:
  assumes "handleNode k ppi ns c s = (ns', c', s')"
  shows "\<exists>es. op_Effects s' = op_Effects s @ es \<and>
    node_outcome (ppi_MaxAttempts ppi) (op_Limiter s) ns c ns' c' (op_Limiter s') es"
proof -
  consider (pending) "node_pending ns" | (pulling) "node_pulling ns"
    | (neither) "\<not> node_pending ns" "\<not> node_pulling ns" by blast
  then show ?thesis
  proof cases
    case pending
    with assms show ?thesis by (auto simp: handleNode_def intro: handleNodePending_outcome)
  next
    case pulling
    with assms show ?thesis by (auto simp: handleNode_def intro: handleNodePulling_outcome)
  next
    case neither
    with assms show ?thesis
      by (auto simp: handleNode_def intro: node_outcome.was_completed node_outcome.was_failed
          node_outcome.unknown split: if_splits)
  qed
qed

text \<open>One round of the loop and the rest of it.\<close>

lemma handleNodes_ConsE:
  assumes "handleNodes k ppi (ns # nss) c s = (nss', c', s')"
  obtains ns1 c1 s1 nss2 es where "handleNodes k ppi nss c1 s1 = (nss2, c', s')"
    and "nss' = ns1 # nss2" and "op_Effects s1 = op_Effects s @ es"
    and "node_outcome (ppi_MaxAttempts ppi) (op_Limiter s) ns c ns1 c1 (op_Limiter s1) es"
proof -
  obtain ns1 c1 s1 where 1: "handleNode k ppi ns c s = (ns1, c1, s1)" by (metis prod_cases3)
  obtain nss2 c2 s2 where 2: "handleNodes k ppi nss c1 s1 = (nss2, c2, s2)" by (metis prod_cases3)
  from 1 2 assms have eq: "nss' = ns1 # nss2" "c2 = c'" "s2 = s'" by simp_all
  from handleNode_outcome [OF 1] 2 eq that show ?thesis by blast
qed

section \<open>Slots and the gauge\<close>

text \<open>
  The slots that a list of node statuses accounts for: one per pulling node. The body keeps
  the limiter's slots in step with them, whatever other slots \<open>R\<close> are in use, and moves
  the gauge by the change in their number.
\<close>

definition pulling_slots :: "NodeStatus list \<Rightarrow> string multiset" where
  "pulling_slots nss = mset_where node_pulling ns_Node nss"

lemma pulling_slots_simps [simp]:
  "pulling_slots [] = {#}"
  "pulling_slots (ns # nss) =
     (if node_pulling ns then add_mset (ns_Node ns) (pulling_slots nss) else pulling_slots nss)"
  "pulling_slots (nss @ mss) = pulling_slots nss + pulling_slots mss"
  by (simp_all add: pulling_slots_def)

context slot_account begin

lemma node_outcome_slots:
  assumes "node_outcome m l ns c ns' c' l' es"
    and "holds l (R + pulling_slots [ns])"
  shows "holds l' (R + pulling_slots [ns']) \<and>
    active_pulls es = int (size (pulling_slots [ns'])) - int (size (pulling_slots [ns]))"
  using assms
proof cases
  case (start_failed l1)
  with assms returned [of l R "ns_Node ns" l1] show ?thesis by simp
next
  case (started j t)
  with assms acquired [of l R "ns_Node ns"] show ?thesis
    by (simp add: mark_pulling_def)
next
  case (succeeded t d)
  with assms released [of l "ns_Node ns" R] show ?thesis
    by (simp add: completed_node_def)
next
  case retried
  with assms released [of l "ns_Node ns" R] show ?thesis
    by (simp add: retried_node_def)
next
  case (gave_up t)
  with assms released [of l "ns_Node ns" R] show ?thesis
    by (simp add: failed_node_def)
qed simp_all

lemma handleNodes_slots:
  assumes "handleNodes k ppi nss c s = (nss', c', s')"
    and "holds (op_Limiter s) (R + pulling_slots nss)"
  shows "holds (op_Limiter s') (R + pulling_slots nss') \<and>
    (\<exists>es. op_Effects s' = op_Effects s @ es \<and>
      active_pulls es = int (size (pulling_slots nss')) - int (size (pulling_slots nss)))"
  using assms
proof (induction nss arbitrary: c s R nss' c' s')
  case (Cons ns nss)
  from Cons.prems(1) obtain ns1 c1 s1 nss2 es where 2: "handleNodes k ppi nss c1 s1 = (nss2, c', s')"
    and eq: "nss' = ns1 # nss2" and es: "op_Effects s1 = op_Effects s @ es"
      "node_outcome (ppi_MaxAttempts ppi) (op_Limiter s) ns c ns1 c1 (op_Limiter s1) es"
    by (rule handleNodes_ConsE)
  have "R + pulling_slots (ns # nss) = (R + pulling_slots nss) + pulling_slots [ns]" by simp
  with node_outcome_slots [OF es(2), of "R + pulling_slots nss"] Cons.prems(2)
  have h1: "holds (op_Limiter s1) ((R + pulling_slots [ns1]) + pulling_slots nss)"
    and g1: "active_pulls es = int (size (pulling_slots [ns1])) - int (size (pulling_slots [ns]))"
    by (simp_all add: ac_simps)
  from Cons.IH [OF 2 h1] obtain fs where
    h2: "holds (op_Limiter s') (R + pulling_slots [ns1] + pulling_slots nss2)"
    and fs: "op_Effects s' = op_Effects s1 @ fs"
    and g2: "active_pulls fs = int (size (pulling_slots nss2)) - int (size (pulling_slots nss))"
    by blast
  have "R + pulling_slots nss' = R + pulling_slots [ns1] + pulling_slots nss2"
    using eq by simp
  moreover have "op_Effects s' = op_Effects s @ (es @ fs)" using eq es fs by simp
  moreover have "active_pulls (es @ fs) = int (size (pulling_slots nss')) - int (size (pulling_slots (ns # nss)))"
    using g1 g2 eq by simp
  ultimately show ?case using h2 eq by auto
qed simp

end

section \<open>The life cycle of a node\<close>

text \<open>
  \<open>node_move m ns ns'\<close>: the status of a node changes from \<open>ns\<close> to \<open>ns'\<close>. A pending node
  starts to pull; a pulling node completes, goes back to pending with one more retry while
  fewer than \<open>m\<close> were made, or fails for good when \<open>m\<close> were made. Nothing else happens.
\<close>

inductive node_move :: "int32 \<Rightarrow> NodeStatus \<Rightarrow> NodeStatus \<Rightarrow> bool" for m where
  move_start: "node_pending ns \<Longrightarrow> node_move m ns (mark_pulling j t ns)"
| move_complete: "node_pulling ns \<Longrightarrow> node_move m ns (completed_node t d ns)"
| move_retry: "node_pulling ns \<Longrightarrow> ns_RetryCount ns <s m \<Longrightarrow> node_move m ns (retried_node ns)"
| move_fail: "node_pulling ns \<Longrightarrow> \<not> ns_RetryCount ns <s m \<Longrightarrow> node_move m ns (failed_node t ns)"

inductive_cases node_moveE: "node_move m ns ns'"

lemma node_outcome_move: "node_outcome m l ns c ns' c' l' es \<Longrightarrow> ns' = ns \<or> node_move m ns ns'"
  by (induction rule: node_outcome.induct) (auto intro: node_move.intros)

lemma handleNodes_moves:
  "handleNodes k ppi nss c s = (nss', c', s') \<Longrightarrow>
   list_all2 (\<lambda>ns ns'. ns' = ns \<or> node_move (ppi_MaxAttempts ppi) ns ns') nss nss'"
proof (induction nss arbitrary: c s nss' c' s')
  case (Cons ns nss)
  from Cons.prems show ?case
    by (rule handleNodes_ConsE) (use Cons.IH in \<open>auto dest: node_outcome_move\<close>)
qed simp

lemma handleNodes_length:
  "handleNodes k ppi nss c s = (nss', c', s') \<Longrightarrow> length nss' = length nss"
  by (drule handleNodes_moves) (simp add: list_all2_lengthD)

text \<open>Retries never pass the limit, and the counter never wraps.\<close>

definition node_ok :: "int32 \<Rightarrow> NodeStatus \<Rightarrow> bool" where
  "node_ok m ns \<longleftrightarrow>
     (node_pending ns \<or> node_pulling ns \<or> node_completed ns \<or> node_failed ns) \<and>
     0 \<le> sint (ns_RetryCount ns) \<and> sint (ns_RetryCount ns) \<le> max 0 (sint m) \<and>
     (node_pulling ns \<longrightarrow> ns_StartedAt ns \<noteq> None) \<and>
     (node_completed ns \<or> node_failed ns \<longrightarrow> ns_CompletedAt ns \<noteq> None) \<and>
     (node_failed ns \<longrightarrow> sint (ns_RetryCount ns) = max 0 (sint m))"

lemma node_move_retry_count:
  "node_move m ns ns' \<Longrightarrow> node_pulling ns \<Longrightarrow> node_pending ns' \<Longrightarrow>
   sint (ns_RetryCount ns') = sint (ns_RetryCount ns) + 1"
  by (erule node_moveE) (auto simp: node_updates go_int intro!: sint_inc)

lemma node_move_ok: "node_move m ns ns' \<Longrightarrow> node_ok m ns \<Longrightarrow> node_ok m ns'"
  by (erule node_moveE) (auto simp: node_ok_def node_updates go_int sint_inc [of _ m])

section \<open>Every node settles\<close>

text \<open>
  The moves a node has left: two for each retry not yet made, one or two for the attempt it
  is in, none when it is settled.
\<close>

definition moves_left :: "int32 \<Rightarrow> NodeStatus \<Rightarrow> nat" where
  "moves_left m ns =
     (if node_pending ns then 2 * nat (sint m - sint (ns_RetryCount ns)) + 2
      else if node_pulling ns then 2 * nat (sint m - sint (ns_RetryCount ns)) + 1
      else 0)"

lemma node_move_decreases: "node_move m ns ns' \<Longrightarrow> moves_left m ns' < moves_left m ns"
  by (erule node_moveE) (auto simp: moves_left_def node_updates go_int sint_inc [of _ m])

section \<open>The counters\<close>

definition tally_counts :: "tally \<Rightarrow> NodeStatus list \<Rightarrow> tally \<Rightarrow> bool" where
  "tally_counts c nss c' \<longleftrightarrow>
     t_pending c' = t_pending c + of_nat (length (filter node_pending nss)) \<and>
     t_pulling c' = t_pulling c + of_nat (length (filter node_pulling nss)) \<and>
     t_completed c' = t_completed c + of_nat (length (filter node_completed nss)) \<and>
     t_failed c' = t_failed c + of_nat (length (filter node_failed nss))"

lemma node_outcome_counts: "node_outcome m l ns c ns' c' l' es \<Longrightarrow> tally_counts c [ns'] c'"
  by (induction rule: node_outcome.induct) (auto simp: tally_counts_def tally_defs node_updates)

lemma tally_counts_Cons:
  "tally_counts c [ns] c1 \<Longrightarrow> tally_counts c1 nss c2 \<Longrightarrow> tally_counts c (ns # nss) c2"
  by (auto simp: tally_counts_def)

lemma handleNodes_counts:
  "handleNodes k ppi nss c s = (nss', c', s') \<Longrightarrow> tally_counts c nss' c'"
proof (induction nss arbitrary: c s nss' c' s')
  case (Cons ns nss)
  from Cons.prems show ?case
    by (rule handleNodes_ConsE) (use Cons.IH in \<open>auto intro: tally_counts_Cons dest: node_outcome_counts\<close>)
qed (simp add: tally_counts_def)

section \<open>When a requeue is asked for\<close>

lemma node_outcome_requeue:
  "node_outcome m l ns c ns' c' l' es \<Longrightarrow>
   t_requeue c' = (t_requeue c \<or> node_pending ns' \<or> (node_pulling ns \<and> node_pulling ns'))"
  by (induction rule: node_outcome.induct) (auto simp: tally_defs node_updates)

lemma handleNodes_requeue:
  "handleNodes k ppi nss c s = (nss', c', s') \<Longrightarrow>
   t_requeue c' = (t_requeue c \<or>
     (\<exists>i < length nss. node_pending (nss' ! i) \<or> (node_pulling (nss ! i) \<and> node_pulling (nss' ! i))))"
proof (induction nss arbitrary: c s nss' c' s')
  case (Cons ns nss)
  from Cons.prems show ?case
    by (rule handleNodes_ConsE) (use Cons.IH in \<open>auto simp: Ex_less_Suc2 dest!: node_outcome_requeue\<close>)
qed simp

end
