(* ===== verification/MemoryClient.thy ===== *)
theory MemoryClient
  imports Kubernetes
begin

text \<open>
  An in-memory instance of the interface \<open>k8s\<close>, on which the hypotheses of the theorems are
  shown to be satisfiable: objects in maps, a clock that is set from outside, status updates
  that fail while \<open>mem_failing\<close> is positive. Nothing of the program is modelled here, and no
  theorem about the program depends on it.
\<close>

record mem =
  mem_ppis :: "objkey \<rightharpoonup> PrePullImage"
  mem_ppi_keys :: "objkey list"
  mem_jobs :: "Job list"
  mem_nodes :: "Node list"
  mem_policies :: "PrePullPolicy list"
  mem_deployments :: "Deployment list"
  mem_clock :: instant
  mem_failing :: nat

definition not_found :: go_error where "not_found = StatusError ''NotFound'' ''not found''"
definition already_exists :: go_error where "already_exists = StatusError ''AlreadyExists'' ''already exists''"
definition conflict :: go_error where "conflict = StatusError ''Conflict'' ''the object has been modified''"

fun error_reason :: "go_error \<Rightarrow> string" where
  "error_reason (StatusError r m) = r"
| "error_reason (PlainError m) = ''''"
| "error_reason (WrapError p e) = error_reason e"

definition found :: "'k list \<Rightarrow> ('k \<rightharpoonup> 'v) \<Rightarrow> 'v list" where
  "found ks m = List.map_filter m ks"

definition mem_get :: "('k \<rightharpoonup> 'v) \<Rightarrow> 'k \<Rightarrow> go_error + 'v" where
  "mem_get m key = (case m key of None \<Rightarrow> Inl not_found | Some v \<Rightarrow> Inr v)"

text \<open>An object under a key that is not its own cannot be read.\<close>

definition mem_get_ppi :: "mem \<Rightarrow> objkey \<Rightarrow> go_error + PrePullImage" where
  "mem_get_ppi w key =
     (case mem_ppis w key of
        None \<Rightarrow> Inl not_found
      | Some p \<Rightarrow> if key_of (ppi_Meta p) = key then Inr p else Inl (PlainError ''wrong key''))"

definition mem_update_ppi :: "PrePullImage \<Rightarrow> mem \<Rightarrow> (go_error + PrePullImage) \<times> mem" where
  "mem_update_ppi p w =
     (let key = key_of (ppi_Meta p) in
      case mem_ppis w key of
        None \<Rightarrow> (Inl not_found, w)
      | Some q \<Rightarrow>
          let p' = q\<lparr>ppi_Meta := (ppi_Meta q)
                       \<lparr>meta_Labels := meta_Labels (ppi_Meta p),
                        meta_Annotations := meta_Annotations (ppi_Meta p),
                        meta_Finalizers := meta_Finalizers (ppi_Meta p)\<rparr>,
                    ppi_Spec := ppi_Spec p\<rparr>
          in if meta_DeletionTimestamp (ppi_Meta q) \<noteq> None \<and> meta_Finalizers (ppi_Meta p) = []
             then (Inr p', w\<lparr>mem_ppis := (mem_ppis w)(key := None)\<rparr>)
             else (Inr p', w\<lparr>mem_ppis := (mem_ppis w)(key \<mapsto> p')\<rparr>))"

definition mem_status_update_ppi :: "PrePullImage \<Rightarrow> mem \<Rightarrow> (go_error + PrePullImage) \<times> mem" where
  "mem_status_update_ppi p w =
     (let key = key_of (ppi_Meta p) in
      if 0 < mem_failing w then (Inl conflict, w\<lparr>mem_failing := mem_failing w - 1\<rparr>)
      else case mem_ppis w key of
        None \<Rightarrow> (Inl not_found, w)
      | Some q \<Rightarrow>
          let p' = q\<lparr>ppi_Status := ppi_Status p\<rparr>
          in (Inr p', w\<lparr>mem_ppis := (mem_ppis w)(key \<mapsto> p')\<rparr>))"

definition mem_delete_ppi :: "PrePullImage \<Rightarrow> mem \<Rightarrow> go_error option \<times> mem" where
  "mem_delete_ppi p w =
     (let key = key_of (ppi_Meta p) in
      case mem_ppis w key of
        None \<Rightarrow> (Some not_found, w)
      | Some q \<Rightarrow>
          if meta_Finalizers (ppi_Meta q) = [] then (None, w\<lparr>mem_ppis := (mem_ppis w)(key := None)\<rparr>)
          else (None, w\<lparr>mem_ppis := (mem_ppis w)
                 (key \<mapsto> q\<lparr>ppi_Meta := (ppi_Meta q)\<lparr>meta_DeletionTimestamp := Some (mem_clock w)\<rparr>\<rparr>)\<rparr>))"

definition mem_create_ppi :: "PrePullImage \<Rightarrow> mem \<Rightarrow> (go_error + PrePullImage) \<times> mem" where
  "mem_create_ppi p w =
     (let key = key_of (ppi_Meta p) in
      if mem_ppis w key \<noteq> None then (Inl already_exists, w)
      else (Inr p, w\<lparr>mem_ppis := (mem_ppis w)(key \<mapsto> p), mem_ppi_keys := key # mem_ppi_keys w\<rparr>))"

definition mem_job :: "mem \<Rightarrow> objkey \<rightharpoonup> Job" where
  "mem_job w key = find (\<lambda>j. key_of (job_Meta j) = key) (mem_jobs w)"

definition mem_create_job :: "Job \<Rightarrow> mem \<Rightarrow> (go_error + Job) \<times> mem" where
  "mem_create_job j w =
     (if mem_job w (key_of (job_Meta j)) \<noteq> None then (Inl already_exists, w)
      else (Inr j, w\<lparr>mem_jobs := j # mem_jobs w\<rparr>))"

text \<open>A job deleted in the foreground stays until its pods are gone; here for ever.\<close>

definition mem_delete_job :: "DeleteOptions \<Rightarrow> objkey \<Rightarrow> mem \<Rightarrow> go_error option \<times> mem" where
  "mem_delete_job opts key w =
     (if mem_job w key = None then (Some not_found, w)
      else if PropagationPolicy opts = Some DeletePropagationForeground then (None, w)
      else (None, w\<lparr>mem_jobs := filter (\<lambda>j. key_of (job_Meta j) \<noteq> key) (mem_jobs w)\<rparr>))"

text \<open>A later job of the same key is shadowed by the first, so it is not listed.\<close>

definition mem_list_job :: "string \<Rightarrow> (string \<rightharpoonup> string) \<Rightarrow> mem \<Rightarrow> (go_error + Job list) \<times> mem" where
  "mem_list_job namespace sel w =
     (Inr (filter (\<lambda>j. meta_Namespace (job_Meta j) = namespace \<and> mem_job w (key_of (job_Meta j)) = Some j \<and>
                     sel \<subseteq>\<^sub>m meta_Labels (job_Meta j)) (mem_jobs w)), w)"

definition mem_list_node :: "node_filter \<Rightarrow> mem \<Rightarrow> (go_error + Node list) \<times> mem" where
  "mem_list_node nf w =
     (Inr (filter (\<lambda>n. case nf of AllNodes \<Rightarrow> True
                       | NodesWithLabels m \<Rightarrow> m \<subseteq>\<^sub>m meta_Labels (node_Meta n)
                       | NodesSelected sel \<Rightarrow> sel (meta_Labels (node_Meta n))) (mem_nodes w)), w)"

definition replace_deployment :: "Deployment \<Rightarrow> Deployment list \<Rightarrow> Deployment list" where
  "replace_deployment d ds = map (\<lambda>e. if key_of (dep_Meta e) = key_of (dep_Meta d) then d else e) ds"

definition mem_deployment :: "mem \<Rightarrow> objkey \<rightharpoonup> Deployment" where
  "mem_deployment w key = find (\<lambda>d. key_of (dep_Meta d) = key) (mem_deployments w)"

definition mem_update_deployment :: "Deployment \<Rightarrow> mem \<Rightarrow> (go_error + Deployment) \<times> mem" where
  "mem_update_deployment d w =
     (if mem_deployment w (key_of (dep_Meta d)) = None then (Inl not_found, w)
      else (Inr d, w\<lparr>mem_deployments := replace_deployment d (mem_deployments w)\<rparr>))"

definition mem_policy :: "mem \<Rightarrow> objkey \<rightharpoonup> PrePullPolicy" where
  "mem_policy w key = find (\<lambda>p. key_of (pol_Meta p) = key) (mem_policies w)"

definition mem_status_update_policy :: "PrePullPolicy \<Rightarrow> mem \<Rightarrow> (go_error + PrePullPolicy) \<times> mem" where
  "mem_status_update_policy p w = (Inr p, w\<lparr>mem_policies :=
     p # filter (\<lambda>q. key_of (pol_Meta q) \<noteq> key_of (pol_Meta p)) (mem_policies w)\<rparr>)"

definition mem_k8s :: "mem k8s" where
  "mem_k8s =
     \<lparr>IsNotFound = (\<lambda>e. error_reason e = ''NotFound''),
      IsAlreadyExists = (\<lambda>e. error_reason e = ''AlreadyExists''),
      ContainsFinalizer = (\<lambda>fs f. f \<in> set fs),
      AddFinalizer = (\<lambda>fs f. if f \<in> set fs then fs else fs @ [f]),
      RemoveFinalizer = (\<lambda>fs f. removeAll f fs),
      SetStatusCondition = (\<lambda>cs c. filter (\<lambda>d. cond_Type d \<noteq> cond_Type c) cs @ [c]),
      LabelSelectorAsSelector = (\<lambda>sel. Inr (\<lambda>l. ls_MatchLabels sel \<subseteq>\<^sub>m l)),
      SelectorFromSet = (\<lambda>m l. m \<subseteq>\<^sub>m l),
      Now = (\<lambda>w. (mem_clock w, w)),
      MapOrder = (\<lambda>ks w. (ks, w)),
      GetPPI = (\<lambda>key w. (mem_get_ppi w key, w)),
      ListPPI = (\<lambda>w. (Inr (found (mem_ppi_keys w) (mem_ppis w)), w)),
      CreatePPI = mem_create_ppi,
      UpdatePPI = mem_update_ppi,
      StatusUpdatePPI = mem_status_update_ppi,
      DeletePPI = mem_delete_ppi,
      GetPolicy = (\<lambda>key w. (mem_get (mem_policy w) key, w)),
      ListPolicy = (\<lambda>w. (Inr (mem_policies w), w)),
      StatusUpdatePolicy = mem_status_update_policy,
      GetDeployment = (\<lambda>key w. (mem_get (mem_deployment w) key, w)),
      ListDeployment = (\<lambda>ns w. (Inr (filter (\<lambda>d. ns = None \<or> ns = Some (meta_Namespace (dep_Meta d)))
                                   (mem_deployments w)), w)),
      UpdateDeployment = mem_update_deployment,
      ClientCreateJob = mem_create_job,
      ClientGetJob = (\<lambda>key w. (mem_get (mem_job w) key, w)),
      ClientDeleteJob = mem_delete_job,
      ClientListJob = mem_list_job,
      ListNode = mem_list_node\<rparr>"

lemma mem_k8s_simps [simp]:
  "IsNotFound mem_k8s e = (error_reason e = ''NotFound'')"
  "IsAlreadyExists mem_k8s e = (error_reason e = ''AlreadyExists'')"
  "ContainsFinalizer mem_k8s fs f = (f \<in> set fs)"
  "AddFinalizer mem_k8s fs f = (if f \<in> set fs then fs else fs @ [f])"
  "RemoveFinalizer mem_k8s fs f = removeAll f fs"
  "SetStatusCondition mem_k8s cs c = filter (\<lambda>d. cond_Type d \<noteq> cond_Type c) cs @ [c]"
  "SelectorFromSet mem_k8s m l = (m \<subseteq>\<^sub>m l)"
  "Now mem_k8s w = (mem_clock w, w)"
  "MapOrder mem_k8s ks w = (ks, w)"
  "GetPPI mem_k8s key w = (mem_get_ppi w key, w)"
  "ListPPI mem_k8s w = (Inr (found (mem_ppi_keys w) (mem_ppis w)), w)"
  "CreatePPI mem_k8s = mem_create_ppi"
  "UpdatePPI mem_k8s = mem_update_ppi"
  "StatusUpdatePPI mem_k8s = mem_status_update_ppi"
  "DeletePPI mem_k8s = mem_delete_ppi"
  "ClientCreateJob mem_k8s = mem_create_job"
  "ClientGetJob mem_k8s key w = (mem_get (mem_job w) key, w)"
  "ClientDeleteJob mem_k8s = mem_delete_job"
  "ClientListJob mem_k8s = mem_list_job"
  "ListNode mem_k8s = mem_list_node"
  "GetPolicy mem_k8s key w = (mem_get (mem_policy w) key, w)"
  "ListPolicy mem_k8s w = (Inr (mem_policies w), w)"
  "StatusUpdatePolicy mem_k8s = mem_status_update_policy"
  "GetDeployment mem_k8s key w = (mem_get (mem_deployment w) key, w)"
  "ListDeployment mem_k8s ns w =
     (Inr (filter (\<lambda>d. ns = None \<or> ns = Some (meta_Namespace (dep_Meta d))) (mem_deployments w)), w)"
  "UpdateDeployment mem_k8s = mem_update_deployment"
  by (simp_all add: mem_k8s_def)

lemma mem_documented: "documented mem_k8s"
  by (auto simp: documented_def)

lemma found_simps [simp]:
  "found [] m = []"
  "found (k # ks) m = (case m k of None \<Rightarrow> found ks m | Some v \<Rightarrow> v # found ks m)"
  by (simp_all add: found_def map_filter_def split: option.splits)

section \<open>Sample objects\<close>

definition sample_resources :: ResourceRequirements where
  "sample_resources = \<lparr>res_Requests = None, res_Limits = None, res_Claims = []\<rparr>"

definition sample_node_status :: "string \<Rightarrow> string \<Rightarrow> NodeStatus" where
  "sample_node_status node status = zero_node_status\<lparr>ns_Node := node, ns_Status := status\<rparr>"

text \<open>An image for the listed nodes, with its finalizer, its phase and its node statuses.\<close>

definition sample_ppi :: "string list \<Rightarrow> string list \<Rightarrow> PrePullImagePhase \<Rightarrow> NodeStatus list \<Rightarrow> PrePullImage" where
  "sample_ppi fins nodes phase nss =
     \<lparr>ppi_Meta = zero_meta\<lparr>meta_Name := ''app'', meta_Namespace := ''prod'', meta_Finalizers := fins\<rparr>,
      ppi_Spec = \<lparr>spec_Image = ''registry/app:v2'', spec_ImageDigest = '''',
        spec_Nodes = \<lparr>nts_Selector = None, nts_Names = nodes\<rparr>, spec_ImagePullSecrets = [],
        spec_Resources = sample_resources,
        spec_Retry = \<lparr>retry_MaxAttempts = 1, retry_BackoffSeconds = 30\<rparr>, spec_Timeout = ''10m''\<rparr>,
      ppi_Status = zero_ppi_status\<lparr>st_Phase := phase, st_NodeStatus := nss\<rparr>\<rparr>"

definition empty_mem :: mem where
  "empty_mem = \<lparr>mem_ppis = Map.empty, mem_ppi_keys = [], mem_jobs = [],
     mem_nodes = [], mem_policies = [], mem_deployments = [], mem_clock = 0, mem_failing = 0\<rparr>"

definition sample_world :: "PrePullImage \<Rightarrow> mem" where
  "sample_world p = empty_mem\<lparr>mem_ppis := [key_of (ppi_Meta p) \<mapsto> p], mem_ppi_keys := [key_of (ppi_Meta p)]\<rparr>"

definition sample_op :: "mem \<Rightarrow> mem op" where
  "sample_op w = \<lparr>op_World = w, op_Limiter = NewRateLimiter 10 2, op_Effects = []\<rparr>"

lemmas sample_defs = sample_resources_def sample_node_status_def sample_ppi_def empty_mem_def
  sample_world_def sample_op_def zero_meta_def zero_node_status_def zero_ppi_status_def
  zero_summary_def key_of_def

lemmas mem_defs = mem_get_def mem_get_ppi_def mem_deployment_def mem_update_deployment_def mem_update_ppi_def mem_status_update_ppi_def mem_delete_ppi_def
  mem_create_ppi_def mem_job_def mem_create_job_def mem_delete_job_def mem_list_job_def mem_list_node_def
  not_found_def already_exists_def conflict_def Let_def

end
