(* ===== verification/GoTimeFacts.thy ===== *)
theory GoTimeFacts
  imports GoTime
begin

text \<open>
  \<open>int64(d.Seconds())\<close> is the exact number of whole seconds for every duration below
  \<open>2 ^ 23\<close> seconds (97 days): the two roundings to \<open>float64\<close> cannot carry into the next
  second, because the last nanosecond before it is more than half a unit away.
\<close>

lemma half_even_bounds:
  assumes "0 < d"
  shows "n div d \<le> half_even n d" and "2 * d * half_even n d \<le> 2 * n + d"
proof -
  show "n div d \<le> half_even n d" by (simp add: half_even_def Let_def)
  have n: "n = d * (n div d) + n mod d" by simp
  show "2 * d * half_even n d \<le> 2 * n + d"
  proof (cases "d < 2 * (n mod d) \<or> (d = 2 * (n mod d) \<and> odd (n div d))")
    case True
    then have "half_even n d = Suc (n div d)" by (simp add: half_even_def Let_def)
    moreover have "d \<le> 2 * (n mod d)" using True by auto
    moreover have "2 * d * Suc (n div d) = 2 * (d * (n div d)) + 2 * d" by simp
    ultimately have "2 * d * half_even n d = 2 * (d * (n div d)) + 2 * d" by simp
    with \<open>d \<le> 2 * (n mod d)\<close> n show ?thesis by linarith
  next
    case False
    then have "half_even n d = n div d" by (simp add: half_even_def Let_def)
    then have "2 * d * half_even n d = 2 * (d * (n div d))" by simp
    with n show ?thesis by linarith
  qed
qed

lemma half_even_one [simp]: "half_even n (Suc 0) = n"
  by (simp add: half_even_def)

lemma half_even_zero [simp]: "half_even 0 d = 0"
  by (simp add: half_even_def)

lemma scale_down_small: "p < 2 ^ 53 * q \<Longrightarrow> scale_down p q = 0"
  by (subst scale_down.simps) simp

lemma scale_up_reaches: "0 < p \<Longrightarrow> 2 ^ 52 * q \<le> p * 2 ^ scale_up p q"
proof (induction p q rule: scale_up.induct)
  case (1 p q)
  show ?case
  proof (cases "2 ^ 52 * q \<le> p")
    case True
    then show ?thesis by (simp add: scale_up.simps)
  next
    case False
    with 1 have "2 ^ 52 * q \<le> 2 * p * 2 ^ scale_up (2 * p) q" by simp
    moreover have "scale_up p q = Suc (scale_up (2 * p) q)" using False 1 by (subst scale_up.simps) simp
    ultimately show ?thesis by (simp add: mult.assoc)
  qed
qed

lemma scale_up_large:
  assumes "0 < p" and "p < 2 ^ j * q" and "j + i \<le> 52"
  shows "i < scale_up p q"
proof (rule ccontr)
  assume "\<not> i < scale_up p q"
  then have "(2 :: nat) ^ scale_up p q \<le> 2 ^ i" by simp
  then have "p * 2 ^ scale_up p q \<le> p * 2 ^ i" by simp
  also have "\<dots> < 2 ^ j * q * 2 ^ i" using assms(2) by simp
  also have "\<dots> = 2 ^ (j + i) * q" by (simp add: power_add)
  also have "\<dots> \<le> 2 ^ 52 * q"
    by (intro mult_right_mono power_increasing) (use assms(3) in simp_all)
  finally show False using scale_up_reaches [OF assms(1), of q] by simp
qed

lemma float64_small: "p < 2 ^ 53 * q \<Longrightarrow> float64 (p, q) = (half_even (p * 2 ^ scale_up p q) q, 2 ^ scale_up p q)"
  by (simp add: float64_def scale_down_small Let_def)

text \<open>The sum of the seconds and the rounded fraction, rounded again.\<close>

lemma frac_trunc_seconds:
  assumes s: "s < 2 ^ 23" and r: "r < Second"
  shows "frac_trunc (float64 (frac_add (float64 (s, 1)) (float64 (r, Second)))) = s"
proof -
  let ?B = "Second"
  define u v where "u = scale_up s 1" and "v = scale_up r ?B"
  define k where "k = half_even (r * 2 ^ v) ?B"
  have B: "0 < ?B" "r < 2 ^ 53 * ?B" using r by (simp_all add: Second_def)
  have f1: "float64 (s, Suc 0) = (s * 2 ^ u, 2 ^ u)" using s by (simp add: float64_small u_def)
  have f2: "float64 (r, ?B) = (k, 2 ^ v)" using B by (simp add: float64_small k_def v_def)
  define p q where "p = s * 2 ^ u * 2 ^ v + k * 2 ^ u" and "q = (2 :: nat) ^ u * 2 ^ v"
  have add: "frac_add (float64 (s, 1)) (float64 (r, ?B)) = (p, q)"
    by (simp add: f1 f2 frac_add_def p_def q_def)
  have kb: "2 * ?B * k \<le> 2 * (r * 2 ^ v) + ?B" using half_even_bounds(2) [OF B(1)] by (simp add: k_def)
  have gap: "2 ^ v < 2 ^ 31 * (2 ^ v - k)" and less: "k < 2 ^ v"
  proof -
    have "(Suc r) * 2 ^ v \<le> ?B * 2 ^ v" using r by (intro mult_right_mono) auto
    then have "2 * ?B * k + 2 * 2 ^ v \<le> 2 * ?B * 2 ^ v + ?B" using kb by (simp add: algebra_simps)
    then have "int (2 * ?B * k + 2 * 2 ^ v) \<le> int (2 * ?B * 2 ^ v + ?B)" by (simp only: of_nat_le_iff)
    then have b: "2 * int ?B * (2 ^ v - int k) \<ge> 2 * 2 ^ v - int ?B"
      by (simp add: algebra_simps)
    have "r = 0 \<or> 52 < v" using scale_up_large [of r 0 ?B 52] r by (auto simp: v_def)
    then have "(2 :: int) ^ v < 2 ^ 31 * (2 ^ v - int k)"
    proof
      assume "r = 0"
      then have "v = 0" "k = 0" by (simp_all add: v_def k_def scale_up.simps)
      then show ?thesis by simp
    next
      assume "52 < v"
      then have "(2 :: int) ^ 53 \<le> 2 ^ v" by (intro power_increasing) auto
      then show ?thesis using b unfolding Second_def by simp
    qed
    then have g: "(2 :: int) ^ v < 2147483648 * (2 ^ v - int k)" by simp
    have "0 < (2 :: int) ^ v" by simp
    from this g have "0 < 2147483648 * (2 ^ v - int k)" by (rule less_trans)
    then have "int k < 2 ^ v" by simp
    then show k: "k < 2 ^ v" by (metis of_nat_less_iff of_nat_numeral of_nat_power)
    have "int (2 ^ v) < int (2147483648 * (2 ^ v - k))" using g k by (simp add: of_nat_diff)
    then show "2 ^ v < 2 ^ 31 * (2 ^ v - k)" by (simp only: of_nat_less_iff) simp
  qed
  show ?thesis
  proof (cases "p = 0")
    case True
    then show ?thesis unfolding add using s p_def
      by (auto simp: float64_def scale_up.simps scale_down.simps Let_def frac_trunc_def)
  next
    case False
    have q: "0 < q" by (simp add: q_def)
    obtain e where e: "2 ^ v = k + e" using less by (metis less_imp_add_positive)
    then have room: "Suc s * q = p + 2 ^ u * (2 ^ v - k)"
      unfolding p_def q_def e by (simp add: algebra_simps)
    have "0 < 2 ^ u * (2 ^ v - k)" using less by simp
    with room have "p < Suc s * q" by linarith
    moreover have "s * q \<le> p" by (simp add: p_def q_def ac_simps)
    ultimately have pq: "s * q \<le> p" "p < Suc s * q" by simp_all
    have "Suc s * q \<le> 2 ^ 23 * q" using s by (intro mult_right_mono) auto
    with pq(2) have big: "p < 2 ^ 23 * q" by (rule less_le_trans)
    define w where "w = scale_up p q"
    have w: "29 < w" unfolding w_def using False big by (intro scale_up_large [of p 23]) auto
    define K where "K = half_even (p * 2 ^ w) q"
    have "s * 2 ^ w = s * q * 2 ^ w div q" using q by simp
    also have "\<dots> \<le> p * 2 ^ w div q" using pq(1) by (intro div_le_mono mult_right_mono) auto
    also have "\<dots> \<le> K" unfolding K_def by (rule half_even_bounds(1) [OF q])
    finally have low: "s * 2 ^ w \<le> K" .
    have "q = 2 ^ u * 2 ^ v" by (fact q_def)
    also have "\<dots> < 2 ^ u * (2 ^ 31 * (2 ^ v - k))" using gap by simp
    also have "\<dots> \<le> 2 ^ u * (2 * 2 ^ w * (2 ^ v - k))"
    proof -
      have "(2 :: nat) ^ 30 \<le> 2 ^ w" using w by (intro power_increasing) auto
      then show ?thesis by (intro mult_left_mono mult_right_mono) auto
    qed
    finally have "q < 2 * 2 ^ w * (2 ^ u * (2 ^ v - k))" by (simp add: ac_simps)
    moreover have "2 * q * K \<le> 2 * (p * 2 ^ w) + q" unfolding K_def by (rule half_even_bounds(2) [OF q])
    moreover have "2 * 2 ^ w * (Suc s * q) = 2 * (p * 2 ^ w) + 2 * 2 ^ w * (2 ^ u * (2 ^ v - k))"
      unfolding room by (simp add: algebra_simps)
    ultimately have "2 * q * K < 2 * 2 ^ w * (Suc s * q)" by linarith
    also have "2 * 2 ^ w * (Suc s * q) = 2 * q * (Suc s * 2 ^ w)"
      by (simp only: mult.assoc mult.commute mult.left_commute)
    finally have high: "K < Suc s * 2 ^ w" using q by simp
    have "K div 2 ^ w = s" using low high by (simp add: div_nat_eqI mult.commute)
    moreover have "float64 (p, q) = (K, 2 ^ w)" using big by (simp add: float64_small K_def w_def)
    ultimately show ?thesis unfolding add by (simp add: frac_trunc_def)
  qed
qed

lemma whole_seconds_exact:
  assumes "\<bar>sint d\<bar> < 2 ^ 23 * 1000000000"
  shows "sint (whole_seconds d) = sgn (sint d) * (\<bar>sint d\<bar> div 1000000000)"
proof -
  let ?a = "nat \<bar>sint d\<bar>"
  have "?a div Second < 2 ^ 23" "?a mod Second < Second"
    using assms by (simp_all add: Second_def less_mult_imp_div_less)
  from frac_trunc_seconds [OF this]
  have f: "frac_trunc (float64 (frac_add (float64 (?a div Second, 1)) (float64 (?a mod Second, Second)))) = ?a div Second" .
  have small: "?a div Second < 2 ^ 23" by fact
  then have sn: "sint (of_nat (?a div Second) :: int64) = int (?a div Second)"
    by (intro sint_of_nat_small) simp
  have i: "int (?a div Second) = \<bar>sint d\<bar> div 1000000000"
    by (simp add: Second_def zdiv_int)
  have neg: "sint (- of_nat (?a div Second) :: int64) = - int (?a div Second)"
  proof -
    have "(- of_nat (?a div Second) :: int64) = word_of_int (- int (?a div Second))" by simp
    also have "sint \<dots> = - int (?a div Second)"
      unfolding sint_sbintrunc' using small by (intro signed_take_bit_int_eq_self) auto
    finally show ?thesis .
  qed
  show ?thesis
    using f sn neg i by (auto simp: whole_seconds_def Let_def sgn_if)
qed

end
