(* ===== verification/CutNames.thy ===== *)
theory CutNames
  imports Sha256
begin

text \<open>
  The contract of the two functions that make object names, \<open>GenerateJobName\<close> of
  \<open>internal/puller/job.go\<close> and \<open>generatePrePullImageName\<close> of
  \<open>internal/controller/deployment_controller.go\<close>: a base name, a dash and eight hash digits,
  cut to 63 bytes. The locale says what such a name tells apart; theories PullJobs and
  DeploymentImages interpret it on the two functions.
\<close>

definition hash8 :: "string \<Rightarrow> string" where
  "hash8 s = take 8 (hex_string (Sum256 s))"

lemma length_hash8 [simp]: "length (hash8 s) = 8"
  by (simp add: hash8_def)

lemma take_dash: "take (Suc n) (xs @ c # h) = take (Suc n) (xs @ [c]) @ take (n - length xs) h"
  by (induction xs arbitrary: n) (auto simp: take_Cons' split: nat.splits)

locale cut_names =
  fixes make :: "string \<Rightarrow> string \<Rightarrow> string" and pre :: string
  assumes make: "make base x = take 63 (pre @ base @ ''-'' @ hash8 x)"
begin

lemma bounded: "length (make base x) \<le> 63"
  by (simp add: make)

text \<open>With room for the whole hash, a name determines its base and the hash.\<close>

lemma whole: "length pre + length base \<le> 54 \<Longrightarrow> make base x = pre @ base @ ''-'' @ hash8 x"
  by (simp add: make)

lemma distinct:
  assumes "length pre + length base \<le> 54" and "length pre + length base' \<le> 54"
  shows "make base x = make base' y \<longleftrightarrow> base = base' \<and> hash8 x = hash8 y"
proof -
  have "base @ ''-'' = base' @ ''-'' \<and> hash8 x = hash8 y"
    if "(base @ ''-'') @ hash8 x = (base' @ ''-'') @ hash8 y"
    using that by (subst (asm) append_eq_append_conv) simp_all
  then show ?thesis using whole [OF assms(1)] whole [OF assms(2)] by auto
qed

text \<open>Otherwise only the digits of the hash that fit count, down to none at all.\<close>

lemma make_dash:
  "make base x = take 63 (pre @ base @ ''-'') @ take (62 - (length pre + length base)) (hash8 x)"
  using take_dash [of 62 "pre @ base" "CHR ''-''" "hash8 x"] by (simp add: make)

lemma same_base:
  "make base x = make base y \<longleftrightarrow>
   take (62 - (length pre + length base)) (hash8 x) = take (62 - (length pre + length base)) (hash8 y)"
  by (simp add: make_dash)

lemma base_only: "62 \<le> length pre + length base \<Longrightarrow> make base x = take 63 (pre @ base @ ''-'')"
  by (simp add: make_dash)

lemma long_base: "63 \<le> length pre + length base \<Longrightarrow> make base x = take 63 (pre @ base)"
  by (simp add: make)

end

end
