(* ===== verification/PullJobs.thy ===== *)
theory PullJobs
  imports ImageController MemoryClient GoTimeFacts CutNames
begin

text \<open>
  Properties of the pull jobs of theory Puller: when job names are distinct and when they are
  not, the deadline that a timeout becomes, and what the cleanup of an object's jobs removes.
\<close>

section \<open>Job names\<close>

lemma hashNodeName_hash8: "hashNodeName n = hash8 n"
  by (simp add: hashNodeName_def hash8_def)

interpretation job_name: cut_names GenerateJobName "JobNamePrefix @ ''-''"
  by unfold_locales (simp add: GenerateJobName_def hashNodeName_hash8 Let_def)

lemma length_job_prefix [simp]: "length JobNamePrefix = 10"
  by (simp add: JobNamePrefix_def)

text \<open>
  (C15) Job names fit a Kubernetes label (63 bytes). For objects whose names have at most 43
  bytes they are as good as the hash: two of them get the same job name only for the same
  object name and two node names with the same eight hash digits. Beyond 43 bytes each byte of
  the object name costs a digit: two nodes of an object with a name of 46 bytes share a job as
  soon as the first five digits of their hashes agree.
\<close>

theorem job_names_distinct:
  "length (GenerateJobName p n) \<le> 63 \<and>
   (length p \<le> 43 \<and> length p' \<le> 43 \<longrightarrow>
     (GenerateJobName p n = GenerateJobName p' n' \<longleftrightarrow> p = p' \<and> hashNodeName n = hashNodeName n')) \<and>
   (GenerateJobName p n = GenerateJobName p n' \<longleftrightarrow>
     take (51 - length p) (hashNodeName n) = take (51 - length p) (hashNodeName n'))"
  using job_name.bounded [of p n] job_name.distinct [of p p' n n'] job_name.same_base [of p n n']
  by (simp add: hashNodeName_hash8)

lemma job_names_distinct_witness:
  "length (GenerateJobName ''web-1a2b3c4d'' ''n1'') \<le> 63 \<and>
   GenerateJobName ''web-1a2b3c4d'' ''n1'' \<noteq> GenerateJobName ''api-1a2b3c4d'' ''n1''"
  using job_names_distinct [of "''web-1a2b3c4d''" "''n1''" "''api-1a2b3c4d''" "''n1''"] by simp


section \<open>The deadline of a job\<close>

text \<open>
  (C36) The timeout of an object becomes the deadline of its jobs, cut to whole seconds towards
  zero; a text that is not a duration gives ten minutes. So a timeout below one second gives
  the deadline 0, and a negative one a negative deadline. (Timeouts are taken up to 97 days,
  where the detour over \<open>float64\<close> is exact.)
\<close>

theorem timeout_becomes_deadline:
  assumes "\<And>t. ParseDuration (spec_Timeout (ppi_Spec p)) = Some t \<Longrightarrow> \<bar>sint t\<bar> < 2 ^ 23 * 1000000000"
  shows "\<exists>d. jspec_ActiveDeadlineSeconds (job_Spec (pull_job p n)) = Some d \<and>
    sint d = (case ParseDuration (spec_Timeout (ppi_Spec p)) of
        None \<Rightarrow> 600
      | Some t \<Rightarrow> sgn (sint t) * (\<bar>sint t\<bar> div 1000000000))"
proof (cases "ParseDuration (spec_Timeout (ppi_Spec p))")
  case None
  then have "pull_timeout (spec_Timeout (ppi_Spec p)) = 600000000000"
    by (simp add: pull_timeout_def time_units)
  with None whole_seconds_exact [of "600000000000"] show ?thesis by (simp add: pull_job_def)
next
  case (Some t)
  with whole_seconds_exact [of t] assms show ?thesis by (simp add: pull_job_def pull_timeout_def)
qed

lemma ten_minutes: "ParseDuration ''10m'' = Some 600000000000"
  by (simp add: ParseDuration_def parse_components.simps parse_component_def parse_number_def
      parse_unit_def component_value_def unitMap_def is_digit_def digit_value_def unit_char_def
      u64_def time_units)

lemma timeout_becomes_deadline_witness:
  "\<exists>d. jspec_ActiveDeadlineSeconds (job_Spec (pull_job (sample_ppi [] [] [] []) ''n1'')) = Some d \<and> sint d = 600"
  using timeout_becomes_deadline [of "sample_ppi [] [] [] []" "''n1''"]
  by (simp add: sample_ppi_def ten_minutes)

section \<open>The API server as a store of jobs\<close>

text \<open>
  \<open>jobs w\<close> is the content of the API server. A name can be used once; a delete with
  background propagation removes the job at once; a list returns the jobs of the namespace whose labels the selector matches.
\<close>

abbreviation background :: DeleteOptions where
  "background \<equiv> \<lparr>PropagationPolicy = Some DeletePropagationBackground\<rparr>"

definition job_store :: "'w k8s \<Rightarrow> ('w \<Rightarrow> objkey \<rightharpoonup> Job) \<Rightarrow> bool" where
  "job_store k jobs \<longleftrightarrow> documented k \<and> (\<forall>w. jobs (snd (Now k w)) = jobs w) \<and>
     (\<forall>w w' j j'. ClientCreateJob k j w = (Inr j', w') \<longrightarrow>
        jobs w (key_of (job_Meta j)) = None \<and> key_of (job_Meta j') = key_of (job_Meta j) \<and>
        jobs w' = (jobs w)(key_of (job_Meta j) \<mapsto> j')) \<and>
     (\<forall>w w' j e. ClientCreateJob k j w = (Inl e, w') \<longrightarrow>
        jobs w' = jobs w \<and> (IsAlreadyExists k e \<longrightarrow> jobs w (key_of (job_Meta j)) \<noteq> None)) \<and>
     (\<forall>w w' key. ClientDeleteJob k background key w = (None, w') \<longrightarrow> jobs w' = (jobs w)(key := None)) \<and>
     (\<forall>w w' opts key e. ClientDeleteJob k opts key w = (Some e, w') \<longrightarrow> jobs w' = jobs w) \<and>
     (\<forall>w w' ns sel js. ClientListJob k ns sel w = (Inr js, w') \<longrightarrow> jobs w' = jobs w \<and>
        (\<forall>j. j \<in> set js \<longleftrightarrow> (\<exists>name. jobs w (ns, name) = Some j) \<and> sel \<subseteq>\<^sub>m meta_Labels (job_Meta j))) \<and>
     (\<forall>w w' ns sel e. ClientListJob k ns sel w = (Inl e, w') \<longrightarrow> jobs w' = jobs w)"

lemma job_store_exists:
  "job_store k jobs \<Longrightarrow> IsAlreadyExists k (WrapError x e) = IsAlreadyExists k e"
  "job_store k jobs \<Longrightarrow> jobs (snd (Now k w)) = jobs w"
  by (simp_all add: job_store_def documented_def)

lemma job_store_calls:
  "job_store k jobs \<Longrightarrow> ClientCreateJob k j w = (Inr j', w') \<Longrightarrow>
     jobs w (key_of (job_Meta j)) = None \<and> key_of (job_Meta j') = key_of (job_Meta j) \<and>
     jobs w' = (jobs w)(key_of (job_Meta j) \<mapsto> j')"
  "job_store k jobs \<Longrightarrow> ClientCreateJob k j w = (Inl e, w') \<Longrightarrow>
     jobs w' = jobs w \<and> (IsAlreadyExists k e \<longrightarrow> jobs w (key_of (job_Meta j)) \<noteq> None)"
  "job_store k jobs \<Longrightarrow> ClientDeleteJob k background key w = (None, w') \<Longrightarrow> jobs w' = (jobs w)(key := None)"
  "job_store k jobs \<Longrightarrow> ClientDeleteJob k opts key w = (Some er, w') \<Longrightarrow> jobs w' = jobs w"
  "job_store k jobs \<Longrightarrow> ClientListJob k ns sel w = (Inr js, w') \<Longrightarrow> jobs w' = jobs w \<and>
     (\<forall>j. j \<in> set js \<longleftrightarrow> (\<exists>name. jobs w (ns, name) = Some j) \<and> sel \<subseteq>\<^sub>m meta_Labels (job_Meta j))"
  "job_store k jobs \<Longrightarrow> ClientListJob k ns sel w = (Inl e, w') \<Longrightarrow> jobs w' = jobs w"
  unfolding job_store_def by metis+

definition job_key :: "PrePullImage \<Rightarrow> string \<Rightarrow> objkey" where
  "job_key p n = (OperatorNamespace, GenerateJobName (ppi_Name p) n)"

lemma pull_job_key [simp]: "key_of (job_Meta (pull_job p n)) = job_key p n"
  by (simp add: pull_job_def key_of_def job_key_def)

text \<open>
  What \<open>startPullJob\<close> leaves: on success there is a job of the node's name, new or not, and the
  node is marked as pulling with it; an existing job is never replaced.
\<close>

lemma startPullJob_store:
  assumes "job_store k jobs" and "startPullJob k p ns w = ((e, ns'), w')"
  shows "(e = None \<longrightarrow> jobs w' (job_key p (ns_Node ns)) \<noteq> None \<and> ns_Status ns' = NodePullStatusPulling \<and>
      ns_JobName ns' = GenerateJobName (ppi_Name p) (ns_Node ns)) \<and>
    (jobs w (job_key p (ns_Node ns)) \<noteq> None \<longrightarrow> jobs w' = jobs w)"
proof -
  let ?j = "pull_job p (ns_Node ns)"
  obtain r w1 where c: "ClientCreateJob k ?j w = (r, w1)" by (metis prod.collapse)
  obtain t w2 where n: "Now k w1 = (t, w2)" by (metis prod.collapse)
  have w2: "jobs w2 = jobs w1" using job_store_exists(2) [OF assms(1), of w1] n by simp
  show ?thesis
  proof (cases r)
    case (Inl err)
    with c job_store_calls(2) [OF assms(1)] have "jobs w1 = jobs w"
      "IsAlreadyExists k err \<longrightarrow> jobs w (job_key p (ns_Node ns)) \<noteq> None" by fastforce+
    with assms(2) c n w2 Inl show ?thesis
      by (auto simp: startPullJob_def CreatePullJob_def job_store_exists(1) [OF assms(1)] mark_pulling_def
          split: if_splits)
  next
    case (Inr j)
    with c job_store_calls(1) [OF assms(1)] have "jobs w (job_key p (ns_Node ns)) = None"
      "key_of (job_Meta j) = job_key p (ns_Node ns)" "jobs w1 (job_key p (ns_Node ns)) = Some j" by fastforce+
    with assms(2) c n w2 Inr show ?thesis
      by (auto simp: startPullJob_def CreatePullJob_def mark_pulling_def job_key_def key_of_def)
  qed
qed


section \<open>Objects with long names\<close>

lemma startPullJob_taken:
  assumes "job_store k jobs" and "jobs w (job_key p (ns_Node ns)) \<noteq> None"
    and "startPullJob k p ns w = ((e, ns'), w')"
  shows "\<exists>err w1. ClientCreateJob k (pull_job p (ns_Node ns)) w = (Inl err, w1) \<and>
    (if IsAlreadyExists k err
     then e = None \<and> ns_Status ns' = NodePullStatusPulling \<and>
       ns_JobName ns' = GenerateJobName (ppi_Name p) (ns_Node ns)
     else e = Some (WrapError ''failed to create job: '' err) \<and> ns' = ns)"
proof -
  obtain c w1 where c: "ClientCreateJob k (pull_job p (ns_Node ns)) w = (c, w1)" by (metis surj_pair)
  with job_store_calls(1) [OF assms(1)] assms(2) obtain err where "c = Inl err"
    by (cases c) fastforce+
  with c assms(3) job_store_exists(1) [OF assms(1)] show ?thesis
    by (auto simp: startPullJob_def CreatePullJob_def mark_pulling_def split: prod.splits if_splits)
qed

text \<open>
  (C14) For an object whose name has 51 bytes or more the cut to 63 removes the hash: every node
  gets the same job name. Once the pull on one node has started, starting it on any other
  node creates no job. The create call always fails; when its error is that the name is taken,
  which is the API server's answer to a taken name, the start reports success: both nodes are
  then marked as pulling with the one job of the first node, and will be completed by it
  although only that node pulls the image. Any other error is passed on.
\<close>

theorem long_names_share_one_job:
  assumes "job_store k jobs" and "51 \<le> length (ppi_Name p)"
    and "startPullJob k p ns w = ((None, ns'), w')"
    and "startPullJob k p ms w' = ((e, ms'), w'')"
  shows "jobs w'' = jobs w' \<and>
    (\<exists>err w1. ClientCreateJob k (pull_job p (ns_Node ms)) w' = (Inl err, w1) \<and>
      (if IsAlreadyExists k err
       then e = None \<and> ns_Status ms' = NodePullStatusPulling \<and> ns_JobName ms' = ns_JobName ns'
       else e = Some (WrapError ''failed to create job: '' err) \<and> ms' = ms))"
proof -
  have same: "GenerateJobName (ppi_Name p) (ns_Node ms) = GenerateJobName (ppi_Name p) (ns_Node ns)"
    using assms(2) by (simp add: job_name.base_only)
  then have key: "job_key p (ns_Node ms) = job_key p (ns_Node ns)" by (simp add: job_key_def)
  note first = startPullJob_store [OF assms(1,3)]
  then have "jobs w' (job_key p (ns_Node ms)) \<noteq> None" using key by simp
  from startPullJob_taken [OF assms(1) this assms(4)] obtain err w1 where
    "ClientCreateJob k (pull_job p (ns_Node ms)) w' = (Inl err, w1)"
    "if IsAlreadyExists k err
     then e = None \<and> ns_Status ms' = NodePullStatusPulling \<and>
       ns_JobName ms' = GenerateJobName (ppi_Name p) (ns_Node ms)
     else e = Some (WrapError ''failed to create job: '' err) \<and> ms' = ms" by blast
  with startPullJob_store [OF assms(1,4)] first same key show ?thesis by auto
qed

lemma find_filter:
  "find (\<lambda>x. f x = a) (filter (\<lambda>x. f x \<noteq> b) xs) = (if a = b then None else find (\<lambda>x. f x = a) xs)"
  by (induction xs) auto

lemma find_key_Some: "find (\<lambda>x. f x = a) xs = Some x \<Longrightarrow> f x = a \<and> x \<in> set xs"
  by (induction xs) (auto split: if_splits)

lemma mem_job_key: "mem_job w key = Some j \<Longrightarrow> key_of (job_Meta j) = key \<and> j \<in> set (mem_jobs w)"
  unfolding mem_job_def by (rule find_key_Some)

lemma mem_job_listed:
  "(\<exists>name. mem_job w (ns, name) = Some j) \<longleftrightarrow>
   j \<in> set (mem_jobs w) \<and> meta_Namespace (job_Meta j) = ns \<and> mem_job w (key_of (job_Meta j)) = Some j"
proof
  assume "\<exists>name. mem_job w (ns, name) = Some j"
  then obtain name where n: "mem_job w (ns, name) = Some j" by blast
  from mem_job_key [OF n] n show "j \<in> set (mem_jobs w) \<and> meta_Namespace (job_Meta j) = ns \<and>
      mem_job w (key_of (job_Meta j)) = Some j" by (simp add: key_of_def)
qed (auto simp: key_of_def)

lemma mem_job_store: "job_store mem_k8s mem_job"
proof -
  have "mem_create_job j w = (Inr j', w') \<Longrightarrow> mem_job w (key_of (job_Meta j)) = None \<and>
      key_of (job_Meta j') = key_of (job_Meta j) \<and> mem_job w' = (mem_job w)(key_of (job_Meta j) \<mapsto> j')" for j w j' w'
    by (auto simp: mem_create_job_def mem_job_def fun_eq_iff split: if_splits)
  moreover have "mem_create_job j w = (Inl e, w') \<Longrightarrow> mem_job w' = mem_job w \<and>
      (error_reason e = ''AlreadyExists'' \<longrightarrow> mem_job w (key_of (job_Meta j)) \<noteq> None)" for j w e w'
    by (auto simp: mem_create_job_def split: if_splits)
  moreover have "mem_delete_job background key w = (None, w') \<Longrightarrow> mem_job w' = (mem_job w)(key := None)" for key w w'
    by (auto simp: mem_delete_job_def mem_job_def find_filter fun_eq_iff split: if_splits)
  moreover have "mem_delete_job opts key w = (Some e, w') \<Longrightarrow> mem_job w' = mem_job w" for opts key w e w'
    by (auto simp: mem_delete_job_def split: if_splits)
  moreover have "mem_list_job ns sel w = (Inr js, w') \<Longrightarrow> mem_job w' = mem_job w \<and>
      (\<forall>j. j \<in> set js \<longleftrightarrow> (\<exists>name. mem_job w (ns, name) = Some j) \<and> sel \<subseteq>\<^sub>m meta_Labels (job_Meta j))" for ns sel w js w'
    by (auto simp: mem_list_job_def mem_job_listed)
  moreover have "mem_list_job ns sel w \<noteq> (Inl e, w')" for ns sel w e w'
    by (simp add: mem_list_job_def)
  ultimately show ?thesis
    unfolding job_store_def by (simp add: mem_documented)
qed

definition long_ppi :: PrePullImage where
  "long_ppi = (let p = sample_ppi [] [''n1'', ''n2''] [] [] in
     p\<lparr>ppi_Meta := (ppi_Meta p)\<lparr>meta_Name := replicate 52 (CHR ''a'')\<rparr>\<rparr>)"

lemma mem_start: "\<exists>ns' w'. startPullJob mem_k8s p ns w = ((None, ns'), w')"
proof (cases "mem_job w (job_key p (ns_Node ns))")
  case None
  then show ?thesis by (simp add: startPullJob_def CreatePullJob_def mem_create_job_def)
next
  case (Some j)
  then show ?thesis by (simp add: startPullJob_def CreatePullJob_def mem_create_job_def already_exists_def)
qed

lemma long_names_share_one_job_witness:
  "\<exists>w' w'' ns' ms'.
     startPullJob mem_k8s long_ppi (sample_node_status ''n1'' NodePullStatusPending) empty_mem = ((None, ns'), w') \<and>
     startPullJob mem_k8s long_ppi (sample_node_status ''n2'' NodePullStatusPending) w' = ((None, ms'), w'') \<and>
     mem_job w'' = mem_job w' \<and> ns_JobName ms' = ns_JobName ns'"
proof -
  let ?ns = "sample_node_status ''n1'' NodePullStatusPending"
  let ?ms = "sample_node_status ''n2'' NodePullStatusPending"
  have long: "51 \<le> length (ppi_Name long_ppi)" by (simp add: long_ppi_def Let_def)
  obtain ns' w' where 1: "startPullJob mem_k8s long_ppi ?ns empty_mem = ((None, ns'), w')"
    using mem_start by blast
  obtain ms' w'' where 2: "startPullJob mem_k8s long_ppi ?ms w' = ((None, ms'), w'')"
    using mem_start by blast
  from long_names_share_one_job [OF mem_job_store long 1 2] 1 2 show ?thesis
    by (auto split: if_splits)
qed

section \<open>Cleaning up\<close>

lemma single_map_le: "[a \<mapsto> b] \<subseteq>\<^sub>m m \<longleftrightarrow> m a = Some b"
  by (auto simp: map_le_def)

lemma delete_jobs_result:
  assumes "job_store k jobs" and "delete_jobs k js w = (None, w')"
  shows "jobs w' = (\<lambda>key. if key \<in> (\<lambda>j. (OperatorNamespace, meta_Name (job_Meta j))) ` set js
    then None else jobs w key)"
  using assms(2)
proof (induction js arbitrary: w)
  case (Cons j js)
  then obtain w1 where d: "ClientDeleteJob k background (OperatorNamespace, meta_Name (job_Meta j)) w = (None, w1)"
    and r: "delete_jobs k js w1 = (None, w')"
    by (auto simp: DeleteJob_def split: prod.splits option.splits)
  from Cons.IH [OF r] job_store_calls(3) [OF assms(1) d] show ?case by (auto simp: fun_eq_iff)
qed simp

text \<open>
  (C13) When the cleanup of an object's jobs succeeds, it has removed from the operator's
  namespace exactly the jobs that carry the label with the object's name, and no other. The
  label has no namespace: the jobs of an object of the same name in another namespace are
  among them.
\<close>

theorem cleanup_removes_exactly_labelled_jobs:
  assumes "job_store k jobs" and "\<And>key j. jobs w key = Some j \<Longrightarrow> key_of (job_Meta j) = key"
    and "CleanupJobsForPrePullImage k name w = (None, w')"
  shows "jobs w' (ns, n) =
    (case jobs w (ns, n) of
       None \<Rightarrow> None
     | Some j \<Rightarrow> if ns = OperatorNamespace \<and> meta_Labels (job_Meta j) LabelPrePullImage = Some name
         then None else Some j)"
proof -
  obtain js w1 where l: "ClientListJob k OperatorNamespace [LabelPrePullImage \<mapsto> name] w = (Inr js, w1)"
    and d: "delete_jobs k js w1 = (None, w')"
    using assms(3) by (auto simp: CleanupJobsForPrePullImage_def ListJobsForPrePullImage_def
        split: prod.splits sum.splits)
  have js: "j \<in> set js \<longleftrightarrow> (\<exists>name. jobs w (OperatorNamespace, name) = Some j) \<and>
      meta_Labels (job_Meta j) LabelPrePullImage = Some name" for j
    using job_store_calls(5) [OF assms(1) l] by (simp add: single_map_le)
  have "(ns, n) \<in> (\<lambda>j. (OperatorNamespace, meta_Name (job_Meta j))) ` set js \<longleftrightarrow>
      (\<exists>j. jobs w (ns, n) = Some j \<and> ns = OperatorNamespace \<and>
        meta_Labels (job_Meta j) LabelPrePullImage = Some name)"
  proof -
    have name: "meta_Name (job_Meta j) = m" if "jobs w (OperatorNamespace, m) = Some j" for j m
      using assms(2) [OF that] by (simp add: key_of_def)
    show ?thesis
    proof
      assume "(ns, n) \<in> (\<lambda>j. (OperatorNamespace, meta_Name (job_Meta j))) ` set js"
      then obtain j where j: "j \<in> set js" "ns = OperatorNamespace" "n = meta_Name (job_Meta j)" by blast
      from j(1) js obtain m where "jobs w (OperatorNamespace, m) = Some j" by blast
      with name j js show "\<exists>j. jobs w (ns, n) = Some j \<and> ns = OperatorNamespace \<and>
        meta_Labels (job_Meta j) LabelPrePullImage = Some name" by metis
    qed (use js name in blast)
  qed
  moreover have "jobs w' (ns, n) =
      (if (ns, n) \<in> (\<lambda>j. (OperatorNamespace, meta_Name (job_Meta j))) ` set js then None else jobs w (ns, n))"
    using delete_jobs_result [OF assms(1) d] job_store_calls(5) [OF assms(1) l] by simp
  ultimately show ?thesis by (cases "jobs w (ns, n)") simp_all
qed


text \<open>A job of the object \<open>app\<close> in the namespace \<open>test\<close>, removed for the one in \<open>prod\<close>.\<close>

definition twin_ppi :: PrePullImage where
  "twin_ppi = (sample_ppi [] [] [] [])\<lparr>ppi_Meta := zero_meta\<lparr>meta_Name := ''app'', meta_Namespace := ''test''\<rparr>\<rparr>"

definition twin_world :: mem where
  "twin_world = empty_mem\<lparr>mem_jobs := [pull_job twin_ppi ''n2'']\<rparr>"

lemma pull_job_meta:
  "meta_Name (job_Meta (pull_job p n)) = GenerateJobName (ppi_Name p) n"
  "meta_Namespace (job_Meta (pull_job p n)) = OperatorNamespace"
  "meta_Labels (job_Meta (pull_job p n)) = job_labels (ppi_Name p) n"
  by (simp_all add: pull_job_def)

lemma twin_job: "mem_job twin_world (OperatorNamespace, GenerateJobName ''app'' ''n2'') = Some (pull_job twin_ppi ''n2'')"
  by (simp add: mem_job_def twin_world_def job_key_def twin_ppi_def)

lemma twin_cleanup: "\<exists>w'. CleanupJobsForPrePullImage mem_k8s ''app'' twin_world = (None, w')"
proof -
  have "mem_list_job OperatorNamespace [LabelPrePullImage \<mapsto> ''app''] twin_world
      = (Inr [pull_job twin_ppi ''n2''], twin_world)"
    using twin_job
    by (auto simp: mem_list_job_def twin_world_def pull_job_meta job_key_def job_labels_def twin_ppi_def
        map_le_def LabelPrePullImage_def LabelNode_def LabelManagedBy_def)
  then show ?thesis
    using twin_job by (simp add: CleanupJobsForPrePullImage_def ListJobsForPrePullImage_def DeleteJob_def
        mem_delete_job_def pull_job_meta twin_ppi_def)
qed

lemma cleanup_removes_exactly_labelled_jobs_witness:
  "\<exists>w'. CleanupJobsForPrePullImage mem_k8s ''app'' twin_world = (None, w') \<and>
     mem_job twin_world (OperatorNamespace, GenerateJobName ''app'' ''n2'') \<noteq> None \<and>
     mem_job w' (OperatorNamespace, GenerateJobName ''app'' ''n2'') = None"
proof -
  obtain w' where c: "CleanupJobsForPrePullImage mem_k8s ''app'' twin_world = (None, w')"
    using twin_cleanup by blast
  have wf: "mem_job w key = Some j \<Longrightarrow> key_of (job_Meta j) = key" for w key j
    using mem_job_key by blast
  have "meta_Labels (job_Meta (pull_job twin_ppi ''n2'')) LabelPrePullImage = Some ''app''"
    by (simp add: pull_job_meta job_labels_def twin_ppi_def LabelPrePullImage_def LabelNode_def LabelManagedBy_def)
  with cleanup_removes_exactly_labelled_jobs [OF mem_job_store wf c] c twin_job show ?thesis by simp
qed

end
