(* ===== verification/ImagePhases.thy ===== *)
theory ImagePhases
  imports ImageNodes MemoryClient
begin

text \<open>
  Properties of the handlers of theory ImageController: what \<open>handleInProgress\<close> writes back
  (slots, life cycle, summary, phase), when it asks to be called again, the retention of
  finished objects and the release of slots on deletion. \<open>progress\<close> is what
  \<open>handleInProgress\<close> computes before the status update.
\<close>

section \<open>Frames\<close>

lemma set_Status_simps [simp]:
  "ppi_Meta (set_Status f p) = ppi_Meta p"
  "ppi_Spec (set_Status f p) = ppi_Spec p"
  "ppi_Status (set_Status f p) = f (ppi_Status p)"
  by (simp_all add: set_Status_def)

lemma setCondition_frame:
  assumes "setCondition_PPI k ty st re ms p s = (p', s')"
  shows "ppi_Meta p' = ppi_Meta p \<and> ppi_Spec p' = ppi_Spec p \<and>
    (\<exists>cs. ppi_Status p' = (ppi_Status p)\<lparr>st_Conditions := cs\<rparr>) \<and>
    op_Limiter s' = op_Limiter s \<and> op_Effects s' = op_Effects s"
  using assms by (auto simp: setCondition_PPI_def Let_def split: prod.splits dest: world_eqD)

text \<open>What \<open>conclude\<close> decides from the counters.\<close>

lemma conclude_frame:
  assumes "conclude k c p s = (p', s')"
  shows "ppi_Meta p' = ppi_Meta p \<and> ppi_Spec p' = ppi_Spec p \<and> ppi_Nodes p' = ppi_Nodes p \<and>
    st_Summary (ppi_Status p') = st_Summary (ppi_Status p) \<and>
    st_StartTime (ppi_Status p') = st_StartTime (ppi_Status p) \<and>
    op_Limiter s' = op_Limiter s \<and>
    (\<exists>es. op_Effects s' = op_Effects s @ es \<and> active_pulls es = 0)"
proof (cases "t_pending c = 0 \<and> t_pulling c = 0")
  case True
  obtain t s1 where w: "world (Now k) s = (t, s1)" by (metis prod.collapse)
  note fr = world_eqD [OF w]
  let ?p1 = "set_Status (\<lambda>st. st\<lparr>st_CompletionTime := Some t\<rparr>) p"
  show ?thesis
  proof (cases "0 <s t_failed c")
    case failed: True
    with assms True w have "conclude_failed k c ?p1 s1 = (p', s')"
      by (simp add: conclude_def)
    with fr show ?thesis
      by (auto simp: conclude_failed_def Let_def event_PPI_def split: prod.splits
          dest!: setCondition_frame)
  next
    case False
    with assms True w have "conclude_completed k c ?p1 s1 = (p', s')"
      by (simp add: conclude_def)
    with fr show ?thesis
      by (auto simp: conclude_completed_def Let_def event_PPI_def split: prod.splits
          dest!: setCondition_frame)
  qed
next
  case False
  with assms show ?thesis
    by (auto simp: conclude_def dest!: setCondition_frame)
qed

lemma conclude_phase:
  assumes "conclude k c p s = (p', s')"
  shows "ppi_Phase p' =
      (if t_pending c = 0 \<and> t_pulling c = 0
       then if 0 <s t_failed c then PrePullImagePhaseFailed else PrePullImagePhaseCompleted
       else ppi_Phase p) \<and>
    st_CompletionTime (ppi_Status p') =
      (if t_pending c = 0 \<and> t_pulling c = 0 then Some (fst (Now k (op_World s)))
       else st_CompletionTime (ppi_Status p))"
proof (cases "t_pending c = 0 \<and> t_pulling c = 0")
  case True
  obtain t s1 where w: "world (Now k) s = (t, s1)" by (metis prod.collapse)
  then have t: "t = fst (Now k (op_World s))" by (metis fst_conv world_frame(4))
  show ?thesis
    using assms True w t
    by (auto simp: conclude_def conclude_failed_def conclude_completed_def Let_def
        split: prod.splits if_splits dest!: setCondition_frame)
next
  case False
  with assms show ?thesis
    by (auto simp: conclude_def dest!: setCondition_frame)
qed

lemma progress_split:
  assumes "progress k p s = (p', c, s')"
  obtains nss s1 s2 where "handleNodes k p (ppi_Nodes p) zero_tally s = (nss, c, s1)"
    and "s2 = SetQueueDepth (sint (t_pending c)) s1"
    and "conclude k c (set_Status (\<lambda>st. st\<lparr>st_NodeStatus := nss, st_Summary := summary_of nss c\<rparr>) p) s2
           = (p', s')"
    and "ppi_Nodes p' = nss"
proof -
  obtain nss c' s1 where 1: "handleNodes k p (ppi_Nodes p) zero_tally s = (nss, c', s1)"
    by (metis prod_cases3)
  with assms have "c' = c" and
    2: "conclude k c (set_Status (\<lambda>st. st\<lparr>st_NodeStatus := nss, st_Summary := summary_of nss c\<rparr>) p)
          (SetQueueDepth (sint (t_pending c)) s1) = (p', s')"
    by (auto simp: progress_def Let_def split: prod.splits)
  with 1 conclude_frame [OF 2] that show ?thesis by simp
qed

lemma progress_frame:
  assumes "progress k p s = (p', c, s')"
  shows "ppi_Meta p' = ppi_Meta p \<and> ppi_Spec p' = ppi_Spec p"
  using assms by (rule progress_split) (auto dest!: conclude_frame)

section \<open>Slots\<close>

context slot_account begin

lemma progress_slots:
  assumes "progress k p s = (p', c, s')"
    and "holds (op_Limiter s) (R + pulling_slots (ppi_Nodes p))"
  shows "holds (op_Limiter s') (R + pulling_slots (ppi_Nodes p')) \<and>
    active_pulls (op_Effects s') - active_pulls (op_Effects s) =
      int (size (pulling_slots (ppi_Nodes p'))) - int (size (pulling_slots (ppi_Nodes p)))"
  using assms(1)
proof (rule progress_split)
  fix nss s1 s2
  assume 1: "handleNodes k p (ppi_Nodes p) zero_tally s = (nss, c, s1)"
    and 2: "s2 = SetQueueDepth (sint (t_pending c)) s1"
    and 3: "conclude k c (set_Status (\<lambda>st. st\<lparr>st_NodeStatus := nss, st_Summary := summary_of nss c\<rparr>) p) s2
           = (p', s')"
    and 4: "ppi_Nodes p' = nss"
  show ?thesis
    using handleNodes_slots [OF 1 assms(2)] conclude_frame [OF 3] 2 4
    by (auto simp: SetQueueDepth_def)
qed

end

text \<open>
  (C3) A pass over an object in progress keeps the rate limiter in step with the object: if
  before it the slots in use are those of the object's pulling nodes and some others \<open>R\<close>,
  then after it they are those of the pulling nodes of the status it writes and the same
  \<open>R\<close>; and the active-pulls gauge has moved by the change in their number.
\<close>

theorem progress_keeps_slots:
  assumes "progress k p s = (p', c, s')"
    and "rl_holds (op_Limiter s) (R + pulling_slots (ppi_Nodes p))"
  shows "rl_holds (op_Limiter s') (R + pulling_slots (ppi_Nodes p')) \<and>
    active_pulls (op_Effects s') - active_pulls (op_Effects s) =
      int (size (pulling_slots (ppi_Nodes p'))) - int (size (pulling_slots (ppi_Nodes p)))"
  using assms by (rule exact.progress_slots)

text \<open>A sample pass: one pending node, one pulling node whose job is gone, one done.\<close>

definition demo_ppi :: PrePullImage where
  "demo_ppi = sample_ppi [FinalizerName] [''n1'', ''n2'', ''n3''] PrePullImagePhaseInProgress
     [sample_node_status ''n1'' NodePullStatusPending,
      sample_node_status ''n2'' NodePullStatusPulling\<lparr>ns_StartedAt := Some 0\<rparr>,
      sample_node_status ''n3'' NodePullStatusCompleted\<lparr>ns_CompletedAt := Some 0\<rparr>]"

definition demo_op :: "mem op" where
  "demo_op = (sample_op (sample_world demo_ppi))
     \<lparr>op_Limiter := snd (TryAcquire (NewRateLimiter 10 2) ''n2'')\<rparr>"

lemma demo_holds: "rl_holds (op_Limiter demo_op) ({#} + pulling_slots (ppi_Nodes demo_ppi))"
  using TryAcquire_holds [OF rl_holds_new new_limiter_first, of 10 2 "''n2''"]
  by (simp add: demo_op_def demo_ppi_def sample_defs)

lemma demo_nodes:
  "length (ppi_Nodes demo_ppi) = 3"
  "\<forall>ns \<in> set (ppi_Nodes demo_ppi). node_ok (ppi_MaxAttempts demo_ppi) ns"
  by (simp_all add: demo_ppi_def sample_defs node_ok_def)

lemma progress_keeps_slots_witness:
  "\<exists>p' c s'. progress mem_k8s demo_ppi demo_op = (p', c, s') \<and>
     rl_holds (op_Limiter s') (pulling_slots (ppi_Nodes p'))"
proof -
  obtain p' c s' where h: "progress mem_k8s demo_ppi demo_op = (p', c, s')" by (metis prod_cases3)
  from progress_keeps_slots [OF h demo_holds] h show ?thesis by auto
qed

section \<open>The life cycle\<close>

lemma progress_list_moves:
  assumes "progress k p s = (p', c, s')"
  shows "list_all2 (\<lambda>ns ns'. ns' = ns \<or> node_move (ppi_MaxAttempts p) ns ns') (ppi_Nodes p) (ppi_Nodes p')"
  using assms by (rule progress_split) (simp add: handleNodes_moves)

lemma progress_length: "progress k p s = (p', c, s') \<Longrightarrow> length (ppi_Nodes p') = length (ppi_Nodes p)"
  by (drule progress_list_moves) (simp add: list_all2_lengthD)

text \<open>
  (C8) In one pass every node keeps its status or makes one move of the life cycle: a
  pending node starts to pull; a pulling node completes, or goes back to pending with one
  retry more while the limit allows, or fails for good when it does not. Completed and
  failed nodes never change, and no node is added, dropped or reordered.
\<close>

theorem progress_moves:
  assumes "progress k p s = (p', c, s')"
  shows "length (ppi_Nodes p') = length (ppi_Nodes p) \<and>
    (\<forall>i < length (ppi_Nodes p).
       ppi_Nodes p' ! i = ppi_Nodes p ! i \<or>
       node_move (ppi_MaxAttempts p) (ppi_Nodes p ! i) (ppi_Nodes p' ! i))"
  using progress_list_moves [OF assms] by (simp add: list_all2_conv_all_nth)

lemma progress_moves_witness:
  "\<exists>p' c s'. progress mem_k8s demo_ppi demo_op = (p', c, s') \<and>
     length (ppi_Nodes p') = 3"
proof -
  obtain p' c s' where h: "progress mem_k8s demo_ppi demo_op = (p', c, s')" by (metis prod_cases3)
  from progress_moves [OF h] demo_nodes h show ?thesis by auto
qed

lemma list_moves_ok:
  "list_all2 (\<lambda>ns ns'. ns' = ns \<or> node_move m ns ns') nss nss' \<Longrightarrow>
   \<forall>ns \<in> set nss. node_ok m ns \<Longrightarrow> \<forall>ns \<in> set nss'. node_ok m ns"
  by (induction rule: list_all2_induct) (auto dest: node_move_ok)

text \<open>
  (C38) Retries are bounded by the policy: from well-formed statuses (a known state, at most
  \<open>MaxAttempts\<close> retries, the time stamps its state calls for) a pass makes well-formed
  statuses. The 32-bit retry counter therefore never overflows, and a node fails only once
  it has used all its retries.
\<close>

theorem progress_keeps_nodes_ok:
  assumes "progress k p s = (p', c, s')"
    and "\<forall>ns \<in> set (ppi_Nodes p). node_ok (ppi_MaxAttempts p) ns"
  shows "\<forall>ns \<in> set (ppi_Nodes p'). node_ok (ppi_MaxAttempts p') ns"
  using progress_list_moves [OF assms(1)] assms(2) progress_frame [OF assms(1)] list_moves_ok
  by simp

lemma progress_keeps_nodes_ok_witness:
  "\<exists>p' c s'. progress mem_k8s demo_ppi demo_op = (p', c, s') \<and>
     (\<forall>ns \<in> set (ppi_Nodes p'). node_ok (ppi_MaxAttempts p') ns)"
proof -
  obtain p' c s' where h: "progress mem_k8s demo_ppi demo_op = (p', c, s')" by (metis prod_cases3)
  from progress_keeps_nodes_ok [OF h demo_nodes(2)] demo_nodes h show ?thesis by auto
qed

text \<open>The moves all nodes of an object have left, and the number of changes a pass can make of them.\<close>

definition total_moves_left :: "PrePullImage \<Rightarrow> nat" where
  "total_moves_left p = sum_list (map (moves_left (ppi_MaxAttempts p)) (ppi_Nodes p))"

lemma sum_moves_decrease:
  assumes "list_all2 (\<lambda>ns ns'. ns' = ns \<or> node_move m ns ns') nss nss'"
  shows "sum_list (map (moves_left m) nss') \<le> sum_list (map (moves_left m) nss) \<and>
    (nss' \<noteq> nss \<longrightarrow> sum_list (map (moves_left m) nss') < sum_list (map (moves_left m) nss))"
  using assms
proof (induction rule: list_all2_induct)
  case (Cons ns nss ns' nss')
  then have "moves_left m ns' < moves_left m ns \<or> ns' = ns" by (auto dest: node_move_decreases)
  with Cons show ?case by auto
qed simp

lemma progress_moves_left:
  assumes "progress k p s = (p', c, s')"
  shows "if ppi_Nodes p' = ppi_Nodes p then total_moves_left p' = total_moves_left p
    else total_moves_left p' < total_moves_left p"
  using sum_moves_decrease [OF progress_list_moves [OF assms]] progress_frame [OF assms]
  by (simp add: total_moves_left_def)

lemma moves_left_bound:
  "node_ok m ns \<Longrightarrow> moves_left m ns \<le> 2 * nat (sint m) + 2"
  by (auto simp: moves_left_def node_ok_def)

lemma total_moves_left_bound:
  assumes "\<forall>ns \<in> set (ppi_Nodes p). node_ok (ppi_MaxAttempts p) ns"
  shows "total_moves_left p \<le> length (ppi_Nodes p) * (2 * nat (sint (ppi_MaxAttempts p)) + 2)"
proof -
  have "\<forall>ns \<in> set nss. node_ok m ns \<Longrightarrow>
      sum_list (map (moves_left m) nss) \<le> length nss * (2 * nat (sint m) + 2)" for nss m
  proof (induction nss)
    case (Cons ns nss)
    then show ?case using moves_left_bound [of m ns] by simp
  qed simp
  with assms show ?thesis by (simp add: total_moves_left_def)
qed

text \<open>
  \<open>passes k p n q\<close>: passes over the object \<open>p\<close>, each in any operator state and each on what the
  one before it wrote, lead to \<open>q\<close>, and \<open>n\<close> of them changed the status of a node.
\<close>

inductive passes :: "'w k8s \<Rightarrow> PrePullImage \<Rightarrow> nat \<Rightarrow> PrePullImage \<Rightarrow> bool" for k p where
  no_pass: "passes k p 0 p"
| one_more: "passes k p n q \<Longrightarrow> progress k q s = (q', c, s') \<Longrightarrow>
    passes k p (if ppi_Nodes q' = ppi_Nodes q then n else Suc n) q'"

lemma passes_moves_left: "passes k p n q \<Longrightarrow> n + total_moves_left q \<le> total_moves_left p"
proof (induction rule: passes.induct)
  case (one_more n q s q' c s')
  with progress_moves_left [OF one_more.hyps(2)] show ?case by (auto split: if_splits)
qed simp

text \<open>
  (C6) Every object settles. However often an object in progress is looked at, and whatever
  happens to its jobs and to the limiter in between, at most \<open>n * (2 * MaxAttempts + 2)\<close> of the
  passes change the status of a node, where \<open>n\<close> is the number of nodes.
\<close>

theorem progress_settles:
  assumes "passes k p n q" and "\<forall>ns \<in> set (ppi_Nodes p). node_ok (ppi_MaxAttempts p) ns"
  shows "n \<le> length (ppi_Nodes p) * (2 * nat (sint (ppi_MaxAttempts p)) + 2)"
  using passes_moves_left [OF assms(1)] total_moves_left_bound [OF assms(2)] by linarith

section \<open>Summary and phase\<close>

lemma length_filter_word:
  "length xs < 2 ^ 31 \<Longrightarrow> sint (of_nat (length (filter P xs)) :: int32) = int (length (filter P xs))"
  by (rule sint_of_nat_small) (simp add: le_less_trans [OF length_filter_le])

lemma length_filter_word_zero:
  assumes "length xs < 2 ^ 31"
  shows "(of_nat (length (filter P xs)) :: int32) = 0 \<longleftrightarrow> (\<forall>x \<in> set xs. \<not> P x)"
proof -
  have "(of_nat (length (filter P xs)) :: int32) = 0 \<longleftrightarrow> sint (of_nat (length (filter P xs)) :: int32) = 0"
    by (metis signed_0 sint_eq_iff)
  then show ?thesis
    using length_filter_word [OF assms, of P] by (simp add: filter_empty_conv)
qed

text \<open>
  (C9) The summary is exact: with fewer than two thousand million nodes, each counter of the
  summary a pass writes is the number of nodes that the status written with it shows in
  that state, the total is the number of nodes, and the four counters add up to the total
  when every node is in a known state.
\<close>

theorem progress_summary_exact:
  assumes "progress k p s = (p', c, s')" and "length (ppi_Nodes p) < 2 ^ 31"
  shows "(let nss = ppi_Nodes p'; sm = st_Summary (ppi_Status p') in
    sint (sum_Total sm) = int (length nss) \<and>
    sint (sum_Pending sm) = int (length (filter node_pending nss)) \<and>
    sint (sum_Pulling sm) = int (length (filter node_pulling nss)) \<and>
    sint (sum_Completed sm) = int (length (filter node_completed nss)) \<and>
    sint (sum_Failed sm) = int (length (filter node_failed nss)) \<and>
    ((\<forall>ns \<in> set nss. node_ok (ppi_MaxAttempts p) ns) \<longrightarrow>
      sint (sum_Pending sm) + sint (sum_Pulling sm) + sint (sum_Completed sm) + sint (sum_Failed sm)
        = sint (sum_Total sm)))"
  using assms(1)
proof (rule progress_split)
  fix nss s1 s2
  assume 1: "handleNodes k p (ppi_Nodes p) zero_tally s = (nss, c, s1)"
    and 3: "conclude k c (set_Status (\<lambda>st. st\<lparr>st_NodeStatus := nss, st_Summary := summary_of nss c\<rparr>) p) s2
           = (p', s')"
    and 4: "ppi_Nodes p' = nss"
  have len: "length nss < 2 ^ 31" using progress_length [OF assms(1)] assms(2) 4 by simp
  have sm: "st_Summary (ppi_Status p') = summary_of nss c" using conclude_frame [OF 3] by simp
  have add: "(\<forall>ns \<in> set xs. node_ok m ns) \<Longrightarrow>
      length (filter node_pending xs) + length (filter node_pulling xs) +
      length (filter node_completed xs) + length (filter node_failed xs) = length xs" for xs m
    by (induction xs) (auto simp: node_ok_def)
  show ?thesis
    using handleNodes_counts [OF 1] sm 4 len length_filter_word [OF len] sint_of_nat_small [of "length nss", where 'a = 32]
      add [of nss "ppi_MaxAttempts p"]
    by (simp add: Let_def summary_of_def tally_counts_def zero_tally_def flip: of_nat_add)
qed

lemma progress_summary_exact_witness:
  "\<exists>p' c s'. progress mem_k8s demo_ppi demo_op = (p', c, s') \<and>
     sint (sum_Total (st_Summary (ppi_Status p'))) = 3"
proof -
  obtain p' c s' where h: "progress mem_k8s demo_ppi demo_op = (p', c, s')" by (metis prod_cases3)
  from progress_summary_exact [OF h] demo_nodes h show ?thesis by (auto simp: Let_def progress_length [OF h])
qed

lemma progress_phase_nodes:
  assumes "progress k p s = (p', c, s')" and "length (ppi_Nodes p) < 2 ^ 31"
  shows "ppi_Phase p' =
      (if \<exists>ns \<in> set (ppi_Nodes p'). node_pending ns \<or> node_pulling ns then ppi_Phase p
       else if \<exists>ns \<in> set (ppi_Nodes p'). node_failed ns then PrePullImagePhaseFailed
       else PrePullImagePhaseCompleted) \<and>
    (if \<exists>ns \<in> set (ppi_Nodes p'). node_pending ns \<or> node_pulling ns
     then st_CompletionTime (ppi_Status p') = st_CompletionTime (ppi_Status p)
     else st_CompletionTime (ppi_Status p') \<noteq> None)"
  using assms(1)
proof (rule progress_split)
  fix nss s1 s2
  assume 1: "handleNodes k p (ppi_Nodes p) zero_tally s = (nss, c, s1)"
    and 3: "conclude k c (set_Status (\<lambda>st. st\<lparr>st_NodeStatus := nss, st_Summary := summary_of nss c\<rparr>) p) s2
           = (p', s')"
    and 4: "ppi_Nodes p' = nss"
  have len: "length nss < 2 ^ 31" using progress_length [OF assms(1)] assms(2) 4 by simp
  from handleNodes_counts [OF 1]
  have c: "t_pending c = of_nat (length (filter node_pending nss))"
    "t_pulling c = of_nat (length (filter node_pulling nss))"
    "t_failed c = of_nat (length (filter node_failed nss))"
    by (simp_all add: tally_counts_def zero_tally_def)
  have f: "0 <s t_failed c \<longleftrightarrow> (\<exists>ns \<in> set nss. node_failed ns)"
    using length_filter_word [OF len, of node_failed] c
    by (auto simp: go_int filter_empty_conv)
  show ?thesis
    using conclude_phase [OF 3] 4 f c length_filter_word_zero [OF len]
    by auto
qed

text \<open>
  (C10) The phase follows from the nodes: a pass ends the object exactly when no node is
  pending or pulling; it is then \<open>Failed\<close> if some node failed and \<open>Completed\<close> otherwise, and
  has a completion time. As long as one node is pending or pulling, the phase and the
  completion time stay as they were.
\<close>

theorem progress_phase:
  assumes "progress k p s = (p', c, s')" and "length (ppi_Nodes p) < 2 ^ 31"
  shows "ppi_Phase p' =
      (if \<exists>ns \<in> set (ppi_Nodes p'). node_pending ns \<or> node_pulling ns then ppi_Phase p
       else if \<exists>ns \<in> set (ppi_Nodes p'). node_failed ns then PrePullImagePhaseFailed
       else PrePullImagePhaseCompleted) \<and>
    (if \<exists>ns \<in> set (ppi_Nodes p'). node_pending ns \<or> node_pulling ns
     then st_CompletionTime (ppi_Status p') = st_CompletionTime (ppi_Status p)
     else st_CompletionTime (ppi_Status p') \<noteq> None)"
  using assms by (rule progress_phase_nodes)

lemma progress_phase_witness:
  "\<exists>p' c s'. progress mem_k8s demo_ppi demo_op = (p', c, s') \<and>
     (ppi_Phase p' = PrePullImagePhaseInProgress \<or> st_CompletionTime (ppi_Status p') \<noteq> None)"
proof -
  obtain p' c s' where h: "progress mem_k8s demo_ppi demo_op = (p', c, s')" by (metis prod_cases3)
  from progress_phase [OF h] demo_nodes h show ?thesis by (auto simp: demo_ppi_def sample_ppi_def split: if_splits)
qed

section \<open>The result of a pass\<close>

lemma progress_requeue:
  assumes "progress k p s = (p', c, s')"
  shows "t_requeue c \<longleftrightarrow> (\<exists>i < length (ppi_Nodes p). node_pending (ppi_Nodes p' ! i) \<or>
    (node_pulling (ppi_Nodes p ! i) \<and> node_pulling (ppi_Nodes p' ! i)))"
  using assms by (rule progress_split) (auto dest!: handleNodes_requeue simp: zero_tally_def)

text \<open>How \<open>handleInProgress\<close> ends: the status update fails, or a result is returned.\<close>

lemma handleInProgress_cases:
  assumes "progress k p s = (p', c, s1)"
  obtains (failed) err s2 where "world (StatusUpdatePPI k p') s1 = (Inl err, s2)"
    "handleInProgress k p s = (Inl err, s2)"
  | (written) q s2 where "world (StatusUpdatePPI k p') s1 = (Inr q, s2)"
    "handleInProgress k p s =
      (Inr (if t_requeue c then \<lparr>Requeue = False, RequeueAfter = DefaultRequeueDelay\<rparr> else no_requeue),
       updatePhaseMetrics k s2)"
proof -
  obtain r s2 where w: "world (StatusUpdatePPI k p') s1 = (r, s2)" by (metis prod.collapse)
  show ?thesis
  proof (cases r)
    case (Inl err)
    with w assms failed show ?thesis by (simp add: handleInProgress_def)
  next
    case (Inr q)
    with w assms written show ?thesis by (simp add: handleInProgress_def Let_def)
  qed
qed

text \<open>
  (C11) No object gets stuck in progress. When \<open>handleInProgress\<close> returns without an error, it
  either asks to be called again after five seconds, or the object is finished, or the
  status it wrote differs from the one it read, so that the write itself is a change of the
  object, which the controller watches.
\<close>

theorem in_progress_not_stuck:
  assumes "progress k p s = (p', c, s1)" and "handleInProgress k p s = (Inr r, s')"
    and "length (ppi_Nodes p) < 2 ^ 31"
  shows "(Requeue r = False \<and> sint (RequeueAfter r) = 5000000000) \<or>
    (r = no_requeue \<and>
     (ppi_Phase p' = PrePullImagePhaseCompleted \<or> ppi_Phase p' = PrePullImagePhaseFailed \<or>
      ppi_Nodes p' \<noteq> ppi_Nodes p))"
  using assms(1)
proof (cases rule: handleInProgress_cases)
  case (failed err s2)
  with assms(2) show ?thesis by simp
next
  case (written q s2)
  show ?thesis
  proof (cases "t_requeue c")
    case True
    with written assms(2) show ?thesis
      by (auto simp: DefaultRequeueDelay_def time_units)
  next
    case False
    with progress_requeue [OF assms(1)] progress_length [OF assms(1)]
    have "ppi_Nodes p' = ppi_Nodes p \<longrightarrow> \<not> (\<exists>ns \<in> set (ppi_Nodes p'). node_pending ns \<or> node_pulling ns)"
      by (auto simp: in_set_conv_nth)
    with progress_phase_nodes [OF assms(1,3)] False written assms(2) show ?thesis by auto
  qed
qed

text \<open>One pending node, evaluated.\<close>

definition one_ppi :: PrePullImage where
  "one_ppi = sample_ppi [FinalizerName] [''n1''] PrePullImagePhaseInProgress
     [sample_node_status ''n1'' NodePullStatusPending]"

lemmas handler_defs = progress_def handleNode_def handleNodePending_def handleNodePulling_def
  startPullJob_def checkJobStatus_def CreatePullJob_def GetJob_def conclude_def
  setCondition_PPI_def world_def emit_def release_slot_def metrics_defs summary_of_def

lemma one_progress:
  "progress mem_k8s one_ppi (sample_op (sample_world one_ppi)) =
     (let j = GenerateJobName ''app'' ''n1''; job = pull_job one_ppi ''n1'';
          ns = mark_pulling j 0 (sample_node_status ''n1'' NodePullStatusPending);
          c = one_pulling zero_tally
      in (set_Status (\<lambda>st. st\<lparr>st_NodeStatus := [ns], st_Summary := summary_of [ns] c,
             st_Conditions := [\<lparr>cond_Type = ConditionTypeReady, cond_Status = ConditionFalse,
               cond_ObservedGeneration = 0, cond_LastTransitionTime = 0, cond_Reason = ''InProgress'',
               cond_Message = show32 0 @ ''/'' @ show32 1 @ '' nodes completed''\<rparr>]\<rparr>) one_ppi,
          c,
          \<lparr>op_World = (sample_world one_ppi)\<lparr>mem_jobs := [job]\<rparr>,
           op_Limiter = snd (TryAcquire (NewRateLimiter 10 2) ''n1''),
           op_Effects = [ActivePullsInc, QueueDepthSet 0]\<rparr>))"
  by (simp add: one_ppi_def sample_defs handler_defs mem_defs TryAcquire_def NewRateLimiter_def go_int
      pull_job_def zero_tally_def one_pulling_def mark_pulling_def set_Status_def)

lemma progress_settles_witness:
  "\<exists>q. passes mem_k8s one_ppi 1 q \<and>
     (1 :: nat) \<le> length (ppi_Nodes one_ppi) * (2 * nat (sint (ppi_MaxAttempts one_ppi)) + 2)"
proof -
  obtain p' c s' where h: "progress mem_k8s one_ppi (sample_op (sample_world one_ppi)) = (p', c, s')"
    by (metis prod_cases3)
  note eq = h [unfolded one_progress Let_def prod.inject]
  have "ppi_Nodes p' \<noteq> ppi_Nodes one_ppi"
    using eq by (auto simp: one_ppi_def sample_defs mark_pulling_def)
  with passes.one_more [OF passes.no_pass h] have "passes mem_k8s one_ppi 1 p'" by simp
  moreover have "\<forall>ns \<in> set (ppi_Nodes one_ppi). node_ok (ppi_MaxAttempts one_ppi) ns"
    by (simp add: one_ppi_def sample_defs node_ok_def)
  ultimately show ?thesis using progress_settles by blast
qed

lemma one_handle: "\<exists>s'. handleInProgress mem_k8s one_ppi (sample_op (sample_world one_ppi)) = (Inr no_requeue, s')"
  by (simp add: handleInProgress_def one_progress Let_def one_pulling_def zero_tally_def)
     (simp add: one_ppi_def sample_defs mem_defs world_def set_Status_def)

lemma in_progress_not_stuck_witness:
  "\<exists>p'. fst (progress mem_k8s one_ppi (sample_op (sample_world one_ppi))) = p' \<and>
     ppi_Nodes p' \<noteq> ppi_Nodes one_ppi"
proof -
  obtain p' c s1 where h: "progress mem_k8s one_ppi (sample_op (sample_world one_ppi)) = (p', c, s1)"
    by (metis prod_cases3)
  obtain s' where r: "handleInProgress mem_k8s one_ppi (sample_op (sample_world one_ppi)) = (Inr no_requeue, s')"
    using one_handle by blast
  have n: "length (ppi_Nodes one_ppi) < 2 ^ 31" by (simp add: one_ppi_def sample_defs)
  have ph: "ppi_Phase p' = PrePullImagePhaseInProgress"
    using h by (simp add: one_progress Let_def) (auto simp: one_ppi_def sample_defs set_Status_def)
  from in_progress_not_stuck [OF h r n] ph h show ?thesis by (simp add: no_requeue_def)
qed

section \<open>What a pass does not depend on\<close>

definition set_backoff :: "int32 \<Rightarrow> PrePullImage \<Rightarrow> PrePullImage" where
  "set_backoff b p = p\<lparr>ppi_Spec := (ppi_Spec p)
     \<lparr>spec_Retry := (spec_Retry (ppi_Spec p))\<lparr>retry_BackoffSeconds := b\<rparr>\<rparr>\<rparr>"

lemma set_backoff_simps [simp]:
  "ppi_Meta (set_backoff b p) = ppi_Meta p"
  "ppi_Status (set_backoff b p) = ppi_Status p"
  "spec_Image (ppi_Spec (set_backoff b p)) = spec_Image (ppi_Spec p)"
  "ppi_MaxAttempts (set_backoff b p) = ppi_MaxAttempts p"
  "set_Status f (set_backoff b p) = set_backoff b (set_Status f p)"
  by (simp_all add: set_backoff_def set_Status_def)

lemma pull_job_backoff [simp]: "pull_job (set_backoff b p) n = pull_job p n"
  by (simp add: pull_job_def) (simp add: set_backoff_def)

lemma startPullJob_backoff: "startPullJob k (set_backoff b p) = startPullJob k p"
  unfolding startPullJob_def CreatePullJob_def pull_job_backoff set_backoff_simps ..

lemma handleNodeSucceeded_backoff: "handleNodeSucceeded k (set_backoff b p) = handleNodeSucceeded k p"
  unfolding handleNodeSucceeded_def set_backoff_simps ..

lemma handleNodeGaveUp_backoff: "handleNodeGaveUp k (set_backoff b p) = handleNodeGaveUp k p"
  unfolding handleNodeGaveUp_def event_PPI_def set_backoff_simps ..

lemma handleNode_backoff [simp]: "handleNode k (set_backoff b p) = handleNode k p"
  unfolding handleNode_def handleNodePending_def handleNodePulling_def startPullJob_backoff
    handleNodeSucceeded_backoff handleNodeGaveUp_backoff set_backoff_simps ..

lemma handleNodes_backoff [simp]: "handleNodes k (set_backoff b p) nss c s = handleNodes k p nss c s"
  by (induction nss arbitrary: c s) simp_all

lemma setCondition_backoff:
  "setCondition_PPI k ty st re ms (set_backoff b p) s =
     (case setCondition_PPI k ty st re ms p s of (q, s') \<Rightarrow> (set_backoff b q, s'))"
  by (simp add: setCondition_PPI_def Let_def set_backoff_def split: prod.splits)

lemma conclude_backoff:
  "conclude k c (set_backoff b p) s = (case conclude k c p s of (q, s') \<Rightarrow> (set_backoff b q, s'))"
  by (simp add: conclude_def conclude_failed_def conclude_completed_def Let_def setCondition_backoff
      event_PPI_def split: prod.splits)

text \<open>
  The retry backoff has no effect: the same object with any other \<open>BackoffSeconds\<close> goes
  through exactly the same pass (the same API calls, limiter, events, counters and status).
  Failed pulls are retried after the fixed delay of five seconds, or sooner.
\<close>

lemma backoff_is_ignored:
  "progress k (set_backoff b p) s =
     (case progress k p s of (p', c, s') \<Rightarrow> (set_backoff b p', c, s'))"
  by (simp add: progress_def Let_def conclude_backoff split: prod.splits)

text \<open>
  The message of a failed job is never reported: after a pass the error text of every
  node is the one it had before, or empty, or \<open>max retries exceeded\<close>. \<open>checkJobStatus\<close> does
  read the job's message into the status, and both branches that follow overwrite it.
\<close>

lemma failure_message_is_lost:
  assumes "progress k p s = (p', c, s')" and "i < length (ppi_Nodes p)"
  shows "ns_Error (ppi_Nodes p' ! i) \<in>
    {ns_Error (ppi_Nodes p ! i), '''', ''max retries exceeded''}"
proof -
  from progress_list_moves [OF assms(1)] assms(2)
  have "ppi_Nodes p' ! i = ppi_Nodes p ! i \<or>
      node_move (ppi_MaxAttempts p) (ppi_Nodes p ! i) (ppi_Nodes p' ! i)"
    by (auto simp: list_all2_conv_all_nth)
  then show ?thesis by (auto elim!: node_moveE simp: node_updates)
qed

lemma failure_message_is_lost_witness:
  "\<exists>p' c s'. progress mem_k8s demo_ppi demo_op = (p', c, s') \<and>
     ns_Error (ppi_Nodes p' ! 1) \<in> {'''', ''max retries exceeded''}"
proof -
  obtain p' c s' where h: "progress mem_k8s demo_ppi demo_op = (p', c, s')" by (metis prod_cases3)
  have "1 < length (ppi_Nodes demo_ppi)" by (simp add: demo_nodes)
  from failure_message_is_lost [OF h this] h show ?thesis
    by (auto simp: demo_ppi_def sample_defs)
qed

section \<open>Retention of finished objects\<close>

text \<open>
  (C39) A finished object with a completion time is kept for one hour, a constant of the code: a
  reconcile that sees it more than an hour after completion makes the delete call for it, keeps
  the world that call leaves, and returns its error, if any; before that, the object is left
  alone and seen again when the hour is over. At exactly one hour the delay asked for is zero,
  which controller-runtime takes as no further call, so that object is not seen again.
\<close>

theorem finished_object_retention:
  assumes "st_CompletionTime (ppi_Status p) = Some t" and "fst (Now k (op_World s)) - t = age"
    and "0 \<le> age"
  shows "(3600000000000 < age \<longrightarrow>
      handleCompleted k p s =
        (case DeletePPI k p (snd (Now k (op_World s))) of
           (Some err, w) \<Rightarrow> (Inl err, s\<lparr>op_World := w\<rparr>)
         | (None, w) \<Rightarrow> (Inr no_requeue, s\<lparr>op_World := w\<rparr>))) \<and>
    (age \<le> 3600000000000 \<longrightarrow>
      (\<exists>d. handleCompleted k p s = (Inr \<lparr>Requeue = False, RequeueAfter = d\<rparr>, snd (world (Now k) s)) \<and>
        sint d = 3600000000000 - age \<and> (d = 0 \<longleftrightarrow> age = 3600000000000)))"
proof -
  obtain now s1 where w: "world (Now k) s = (now, s1)" by (metis prod.collapse)
  then have now: "now - t = age" "op_World s1 = snd (Now k (op_World s))"
    using assms(2) world_eqD [OF w] by auto
  have ttl: "sint CompletedTTL = 3600000000000" by (simp add: CompletedTTL_def time_units)
  have age: "sint (time_sub now t) = min (2 ^ 63 - 1) age"
    using now assms(3) by (simp add: sint_time_sub)
  have late: "3600000000000 < age \<longleftrightarrow> CompletedTTL <s time_sub now t"
    using ttl age by (auto simp: go_int)
  have early: "sint (CompletedTTL - time_sub now t) = 3600000000000 - age" if "age \<le> 3600000000000"
  proof -
    from that age have "sint (time_sub now t) = age" by simp
    with ttl that assms(3) show ?thesis
      by (simp add: sint_word_ariths(2) signed_take_bit_int_eq_self)
  qed
  have zero: "CompletedTTL - time_sub now t = 0 \<longleftrightarrow> age = 3600000000000" if "age \<le> 3600000000000"
    using early [OF that] by (metis eq_iff_diff_eq_0 signed_0 sint_eq_iff)
  have same: "s1\<lparr>op_World := x\<rparr> = s\<lparr>op_World := x\<rparr>" for x
    using w by (auto simp: world_def split: prod.splits)
  show ?thesis
    using assms(1) w now(2) late early zero same
    by (auto simp: handleCompleted_def Let_def world_def split: prod.splits option.splits)
qed

definition done_ppi :: PrePullImage where
  "done_ppi = set_Status (\<lambda>st. st\<lparr>st_CompletionTime := Some 0\<rparr>)
     (sample_ppi [FinalizerName] [] PrePullImagePhaseCompleted [])"

lemma finished_object_retention_witness:
  "(\<exists>s'. handleCompleted mem_k8s done_ppi (sample_op ((sample_world done_ppi)\<lparr>mem_clock := 3600000000001\<rparr>))
       = (Inr no_requeue, s') \<and>
     (\<exists>p. mem_ppis (op_World s') (''prod'', ''app'') = Some p \<and> meta_DeletionTimestamp (ppi_Meta p) \<noteq> None)) \<and>
   (\<exists>s'. handleCompleted mem_k8s done_ppi (sample_op ((sample_world done_ppi)\<lparr>mem_clock := 3600000000000\<rparr>))
     = (Inr \<lparr>Requeue = False, RequeueAfter = 0\<rparr>, s'))"
proof -
  let ?late = "sample_op ((sample_world done_ppi)\<lparr>mem_clock := 3600000000001\<rparr>)"
  let ?exact = "sample_op ((sample_world done_ppi)\<lparr>mem_clock := 3600000000000\<rparr>)"
  have c: "st_CompletionTime (ppi_Status done_ppi) = Some 0" by (simp add: done_ppi_def)
  have l: "fst (Now mem_k8s (op_World ?late)) - 0 = 3600000000001" by (simp add: sample_op_def)
  have e: "fst (Now mem_k8s (op_World ?exact)) - 0 = 3600000000000" by (simp add: sample_op_def)
  obtain w where "DeletePPI mem_k8s done_ppi (snd (Now mem_k8s (op_World ?late))) = (None, w)"
    "\<exists>p. mem_ppis w (''prod'', ''app'') = Some p \<and> meta_DeletionTimestamp (ppi_Meta p) \<noteq> None"
    by (simp add: done_ppi_def sample_defs mem_defs set_Status_def FinalizerName_def)
  with finished_object_retention [OF c l] have "\<exists>s'. handleCompleted mem_k8s done_ppi ?late = (Inr no_requeue, s') \<and>
      (\<exists>p. mem_ppis (op_World s') (''prod'', ''app'') = Some p \<and> meta_DeletionTimestamp (ppi_Meta p) \<noteq> None)"
    by simp
  with finished_object_retention [OF c e] show ?thesis by auto
qed

section \<open>Deletion\<close>

context slot_account begin

lemma release_pulling_slots:
  assumes "holds (op_Limiter s) (R + pulling_slots nss)"
  shows "holds (op_Limiter (release_pulling nss s)) R \<and>
    op_World (release_pulling nss s) = op_World s \<and>
    (\<exists>es. op_Effects (release_pulling nss s) = op_Effects s @ es \<and>
      active_pulls es = - int (size (pulling_slots nss)))"
  using assms
proof (induction nss arbitrary: s)
  case (Cons ns nss)
  show ?case
  proof (cases "node_pulling ns")
    case True
    let ?s = "DecrementActivePulls (release_slot (ns_Node ns) s)"
    have "holds (op_Limiter ?s) (R + pulling_slots nss)"
      using released [of "op_Limiter s" "ns_Node ns" "R + pulling_slots nss"]
        Cons.prems True by (simp add: DecrementActivePulls_def release_slot_def)
    from Cons.IH [OF this] True show ?thesis
      by (auto simp: DecrementActivePulls_def release_slot_def)
  next
    case False
    with Cons.prems Cons.IH [of s] show ?thesis by auto
  qed
qed simp

end

lemma handleDeletion_result:
  assumes "ContainsFinalizer k (meta_Finalizers (ppi_Meta p)) FinalizerName"
    and "handleDeletion k p s = (res, s')"
  shows "op_Limiter s' = op_Limiter (release_pulling (ppi_Nodes p) s) \<and>
    op_Effects s' = op_Effects (release_pulling (ppi_Nodes p) s) \<and>
    (let u = UpdatePPI k (set_finalizers (RemoveFinalizer k (meta_Finalizers (ppi_Meta p)) FinalizerName) p)
           (snd (CleanupJobsForPrePullImage k (ppi_Name p) (op_World (release_pulling (ppi_Nodes p) s))))
     in op_World s' = snd u \<and> res = (case fst u of Inl err \<Rightarrow> Inl err | Inr _ \<Rightarrow> Inr no_requeue))"
  using assms by (auto simp: handleDeletion_def Let_def split: prod.splits sum.splits dest!: world_eqD)

text \<open>
  (C37) Deleting an object gives back the slots of its pulling nodes, no others, and lowers
  the active-pulls gauge by as many, whether or not its jobs could be cleaned up. This holds
  even when the write that removes the finalizer fails: the object then still shows the same
  pulling nodes, and the next deletion pass gives the same slots back once more.
\<close>

theorem deletion_releases_slots:
  assumes "ContainsFinalizer k (meta_Finalizers (ppi_Meta p)) FinalizerName"
    and "handleDeletion k p s = (res, s')"
    and "rl_holds (op_Limiter s) (R + pulling_slots (ppi_Nodes p))"
  shows "rl_holds (op_Limiter s') R \<and>
    active_pulls (op_Effects s') - active_pulls (op_Effects s) = - int (size (pulling_slots (ppi_Nodes p)))"
  using handleDeletion_result [OF assms(1,2)] exact.release_pulling_slots [OF assms(3)] by auto

lemma deletion_releases_slots_witness:
  "\<exists>res s'. handleDeletion mem_k8s demo_ppi demo_op = (res, s') \<and> rl_holds (op_Limiter s') {#}"
proof -
  obtain res s' where h: "handleDeletion mem_k8s demo_ppi demo_op = (res, s')" by (metis prod.collapse)
  have "ContainsFinalizer mem_k8s (meta_Finalizers (ppi_Meta demo_ppi)) FinalizerName"
    by (simp add: demo_ppi_def sample_defs)
  from deletion_releases_slots [OF this h demo_holds] h show ?thesis by auto
qed

end
