(* ===== verification/LostWrites.thy ===== *)
theory LostWrites
  imports ImagePhases
begin

text \<open>
  What a lost status write does to the rate limiter, in both directions. \<open>handleInProgress\<close>
  takes and gives back slots as it goes and writes the status once, at the end; when that
  write fails it returns the error and leaves the limiter as it is, so the next pass starts
  from the stored status of before and from the limiter of after.
\<close>

text \<open>A pass that ends in an error has changed the limiter as any other pass does.\<close>

lemma failed_pass_limiter:
  assumes "progress k p s = (p1, c1, s1)" and "handleInProgress k p s = (Inl err, s2)"
  shows "op_Limiter s2 = op_Limiter s1"
  using assms(1)
  by (cases rule: handleInProgress_cases) (use assms(2) in \<open>auto dest: world_eqD\<close>)

lemma failed_pass_slots:
  assumes "progress k p s = (p1, c1, s1)" and "handleInProgress k p s = (Inl err, s2)"
    and "rl_holds (op_Limiter s) (R + pulling_slots (ppi_Nodes p))"
  shows "rl_holds (op_Limiter s2) (R + pulling_slots (ppi_Nodes p1))"
  using exact.progress_slots [OF assms(1,3)] failed_pass_limiter [OF assms(1,2)] by simp

text \<open>
  (C12) A lost status write puts the rate limiter out of step with the objects. Let a pass
  over an object fail to write its status (a conflict is enough) and a second pass work on
  the object as it was read before. If the limiter counted the slots of the pulling nodes of
  the object and some others \<open>R\<close> before, then it counts, after the two passes, \<open>R\<close> and the
  slots of the nodes that now pull, more those the first pass took, and less those the first
  pass found pulling. So a slot taken in the lost pass is never given back (the node was
  pending, and takes another), and a slot given back in the lost pass is given back twice
  (its node still reads as pulling), the second time at the cost of \<open>R\<close>: of another object
  that is pulling to the same node.
\<close>

theorem lost_write_miscounts_slots:
  assumes "progress k p s = (p1, c1, s1)" and "handleInProgress k p s = (Inl err, s2)"
    and "progress k p s2' = (p2, c2, s3)" and "op_Limiter s2' = op_Limiter s2"
    and "rl_holds (op_Limiter s) (R + pulling_slots (ppi_Nodes p))"
    and "pulling_slots (ppi_Nodes p) \<subseteq># R + pulling_slots (ppi_Nodes p1)"
  shows "rl_holds (op_Limiter s3)
    (R + pulling_slots (ppi_Nodes p1) - pulling_slots (ppi_Nodes p) + pulling_slots (ppi_Nodes p2))"
proof -
  let ?left = "R + pulling_slots (ppi_Nodes p1) - pulling_slots (ppi_Nodes p)"
  have "rl_holds (op_Limiter s2') (?left + pulling_slots (ppi_Nodes p))"
    using failed_pass_slots [OF assms(1,2,5)] assms(4,6) by simp
  from exact.progress_slots [OF assms(3) this] show ?thesis by simp
qed

text \<open>The two directions: a pending node that starts to pull, a pulling node that ends.\<close>

lemma lost_write_leaks_slots:
  assumes "progress k p s = (p1, c1, s1)" and "handleInProgress k p s = (Inl err, s2)"
    and "progress k p s2' = (p2, c2, s3)" and "op_Limiter s2' = op_Limiter s2"
    and "rl_holds (op_Limiter s) R" and "pulling_slots (ppi_Nodes p) = {#}"
  shows "rl_holds (op_Limiter s3) (R + pulling_slots (ppi_Nodes p1) + pulling_slots (ppi_Nodes p2))"
proof -
  have "rl_holds (op_Limiter s2') (R + pulling_slots (ppi_Nodes p1) + pulling_slots (ppi_Nodes p))"
    using failed_pass_slots [OF assms(1,2), of R] assms(4-6) by simp
  from exact.progress_slots [OF assms(3) this] show ?thesis by simp
qed

text \<open>
  The first direction on one pending node whose first write fails: two slots in use for the
  one pulling node.
\<close>

definition leak_op :: "mem op" where
  "leak_op = sample_op ((sample_world one_ppi)\<lparr>mem_failing := 1\<rparr>)"

lemmas evaluate_progress = one_ppi_def sample_defs handler_defs mem_defs TryAcquire_def
  NewRateLimiter_def go_int pull_job_def zero_tally_def one_pulling_def mark_pulling_def set_Status_def

lemma leak_first:
  "pulling_slots (ppi_Nodes (fst (progress mem_k8s one_ppi leak_op))) = {#''n1''#}"
  by (simp add: leak_op_def evaluate_progress)

lemma leak_fails: "\<exists>s2. handleInProgress mem_k8s one_ppi leak_op = (Inl conflict, s2)"
  by (simp add: leak_op_def handleInProgress_def evaluate_progress)

lemma leak_second:
  "pulling_slots (ppi_Nodes (fst (progress mem_k8s one_ppi
     (snd (handleInProgress mem_k8s one_ppi leak_op))))) = {#''n1''#}"
  by (simp add: leak_op_def handleInProgress_def evaluate_progress)

lemma leak_happens:
  "\<exists>p2 c2 s3. progress mem_k8s one_ppi (snd (handleInProgress mem_k8s one_ppi leak_op)) = (p2, c2, s3) \<and>
     rl_holds (op_Limiter s3) {#''n1'', ''n1''#} \<and> pulling_slots (ppi_Nodes p2) = {#''n1''#}"
proof -
  obtain p1 c1 s1 where 1: "progress mem_k8s one_ppi leak_op = (p1, c1, s1)" by (metis prod_cases3)
  obtain s2 where 2: "handleInProgress mem_k8s one_ppi leak_op = (Inl conflict, s2)"
    using leak_fails by blast
  obtain p2 c2 s3 where 3: "progress mem_k8s one_ppi s2 = (p2, c2, s3)" by (metis prod_cases3)
  have 4: "rl_holds (op_Limiter leak_op) {#}" "pulling_slots (ppi_Nodes one_ppi) = {#}"
    using rl_holds_new by (simp_all add: leak_op_def one_ppi_def sample_defs)
  from lost_write_leaks_slots [OF 1 2 3 refl 4] leak_first leak_second 1 2 3
  show ?thesis by simp
qed

text \<open>
  The second on one pulling node whose job is gone, while another object pulls to the same
  node: after the two passes no slot is in use, though the other object is still pulling.
\<close>

definition gone_ppi :: PrePullImage where
  "gone_ppi = sample_ppi [FinalizerName] [''n1''] PrePullImagePhaseInProgress
     [sample_node_status ''n1'' NodePullStatusPulling]"

definition two_slots :: RateLimiter where
  "two_slots = snd (TryAcquire (snd (TryAcquire (NewRateLimiter 10 2) ''n1'')) ''n1'')"

definition gone_op :: "mem op" where
  "gone_op = (sample_op ((sample_world gone_ppi)\<lparr>mem_failing := 1\<rparr>))\<lparr>op_Limiter := two_slots\<rparr>"

lemma two_slots_held: "rl_holds two_slots {#''n1'', ''n1''#}"
proof -
  have 1: "rl_holds (snd (TryAcquire (NewRateLimiter 10 2) ''n1'')) {#''n1''#}"
    by (rule rl.acquire_holds [OF rl_holds_new])
      (simp add: TryAcquire_def NewRateLimiter_def go_int)
  show ?thesis
    unfolding two_slots_def
    by (rule rl.acquire_holds [OF 1]) (simp add: TryAcquire_def NewRateLimiter_def go_int)
qed

lemmas evaluate_retry = gone_op_def gone_ppi_def two_slots_def handleNodeRetry_def DeleteJob_def
  release_slot_def release_steps one_pending_def sample_defs handler_defs mem_defs mem_job_def
  TryAcquire_def NewRateLimiter_def go_int zero_tally_def set_Status_def

lemma gone_first: "pulling_slots (ppi_Nodes (fst (progress mem_k8s gone_ppi gone_op))) = {#}"
  by (simp add: evaluate_retry)

lemma gone_fails: "\<exists>s2. handleInProgress mem_k8s gone_ppi gone_op = (Inl conflict, s2)"
  by (simp add: handleInProgress_def evaluate_retry)

lemma gone_second:
  "pulling_slots (ppi_Nodes (fst (progress mem_k8s gone_ppi
     (snd (handleInProgress mem_k8s gone_ppi gone_op))))) = {#}"
  by (simp add: handleInProgress_def evaluate_retry)

lemma lost_write_miscounts_slots_witness:
  "\<exists>p2 c2 s3. progress mem_k8s gone_ppi (snd (handleInProgress mem_k8s gone_ppi gone_op)) = (p2, c2, s3) \<and>
     rl_holds (op_Limiter gone_op) ({#''n1''#} + pulling_slots (ppi_Nodes gone_ppi)) \<and>
     rl_holds (op_Limiter s3) {#} \<and> pulling_slots (ppi_Nodes p2) = {#}"
proof -
  obtain p1 c1 s1 where 1: "progress mem_k8s gone_ppi gone_op = (p1, c1, s1)" by (metis prod_cases3)
  obtain s2 where 2: "handleInProgress mem_k8s gone_ppi gone_op = (Inl conflict, s2)"
    using gone_fails by blast
  obtain p2 c2 s3 where 3: "progress mem_k8s gone_ppi s2 = (p2, c2, s3)" by (metis prod_cases3)
  have 4: "pulling_slots (ppi_Nodes gone_ppi) = {#''n1''#}" by (simp add: gone_ppi_def sample_defs)
  then have 5: "rl_holds (op_Limiter gone_op) ({#''n1''#} + pulling_slots (ppi_Nodes gone_ppi))"
    using two_slots_held by (simp add: gone_op_def)
  from lost_write_miscounts_slots [OF 1 2 3 refl 5] gone_first gone_second 1 2 3 4 5
  show ?thesis by simp
qed

end
