(* ===== verification/ImageSystem.thy ===== *)
theory ImageSystem
  imports LostWrites
begin

text \<open>
  The operator as a whole: reconciles of PrePullImages, one at a time and for any objects in
  any order (controller-runtime runs one worker per controller), between steps of the
  environment. The main theorem is that the number of pulling nodes in the API server never
  passes the limits of the rate limiter. It rests on \<open>ppi_store\<close>, the laws of the API
  server as an object store with a status subresource, finalizers and optimistic locking.
\<close>

declare split_paired_All [simp del] split_paired_Ex [simp del]

section \<open>Laws of the store\<close>

text \<open>
  \<open>stored w\<close> is the content of the API server in the world \<open>w\<close>. The server may normalise what
  it stores (it cuts time stamps to seconds), so a written status is known by its phase, by
  the state of each node and by whether there is a completion time.
\<close>

definition same_status :: "PrePullImageStatus \<Rightarrow> PrePullImageStatus \<Rightarrow> bool" where
  "same_status st st' \<longleftrightarrow> st_Phase st' = st_Phase st \<and>
     map (\<lambda>ns. (ns_Node ns, ns_Status ns)) (st_NodeStatus st') =
       map (\<lambda>ns. (ns_Node ns, ns_Status ns)) (st_NodeStatus st) \<and>
     (st_CompletionTime st' = None \<longleftrightarrow> st_CompletionTime st = None)"

definition quiet :: "('w \<Rightarrow> 's) \<Rightarrow> ('w \<Rightarrow> 'a \<times> 'w) \<Rightarrow> bool" where
  "quiet stored f \<longleftrightarrow> (\<forall>w. stored (snd (f w)) = stored w)"

abbreviation ppi_deleted :: "PrePullImage \<Rightarrow> bool" where
  "ppi_deleted p \<equiv> meta_DeletionTimestamp (ppi_Meta p) \<noteq> None"

abbreviation ppi_finalizers :: "PrePullImage \<Rightarrow> string set" where
  "ppi_finalizers p \<equiv> set (meta_Finalizers (ppi_Meta p))"

definition calls_quiet :: "'w k8s \<Rightarrow> ('w \<Rightarrow> 's) \<Rightarrow> bool" where
  "calls_quiet k stored \<longleftrightarrow>
     quiet stored (Now k) \<and> (\<forall>ks. quiet stored (MapOrder k ks)) \<and> quiet stored (ListPPI k) \<and>
     (\<forall>key. quiet stored (GetPPI k key)) \<and> (\<forall>nf. quiet stored (ListNode k nf)) \<and>
     (\<forall>j. quiet stored (ClientCreateJob k j)) \<and> (\<forall>key. quiet stored (ClientGetJob k key)) \<and>
     (\<forall>opts key. quiet stored (ClientDeleteJob k opts key)) \<and> (\<forall>ns sel. quiet stored (ClientListJob k ns sel))"

definition status_updated ::
  "PrePullImage \<Rightarrow> (objkey \<rightharpoonup> PrePullImage) \<Rightarrow> (objkey \<rightharpoonup> PrePullImage) \<Rightarrow> bool" where
  "status_updated p m m' \<longleftrightarrow>
     (\<exists>old new. m (key_of (ppi_Meta p)) = Some old \<and> m' = m(key_of (ppi_Meta p) \<mapsto> new) \<and>
        key_of (ppi_Meta new) = key_of (ppi_Meta old) \<and>
        ppi_finalizers new = ppi_finalizers old \<and> ppi_deleted new = ppi_deleted old \<and>
        same_status (ppi_Status p) (ppi_Status new))"

text \<open>An update writes all but the status; the last finalizer of a deleted object removes it.\<close>

definition object_updated ::
  "PrePullImage \<Rightarrow> (objkey \<rightharpoonup> PrePullImage) \<Rightarrow> (objkey \<rightharpoonup> PrePullImage) \<Rightarrow> bool" where
  "object_updated p m m' \<longleftrightarrow>
     (\<exists>old. m (key_of (ppi_Meta p)) = Some old \<and>
        (if ppi_deleted old \<and> ppi_finalizers p = {} then m' = m(key_of (ppi_Meta p) := None)
         else \<exists>new. m' = m(key_of (ppi_Meta p) \<mapsto> new) \<and>
           key_of (ppi_Meta new) = key_of (ppi_Meta old) \<and>
           ppi_finalizers new = ppi_finalizers p \<and> ppi_deleted new = ppi_deleted old \<and>
           same_status (ppi_Status old) (ppi_Status new)))"

definition object_deleted ::
  "PrePullImage \<Rightarrow> (objkey \<rightharpoonup> PrePullImage) \<Rightarrow> (objkey \<rightharpoonup> PrePullImage) \<Rightarrow> bool" where
  "object_deleted p m m' \<longleftrightarrow>
     (\<exists>old. m (key_of (ppi_Meta p)) = Some old \<and>
        (if ppi_finalizers old = {} then m' = m(key_of (ppi_Meta p) := None)
         else \<exists>new. m' = m(key_of (ppi_Meta p) \<mapsto> new) \<and>
           key_of (ppi_Meta new) = key_of (ppi_Meta old) \<and>
           ppi_finalizers new = ppi_finalizers old \<and> ppi_deleted new \<and>
           same_status (ppi_Status old) (ppi_Status new)))"

text \<open>
  A successful call has the effect above, a failed one none; a read is of the stored object;
  the other calls leave the PrePullImages alone.
\<close>

definition ppi_store :: "'w k8s \<Rightarrow> ('w \<Rightarrow> objkey \<rightharpoonup> PrePullImage) \<Rightarrow> bool" where
  "ppi_store k stored \<longleftrightarrow> documented k \<and> calls_quiet k stored \<and>
     (\<forall>w key p. fst (GetPPI k key w) = Inr p \<longrightarrow> stored w key = Some p) \<and>
     (\<forall>w w' p q. StatusUpdatePPI k p w = (Inr q, w') \<longrightarrow> status_updated p (stored w) (stored w')) \<and>
     (\<forall>w w' p e. StatusUpdatePPI k p w = (Inl e, w') \<longrightarrow> stored w' = stored w) \<and>
     (\<forall>w w' p q. UpdatePPI k p w = (Inr q, w') \<longrightarrow> object_updated p (stored w) (stored w')) \<and>
     (\<forall>w w' p e. UpdatePPI k p w = (Inl e, w') \<longrightarrow> stored w' = stored w) \<and>
     (\<forall>w w' p. DeletePPI k p w = (None, w') \<longrightarrow> object_deleted p (stored w) (stored w')) \<and>
     (\<forall>w w' p e. DeletePPI k p w = (Some e, w') \<longrightarrow> stored w' = stored w)"

section \<open>The calls that do not touch the objects\<close>

lemma quietD: "quiet stored f \<Longrightarrow> f w = (x, w') \<Longrightarrow> stored w' = stored w"
  by (metis quiet_def snd_conv)

lemma quiet_world: "quiet stored f \<Longrightarrow> world f s = (x, s') \<Longrightarrow> stored (op_World s') = stored (op_World s)"
  by (auto dest!: world_eqD dest: quietD)

lemma store_quiet:
  assumes "ppi_store k stored"
  shows "quiet stored (Now k)" "quiet stored (MapOrder k ks)" "quiet stored (ListPPI k)"
    "quiet stored (GetPPI k key)" "quiet stored (ListNode k nf)" "quiet stored (ClientCreateJob k j)"
    "quiet stored (ClientGetJob k key)" "quiet stored (ClientDeleteJob k opts key)"
    "quiet stored (ClientListJob k ns sel)"
  using assms by (simp_all add: ppi_store_def calls_quiet_def)

text \<open>The laws of the writes, when a write succeeds.\<close>

lemma store_status:
  "ppi_store k stored \<Longrightarrow> StatusUpdatePPI k p w = (Inr q, w') \<Longrightarrow> status_updated p (stored w) (stored w')"
  unfolding ppi_store_def by metis

lemma store_update:
  "ppi_store k stored \<Longrightarrow> UpdatePPI k p w = (Inr q, w') \<Longrightarrow> object_updated p (stored w) (stored w')"
  unfolding ppi_store_def by metis

lemma store_delete:
  "ppi_store k stored \<Longrightarrow> DeletePPI k p w = (None, w') \<Longrightarrow> object_deleted p (stored w) (stored w')"
  unfolding ppi_store_def by metis

lemma store_failed:
  "ppi_store k stored \<Longrightarrow> StatusUpdatePPI k p w = (Inl e, w') \<Longrightarrow> stored w' = stored w"
  "ppi_store k stored \<Longrightarrow> UpdatePPI k p w = (Inl e, w') \<Longrightarrow> stored w' = stored w"
  "ppi_store k stored \<Longrightarrow> DeletePPI k p w = (Some e, w') \<Longrightarrow> stored w' = stored w"
  unfolding ppi_store_def by metis+

lemma store_get:
  "ppi_store k stored \<Longrightarrow> fst (GetPPI k key w) = Inr p \<Longrightarrow> stored w key = Some p"
  unfolding ppi_store_def by metis

lemma quiet_jobs:
  assumes "ppi_store k stored"
  shows "quiet stored (CreatePullJob k p n)" "quiet stored (GetJob k j)" "quiet stored (DeleteJob k j)"
    "quiet stored (startPullJob k p ns)" "quiet stored (checkJobStatus k ns)"
    "quiet stored (getTargetNodes_PPI k p)"
proof -
  note q = store_quiet [OF assms, THEN quietD]
  show c: "quiet stored (CreatePullJob k p n)" for p n
    by (auto simp: quiet_def CreatePullJob_def split: prod.splits sum.splits dest: q)
  show g: "quiet stored (GetJob k j)" for j
    using store_quiet [OF assms] by (auto simp: quiet_def GetJob_def)
  show "quiet stored (DeleteJob k j)"
    using store_quiet [OF assms] by (auto simp: quiet_def DeleteJob_def)
  show "quiet stored (startPullJob k p ns)"
    by (auto simp: quiet_def startPullJob_def split: prod.splits sum.splits dest!: q(1) quietD [OF c])
  show "quiet stored (checkJobStatus k ns)"
    by (auto simp: quiet_def checkJobStatus_def Let_def split: prod.splits sum.splits dest!: quietD [OF g])
  show "quiet stored (getTargetNodes_PPI k p)"
    by (auto simp: quiet_def getTargetNodes_PPI_def Let_def split: prod.splits sum.splits option.splits
        dest!: q(5))
qed

lemma quiet_cleanup:
  assumes "ppi_store k stored"
  shows "quiet stored (CleanupJobsForPrePullImage k n)"
proof -
  have d: "stored (snd (delete_jobs k js w)) = stored w" for js w
    by (induction js arbitrary: w)
       (auto split: prod.splits option.splits dest: quietD [OF quiet_jobs(3) [OF assms]])
  show ?thesis
    using d by (auto simp: quiet_def CleanupJobsForPrePullImage_def ListJobsForPrePullImage_def
        split: prod.splits sum.splits dest!: quietD [OF store_quiet(9) [OF assms]])
qed

lemma setCondition_keeps:
  assumes "ppi_store k stored" and "setCondition_PPI k ty st re ms p s = (p', s')"
  shows "stored (op_World s') = stored (op_World s)"
  using assms(2) by (auto simp: setCondition_PPI_def Let_def split: prod.splits
      dest: quiet_world [OF store_quiet(1) [OF assms(1)]])

lemma handleNode_keeps:
  assumes "ppi_store k stored" and "handleNode k p ns c s = (ns', c', s')"
  shows "stored (op_World s') = stored (op_World s)"
proof -
  note q = quiet_world [OF store_quiet(1) [OF assms(1)]] quiet_world [OF quiet_jobs(4) [OF assms(1)]]
    quiet_world [OF quiet_jobs(5) [OF assms(1)]]
  have d: "stored (op_World (snd (world (DeleteJob k j) s))) = stored (op_World s)" for j s
    using quiet_jobs(3) [OF assms(1)] by (simp add: quiet_def)
  show ?thesis
    using assms(2) d
    by (auto simp: handleNode_def handleNodePending_def handleNodePulling_def handleNodeSucceeded_def
        handleNodeRetry_def handleNodeGaveUp_def event_PPI_def Let_def metrics_defs release_slot_def
        split: prod.splits sum.splits option.splits if_splits JobStatus.splits bool.splits dest!: q)
qed

lemma handleNodes_keeps:
  assumes "ppi_store k stored"
  shows "handleNodes k p nss c s = (nss', c', s') \<Longrightarrow> stored (op_World s') = stored (op_World s)"
proof (induction nss arbitrary: c s nss')
  case (Cons ns nss)
  then show ?case
    by (auto split: prod.splits dest!: handleNode_keeps [OF assms])
qed simp

lemma conclude_keeps:
  assumes "ppi_store k stored" and "conclude k c p s = (p', s')"
  shows "stored (op_World s') = stored (op_World s)"
  using assms(2)
  by (auto simp: conclude_def conclude_failed_def conclude_completed_def event_PPI_def Let_def
      split: prod.splits if_splits
      dest!: setCondition_keeps [OF assms(1)] quiet_world [OF store_quiet(1) [OF assms(1)]])

lemma progress_keeps:
  assumes "ppi_store k stored" and "progress k p s = (p', c, s')"
  shows "stored (op_World s') = stored (op_World s)"
  using assms(2)
  by (rule progress_split)
     (auto dest!: handleNodes_keeps [OF assms(1)] conclude_keeps [OF assms(1)] simp: SetQueueDepth_def)

lemma set_phase_gauges_frame [simp]:
  "op_World (set_phase_gauges m ps s) = op_World s"
  "op_Limiter (set_phase_gauges m ps s) = op_Limiter s"
  by (induction m ps s rule: set_phase_gauges.induct) (simp_all add: SetPrePullImagesByPhase_def)

lemma updatePhaseMetrics_frame:
  assumes "ppi_store k stored"
  shows "stored (op_World (updatePhaseMetrics k s)) = stored (op_World s)"
    and "op_Limiter (updatePhaseMetrics k s) = op_Limiter s"
  by (auto simp: updatePhaseMetrics_def Let_def split: prod.splits sum.splits
      dest!: world_eqD quietD [OF store_quiet(2) [OF assms]] quietD [OF store_quiet(3) [OF assms]])


section \<open>The slots the stored objects account for\<close>

text \<open>
  An object that carries kwarm's finalizer accounts for the slots of its pulling nodes; one
  without it for none (it is new, or \<open>handleDeletion\<close> has given its slots back).
\<close>

definition object_slots :: "PrePullImage option \<Rightarrow> string multiset" where
  "object_slots v = (case v of None \<Rightarrow> {#}
     | Some p \<Rightarrow> if FinalizerName \<in> ppi_finalizers p then pulling_slots (ppi_Nodes p) else {#})"

definition other_slots :: "(objkey \<rightharpoonup> PrePullImage) \<Rightarrow> objkey \<Rightarrow> string multiset" where
  "other_slots m key = (\<Sum>j \<in> dom m - {key}. object_slots (m j))"

definition stored_slots :: "(objkey \<rightharpoonup> PrePullImage) \<Rightarrow> string multiset" where
  "stored_slots m = (\<Sum>j \<in> dom m. object_slots (m j))"

lemma stored_slots_split:
  assumes "finite (dom m)"
  shows "stored_slots m = other_slots m key + object_slots (m key)"
proof (cases "key \<in> dom m")
  case True
  from sum.remove [OF assms True, of "\<lambda>j. object_slots (m j)"] show ?thesis
    by (simp add: stored_slots_def other_slots_def add.commute)
next
  case False
  then have "m key = None" by auto
  with False show ?thesis by (simp add: stored_slots_def other_slots_def object_slots_def)
qed

lemma other_slots_upd [simp]: "other_slots (m(key := v)) key = other_slots m key"
proof -
  have "dom (m(key := v)) - {key} = dom m - {key}" by auto
  then show ?thesis unfolding other_slots_def by (auto intro!: sum.cong)
qed

lemma stored_slots_upd:
  "finite (dom m) \<Longrightarrow> stored_slots (m(key := v)) = other_slots m key + object_slots v"
  using stored_slots_split [of "m(key := v)" key] by simp

lemma pulling_slots_map:
  "pulling_slots nss =
     mset_where (\<lambda>x. snd x = NodePullStatusPulling) fst (map (\<lambda>ns. (ns_Node ns, ns_Status ns)) nss)"
  by (induction nss) simp_all

lemma same_status_slots:
  "same_status st st' \<Longrightarrow> pulling_slots (st_NodeStatus st') = pulling_slots (st_NodeStatus st)"
  unfolding same_status_def pulling_slots_map by simp

text \<open>
  What holds of every stored object: no node is pulling before kwarm has put its finalizer on
  the object and has set its phase.
\<close>

definition object_ok :: "PrePullImage \<Rightarrow> bool" where
  "object_ok p \<longleftrightarrow>
     (FinalizerName \<notin> ppi_finalizers p \<and> \<not> ppi_deleted p \<longrightarrow> pulling_slots (ppi_Nodes p) = {#}) \<and>
     (ppi_Phase p = '''' \<or> ppi_Phase p = PrePullImagePhasePending \<longrightarrow> pulling_slots (ppi_Nodes p) = {#})"

definition store_ok :: "(objkey \<rightharpoonup> PrePullImage) \<Rightarrow> bool" where
  "store_ok m \<longleftrightarrow> finite (dom m) \<and>
     (\<forall>key p. m key = Some p \<longrightarrow> key_of (ppi_Meta p) = key \<and> object_ok p)"

lemma store_ok_upd:
  "store_ok m \<Longrightarrow> key_of (ppi_Meta p) = key \<Longrightarrow> object_ok p \<Longrightarrow> store_ok (m(key \<mapsto> p))"
  "store_ok m \<Longrightarrow> store_ok (m(key := None))"
  by (auto simp: store_ok_def)

text \<open>
  An account \<open>holds\<close> of the slots in use is in step with the store when the slots it is kept for
  are those of the stored objects. What follows is proved for every account that takes part in
  \<open>slot_account\<close>.
\<close>

definition in_sync ::
  "(RateLimiter \<Rightarrow> string multiset \<Rightarrow> bool) \<Rightarrow> (objkey \<rightharpoonup> PrePullImage) \<Rightarrow> RateLimiter \<Rightarrow> bool" where
  "in_sync holds m l \<longleftrightarrow> store_ok m \<and> holds l (stored_slots m)"

lemma object_ok_finalized:
  assumes "FinalizerName \<in> ppi_finalizers new" and "same_status (ppi_Status p) (ppi_Status new)" and "object_ok p"
  shows "object_ok new"
  using assms same_status_slots [OF assms(2)] by (simp add: object_ok_def same_status_def)

lemma set_finalizers_simps [simp]:
  "key_of (ppi_Meta (set_finalizers fs p)) = key_of (ppi_Meta p)"
  "meta_Finalizers (ppi_Meta (set_finalizers fs p)) = fs"
  by (simp_all add: set_finalizers_def key_of_def)

lemma store_finalizers:
  assumes "ppi_store k stored"
  shows "ContainsFinalizer k fs f \<longleftrightarrow> f \<in> set fs"
    and "set (AddFinalizer k fs f) = insert f (set fs)"
    and "set (RemoveFinalizer k fs f) = set fs - {f}"
  using assms by (simp_all add: ppi_store_def documented_def)

context slot_account begin

lemma in_sync_object:
  assumes "in_sync holds m l" and "m key = Some p"
  shows "object_ok p" "key_of (ppi_Meta p) = key" "holds l (other_slots m key + object_slots (Some p))"
  using assms stored_slots_split [of m key] by (auto simp: in_sync_def store_ok_def)

lemma in_sync_put:
  assumes "in_sync holds m l" and "key_of (ppi_Meta p) = key" and "object_ok p"
    and "holds l' (other_slots m key + object_slots (Some p))"
  shows "in_sync holds (m(key \<mapsto> p)) l'"
proof -
  have ok: "store_ok m" using assms(1) by (simp add: in_sync_def)
  then have "stored_slots (m(key \<mapsto> p)) = other_slots m key + object_slots (Some p)"
    using stored_slots_upd [of m key "Some p"] by (simp add: store_ok_def)
  with assms(4) store_ok_upd(1) [OF ok assms(2,3)] show ?thesis by (simp only: in_sync_def)
qed

lemma in_sync_remove:
  assumes "in_sync holds m l" and "holds l' (other_slots m key)"
  shows "in_sync holds (m(key := None)) l'"
proof -
  have ok: "store_ok m" using assms(1) by (simp add: in_sync_def)
  then have "stored_slots (m(key := None)) = other_slots m key"
    using stored_slots_upd [of m key None] by (simp add: store_ok_def object_slots_def)
  with ok assms(2) store_ok_upd(2) [OF ok] show ?thesis by (simp only: in_sync_def)
qed

end

section \<open>Reconciles keep the limiter in step with the store\<close>

context slot_account begin

lemma status_written:
  assumes k: "ppi_store k stored" and w: "world (StatusUpdatePPI k p') s = (Inr q, s')"
    and m: "stored (op_World s) = m" "m key = Some p" "in_sync holds m l"
    and p': "key_of (ppi_Meta p') = key" "FinalizerName \<in> ppi_finalizers p"
      "ppi_Phase p' = '''' \<or> ppi_Phase p' = PrePullImagePhasePending \<Longrightarrow> pulling_slots (ppi_Nodes p') = {#}"
    and l: "holds (op_Limiter s) (other_slots m key + pulling_slots (ppi_Nodes p'))"
  shows "in_sync holds (stored (op_World s')) (op_Limiter s')"
proof -
  from world_eqD [OF w] have lim: "op_Limiter s' = op_Limiter s"
    and u: "StatusUpdatePPI k p' (op_World s) = (Inr q, op_World s')" by auto
  from store_status [OF k u] m(1) p'(1) obtain old new where 1: "m key = Some old"
    "stored (op_World s') = m(key \<mapsto> new)" "key_of (ppi_Meta new) = key_of (ppi_Meta old)"
    "ppi_finalizers new = ppi_finalizers old" "same_status (ppi_Status p') (ppi_Status new)"
    unfolding status_updated_def by blast
  with m(2) have old: "old = p" by simp
  have slots: "pulling_slots (ppi_Nodes new) = pulling_slots (ppi_Nodes p')"
    by (rule same_status_slots [OF 1(5)])
  have phase: "ppi_Phase new = ppi_Phase p'"
    using 1(5) by (simp add: same_status_def)
  have "in_sync holds (m(key \<mapsto> new)) (op_Limiter s)"
    using m(3)
  proof (rule in_sync_put)
    show "key_of (ppi_Meta new) = key" using 1 old in_sync_object(2) [OF m(3,2)] by simp
    show "object_ok new" using 1 old p'(2,3) slots phase by (simp add: object_ok_def)
    show "holds (op_Limiter s) (other_slots m key + object_slots (Some new))"
      using 1 old p'(2) slots l by (simp add: object_slots_def)
  qed
  with 1 lim show ?thesis by simp
qed

lemma handleInProgress_sync:
  assumes k: "ppi_store k stored" and m: "stored (op_World s) key = Some p"
    and sync: "in_sync holds (stored (op_World s)) (op_Limiter s)"
    and p: "FinalizerName \<in> ppi_finalizers p" "ppi_Phase p = PrePullImagePhaseInProgress"
    and r: "handleInProgress k p s = (Inr res, s')"
  shows "in_sync holds (stored (op_World s')) (op_Limiter s')"
proof -
  obtain p1 c s1 where 1: "progress k p s = (p1, c, s1)" by (metis prod_cases3)
  from r 1 obtain q s2 where 2: "world (StatusUpdatePPI k p1) s1 = (Inr q, s2)"
    and 3: "s' = updatePhaseMetrics k s2"
    by (auto simp: handleInProgress_def Let_def split: prod.splits sum.splits if_splits)
  let ?m = "stored (op_World s)"
  note obj = in_sync_object [OF sync m]
  have m1: "stored (op_World s1) = ?m" by (rule progress_keeps [OF k 1])
  have "ppi_Phase p1 \<in> {PrePullImagePhaseInProgress, PrePullImagePhaseFailed, PrePullImagePhaseCompleted}"
    using 1 by (rule progress_split) (use p(2) in \<open>auto dest!: conclude_phase split: if_splits\<close>)
  then have phase: "ppi_Phase p1 \<noteq> ''''" "ppi_Phase p1 \<noteq> PrePullImagePhasePending" by auto
  have "holds (op_Limiter s1) (other_slots ?m key + pulling_slots (ppi_Nodes p1))"
    using progress_slots [OF 1] obj(3) p(1) by (simp add: object_slots_def)
  from status_written [OF k 2 m1 m sync _ p(1) _ this] phase progress_frame [OF 1] obj(2)
  have "in_sync holds (stored (op_World s2)) (op_Limiter s2)" by simp
  with 3 updatePhaseMetrics_frame [OF k, of s2] show ?thesis by simp
qed


lemma handlePending_sync:
  assumes k: "ppi_store k stored" and m: "stored (op_World s) key = Some p"
    and sync: "in_sync holds (stored (op_World s)) (op_Limiter s)"
    and p: "FinalizerName \<in> ppi_finalizers p" "ppi_Phase p = '''' \<or> ppi_Phase p = PrePullImagePhasePending"
    and r: "handlePending k p s = (Inr res, s')"
  shows "in_sync holds (stored (op_World s')) (op_Limiter s')"
proof -
  let ?m = "stored (op_World s)"
  note obj = in_sync_object [OF sync m]
  have none: "pulling_slots (ppi_Nodes p) = {#}" using obj(1) p(2) by (simp add: object_ok_def)
  then have lim: "holds (op_Limiter s) (other_slots ?m key)" using obj(3) p(1) by (simp add: object_slots_def)
  have wr: "in_sync holds (stored (op_World s2)) (op_Limiter s2)"
    if "stored (op_World s1) = ?m" "op_Limiter s1 = op_Limiter s"
      "setCondition_PPI k ty st re ms (set_Status f p) s1 = (p1, s1')"
      "world (StatusUpdatePPI k p1) s1' = (Inr q, s2)"
      "pulling_slots (st_NodeStatus (f (ppi_Status p))) = {#}"
    for s1 ty st re ms f p1 s1' q s2
  proof -
    note fr = setCondition_frame [OF that(3)]
    have nodes: "pulling_slots (ppi_Nodes p1) = {#}" using fr that(5) by auto
    show ?thesis
      using status_written [OF k that(4) _ m sync _ p(1)] setCondition_keeps [OF k that(3)] fr that(1,2)
        nodes lim obj(2) by simp
  qed
  obtain tn s1 where t: "world (getTargetNodes_PPI k p) s = (tn, s1)" by (metis prod.collapse)
  have s1: "stored (op_World s1) = ?m" "op_Limiter s1 = op_Limiter s"
    using quiet_world [OF quiet_jobs(6) [OF k] t] world_eqD [OF t] by auto
  have pend: "pulling_slots (st_NodeStatus (initial_status ns t st)) = {#}" for ns t st
    by (simp add: initial_status_def pulling_slots_def) (rule mset_where_none, auto)
  obtain nodes where tn: "tn = Inr nodes"
    using r t by (cases tn) (auto simp: handlePending_def)
  show ?thesis
  proof (cases "nodes = []")
    case True
    with r t tn show ?thesis
      by (auto simp: handlePending_def split: prod.splits sum.splits)
         (rule wr [OF s1], assumption, assumption, simp add: none)
  next
    case False
    obtain now s2 where n: "world (Now k) s1 = (now, s2)" by (metis prod.collapse)
    have "stored (op_World s2) = ?m" "op_Limiter s2 = op_Limiter s"
      using quiet_world [OF store_quiet(1) [OF k] n] world_eqD [OF n] s1 by auto
    note wr = wr [OF this]
    from False r t tn n show ?thesis
      by (auto simp: handlePending_def event_PPI_def split: prod.splits sum.splits)
         (rule wr, assumption, assumption, simp add: pend)
  qed
qed

lemma handleCompleted_sync:
  assumes k: "ppi_store k stored" and m: "stored (op_World s) key = Some p"
    and sync: "in_sync holds (stored (op_World s)) (op_Limiter s)"
    and p: "FinalizerName \<in> ppi_finalizers p"
    and r: "handleCompleted k p s = (Inr res, s')"
  shows "in_sync holds (stored (op_World s')) (op_Limiter s')"
proof -
  let ?m = "stored (op_World s)"
  note obj = in_sync_object [OF sync m]
  obtain now s1 where n: "world (Now k) s = (now, s1)" by (metis prod.collapse)
  have s1: "stored (op_World s1) = ?m" "op_Limiter s1 = op_Limiter s"
    using quiet_world [OF store_quiet(1) [OF k] n] world_eqD [OF n] by auto
  consider "s' = s" | "s' = s1" | "world (DeletePPI k p) s1 = (None, s')"
    using r n by (auto simp: handleCompleted_def Let_def split: prod.splits option.splits if_splits)
  then show ?thesis
  proof cases
    case 3
    from world_eqD [OF this] s1 have lim: "op_Limiter s' = op_Limiter s"
      and d: "DeletePPI k p (op_World s1) = (None, op_World s')" by auto
    from store_delete [OF k d] s1(1) m obj(2) p obtain new where 1: "stored (op_World s') = ?m(key \<mapsto> new)"
      "key_of (ppi_Meta new) = key" "ppi_finalizers new = ppi_finalizers p"
      "same_status (ppi_Status p) (ppi_Status new)"
      unfolding object_deleted_def by (auto split: if_splits)
    have "object_slots (Some new) = object_slots (Some p)"
      using 1(3) same_status_slots [OF 1(4)] by (simp add: object_slots_def)
    with in_sync_put [OF sync 1(2) object_ok_finalized] 1 obj p lim show ?thesis by simp
  qed (use sync s1 in simp_all)
qed


lemma handleDeletion_sync:
  assumes k: "ppi_store k stored" and m: "stored (op_World s) key = Some p"
    and sync: "in_sync holds (stored (op_World s)) (op_Limiter s)"
    and p: "ppi_deleted p" and r: "handleDeletion k p s = (Inr res, s')"
  shows "in_sync holds (stored (op_World s')) (op_Limiter s')"
proof (cases "FinalizerName \<in> ppi_finalizers p")
  case False
  with r sync show ?thesis by (simp add: handleDeletion_def store_finalizers [OF k])
next
  case True
  let ?m = "stored (op_World s)"
  note obj = in_sync_object [OF sync m]
  have "holds (op_Limiter s) (other_slots ?m key + pulling_slots (ppi_Nodes p))"
    using obj(3) True by (simp add: object_slots_def)
  note rel = release_pulling_slots [OF this]
  obtain e s2 where c: "world (CleanupJobsForPrePullImage k (ppi_Name p)) (release_pulling (ppi_Nodes p) s) = (e, s2)"
    by (metis prod.collapse)
  have s2: "stored (op_World s2) = ?m" "holds (op_Limiter s2) (other_slots ?m key)"
    using quiet_world [OF quiet_cleanup [OF k] c] world_eqD [OF c] rel by auto
  let ?p1 = "set_finalizers (RemoveFinalizer k (meta_Finalizers (ppi_Meta p)) FinalizerName) p"
  obtain q where w: "world (UpdatePPI k ?p1) s2 = (Inr q, s')"
    using r c True by (auto simp: handleDeletion_def Let_def store_finalizers [OF k] split: prod.splits sum.splits)
  from world_eqD [OF w] have lim: "op_Limiter s' = op_Limiter s2"
    and u: "UpdatePPI k ?p1 (op_World s2) = (Inr q, op_World s')" by auto
  have gone: "FinalizerName \<notin> ppi_finalizers ?p1" by (simp add: store_finalizers [OF k])
  consider (removed) "stored (op_World s') = ?m(key := None)"
    | (written) new where "stored (op_World s') = ?m(key \<mapsto> new)" "key_of (ppi_Meta new) = key"
      "ppi_finalizers new = ppi_finalizers ?p1" "ppi_deleted new" "same_status (ppi_Status p) (ppi_Status new)"
    using store_update [OF k u] s2(1) m obj(2) p
    unfolding object_updated_def by (auto split: if_splits)
  then show ?thesis
  proof cases
    case removed
    with in_sync_remove [OF sync s2(2)] lim show ?thesis by simp
  next
    case written
    have "object_ok new"
      using written same_status_slots [OF written(5)] obj(1) by (simp add: object_ok_def same_status_def)
    moreover have "object_slots (Some new) = {#}" using written(3) gone by (simp add: object_slots_def)
    ultimately show ?thesis
      using in_sync_put [OF sync written(2)] written(1) s2(2) lim by simp
  qed
qed

lemma add_finalizer_sync:
  assumes k: "ppi_store k stored" and m: "stored (op_World s) key = Some p"
    and sync: "in_sync holds (stored (op_World s)) (op_Limiter s)"
    and p: "\<not> ppi_deleted p" "FinalizerName \<notin> ppi_finalizers p"
    and w: "world (UpdatePPI k (set_finalizers (AddFinalizer k (meta_Finalizers (ppi_Meta p)) FinalizerName) p)) s
              = (Inr q, s')"
  shows "in_sync holds (stored (op_World s')) (op_Limiter s')"
proof -
  let ?m = "stored (op_World s)"
  let ?p1 = "set_finalizers (AddFinalizer k (meta_Finalizers (ppi_Meta p)) FinalizerName) p"
  note obj = in_sync_object [OF sync m]
  have none: "pulling_slots (ppi_Nodes p) = {#}" using obj(1) p by (simp add: object_ok_def)
  have fin: "FinalizerName \<in> ppi_finalizers ?p1" by (simp add: store_finalizers [OF k])
  from world_eqD [OF w] have lim: "op_Limiter s' = op_Limiter s"
    and u: "UpdatePPI k ?p1 (op_World s) = (Inr q, op_World s')" by auto
  from store_update [OF k u] m obj(2) p obtain new where 1: "stored (op_World s') = ?m(key \<mapsto> new)"
    "key_of (ppi_Meta new) = key" "ppi_finalizers new = ppi_finalizers ?p1"
    "same_status (ppi_Status p) (ppi_Status new)"
    unfolding object_updated_def by (auto split: if_splits)
  have "object_slots (Some new) = object_slots (Some p)"
    using 1 none p(2) same_status_slots [OF 1(4)] by (simp add: object_slots_def)
  with in_sync_put [OF sync 1(2) object_ok_finalized [OF _ 1(4) obj(1)]] 1 fin obj(3) lim
  show ?thesis by simp
qed

lemma dispatch_sync:
  assumes k: "ppi_store k stored" and m: "stored (op_World s) key = Some p"
    and sync: "in_sync holds (stored (op_World s)) (op_Limiter s)"
    and r: "dispatch_PPI k p s = (Inr res, s')"
  shows "in_sync holds (stored (op_World s')) (op_Limiter s')"
proof (cases "ppi_deleted p")
  case True
  with r handleDeletion_sync [OF k m sync True] show ?thesis by (simp add: dispatch_PPI_def)
next
  case live: False
  show ?thesis
  proof (cases "FinalizerName \<in> ppi_finalizers p")
    case False
    with r live add_finalizer_sync [OF k m sync live False] show ?thesis
      by (auto simp: dispatch_PPI_def store_finalizers [OF k] split: prod.splits sum.splits)
  next
    case True
    with r live sync handlePending_sync [OF k m sync True] handleInProgress_sync [OF k m sync True]
      handleCompleted_sync [OF k m sync True] show ?thesis
      by (auto simp: dispatch_PPI_def store_finalizers [OF k] handleFailed_def split: if_splits)
  qed
qed

lemma Reconcile_sync:
  assumes k: "ppi_store k stored" and sync: "in_sync holds (stored (op_World s)) (op_Limiter s)"
    and r: "Reconcile_PPI k req s = (Inr res, s')"
  shows "in_sync holds (stored (op_World s')) (op_Limiter s')"
proof -
  obtain t s1 where n: "world (Now k) s = (t, s1)" by (metis prod.collapse)
  obtain got s2 where g: "world (GetPPI k req) s1 = (got, s2)" by (metis prod.collapse)
  have s2: "stored (op_World s2) = stored (op_World s)" "op_Limiter s2 = op_Limiter s"
    using quiet_world [OF store_quiet(1) [OF k] n] world_eqD [OF n]
      quiet_world [OF store_quiet(4) [OF k] g] world_eqD [OF g] by auto
  obtain res' s3 where b: "reconcile_body_PPI k req s1 = (res', s3)" by (metis prod.collapse)
  obtain t' s4 where n': "world (Now k) s3 = (t', s4)" by (metis prod.collapse)
  have s4: "stored (op_World s4) = stored (op_World s3)" "op_Limiter s4 = op_Limiter s3"
    using quiet_world [OF store_quiet(1) [OF k] n'] world_eqD [OF n'] by auto
  from r n b n' have "res' = Inr res" and s': "op_World s' = op_World s4" "op_Limiter s' = op_Limiter s4"
    by (auto simp: Reconcile_PPI_def RecordReconcile_def)
  moreover have "in_sync holds (stored (op_World s3)) (op_Limiter s3)" if "res' = Inr res"
  proof (cases got)
    case (Inl err)
    with b g that s2 sync show ?thesis by (auto simp: reconcile_body_PPI_def split: if_splits)
  next
    case (Inr p)
    with b g that have d: "dispatch_PPI k p s2 = (Inr res, s3)" by (simp add: reconcile_body_PPI_def)
    from Inr world_eqD [OF g] have "fst (GetPPI k req (op_World s1)) = Inr p" by simp
    with store_get [OF k] quiet_world [OF store_quiet(4) [OF k] g] have "stored (op_World s2) req = Some p"
      by metis
    from dispatch_sync [OF k this _ d] s2 sync show ?thesis by simp
  qed
  ultimately show ?thesis using s4 s' by simp
qed

end

section \<open>The limits never change\<close>

definition limits :: "RateLimiter \<Rightarrow> go_int \<times> go_int" where
  "limits l = (maxConcurrentPulls l, maxPullsPerNode l)"

lemma limits_Release [simp]: "limits (Release l n) = limits l"
  by (simp add: limits_def)

lemma limits_TryAcquire: "TryAcquire l n = (b, l') \<Longrightarrow> limits l' = limits l"
  using TryAcquire_limits [of l n] by (simp add: limits_def)

lemma node_outcome_limits: "node_outcome m l ns c ns' c' l' es \<Longrightarrow> limits l' = limits l"
  by (induction rule: node_outcome.induct) (auto dest: limits_TryAcquire)

lemma handleNodes_limits:
  "handleNodes k p nss c s = (nss', c', s') \<Longrightarrow> limits (op_Limiter s') = limits (op_Limiter s)"
proof (induction nss arbitrary: c s nss')
  case (Cons ns nss)
  from Cons.prems show ?case
    by (rule handleNodes_ConsE) (use Cons.IH in \<open>auto dest: node_outcome_limits\<close>)
qed simp

lemma progress_limits: "progress k p s = (p', c, s') \<Longrightarrow> limits (op_Limiter s') = limits (op_Limiter s)"
  by (erule progress_split) (auto dest!: handleNodes_limits conclude_frame simp: SetQueueDepth_def)

lemma release_pulling_frame [simp]:
  "limits (op_Limiter (release_pulling nss s)) = limits (op_Limiter s)"
  "op_World (release_pulling nss s) = op_World s"
  by (induction nss arbitrary: s) (simp_all add: DecrementActivePulls_def release_slot_def)

section \<open>A reconcile that fails changes no object\<close>

text \<open>The calls of a handler that leave both the objects and the limiter alone.\<close>

definition calm :: "('w \<Rightarrow> 's) \<Rightarrow> 'w op \<Rightarrow> 'w op \<Rightarrow> bool" where
  "calm stored s s' \<longleftrightarrow> stored (op_World s') = stored (op_World s) \<and> op_Limiter s' = op_Limiter s"

lemma calm_refl [simp]: "calm stored s s"
  by (simp add: calm_def)

lemma calm_trans [trans]: "calm stored s s' \<Longrightarrow> calm stored s' s'' \<Longrightarrow> calm stored s s''"
  by (simp add: calm_def)

lemma calm_world: "quiet stored f \<Longrightarrow> world f s = (x, s') \<Longrightarrow> calm stored s s'"
  by (auto simp: calm_def dest: quiet_world world_eqD)

lemma calm_calls:
  assumes "ppi_store k stored"
  shows "world (getTargetNodes_PPI k p) s = (tn, s') \<Longrightarrow> calm stored s s'"
    and "world (Now k) s = (t, s') \<Longrightarrow> calm stored s s'"
    and "world (GetPPI k req) s = (got, s') \<Longrightarrow> calm stored s s'"
    and "world (CleanupJobsForPrePullImage k n) s = (er, s') \<Longrightarrow> calm stored s s'"
    and "setCondition_PPI k ty st re ms p s = (p', s') \<Longrightarrow> calm stored s s'"
    and "world (StatusUpdatePPI k p) s = (Inl e, s') \<Longrightarrow> calm stored s s'"
    and "world (UpdatePPI k p) s = (Inl e, s') \<Longrightarrow> calm stored s s'"
    and "world (DeletePPI k p) s = (Some e, s') \<Longrightarrow> calm stored s s'"
proof -
  show "setCondition_PPI k ty st re ms p s = (p', s') \<Longrightarrow> calm stored s s'"
    using setCondition_keeps [OF assms] setCondition_frame by (metis calm_def)
  note f = store_failed [OF assms] world_eqD
  show "world (StatusUpdatePPI k p) s = (Inl e, s') \<Longrightarrow> calm stored s s'"
    "world (UpdatePPI k p) s = (Inl e, s') \<Longrightarrow> calm stored s s'"
    "world (DeletePPI k p) s = (Some e, s') \<Longrightarrow> calm stored s s'"
    using f by (metis calm_def)+
qed (rule calm_world [rotated], assumption, rule quiet_jobs quiet_cleanup store_quiet, rule assms)+

text \<open>An error of a handler: its last call failed, and no call before it changed an object.\<close>

lemma handlePending_error:
  assumes k: "ppi_store k stored" and r: "handlePending k p s = (Inl e, s')"
  shows "calm stored s s'"
  using r by (auto simp: handlePending_def split: prod.splits sum.splits if_splits
      dest!: calm_calls [OF k] intro: calm_trans)

lemma handleCompleted_error:
  assumes k: "ppi_store k stored" and r: "handleCompleted k p s = (Inl e, s')"
  shows "calm stored s s'"
  using r by (auto simp: handleCompleted_def Let_def split: prod.splits option.splits if_splits
      dest!: calm_calls [OF k] intro: calm_trans)


lemma handleInProgress_error:
  assumes k: "ppi_store k stored" and r: "handleInProgress k p s = (Inl e, s')"
  shows "stored (op_World s') = stored (op_World s)"
proof -
  obtain p1 c s1 where 1: "progress k p s = (p1, c, s1)" by (metis prod_cases3)
  with r have "world (StatusUpdatePPI k p1) s1 = (Inl e, s')"
    by (auto simp: handleInProgress_def Let_def split: prod.splits sum.splits if_splits)
  from calm_calls(6) [OF k this] progress_keeps [OF k 1] show ?thesis by (simp add: calm_def)
qed

lemma handleDeletion_error:
  assumes k: "ppi_store k stored" and r: "handleDeletion k p s = (Inl e, s')"
  shows "stored (op_World s') = stored (op_World s)"
  using r quiet_cleanup [OF k] by (auto simp: handleDeletion_def Let_def calm_def quiet_def
      split: prod.splits sum.splits if_splits dest!: calm_calls [OF k])

lemma Reconcile_error:
  assumes k: "ppi_store k stored" and r: "Reconcile_PPI k req s = (Inl e, s')"
  shows "stored (op_World s') = stored (op_World s)"
proof -
  have "stored (op_World s') = stored (op_World s)" if "dispatch_PPI k p s = (Inl e, s')" for p s s'
    using that handlePending_error [OF k] handleCompleted_error [OF k]
    by (auto simp: dispatch_PPI_def handleFailed_def split: prod.splits sum.splits if_splits
        dest!: handleInProgress_error [OF k] handleDeletion_error [OF k] calm_calls [OF k]) (auto simp: calm_def)
  then show ?thesis
    using r by (auto simp: Reconcile_PPI_def reconcile_body_PPI_def RecordReconcile_def
        split: prod.splits sum.splits if_splits dest!: calm_calls [OF k]) (auto simp: calm_def)
qed

lemma dispatch_limits:
  assumes "dispatch_PPI k p s = (res, s')"
  shows "limits (op_Limiter s') = limits (op_Limiter s)"
proof -
  have "limits (op_Limiter s') = limits (op_Limiter s)" if "handlePending k p s = (res, s')"
    using that by (auto simp: handlePending_def event_PPI_def split: prod.splits sum.splits if_splits
        dest!: world_eqD setCondition_frame)
  moreover have "limits (op_Limiter s') = limits (op_Limiter s)" if "handleInProgress k p s = (res, s')"
    using that by (auto simp: handleInProgress_def Let_def split: prod.splits sum.splits if_splits
        dest!: world_eqD progress_limits)
      (auto simp: updatePhaseMetrics_def Let_def split: prod.splits sum.splits dest!: world_eqD)
  moreover have "limits (op_Limiter s') = limits (op_Limiter s)" if "handleCompleted k p s = (res, s')"
    using that by (auto simp: handleCompleted_def Let_def split: prod.splits option.splits if_splits
        dest!: world_eqD)
  moreover have "limits (op_Limiter s') = limits (op_Limiter s)" if "handleDeletion k p s = (res, s')"
    using that by (auto simp: handleDeletion_def Let_def split: prod.splits sum.splits if_splits
        dest!: world_eqD)
  ultimately show ?thesis
    using assms by (auto simp: dispatch_PPI_def handleFailed_def split: prod.splits sum.splits if_splits
        dest!: world_eqD)
qed

lemma Reconcile_limits:
  "Reconcile_PPI k req s = (res, s') \<Longrightarrow> limits (op_Limiter s') = limits (op_Limiter s)"
  by (auto simp: Reconcile_PPI_def reconcile_body_PPI_def RecordReconcile_def
      split: prod.splits sum.splits if_splits dest!: world_eqD dispatch_limits)


text \<open>Nor do the counters ever pass them, whether a reconcile succeeds or not.\<close>

lemma progress_within:
  "progress k p s = (p', c, s') \<Longrightarrow> within_limits (op_Limiter s) \<Longrightarrow> within_limits (op_Limiter s')"
  by (drule bounded.progress_slots) auto

lemma dispatch_within:
  assumes "dispatch_PPI k p s = (res, s')" and w: "within_limits (op_Limiter s)"
  shows "within_limits (op_Limiter s')"
proof -
  have "op_Limiter s' = op_Limiter s" if "handlePending k p s = (res, s')"
    using that by (auto simp: handlePending_def event_PPI_def split: prod.splits sum.splits if_splits
        dest!: world_eqD setCondition_frame)
  moreover have "within_limits (op_Limiter s')" if h: "handleInProgress k p s = (res, s')"
  proof -
    obtain p1 c s1 where 1: "progress k p s = (p1, c, s1)" by (metis prod_cases3)
    with h have "op_Limiter s' = op_Limiter s1"
      by (auto simp: handleInProgress_def updatePhaseMetrics_def Let_def split: prod.splits sum.splits if_splits
          dest!: world_eqD)
    with progress_within [OF 1 w] show ?thesis by simp
  qed
  moreover have "op_Limiter s' = op_Limiter s" if "handleCompleted k p s = (res, s')"
    using that by (auto simp: handleCompleted_def Let_def split: prod.splits option.splits if_splits
        dest!: world_eqD)
  moreover have "within_limits (op_Limiter s')" if h: "handleDeletion k p s = (res, s')"
  proof (cases "ContainsFinalizer k (meta_Finalizers (ppi_Meta p)) FinalizerName")
    case True
    have "within_limits (op_Limiter (release_pulling (ppi_Nodes p) s))"
      using bounded.release_pulling_slots [of s "ppi_Nodes p"] w by simp
    with handleDeletion_result [OF True h] show ?thesis by simp
  qed (use h w in \<open>simp add: handleDeletion_def\<close>)
  ultimately show ?thesis
    using assms by (auto simp: dispatch_PPI_def handleFailed_def split: prod.splits sum.splits if_splits
        dest!: world_eqD)
qed

lemma Reconcile_within:
  assumes "Reconcile_PPI k req s = (res, s')" and "within_limits (op_Limiter s)"
  shows "within_limits (op_Limiter s')"
  using assms by (auto simp: Reconcile_PPI_def reconcile_body_PPI_def RecordReconcile_def
      split: prod.splits sum.splits if_splits dest!: world_eqD dispatch_within)


section \<open>The operator and its environment\<close>

text \<open>
  What others may do to the PrePullImages between reconciles. They create objects (the API
  server gives those an empty status), change specs and metadata, ask for deletion and add
  or remove finalizers of their own; they leave the statuses and kwarm's finalizer alone,
  so an object that carries it does not go away.
\<close>

definition env_object :: "PrePullImage option \<Rightarrow> PrePullImage option \<Rightarrow> bool" where
  "env_object v v' = (case v' of
      None \<Rightarrow> (case v of None \<Rightarrow> True | Some p \<Rightarrow> FinalizerName \<notin> ppi_finalizers p)
    | Some p' \<Rightarrow> (case v of
        None \<Rightarrow> ppi_Nodes p' = []
      | Some p \<Rightarrow> same_status (ppi_Status p) (ppi_Status p') \<and>
          (FinalizerName \<in> ppi_finalizers p' \<longleftrightarrow> FinalizerName \<in> ppi_finalizers p) \<and>
          (ppi_deleted p \<longrightarrow> ppi_deleted p')))"

definition env_change :: "(objkey \<rightharpoonup> PrePullImage) \<Rightarrow> (objkey \<rightharpoonup> PrePullImage) \<Rightarrow> bool" where
  "env_change m m' \<longleftrightarrow> finite (dom m') \<and>
     (\<forall>key p'. m' key = Some p' \<longrightarrow> key_of (ppi_Meta p') = key) \<and>
     (\<forall>key. env_object (m key) (m' key))"

text \<open>
  The runs of the operator with the limits \<open>a\<close> and \<open>b\<close>. It is installed when no node is pulling;
  then reconciles of any objects, in any order, succeeding or failing, mix with changes of the
  environment and of the rest of the world (jobs, nodes, the clock), and at any time the
  process may be stopped, even within a reconcile, and started again, with other limits if
  one likes. Two indices record what can part the limiter from the objects:

    \<^item> \<open>B\<close>, the slots of the nodes that were pulling when the process started: \<open>main\<close> builds an
      empty limiter and nothing takes slots for them;
    \<^item> \<open>F\<close>, the limiter before and after each reconcile of this process that returned an error: its
      writes had no effect on the objects, but what it did to the limiter stays.
\<close>

inductive reachable ::
  "'w k8s \<Rightarrow> ('w \<Rightarrow> objkey \<rightharpoonup> PrePullImage) \<Rightarrow> go_int \<Rightarrow> go_int \<Rightarrow> string multiset \<Rightarrow>
     (RateLimiter \<times> RateLimiter) list \<Rightarrow> 'w op \<Rightarrow> bool"
  for k stored
where
  installed: "finite (dom (stored (op_World s))) \<Longrightarrow>
    (\<And>key p. stored (op_World s) key = Some p \<Longrightarrow>
       key_of (ppi_Meta p) = key \<and> pulling_slots (ppi_Nodes p) = {#}) \<Longrightarrow>
    op_Limiter s = NewRateLimiter a b \<Longrightarrow> reachable k stored a b {#} [] s"
| restarted: "reachable k stored a' b' B F s \<Longrightarrow> env_change (stored (op_World s)) (stored (op_World s')) \<Longrightarrow>
    op_Limiter s' = NewRateLimiter a b \<Longrightarrow>
    reachable k stored a b (stored_slots (stored (op_World s'))) [] s'"
| reconciled: "reachable k stored a b B F s \<Longrightarrow> Reconcile_PPI k req s = (Inr res, s') \<Longrightarrow>
    reachable k stored a b B F s'"
| reconcile_failed: "reachable k stored a b B F s \<Longrightarrow> Reconcile_PPI k req s = (Inl err, s') \<Longrightarrow>
    reachable k stored a b B ((op_Limiter s, op_Limiter s') # F) s'"
| environment: "reachable k stored a b B F s \<Longrightarrow> env_change (stored (op_World s)) (stored (op_World s')) \<Longrightarrow>
    op_Limiter s' = op_Limiter s \<Longrightarrow> reachable k stored a b B F s'"

text \<open>By how much the failed reconciles have lowered the counters.\<close>

definition slots_dropped :: "(RateLimiter \<times> RateLimiter) list \<Rightarrow> nat" where
  "slots_dropped F = sum_list (map (\<lambda>(l, l'). nat (used l - used l')) F)"

definition slots_dropped_on :: "(RateLimiter \<times> RateLimiter) list \<Rightarrow> string \<Rightarrow> nat" where
  "slots_dropped_on F n = sum_list (map (\<lambda>(l, l'). nat (used_on l n - used_on l' n)) F)"

definition limiter_left_alone :: "(RateLimiter \<times> RateLimiter) list \<Rightarrow> bool" where
  "limiter_left_alone F \<longleftrightarrow> list_all (\<lambda>(l, l'). l' = l) F"

lemma slots_dropped_simps [simp]:
  "slots_dropped [] = 0" "slots_dropped ((l, l') # F) = nat (used l - used l') + slots_dropped F"
  "slots_dropped_on [] n = 0"
  "slots_dropped_on ((l, l') # F) n = nat (used_on l n - used_on l' n) + slots_dropped_on F n"
  "limiter_left_alone []" "limiter_left_alone ((l, l') # F) \<longleftrightarrow> l' = l \<and> limiter_left_alone F"
  by (simp_all add: slots_dropped_def slots_dropped_on_def limiter_left_alone_def)

abbreviation shortfall ::
  "string multiset \<Rightarrow> (RateLimiter \<times> RateLimiter) list \<Rightarrow> RateLimiter \<Rightarrow> string multiset \<Rightarrow> bool" where
  "shortfall B F \<equiv> covers (size B + slots_dropped F) (\<lambda>n. count B n + slots_dropped_on F n)"

lemma env_object_slots:
  assumes "env_object v v'"
  shows "object_slots v' = object_slots v"
  using assms by (auto simp: env_object_def object_slots_def split: option.splits dest: same_status_slots)

lemma env_object_ok:
  assumes "env_object v (Some p')" and "\<And>p. v = Some p \<Longrightarrow> object_ok p"
  shows "object_ok p'"
proof (cases v)
  case None
  with assms show ?thesis by (simp add: env_object_def object_ok_def)
next
  case (Some p)
  with assms have e: "same_status (ppi_Status p) (ppi_Status p')"
    "FinalizerName \<in> ppi_finalizers p' \<longleftrightarrow> FinalizerName \<in> ppi_finalizers p" "ppi_deleted p \<longrightarrow> ppi_deleted p'"
    by (simp_all add: env_object_def)
  show ?thesis
    using assms(2) [OF Some] e same_status_slots [OF e(1)] by (auto simp: object_ok_def same_status_def)
qed

lemma stored_slots_cong:
  assumes "finite (dom m)" "finite (dom m')" and "\<And>key. object_slots (m' key) = object_slots (m key)"
  shows "stored_slots m' = stored_slots m"
proof -
  have ext: "stored_slots n = (\<Sum>j \<in> dom m \<union> dom m'. object_slots (n j))"
    if "dom n \<subseteq> dom m \<union> dom m'" for n
    unfolding stored_slots_def
    by (rule sum.mono_neutral_left) (use assms(1,2) that in \<open>auto simp: object_slots_def split: option.splits\<close>)
  show ?thesis using ext [of m] ext [of m'] assms(3) by simp
qed

lemma env_change_store:
  assumes "store_ok m" and "env_change m m'"
  shows "store_ok m'" "stored_slots m' = stored_slots m"
proof -
  have "finite (dom m)" "finite (dom m')" "\<And>key. object_slots (m' key) = object_slots (m key)"
    using assms by (auto simp: store_ok_def env_change_def env_object_slots)
  from stored_slots_cong [OF this] show "stored_slots m' = stored_slots m" .
  have "object_ok p'" if "m' key = Some p'" for key p'
  proof (rule env_object_ok)
    from assms(2) that show "env_object (m key) (Some p')" by (metis env_change_def)
    fix p
    assume "m key = Some p"
    with assms(1) show "object_ok p" by (auto simp: store_ok_def)
  qed
  then show "store_ok m'"
    using assms by (auto simp: store_ok_def env_change_def)
qed

lemma stored_slots_none:
  assumes "\<And>key p. m key = Some p \<Longrightarrow> pulling_slots (ppi_Nodes p) = {#}"
  shows "stored_slots m = {#}"
proof -
  have "stored_slots m = (\<Sum>j \<in> dom m. {#})"
    unfolding stored_slots_def
    by (rule sum.cong) (use assms in \<open>auto simp: object_slots_def split: option.splits\<close>)
  then show ?thesis by simp
qed

context slot_account begin

lemma env_change_sync:
  assumes "in_sync holds m l" and "env_change m m'"
  shows "in_sync holds m' l"
  using env_change_store [OF _ assms(2)] assms(1) by (simp add: in_sync_def)

end

lemma reachable_covers:
  assumes k: "ppi_store k stored" and "reachable k stored a b B F s"
  shows "in_sync (shortfall B F) (stored (op_World s)) (op_Limiter s) \<and>
    limits (op_Limiter s) = limits (NewRateLimiter a b)"
  using assms(2)
proof (induction rule: reachable.induct)
  case (installed s a b)
  then have "stored_slots (stored (op_World s)) = {#}" by (intro stored_slots_none) auto
  moreover have "count ({#} :: string multiset) = (\<lambda>n. 0)" by (rule ext) simp
  ultimately show ?case
    using installed covers_start [of "{#}" a b] by (auto simp: in_sync_def store_ok_def object_ok_def)
next
  case (restarted a' b' B F s s' a b)
  then have "store_ok (stored (op_World s'))" using env_change_store(1) by (auto simp: in_sync_def)
  with restarted(3) show ?case using covers_start by (auto simp: in_sync_def)
next
  case (reconciled a b B F s req res s')
  with covered.Reconcile_sync [OF k] Reconcile_limits show ?case by metis
next
  case (reconcile_failed a b B F s req err s')
  let ?l = "op_Limiter s" and ?l' = "op_Limiter s'"
  have c: "shortfall B F ?l (stored_slots (stored (op_World s)))" "store_ok (stored (op_World s))"
    using reconcile_failed.IH by (simp_all add: in_sync_def)
  have "within_limits ?l'" by (rule Reconcile_within [OF reconcile_failed.hyps(2) coversD(1) [OF c(1)]])
  from covers_changed [OF c(1) this] have "shortfall B ((?l, ?l') # F) ?l' (stored_slots (stored (op_World s)))"
    by (simp add: ac_simps)
  with c(2) reconcile_failed.IH Reconcile_error [OF k reconcile_failed.hyps(2)]
    Reconcile_limits [OF reconcile_failed.hyps(2)] show ?case by (simp add: in_sync_def)
next
  case (environment a b B F s s')
  with covered.env_change_sync show ?case by metis
qed

text \<open>While no failed reconcile has touched the limiter, and none was pulling at the start, it is exact.\<close>

lemma reachable_exact:
  assumes k: "ppi_store k stored" and "reachable k stored a b B F s" and "B = {#}" and "limiter_left_alone F"
  shows "in_sync rl_holds (stored (op_World s)) (op_Limiter s)"
  using assms(2-)
proof (induction rule: reachable.induct)
  case (installed s a b)
  then have "stored_slots (stored (op_World s)) = {#}" by (intro stored_slots_none) auto
  with installed rl_holds_new show ?case by (auto simp: in_sync_def store_ok_def object_ok_def)
next
  case (restarted a' b' B F s s' a b)
  have "store_ok (stored (op_World s))"
    using reachable_covers [OF k restarted.hyps(1)] by (simp add: in_sync_def)
  with restarted env_change_store(1) rl_holds_new show ?case by (simp add: in_sync_def)
next
  case (reconciled a b B F s req res s')
  then show ?case using exact.Reconcile_sync [OF k] by blast
next
  case (reconcile_failed a b B F s req err s')
  with Reconcile_error [OF k reconcile_failed.hyps(2)] show ?case by simp
next
  case (environment a b B F s s')
  then show ?case using exact.env_change_sync by metis
qed

lemma reachable_bounds:
  assumes "ppi_store k stored" and "reachable k stored a b B F s"
  shows "int (size (stored_slots (stored (op_World s))))
      \<le> sint (MaxConcurrentPulls (NewRateLimiter a b)) + int (size B) + int (slots_dropped F) \<and>
    (\<forall>n. int (count (stored_slots (stored (op_World s))) n)
      \<le> sint (MaxPullsPerNode (NewRateLimiter a b)) + int (count B n) + int (slots_dropped_on F n))"
proof -
  from reachable_covers [OF assms] have c: "shortfall B F (op_Limiter s) (stored_slots (stored (op_World s)))"
    and l: "maxConcurrentPulls (op_Limiter s) = maxConcurrentPulls (NewRateLimiter a b)"
      "maxPullsPerNode (op_Limiter s) = maxPullsPerNode (NewRateLimiter a b)"
    by (simp_all add: in_sync_def limits_def)
  have w: "used (op_Limiter s) \<le> sint (MaxConcurrentPulls (NewRateLimiter a b))"
    "used_on (op_Limiter s) n \<le> sint (MaxPullsPerNode (NewRateLimiter a b))" for n
    using coversD(1) [OF c] l by (simp_all add: within_limits_def MaxConcurrentPulls_def MaxPullsPerNode_def)
  have "int (count (stored_slots (stored (op_World s))) n)
      \<le> sint (MaxPullsPerNode (NewRateLimiter a b)) + int (count B n) + int (slots_dropped_on F n)" for n
    using coversD(3) [OF c, of n] w(2) [of n] by simp
  then show ?thesis using coversD(2) [OF c] w(1) by auto
qed

text \<open>
  (C1) The limits over every run of the operator: reconciles of any PrePullImages in any order,
  failed ones included, restarts, and anything the environment may do. At every moment the
  number of nodes that the API server shows as pulling, over all objects, is at most
  \<open>maxConcurrentPulls\<close>, plus the nodes that were pulling already when the process started, plus
  the slots by which reconciles that then failed had lowered the limiter's counter; and
  likewise for each node and \<open>maxPullsPerNode\<close>. When there are none of either kind, the limits
  hold as they are; and when, further, no failed reconcile had touched the limiter, its counters
  are exactly the pulling nodes, so that no slot is lost either.
\<close>

theorem pulling_nodes_bounded:
  assumes "ppi_store k stored" and "reachable k stored a b B F s"
  shows "int (size (stored_slots (stored (op_World s))))
      \<le> sint (MaxConcurrentPulls (NewRateLimiter a b)) + int (size B) + int (slots_dropped F) \<and>
    (\<forall>n. int (count (stored_slots (stored (op_World s))) n)
      \<le> sint (MaxPullsPerNode (NewRateLimiter a b)) + int (count B n) + int (slots_dropped_on F n)) \<and>
    (B = {#} \<and> limiter_left_alone F \<longrightarrow>
      sint (CurrentPulls (op_Limiter s)) = int (size (stored_slots (stored (op_World s)))) \<and>
      (\<forall>n. sint (CurrentPullsForNode (op_Limiter s) n) = int (count (stored_slots (stored (op_World s))) n)))"
  using reachable_bounds [OF assms] reachable_exact [OF assms]
  by (auto simp: in_sync_def rl_holds_def CurrentPulls_def CurrentPullsForNode_def)


text \<open>The in-memory server obeys the laws, and a reconcile on it starts a pull.\<close>

lemma put_object:
  assumes "key_of (ppi_Meta new) = key_of (ppi_Meta old)" and "ppi_finalizers new = fs"
    and "ppi_deleted new = d" and "ppi_Status new = ppi_Status old"
  shows "\<exists>new'. m(key \<mapsto> new) = m(key \<mapsto> new') \<and> key_of (ppi_Meta new') = key_of (ppi_Meta old) \<and>
    ppi_finalizers new' = fs \<and> ppi_deleted new' = d \<and> same_status (ppi_Status old) (ppi_Status new')"
  by (rule exI [of _ new]) (simp add: assms same_status_def del: not_None_eq)

lemma mem_update_law:
  assumes "mem_update_ppi p w = (Inr q, w')"
  shows "object_updated p (mem_ppis w) (mem_ppis w')"
proof -
  let ?key = "key_of (ppi_Meta p)"
  obtain old where old: "mem_ppis w ?key = Some old"
    using assms by (auto simp: mem_update_ppi_def Let_def split: option.splits)
  let ?new = "old\<lparr>ppi_Meta := (ppi_Meta old)
    \<lparr>meta_Labels := meta_Labels (ppi_Meta p), meta_Annotations := meta_Annotations (ppi_Meta p),
     meta_Finalizers := meta_Finalizers (ppi_Meta p)\<rparr>, ppi_Spec := ppi_Spec p\<rparr>"
  have "mem_ppis w' = (if ppi_deleted old \<and> ppi_finalizers p = {} then (mem_ppis w)(?key := None)
      else (mem_ppis w)(?key \<mapsto> ?new))"
    using assms old by (auto simp: mem_update_ppi_def Let_def split: if_splits)
  moreover have "\<exists>new'. (mem_ppis w)(?key \<mapsto> ?new) = (mem_ppis w)(?key \<mapsto> new') \<and>
    key_of (ppi_Meta new') = key_of (ppi_Meta old) \<and> ppi_finalizers new' = ppi_finalizers p \<and>
    ppi_deleted new' = ppi_deleted old \<and> same_status (ppi_Status old) (ppi_Status new')"
    by (rule put_object) (simp_all add: key_of_def)
  ultimately show ?thesis
    unfolding object_updated_def using old by (metis (no_types, lifting))
qed

lemma mem_delete_law:
  assumes "mem_delete_ppi p w = (None, w')"
  shows "object_deleted p (mem_ppis w) (mem_ppis w')"
proof -
  let ?key = "key_of (ppi_Meta p)"
  obtain old where old: "mem_ppis w ?key = Some old"
    using assms by (auto simp: mem_delete_ppi_def Let_def split: option.splits)
  let ?new = "old\<lparr>ppi_Meta := (ppi_Meta old)\<lparr>meta_DeletionTimestamp := Some (mem_clock w)\<rparr>\<rparr>"
  have "mem_ppis w' = (if ppi_finalizers old = {} then (mem_ppis w)(?key := None)
      else (mem_ppis w)(?key \<mapsto> ?new))"
    using assms old by (auto simp: mem_delete_ppi_def Let_def split: if_splits)
  moreover have "\<exists>new'. (mem_ppis w)(?key \<mapsto> ?new) = (mem_ppis w)(?key \<mapsto> new') \<and>
    key_of (ppi_Meta new') = key_of (ppi_Meta old) \<and> ppi_finalizers new' = ppi_finalizers old \<and>
    ppi_deleted new' = True \<and> same_status (ppi_Status old) (ppi_Status new')"
    by (rule put_object) (simp_all add: key_of_def)
  ultimately show ?thesis
    unfolding object_deleted_def using old by (metis (no_types, lifting))
qed

lemma mem_failed:
  "mem_status_update_ppi p w = (Inl e, w') \<Longrightarrow> mem_ppis w' = mem_ppis w"
  "mem_update_ppi p w = (Inl e, w') \<Longrightarrow> mem_ppis w' = mem_ppis w"
  "mem_delete_ppi p w = (Some e, w') \<Longrightarrow> mem_ppis w' = mem_ppis w"
  by (auto simp: mem_defs split: option.splits if_splits)

lemma mem_ppi_store: "ppi_store mem_k8s mem_ppis"
proof -
  have "calls_quiet mem_k8s mem_ppis"
    by (auto simp: calls_quiet_def quiet_def mem_defs)
  moreover have "fst (GetPPI mem_k8s key w) = Inr p \<Longrightarrow> mem_ppis w key = Some p" for w key p
    by (auto simp: mem_get_ppi_def split: option.splits if_splits)
  moreover have "mem_status_update_ppi p w = (Inr q, w') \<Longrightarrow> status_updated p (mem_ppis w) (mem_ppis w')" for p q w w'
    by (auto simp: mem_status_update_ppi_def status_updated_def same_status_def Let_def
        split: option.splits if_splits)
  ultimately show ?thesis
    by (auto simp: ppi_store_def mem_documented mem_failed mem_update_law mem_delete_law)
qed

lemma mem_reads:
  "world (Now mem_k8s) s = (mem_clock (op_World s), s)"
  "world (GetPPI mem_k8s key) s = (mem_get_ppi (op_World s) key, s)"
  by (simp_all add: world_def)

lemma one_read:
  "mem_get_ppi (op_World (sample_op (sample_world one_ppi))) (''prod'', ''app'') = Inr one_ppi"
  by (simp add: mem_get_ppi_def one_ppi_def sample_defs)

lemma one_dispatch:
  "dispatch_PPI mem_k8s one_ppi s = handleInProgress mem_k8s one_ppi s"
  by (simp add: dispatch_PPI_def one_ppi_def sample_defs)

lemma mem_status_world:
  assumes "mem_failing (op_World s) = 0" and "mem_ppis (op_World s) (key_of (ppi_Meta p)) = Some q"
  shows "world (StatusUpdatePPI mem_k8s p) s =
    (Inr (q\<lparr>ppi_Status := ppi_Status p\<rparr>),
     s\<lparr>op_World := (op_World s)\<lparr>mem_ppis := (mem_ppis (op_World s))
         (key_of (ppi_Meta p) \<mapsto> q\<lparr>ppi_Status := ppi_Status p\<rparr>)\<rparr>\<rparr>)"
  using assms by (simp add: world_def mem_status_update_ppi_def Let_def)

lemma one_reconcile:
  "\<exists>s' p'. Reconcile_PPI mem_k8s (''prod'', ''app'') (sample_op (sample_world one_ppi)) = (Inr no_requeue, s') \<and>
     mem_ppis (op_World s') = [(''prod'', ''app'') \<mapsto> p'] \<and> object_slots (Some p') = {#''n1''#}"
proof -
  let ?s = "sample_op (sample_world one_ppi)"
  obtain p1 c s1 where 1: "progress mem_k8s one_ppi ?s = (p1, c, s1)" by (metis prod_cases3)
  have key: "key_of (ppi_Meta one_ppi) = (''prod'', ''app'')" by (simp add: one_ppi_def sample_defs)
  have fins: "FinalizerName \<in> ppi_finalizers one_ppi" by (simp add: one_ppi_def sample_defs)
  note eq = 1 [unfolded one_progress Let_def prod.inject]
  have p1: "key_of (ppi_Meta p1) = (''prod'', ''app'')" "pulling_slots (ppi_Nodes p1) = {#''n1''#}"
    and c: "\<not> t_requeue c"
    and s1: "mem_failing (op_World s1) = 0" "mem_ppis (op_World s1) = [(''prod'', ''app'') \<mapsto> one_ppi]"
    using eq by (auto simp: key one_pulling_def zero_tally_def mark_pulling_def sample_world_def
        empty_mem_def sample_node_status_def zero_node_status_def)
  let ?p2 = "one_ppi\<lparr>ppi_Status := ppi_Status p1\<rparr>"
  obtain s2 where w: "world (StatusUpdatePPI mem_k8s p1) s1 = (Inr ?p2, s2)"
    "mem_ppis (op_World s2) = [(''prod'', ''app'') \<mapsto> ?p2]"
    using mem_status_world [of s1 p1 one_ppi] p1(1) s1 by auto
  let ?s3 = "updatePhaseMetrics mem_k8s s2"
  have h: "handleInProgress mem_k8s one_ppi ?s = (Inr no_requeue, ?s3)"
    using 1 w(1) c by (simp add: handleInProgress_def)
  have s3: "mem_ppis (op_World ?s3) = [(''prod'', ''app'') \<mapsto> ?p2]"
    using w(2) updatePhaseMetrics_frame(1) [OF mem_ppi_store, of s2] by simp
  have "object_slots (Some ?p2) = {#''n1''#}" using p1(2) fins by (simp add: object_slots_def)
  with h s3 show ?thesis
    by (simp add: Reconcile_PPI_def reconcile_body_PPI_def mem_reads one_read one_dispatch
        RecordReconcile_def) blast
qed

lemma one_run:
  "\<exists>s. reachable mem_k8s mem_ppis 10 2 {#} [] s \<and> stored_slots (mem_ppis (op_World s)) = {#''n1''#}"
proof -
  let ?s = "sample_op (sample_world one_ppi)"
  have r0: "reachable mem_k8s mem_ppis 10 2 {#} [] ?s"
    by (rule reachable.installed) (auto simp: sample_defs one_ppi_def split: if_splits)
  obtain s' p' where 1: "Reconcile_PPI mem_k8s (''prod'', ''app'') ?s = (Inr no_requeue, s')"
    "mem_ppis (op_World s') = [(''prod'', ''app'') \<mapsto> p']" "object_slots (Some p') = {#''n1''#}"
    using one_reconcile by blast
  have "reachable mem_k8s mem_ppis 10 2 {#} [] s'" by (rule reachable.reconciled [OF r0 1(1)])
  moreover have "stored_slots (mem_ppis (op_World s')) = {#''n1''#}" using 1 by (simp add: stored_slots_def)
  ultimately show ?thesis by blast
qed

lemma env_change_same:
  assumes "store_ok m"
  shows "env_change m m"
  using assms by (auto simp: env_change_def env_object_def store_ok_def same_status_def split: option.split)

lemma failed_run:
  "\<exists>s. reachable mem_k8s mem_ppis 10 2 {#} [(NewRateLimiter 10 2, op_Limiter s)] s"
proof -
  have r0: "reachable mem_k8s mem_ppis 10 2 {#} [] leak_op"
    by (rule reachable.installed) (auto simp: leak_op_def sample_defs one_ppi_def split: if_splits)
  have read: "mem_get_ppi (op_World leak_op) (''prod'', ''app'') = Inr one_ppi"
    by (simp add: leak_op_def mem_get_ppi_def one_ppi_def sample_defs)
  obtain s2 where "handleInProgress mem_k8s one_ppi leak_op = (Inl conflict, s2)" using leak_fails by blast
  then have "\<exists>s'. Reconcile_PPI mem_k8s (''prod'', ''app'') leak_op = (Inl conflict, s')"
    by (simp add: Reconcile_PPI_def reconcile_body_PPI_def mem_reads read one_dispatch)
  then obtain s' where "Reconcile_PPI mem_k8s (''prod'', ''app'') leak_op = (Inl conflict, s')" by blast
  from reachable.reconcile_failed [OF r0 this] show ?thesis by (auto simp: leak_op_def sample_op_def)
qed

text \<open>A run with a pull, one in which a status write fails, and the first one started anew.\<close>

lemma pulling_nodes_bounded_witness:
  "\<exists>s s1 s2. reachable mem_k8s mem_ppis 10 2 {#} [] s \<and> stored_slots (mem_ppis (op_World s)) = {#''n1''#} \<and>
     sint (CurrentPulls (op_Limiter s)) = 1 \<and>
     reachable mem_k8s mem_ppis 10 2 {#} [(NewRateLimiter 10 2, op_Limiter s1)] s1 \<and>
     int (size (stored_slots (mem_ppis (op_World s1))))
       \<le> 10 + int (slots_dropped [(NewRateLimiter 10 2, op_Limiter s1)]) \<and>
     reachable mem_k8s mem_ppis 10 2 {#''n1''#} [] s2 \<and>
     int (size (stored_slots (mem_ppis (op_World s2)))) \<le> 10 + 1"
proof -
  obtain s where s: "reachable mem_k8s mem_ppis 10 2 {#} [] s"
    "stored_slots (mem_ppis (op_World s)) = {#''n1''#}" using one_run by blast
  obtain s1 where s1: "reachable mem_k8s mem_ppis 10 2 {#} [(NewRateLimiter 10 2, op_Limiter s1)] s1"
    using failed_run by blast
  let ?s2 = "s\<lparr>op_Limiter := NewRateLimiter 10 2\<rparr>"
  have "store_ok (mem_ppis (op_World s))"
    using reachable_covers [OF mem_ppi_store s(1)] by (simp add: in_sync_def)
  then have "env_change (mem_ppis (op_World s)) (mem_ppis (op_World ?s2))"
    using env_change_same by simp
  from reachable.restarted [OF s(1) this, of 10 2] s(2)
  have s2: "reachable mem_k8s mem_ppis 10 2 {#''n1''#} [] ?s2" by simp
  have ten: "sint (MaxConcurrentPulls (NewRateLimiter 10 2)) = 10"
    by (simp add: MaxConcurrentPulls_def NewRateLimiter_def go_int)
  show ?thesis
    using pulling_nodes_bounded [OF mem_ppi_store s(1)] pulling_nodes_bounded [OF mem_ppi_store s1]
      pulling_nodes_bounded [OF mem_ppi_store s2] s s1 s2 ten
    by (intro exI [of _ s] exI [of _ s1] exI [of _ ?s2]) simp
qed


section \<open>A reconcile writes no object but its own\<close>

definition keyed :: "(objkey \<rightharpoonup> PrePullImage) \<Rightarrow> bool" where
  "keyed m \<longleftrightarrow> (\<forall>key p. m key = Some p \<longrightarrow> key_of (ppi_Meta p) = key)"

definition only_at :: "objkey \<Rightarrow> (objkey \<rightharpoonup> PrePullImage) \<Rightarrow> (objkey \<rightharpoonup> PrePullImage) \<Rightarrow> bool" where
  "only_at key m m' \<longleftrightarrow> (\<forall>j. j \<noteq> key \<longrightarrow> m' j = m j) \<and> (keyed m \<longrightarrow> keyed m')"

lemma only_at_refl [simp]: "only_at key m m"
  by (simp add: only_at_def)

lemma only_at_put: "key_of (ppi_Meta new) = key \<Longrightarrow> only_at key m (m(key \<mapsto> new))"
  by (auto simp: only_at_def keyed_def)

lemma only_at_remove: "only_at key m (m(key := None))"
  by (auto simp: only_at_def keyed_def)

lemma write_only_at:
  "keyed m \<Longrightarrow> status_updated p m m' \<Longrightarrow> only_at (key_of (ppi_Meta p)) m m'"
  "keyed m \<Longrightarrow> object_updated p m m' \<Longrightarrow> only_at (key_of (ppi_Meta p)) m m'"
  "keyed m \<Longrightarrow> object_deleted p m m' \<Longrightarrow> only_at (key_of (ppi_Meta p)) m m'"
  unfolding status_updated_def object_updated_def object_deleted_def
  by (auto split: if_splits intro!: only_at_put only_at_remove simp: keyed_def)

lemma call_only_at:
  assumes k: "ppi_store k stored" and m: "keyed (stored (op_World s))"
  shows "world (StatusUpdatePPI k p) s = (x, s') \<Longrightarrow>
      only_at (key_of (ppi_Meta p)) (stored (op_World s)) (stored (op_World s'))"
    and "world (UpdatePPI k p) s = (x, s') \<Longrightarrow>
      only_at (key_of (ppi_Meta p)) (stored (op_World s)) (stored (op_World s'))"
    and "world (DeletePPI k p) s = (y, s') \<Longrightarrow>
      only_at (key_of (ppi_Meta p)) (stored (op_World s)) (stored (op_World s'))"
proof -
  assume "world (StatusUpdatePPI k p) s = (x, s')"
  from world_eqD [OF this] have "StatusUpdatePPI k p (op_World s) = (x, op_World s')" by simp
  then show "only_at (key_of (ppi_Meta p)) (stored (op_World s)) (stored (op_World s'))"
    using store_status [OF k] store_failed(1) [OF k] write_only_at(1) [OF m] by (cases x) fastforce+
next
  assume "world (UpdatePPI k p) s = (x, s')"
  from world_eqD [OF this] have "UpdatePPI k p (op_World s) = (x, op_World s')" by simp
  then show "only_at (key_of (ppi_Meta p)) (stored (op_World s)) (stored (op_World s'))"
    using store_update [OF k] store_failed(2) [OF k] write_only_at(2) [OF m] by (cases x) fastforce+
next
  assume "world (DeletePPI k p) s = (y, s')"
  from world_eqD [OF this] have "DeletePPI k p (op_World s) = (y, op_World s')" by simp
  then show "only_at (key_of (ppi_Meta p)) (stored (op_World s)) (stored (op_World s'))"
    using store_delete [OF k] store_failed(3) [OF k] write_only_at(3) [OF m] by (cases y) fastforce+
qed

lemma handlePending_only_at:
  assumes k: "ppi_store k stored" and m: "keyed (stored (op_World s))" and r: "handlePending k p s = (res, s')"
  shows "only_at (key_of (ppi_Meta p)) (stored (op_World s)) (stored (op_World s'))"
proof -
  have wr: "only_at (key_of (ppi_Meta p)) (stored (op_World s)) (stored (op_World s2))"
    if "calm stored s s1" "setCondition_PPI k ty st re ms (set_Status f p) s1 = (p1, s1')"
      "world (StatusUpdatePPI k p1) s1' = (x, s2)" for s1 ty st re ms f p1 s1' x s2
  proof -
    have "stored (op_World s1') = stored (op_World s)" "key_of (ppi_Meta p1) = key_of (ppi_Meta p)"
      using that(1) setCondition_keeps [OF k that(2)] setCondition_frame [OF that(2)] by (simp_all add: calm_def)
    with call_only_at(1) [OF k _ that(3)] m show ?thesis by simp
  qed
  obtain tn s1 where t: "world (getTargetNodes_PPI k p) s = (tn, s1)" by (metis surj_pair)
  note c1 = calm_calls(1) [OF k t]
  show ?thesis
  proof (cases tn)
    case (Inl err)
    with r t c1 show ?thesis by (auto simp: handlePending_def calm_def)
  next
    case (Inr nodes)
    obtain now s2 where n: "world (Now k) s1 = (now, s2)" by (metis surj_pair)
    have c2: "calm stored s s2" using c1 calm_calls(2) [OF k n] by (rule calm_trans)
    from r t Inr n show ?thesis
      by (auto simp: handlePending_def event_PPI_def split: prod.splits sum.splits if_splits
          intro: wr [OF c1] wr [OF c2])
  qed
qed

lemma handleInProgress_only_at:
  assumes k: "ppi_store k stored" and m: "keyed (stored (op_World s))" and r: "handleInProgress k p s = (res, s')"
  shows "only_at (key_of (ppi_Meta p)) (stored (op_World s)) (stored (op_World s'))"
proof -
  obtain p1 c s1 where 1: "progress k p s = (p1, c, s1)" by (metis prod_cases3)
  obtain x s2 where 2: "world (StatusUpdatePPI k p1) s1 = (x, s2)" by (metis surj_pair)
  have "stored (op_World s') = stored (op_World s2)"
    using r 1 2 updatePhaseMetrics_frame(1) [OF k, of s2]
    by (auto simp: handleInProgress_def Let_def split: sum.splits if_splits)
  with call_only_at(1) [OF k _ 2] progress_keeps [OF k 1] progress_frame [OF 1] m show ?thesis by simp
qed

lemma handleCompleted_only_at:
  assumes k: "ppi_store k stored" and m: "keyed (stored (op_World s))" and r: "handleCompleted k p s = (res, s')"
  shows "only_at (key_of (ppi_Meta p)) (stored (op_World s)) (stored (op_World s'))"
proof -
  obtain now s1 where n: "world (Now k) s = (now, s1)" by (metis surj_pair)
  obtain y s2 where d: "world (DeletePPI k p) s1 = (y, s2)" by (metis surj_pair)
  have c: "stored (op_World s1) = stored (op_World s)" using calm_calls(2) [OF k n] by (simp add: calm_def)
  have "s' \<in> {s, s1, s2}"
    using r n d by (auto simp: handleCompleted_def Let_def split: option.splits if_splits)
  with call_only_at(3) [OF k _ d] c m show ?thesis by auto
qed

lemma handleDeletion_only_at:
  assumes k: "ppi_store k stored" and m: "keyed (stored (op_World s))" and r: "handleDeletion k p s = (res, s')"
  shows "only_at (key_of (ppi_Meta p)) (stored (op_World s)) (stored (op_World s'))"
proof (cases "ContainsFinalizer k (meta_Finalizers (ppi_Meta p)) FinalizerName")
  case True
  let ?p1 = "set_finalizers (RemoveFinalizer k (meta_Finalizers (ppi_Meta p)) FinalizerName) p"
  obtain e s2 where c: "world (CleanupJobsForPrePullImage k (ppi_Name p)) (release_pulling (ppi_Nodes p) s) = (e, s2)"
    by (metis surj_pair)
  have s2: "stored (op_World s2) = stored (op_World s)"
    using quiet_world [OF quiet_cleanup [OF k] c] by simp
  obtain x s3 where u: "world (UpdatePPI k ?p1) s2 = (x, s3)" by (metis surj_pair)
  have "s' = s3" using r True c u by (auto simp: handleDeletion_def Let_def split: sum.splits)
  with call_only_at(2) [OF k _ u] s2 m show ?thesis by simp
qed (use r in \<open>simp add: handleDeletion_def\<close>)

lemma dispatch_only_at:
  assumes k: "ppi_store k stored" and m: "keyed (stored (op_World s))" and r: "dispatch_PPI k p s = (res, s')"
  shows "only_at (key_of (ppi_Meta p)) (stored (op_World s)) (stored (op_World s'))"
proof -
  let ?p1 = "set_finalizers (AddFinalizer k (meta_Finalizers (ppi_Meta p)) FinalizerName) p"
  obtain x s1 where u: "world (UpdatePPI k ?p1) s = (x, s1)" by (metis surj_pair)
  then have "only_at (key_of (ppi_Meta p)) (stored (op_World s)) (stored (op_World s1))"
    using call_only_at(2) [OF k m u] by simp
  with r u handlePending_only_at [OF k m] handleInProgress_only_at [OF k m] handleCompleted_only_at [OF k m]
    handleDeletion_only_at [OF k m] show ?thesis
    by (auto simp: dispatch_PPI_def handleFailed_def split: sum.splits if_splits)
qed

text \<open>What a reconcile does to the store is what the handler does that its object is dispatched to.\<close>

lemma Reconcile_dispatch:
  assumes k: "ppi_store k stored" and r: "Reconcile_PPI k req s = (res, s')"
  obtains (none) "stored (op_World s') = stored (op_World s)"
  | (dispatched) p t t' where "stored (op_World t) = stored (op_World s)" "stored (op_World s) req = Some p"
      "dispatch_PPI k p t = (res, t')" "stored (op_World s') = stored (op_World t')"
proof -
  obtain n1 s1 where 1: "world (Now k) s = (n1, s1)" by (metis surj_pair)
  obtain got s2 where g: "world (GetPPI k req) s1 = (got, s2)" by (metis surj_pair)
  obtain b s3 where 2: "reconcile_body_PPI k req s1 = (b, s3)" by (metis surj_pair)
  obtain n2 s4 where 3: "world (Now k) s3 = (n2, s4)" by (metis surj_pair)
  have eqs: "stored (op_World s1) = stored (op_World s)" "stored (op_World s2) = stored (op_World s1)"
    "stored (op_World s4) = stored (op_World s3)"
    using calm_calls(2) [OF k 1] calm_calls(3) [OF k g] calm_calls(2) [OF k 3] by (simp_all add: calm_def)
  have s': "stored (op_World s') = stored (op_World s3)" "res = b"
    using r 1 2 3 eqs(3) by (auto simp: Reconcile_PPI_def RecordReconcile_def)
  show ?thesis
  proof (cases got)
    case (Inl err)
    with 2 g have "s3 = s2" by (auto simp: reconcile_body_PPI_def split: if_splits)
    with s' eqs none show ?thesis by simp
  next
    case (Inr p)
    with 2 g have d: "dispatch_PPI k p s2 = (b, s3)" by (simp add: reconcile_body_PPI_def)
    have "fst (GetPPI k req (op_World s1)) = Inr p" using Inr world_eqD [OF g] by simp
    with store_get [OF k] eqs(1) have "stored (op_World s) req = Some p" by metis
    with dispatched [of s2 p s3] d s' eqs show ?thesis by simp
  qed
qed

section \<open>An object without target nodes\<close>

text \<open>
  An object that is completed without a completion time, and that nobody deletes. The runs in
  which it stays so as far as others are concerned: reconciles of any PrePullImages, succeeding
  or failing, and changes of the world that leave its status and the finalizer of kwarm and do
  not delete it.
\<close>

definition never_ending :: "PrePullImage \<Rightarrow> bool" where
  "never_ending p \<longleftrightarrow> ppi_Phase p = PrePullImagePhaseCompleted \<and> st_CompletionTime (ppi_Status p) = None \<and>
     FinalizerName \<in> ppi_finalizers p \<and> \<not> ppi_deleted p"

definition left_alone :: "PrePullImage option \<Rightarrow> PrePullImage option \<Rightarrow> bool" where
  "left_alone v v' \<longleftrightarrow> (\<forall>p. v = Some p \<longrightarrow> (\<exists>p'. v' = Some p' \<and> same_status (ppi_Status p) (ppi_Status p') \<and>
     (FinalizerName \<in> ppi_finalizers p \<longrightarrow> FinalizerName \<in> ppi_finalizers p') \<and>
     (ppi_deleted p' \<longrightarrow> ppi_deleted p)))"

inductive later ::
  "'w k8s \<Rightarrow> ('w \<Rightarrow> objkey \<rightharpoonup> PrePullImage) \<Rightarrow> objkey \<Rightarrow> 'w op \<Rightarrow> 'w op \<Rightarrow> bool"
  for k stored key s
where
  at_once: "later k stored key s s"
| after_reconcile: "later k stored key s t \<Longrightarrow> Reconcile_PPI k req t = (res, t') \<Longrightarrow> later k stored key s t'"
| after_others: "later k stored key s t \<Longrightarrow> keyed (stored (op_World t')) \<Longrightarrow>
    left_alone (stored (op_World t) key) (stored (op_World t') key) \<Longrightarrow> later k stored key s t'"

lemma never_ending_dispatch:
  assumes "ppi_store k stored" and "never_ending p"
  shows "dispatch_PPI k p s = (Inr \<lparr>Requeue = False, RequeueAfter = CompletedTTL\<rparr>, s)"
  using assms by (simp add: never_ending_def dispatch_PPI_def handleCompleted_def store_finalizers [OF assms(1)]
      phase_defs)

lemma later_never_ending:
  assumes k: "ppi_store k stored" and "later k stored key s t"
    and "keyed (stored (op_World s))" and "stored (op_World s) key = Some p" and "never_ending p"
  shows "keyed (stored (op_World t)) \<and> (\<exists>q. stored (op_World t) key = Some q \<and> never_ending q)"
  using assms(2)
proof (induction rule: later.induct)
  case at_once
  show ?case using assms(3-5) by simp
next
  case (after_reconcile t req res t')
  from after_reconcile.IH obtain q where q: "keyed (stored (op_World t))" "stored (op_World t) key = Some q"
    "never_ending q" by blast
  from k after_reconcile.hyps(2) show ?case
  proof (cases rule: Reconcile_dispatch)
    case none
    with q show ?thesis by simp
  next
    case (dispatched p' u u')
    show ?thesis
    proof (cases "req = key")
      case True
      with dispatched(2) q(2) have "p' = q" by simp
      with dispatched(3) never_ending_dispatch [OF k q(3)] have "u' = u" by simp
      with dispatched q show ?thesis by simp
    next
      case False
      have "key_of (ppi_Meta p') = req" using q(1) dispatched(2) by (simp add: keyed_def)
      with dispatch_only_at [OF k _ dispatched(3)] dispatched(1,4) q False show ?thesis
        by (auto simp: only_at_def)
    qed
  qed
next
  case (after_others t t')
  then show ?case by (auto simp: left_alone_def never_ending_def same_status_def)
qed

text \<open>
  (C40) An image for which no node is eligible is reported as completed, with the condition
  \<open>NoNodes\<close>, but gets no completion time, so the one-hour retention never applies: as long as
  nobody else deletes the object it stays, through all reconciles of PrePullImages whatever the
  clock says, and every one that reads it does nothing but ask to be called again in an hour.
  (Others can delete it: a user, or the Deployment controller when it needs the name.)
\<close>

theorem no_nodes_never_expires:
  assumes "ppi_store k stored" and "keyed (stored (op_World s))"
    and "stored (op_World s) key = Some p" and "FinalizerName \<in> ppi_finalizers p" and "\<not> ppi_deleted p"
    and "ppi_Phase p = '''' \<or> ppi_Phase p = PrePullImagePhasePending"
    and "st_CompletionTime (ppi_Status p) = None"
    and "fst (getTargetNodes_PPI k p (op_World s)) = Inr []" and "dispatch_PPI k p s = (Inr res, s')"
  shows "res = no_requeue \<and>
    (\<forall>t. later k stored key s' t \<longrightarrow> (\<exists>q. stored (op_World t) key = Some q \<and>
       ppi_Phase q = PrePullImagePhaseCompleted \<and> \<not> ppi_deleted q \<and>
       (\<forall>u. dispatch_PPI k q u = (Inr \<lparr>Requeue = False, RequeueAfter = CompletedTTL\<rparr>, u))))"
proof -
  have key: "key_of (ppi_Meta p) = key" using assms(2,3) by (simp add: keyed_def)
  obtain s1 where t: "world (getTargetNodes_PPI k p) s = (Inr [], s1)"
    using assms(8) by (metis prod.collapse world_frame(4))
  let ?p0 = "set_Status (\<lambda>st. st\<lparr>st_Phase := PrePullImagePhaseCompleted\<rparr>) p"
  obtain p1 s2 where c: "setCondition_PPI k ConditionTypeReady ConditionTrue ''NoNodes''
      ''No target nodes found'' ?p0 s1 = (p1, s2)" by (metis prod.collapse)
  have "handlePending k p s = (Inr res, s')"
    using assms(4-6,9) by (auto simp: dispatch_PPI_def store_finalizers [OF assms(1)])
  with t c obtain q where w: "world (StatusUpdatePPI k p1) s2 = (Inr q, s')" and res: "res = no_requeue"
    by (auto simp: handlePending_def split: prod.splits sum.splits)
  have s2: "stored (op_World s2) = stored (op_World s)"
    using setCondition_keeps [OF assms(1) c] calm_calls(1) [OF assms(1) t] by (simp add: calm_def)
  from setCondition_frame [OF c] have p1: "key_of (ppi_Meta p1) = key"
    "ppi_Phase p1 = PrePullImagePhaseCompleted" "st_CompletionTime (ppi_Status p1) = None"
    using assms(7) key by auto
  from world_eqD [OF w] have "StatusUpdatePPI k p1 (op_World s2) = (Inr q, op_World s')" by simp
  from store_status [OF assms(1) this] p1(1) s2 assms(3) obtain new where
    new: "stored (op_World s') key = Some new" "same_status (ppi_Status p1) (ppi_Status new)"
      "ppi_finalizers new = ppi_finalizers p" "ppi_deleted new = ppi_deleted p"
    unfolding status_updated_def by auto
  then have "never_ending new" using p1 assms(4,5) by (simp add: never_ending_def same_status_def)
  moreover have "keyed (stored (op_World s'))"
    using dispatch_only_at [OF assms(1,2,9)] assms(2) by (simp add: only_at_def)
  ultimately show ?thesis
    using later_never_ending [OF assms(1) _ _ new(1)] never_ending_dispatch [OF assms(1)] res
    unfolding never_ending_def by metis
qed

definition lonely_ppi :: PrePullImage where
  "lonely_ppi = sample_ppi [FinalizerName] [] '''' []"

text \<open>A later reconcile of the object on the in-memory server, and the object still there.\<close>

lemma no_nodes_never_expires_witness:
  "\<exists>(s' :: mem op) q. mem_ppis (op_World (snd (Reconcile_PPI mem_k8s (''prod'', ''app'') s'))) (''prod'', ''app'') = Some q \<and>
     ppi_Phase q = PrePullImagePhaseCompleted \<and> dispatch_PPI mem_k8s lonely_ppi (sample_op (sample_world lonely_ppi)) = (Inr no_requeue, s')"
proof -
  let ?s = "sample_op (sample_world lonely_ppi)" and ?key = "(''prod'', ''app'')"
  have 1: "keyed (mem_ppis (op_World ?s))" "mem_ppis (op_World ?s) ?key = Some lonely_ppi"
    "FinalizerName \<in> ppi_finalizers lonely_ppi" "\<not> ppi_deleted lonely_ppi"
    "ppi_Phase lonely_ppi = '''' \<or> ppi_Phase lonely_ppi = PrePullImagePhasePending"
    "st_CompletionTime (ppi_Status lonely_ppi) = None"
    by (auto simp: keyed_def lonely_ppi_def sample_defs split: if_splits)
  have 2: "fst (getTargetNodes_PPI mem_k8s lonely_ppi (op_World ?s)) = Inr []"
    by (simp add: getTargetNodes_PPI_def lonely_ppi_def sample_defs mem_list_node_def)
  have "\<exists>s'. dispatch_PPI mem_k8s lonely_ppi ?s = (Inr no_requeue, s')"
    by (simp add: dispatch_PPI_def handlePending_def getTargetNodes_PPI_def setCondition_PPI_def world_def
        lonely_ppi_def sample_defs mem_defs set_Status_def)
  then obtain s' where 3: "dispatch_PPI mem_k8s lonely_ppi ?s = (Inr no_requeue, s')" by blast
  have "later mem_k8s mem_ppis ?key s' (snd (Reconcile_PPI mem_k8s ?key s'))"
    by (rule later.after_reconcile [OF later.at_once]) (rule surjective_pairing)
  with no_nodes_never_expires [OF mem_ppi_store 1 2 3] 3 show ?thesis by blast
qed

end
