(* ===== verification/GoJson.thy ===== *)
theory GoJson
  imports Sha256 "HOL-Library.AList" "HOL-Library.List_Lexorder" "HOL-Library.Char_ord"
begin

text \<open>
  What kwarm uses of Go's \<open>encoding/json\<close> (Go 1.24): \<open>Marshal\<close> of a \<open>map[string]string\<close> and
  \<open>Unmarshal\<close> into one. Strings are byte strings, read as UTF-8 the way \<open>unicode/utf8\<close>
  does. \<open>unmarshal_marshal\<close> is the round
  trip.
\<close>

section \<open>UTF-8\<close>

definition is_cont :: "nat \<Rightarrow> bool" where
  "is_cont b \<longleftrightarrow> 128 \<le> b \<and> b < 192"

text \<open>
  The ranges that \<open>unicode/utf8\<close> accepts for the second byte of a sequence, and the number of
  bytes after it; \<open>None\<close> for a byte that starts none.
\<close>

definition utf8_lead :: "nat \<Rightarrow> (nat \<times> nat \<times> nat) option" where
  "utf8_lead b =
     (if 194 \<le> b \<and> b \<le> 223 then Some (128, 191, 0)
      else if b = 224 then Some (160, 191, 1)
      else if b = 237 then Some (128, 159, 1)
      else if 225 \<le> b \<and> b \<le> 239 then Some (128, 191, 1)
      else if b = 240 then Some (144, 191, 2)
      else if 241 \<le> b \<and> b \<le> 243 then Some (128, 191, 2)
      else if b = 244 then Some (128, 143, 2)
      else None)"

text \<open>The size of the valid multi-byte sequence at the head of a text; 0 when there is none.\<close>

definition rune_len :: "string \<Rightarrow> nat" where
  "rune_len s = (case s of
       c0 # c1 # r \<Rightarrow>
         (case utf8_lead (of_char c0) of
            None \<Rightarrow> 0
          | Some (lo, hi, n) \<Rightarrow>
              if lo \<le> (of_char c1 :: nat) \<and> (of_char c1 :: nat) \<le> hi \<and> n \<le> length r \<and>
                 (\<forall>c \<in> set (take n r). is_cont (of_char c)) then n + 2 else 0)
     | _ \<Rightarrow> 0)"

definition bytes :: "nat list \<Rightarrow> string" where
  "bytes bs = map char_of bs"

text \<open>\<open>utf8.EncodeRune\<close> for the code points that are not surrogates.\<close>

definition utf8_encode :: "nat \<Rightarrow> string" where
  "utf8_encode r =
     (if r < 128 then bytes [r]
      else if r < 2048 then bytes [192 + r div 64, 128 + r mod 64]
      else if r < 65536 then bytes [224 + r div 4096, 128 + r div 64 mod 64, 128 + r mod 64]
      else bytes [240 + r div 262144, 128 + r div 4096 mod 64, 128 + r div 64 mod 64, 128 + r mod 64])"

text \<open>U+FFFD, which stands for a byte that is not part of valid UTF-8.\<close>

definition replacement :: string where
  "replacement = bytes [239, 191, 189]"

lemma rune_len_le: "rune_len s \<le> length s"
  by (auto simp: rune_len_def split: list.splits option.splits)

lemma rune_len_append: "0 < rune_len s \<Longrightarrow> rune_len (take (rune_len s) s @ t) = rune_len s"
  by (auto simp: rune_len_def split: list.splits option.splits if_splits)

lemma rune_len_pos: "0 < rune_len (c # s) \<Longrightarrow> 128 \<le> (of_char c :: nat)"
  by (auto simp: rune_len_def utf8_lead_def split: list.splits option.splits if_splits)

text \<open>A text with every byte outside valid UTF-8 replaced.\<close>

function utf8_fix :: "string \<Rightarrow> string" where
  "utf8_fix [] = []"
| "utf8_fix (c # s) =
     (if (of_char c :: nat) < 128 then c # utf8_fix s
      else if rune_len (c # s) = 0 then replacement @ utf8_fix s
      else take (rune_len (c # s)) (c # s) @ utf8_fix (drop (rune_len (c # s)) (c # s)))"
  by pat_completeness auto
termination
  by (relation "measure length") auto

function utf8_valid :: "string \<Rightarrow> bool" where
  "utf8_valid [] = True"
| "utf8_valid (c # s) =
     (if (of_char c :: nat) < 128 then utf8_valid s
      else if rune_len (c # s) = 0 then False
      else utf8_valid (drop (rune_len (c # s)) (c # s)))"
  by pat_completeness auto
termination
  by (relation "measure length") auto

declare utf8_fix.simps(2) [simp del] utf8_valid.simps(2) [simp del]

lemma utf8_fix_valid: "utf8_valid s \<Longrightarrow> utf8_fix s = s"
  by (induction s rule: utf8_fix.induct) (auto simp: utf8_fix.simps(2) utf8_valid.simps(2) split: if_splits)

lemma utf8_valid_ascii: "(\<And>c. c \<in> set s \<Longrightarrow> (of_char c :: nat) < 128) \<Longrightarrow> utf8_valid s"
  by (induction s) (auto simp: utf8_valid.simps(2))

section \<open>Strings\<close>

definition quote :: char where "quote = CHR 0x22"
definition backslash :: char where "backslash = CHR 0x5C"

definition hex_value :: "char \<Rightarrow> nat option" where
  "hex_value c =
     (let b = of_char c :: nat in
      if 48 \<le> b \<and> b \<le> 57 then Some (b - 48)
      else if 97 \<le> b \<and> b \<le> 102 then Some (b - 87)
      else if 65 \<le> b \<and> b \<le> 70 then Some (b - 55)
      else None)"

definition u_escape :: "nat \<Rightarrow> string" where
  "u_escape r = [backslash, CHR ''u'', hex_digit (r div 4096 mod 16), hex_digit (r div 256 mod 16),
     hex_digit (r div 16 mod 16), hex_digit (r mod 16)]"

text \<open>
  The single-byte part of \<open>appendString\<close>, with \<open>escapeHTML\<close>: the bytes of \<open>htmlSafeSet\<close> stand
  for themselves.
\<close>

definition escape_ascii :: "char \<Rightarrow> string" where
  "escape_ascii c =
     (if c = backslash \<or> c = quote then [backslash, c]
      else if c = CHR 0x08 then [backslash, CHR ''b'']
      else if c = CHR 0x0C then [backslash, CHR ''f'']
      else if c = CHR 0x0A then [backslash, CHR ''n'']
      else if c = CHR 0x0D then [backslash, CHR ''r'']
      else if c = CHR 0x09 then [backslash, CHR ''t'']
      else if (of_char c :: nat) < 32 \<or> c = CHR ''<'' \<or> c = CHR ''>'' \<or> c = CHR ''&'' then u_escape (of_char c)
      else [c])"

function json_escape :: "string \<Rightarrow> string" where
  "json_escape [] = []"
| "json_escape (c # s) =
     (if (of_char c :: nat) < 128 then escape_ascii c @ json_escape s
      else let n = rune_len (c # s) in
        if n = 0 then u_escape 65533 @ json_escape s
        else (if take n (c # s) = utf8_encode 8232 then u_escape 8232
              else if take n (c # s) = utf8_encode 8233 then u_escape 8233
              else take n (c # s)) @ json_escape (drop n (c # s)))"
  by pat_completeness auto
termination
  by (relation "measure length") auto

declare json_escape.simps(2) [simp del]

definition json_string :: "string \<Rightarrow> string" where
  "json_string s = quote # json_escape s @ [quote]"

text \<open>Reading: the four hexadecimal digits of an escape, and the escapes of one letter.\<close>

fun getu4 :: "string \<Rightarrow> (nat \<times> string) option" where
  "getu4 (a # b # c # d # s) =
     (case (hex_value a, hex_value b, hex_value c, hex_value d) of
        (Some w, Some x, Some y, Some z) \<Rightarrow> Some (4096 * w + 256 * x + 16 * y + z, s)
      | _ \<Rightarrow> None)"
| "getu4 _ = None"

definition letter_escape :: "char \<Rightarrow> char option" where
  "letter_escape c =
     (if c = quote \<or> c = backslash \<or> c = CHR ''/'' then Some c
      else if c = CHR ''b'' then Some (CHR 0x08)
      else if c = CHR ''f'' then Some (CHR 0x0C)
      else if c = CHR ''n'' then Some (CHR 0x0A)
      else if c = CHR ''r'' then Some (CHR 0x0D)
      else if c = CHR ''t'' then Some (CHR 0x09)
      else None)"

definition low_surrogate :: "string \<Rightarrow> (nat \<times> string) option" where
  "low_surrogate s = (case s of
       a # b # r \<Rightarrow>
         if a = backslash \<and> b = CHR ''u'' then
           (case getu4 r of
              None \<Rightarrow> None
            | Some (lo, r') \<Rightarrow> if 56320 \<le> lo \<and> lo \<le> 57343 then Some (lo, r') else None)
         else None
     | _ \<Rightarrow> None)"

text \<open>
  The bytes for the code unit \<open>r\<close> of an escape and the rest of the text: a surrogate counts
  with the matching one after it only, and is replaced otherwise.
\<close>

definition escaped_rune :: "nat \<Rightarrow> string \<Rightarrow> string \<times> string" where
  "escaped_rune r s =
     (if 55296 \<le> r \<and> r \<le> 57343 then
        (case (if r \<le> 56319 then low_surrogate s else None) of
           Some (lo, s') \<Rightarrow> (utf8_encode (65536 + (r - 55296) * 1024 + (lo - 56320)), s')
         | None \<Rightarrow> (replacement, s))
      else (utf8_encode r, s))"

lemma getu4_length: "getu4 s = Some (r, t) \<Longrightarrow> length s = length t + 4"
  by (induction s rule: getu4.induct) (auto split: option.splits)

lemma escaped_rune_length: "length (snd (escaped_rune r s)) \<le> length s"
  by (auto simp: escaped_rune_def low_surrogate_def split: option.splits list.splits if_splits
      dest!: getu4_length)

definition prepend :: "string \<Rightarrow> (string \<times> string) option \<Rightarrow> (string \<times> string) option" where
  "prepend a x = map_option (\<lambda>(b, r). (a @ b, r)) x"

text \<open>The text after the opening quote: the value of the string and what follows it.\<close>

function json_unescape :: "string \<Rightarrow> (string \<times> string) option" where
  "json_unescape [] = None"
| "json_unescape (c # s) =
     (if c = quote then Some ([], s)
      else if c = backslash then
        (case s of
           [] \<Rightarrow> None
         | e # t \<Rightarrow>
             if e = CHR ''u'' then
               (case getu4 t of
                  None \<Rightarrow> None
                | Some (r, t') \<Rightarrow> prepend (fst (escaped_rune r t')) (json_unescape (snd (escaped_rune r t'))))
             else (case letter_escape e of
                     None \<Rightarrow> None
                   | Some b \<Rightarrow> prepend [b] (json_unescape t)))
      else if (of_char c :: nat) < 32 then None
      else if (of_char c :: nat) < 128 then prepend [c] (json_unescape s)
      else if rune_len (c # s) = 0 then prepend replacement (json_unescape s)
      else prepend (take (rune_len (c # s)) (c # s)) (json_unescape (drop (rune_len (c # s)) (c # s))))"
  by pat_completeness auto
termination
proof (relation "measure length", goal_cases)
  case (2 c s e t x r t')
  then have "length t = length t' + 4" using getu4_length by fastforce
  with 2 escaped_rune_length [of r t'] show ?case by simp
qed auto

declare json_unescape.simps(2) [simp del]

section \<open>Reading back a written string\<close>

lemma of_char_eq_iff: "(of_char c :: nat) = of_char d \<longleftrightarrow> c = d"
  by (metis char_of_char)

lemma hex_value_digit: "hex_value (hex_digit (d mod 16)) = Some (d mod 16)"
proof -
  have "hex_value (hex_digit e) = Some e" if "e < 16" for e
    using that by (auto simp: hex_value_def hex_digit_def Let_def)
  then show ?thesis by simp
qed

lemma digits16:
  assumes "r < 65536"
  shows "4096 * (r div 4096 mod 16) + 256 * (r div 256 mod 16) + 16 * (r div 16 mod 16) + r mod 16 = (r :: nat)"
proof -
  have "r div 256 = r div 16 div 16" "r div 4096 = r div 256 div 16"
    by (simp_all flip: div_mult2_eq)
  moreover have "r div 4096 mod 16 = r div 4096" using assms by simp
  ultimately show ?thesis
    using div_mult_mod_eq [of r 16] div_mult_mod_eq [of "r div 16" 16] div_mult_mod_eq [of "r div 256" 16]
    by linarith
qed

lemma getu4_u_escape:
  assumes "r < 65536"
  shows "getu4 (hex_digit (r div 4096 mod 16) # hex_digit (r div 256 mod 16) # hex_digit (r div 16 mod 16) #
    hex_digit (r mod 16) # s) = Some (r, s)"
  by (simp only: getu4.simps hex_value_digit option.case prod.case digits16 [OF assms])

lemma escaped_rune_plain:
  "\<not> (55296 \<le> r \<and> r \<le> 57343) \<Longrightarrow> escaped_rune r s = (utf8_encode r, s)"
  by (simp only: escaped_rune_def if_False)

lemma prepend_simps [simp]:
  "prepend a (Some (b, r)) = Some (a @ b, r)"
  "prepend a None = None"
  by (simp_all add: prepend_def)

lemma quote_backslash [simp]: "quote \<noteq> backslash" "backslash \<noteq> quote"
  by (simp_all add: quote_def backslash_def)

lemma unescape_u_escape:
  assumes "r < 65536" and "\<not> (55296 \<le> r \<and> r \<le> 57343)"
  shows "json_unescape (u_escape r @ s) = prepend (utf8_encode r) (json_unescape s)"
  by (simp add: u_escape_def json_unescape.simps(2) getu4_u_escape [OF assms(1)]
      escaped_rune_plain [OF assms(2)] del: getu4.simps)

lemma unescape_escape_ascii:
  assumes "(of_char c :: nat) < 128"
  shows "json_unescape (escape_ascii c @ s) = prepend [c] (json_unescape s)"
proof (cases "c = backslash \<or> c = quote \<or> c = CHR 0x08 \<or> c = CHR 0x0C \<or> c = CHR 0x0A \<or> c = CHR 0x0D \<or> c = CHR 0x09")
  case True
  then show ?thesis
    by (elim disjE) (simp_all add: escape_ascii_def json_unescape.simps(2) letter_escape_def
        quote_def backslash_def)
next
  case False
  show ?thesis
  proof (cases "(of_char c :: nat) < 32 \<or> c = CHR ''<'' \<or> c = CHR ''>'' \<or> c = CHR ''&''")
    case esc: True
    with False have e: "escape_ascii c = u_escape (of_char c)" by (auto simp: escape_ascii_def)
    have "utf8_encode (of_char c) = [c]" using assms by (simp add: utf8_encode_def bytes_def)
    with assms show ?thesis unfolding e by (subst unescape_u_escape) auto
  next
    case plain: False
    with False have e: "escape_ascii c = [c]" by (auto simp: escape_ascii_def)
    with plain False assms show ?thesis by (auto simp: json_unescape.simps(2) e)
  qed
qed

text \<open>A written string reads back as the text with its invalid bytes replaced.\<close>

lemma unescape_rune:
  assumes "0 < rune_len (c # s)"
  shows "json_unescape (take (rune_len (c # s)) (c # s) @ t) = prepend (take (rune_len (c # s)) (c # s)) (json_unescape t)"
proof -
  let ?n = "rune_len (c # s)"
  have len: "length (take ?n (c # s)) = ?n" using rune_len_le [of "c # s"] by simp
  have big: "128 \<le> (of_char c :: nat)" by (rule rune_len_pos [OF assms])
  obtain u where u: "take ?n (c # s) @ t = c # u" using assms by (cases ?n) auto
  have n: "rune_len (c # u) = ?n" using rune_len_append [OF assms, of t] u by simp
  have "c \<noteq> quote" "c \<noteq> backslash" using big by (auto simp: quote_def backslash_def)
  then have "json_unescape (c # u) = prepend (take ?n (c # u)) (json_unescape (drop ?n (c # u)))"
    using big n assms by (simp add: json_unescape.simps(2))
  moreover have "take ?n (c # u) = take ?n (c # s)" "drop ?n (c # u) = t"
    using len by (simp_all add: u [symmetric])
  ultimately show ?thesis unfolding u by simp
qed

lemma utf8_encode_points:
  "utf8_encode 65533 = replacement"
  by (simp add: utf8_encode_def replacement_def)

lemma unescape_escape: "json_unescape (json_escape s @ quote # t) = Some (utf8_fix s, t)"
proof (induction s rule: json_escape.induct)
  case 1
  show ?case by (simp add: json_unescape.simps(2))
next
  case (2 c s)
  show ?case
  proof (cases "(of_char c :: nat) < 128")
    case True
    with 2(1) show ?thesis
      by (simp add: json_escape.simps(2) utf8_fix.simps(2) unescape_escape_ascii)
  next
    case False
    let ?n = "rune_len (c # s)"
    show ?thesis
    proof (cases "?n = 0")
      case True
      with 2(2) False show ?thesis
        by (simp add: json_escape.simps(2) utf8_fix.simps(2) unescape_u_escape utf8_encode_points)
    next
      case n: False
      with 2(3) [OF False refl n] False show ?thesis
        by (auto simp: json_escape.simps(2) utf8_fix.simps(2) unescape_u_escape Let_def
            unescape_rune simp del: take_Cons drop_Cons)
    qed
  qed
qed


section \<open>Maps\<close>

text \<open>\<open>Marshal\<close> writes the pairs in the order of their keys.\<close>

definition json_member :: "string \<times> string \<Rightarrow> string" where
  "json_member kv = json_string (fst kv) @ '':'' @ json_string (snd kv)"

fun json_members :: "gomap \<Rightarrow> string" where
  "json_members [] = []"
| "json_members [kv] = json_member kv"
| "json_members (kv # kvs) = json_member kv @ '','' @ json_members kvs"

definition Marshal :: "gomap \<Rightarrow> string" where
  "Marshal m = ''{'' @ json_members (sort_key fst m) @ ''}''"

text \<open>
  \<open>Unmarshal\<close> into a variable of type \<open>map[string]string\<close>: \<open>None\<close> for an error (the text is no
  JSON, or a value has another type), \<open>Some None\<close> for the map that stays \<open>nil\<close>. A member with
  the value \<open>null\<close> gets the empty string, and of two members with the same key the later counts.
\<close>

definition is_space :: "char \<Rightarrow> bool" where
  "is_space c \<longleftrightarrow> c = CHR 0x20 \<or> c = CHR 0x09 \<or> c = CHR 0x0A \<or> c = CHR 0x0D"

definition skip_ws :: "string \<Rightarrow> string" where
  "skip_ws s = dropWhile is_space s"

definition parse_value :: "string \<Rightarrow> (string \<times> string) option" where
  "parse_value s =
     (if take 4 s = ''null'' then Some ([], drop 4 s)
      else case s of
        [] \<Rightarrow> None
      | c # t \<Rightarrow> if c = quote then json_unescape t else None)"

definition parse_member :: "string \<Rightarrow> ((string \<times> string) \<times> string) option" where
  "parse_member s =
     (case skip_ws s of
        [] \<Rightarrow> None
      | c # t \<Rightarrow>
          if c \<noteq> quote then None
          else case json_unescape t of
            None \<Rightarrow> None
          | Some (key, r) \<Rightarrow>
              (case skip_ws r of
                 [] \<Rightarrow> None
               | d # r1 \<Rightarrow>
                   if d \<noteq> CHR '':'' then None
                   else map_option (\<lambda>(v, r2). ((key, v), skip_ws r2)) (parse_value (skip_ws r1))))"

lemma json_unescape_shorter: "json_unescape s = Some (v, r) \<Longrightarrow> length r < length s"
proof (induction s arbitrary: v r rule: json_unescape.induct)
  case (2 c s)
  note pre = prepend_def
  consider "c = quote" | (esc) e t where "c = backslash" "s = e # t" | (plain) "c \<noteq> quote" "c \<noteq> backslash"
    | "c = backslash" "s = []"
    by (cases s) auto
  then show ?case
  proof cases
    case esc
    show ?thesis
    proof (cases "e = CHR ''u''")
      case True
      with 2(6) esc obtain x t' where g: "getu4 t = Some (x, t')"
        and p: "prepend (fst (escaped_rune x t')) (json_unescape (snd (escaped_rune x t'))) = Some (v, r)"
        by (auto simp: json_unescape.simps(2) split: option.splits)
      from p obtain v' where "json_unescape (snd (escaped_rune x t')) = Some (v', r)" by (auto simp: pre)
      with 2(1) [OF _ esc(1) esc(2) True g] esc have "length r < length (snd (escaped_rune x t'))" by simp
      with escaped_rune_length [of x t'] getu4_length [OF g] esc show ?thesis by simp
    next
      case False
      with 2(6) esc obtain b where l: "letter_escape e = Some b" and p: "prepend [b] (json_unescape t) = Some (v, r)"
        by (auto simp: json_unescape.simps(2) split: option.splits)
      from p obtain v' where "json_unescape t = Some (v', r)" by (auto simp: pre)
      with 2(2) [OF _ esc(1) esc(2) False l] esc show ?thesis by fastforce
    qed
  next
    case plain
    show ?thesis
    proof (cases "(of_char c :: nat) < 128")
      case True
      with 2(6) plain True obtain v' where "\<not> (of_char c :: nat) < 32" "json_unescape s = Some (v', r)"
        by (auto simp: json_unescape.simps(2) pre split: if_splits)
      with 2(3) plain True show ?thesis by fastforce
    next
      case False
      then have big: "\<not> (of_char c :: nat) < 32" by simp
      show ?thesis
      proof (cases "rune_len (c # s) = 0")
        case z: True
        with 2(6) plain False big obtain v' where "json_unescape s = Some (v', r)"
          by (auto simp: json_unescape.simps(2) pre)
        with 2(4) plain False big z show ?thesis by fastforce
      next
        case nz: False
        with 2(6) plain False big obtain v' where "json_unescape (drop (rune_len (c # s)) (c # s)) = Some (v', r)"
          by (auto simp: json_unescape.simps(2) pre)
        with 2(5) [OF plain big False nz] have "length r < length (drop (rune_len (c # s)) (c # s))" by blast
        then show ?thesis by simp
      qed
    qed
  qed (use 2(6) in \<open>auto simp: json_unescape.simps(2)\<close>)
qed simp


lemma parse_member_shorter: "parse_member s = Some (kv, r) \<Longrightarrow> length r < length s"
proof -
  assume p: "parse_member s = Some (kv, r)"
  have ws: "length (skip_ws u) \<le> length u" for u
    by (simp add: skip_ws_def length_dropWhile_le)
  have val: "parse_value u = Some (v, u') \<Longrightarrow> length u' \<le> length u" for u v u'
    by (auto simp: parse_value_def split: if_splits list.splits dest!: json_unescape_shorter)
  obtain c t key r1 d r2 v r3 where 1: "skip_ws s = c # t" "json_unescape t = Some (key, r1)"
    "skip_ws r1 = d # r2" "parse_value (skip_ws r2) = Some (v, r3)" "r = skip_ws r3"
    using p by (auto simp: parse_member_def split: list.splits if_splits option.splits)
  from ws [of s] ws [of r1] ws [of r2] ws [of r3] val [OF 1(4)] json_unescape_shorter [OF 1(2)] 1
  show "length r < length s" by simp
qed

function parse_members :: "gomap \<Rightarrow> string \<Rightarrow> (gomap \<times> string) option" where
  "parse_members m s =
     (case parse_member s of
        None \<Rightarrow> None
      | Some ((key, v), r) \<Rightarrow>
          (case r of
             [] \<Rightarrow> None
           | c # r' \<Rightarrow>
               if c = CHR '','' then parse_members (AList.update key v m) r'
               else if c = CHR ''}'' then Some (AList.update key v m, r')
               else None))"
  by pat_completeness auto
termination
  by (relation "measure (\<lambda>(m, s). length s)") (auto dest!: parse_member_shorter)

declare parse_members.simps [simp del]

definition Unmarshal :: "string \<Rightarrow> gomap option option" where
  "Unmarshal s =
     (case skip_ws s of
        [] \<Rightarrow> None
      | c # t \<Rightarrow>
          if c = CHR ''{'' then
            (case skip_ws t of
               [] \<Rightarrow> None
             | d # r \<Rightarrow>
                 if d = CHR ''}'' then (if skip_ws r = [] then Some (Some []) else None)
                 else (case parse_members [] t of
                         None \<Rightarrow> None
                       | Some (m, r') \<Rightarrow> if skip_ws r' = [] then Some (Some m) else None))
          else if take 4 (c # t) = ''null'' \<and> skip_ws (drop 4 (c # t)) = [] then Some None
          else None)"

section \<open>The round trip\<close>

lemma not_space [simp]: "\<not> is_space quote" "\<not> is_space (CHR '':'')" "\<not> is_space (CHR '','')"
  "\<not> is_space (CHR ''}'')" "\<not> is_space (CHR ''{'')"
  by (simp_all add: is_space_def quote_def)

lemma skip_ws_Cons [simp]: "\<not> is_space c \<Longrightarrow> skip_ws (c # s) = c # s"
  by (simp add: skip_ws_def)

lemma skip_ws_Nil [simp]: "skip_ws [] = []"
  by (simp add: skip_ws_def)

lemma json_string_append: "json_string s @ t = quote # json_escape s @ quote # t"
  by (simp add: json_string_def)

lemma parse_value_string: "parse_value (json_string s @ t) = Some (utf8_fix s, t)"
  by (simp add: parse_value_def json_string_append unescape_escape) (simp add: quote_def)

lemma parse_member_json:
  assumes "\<not> is_space c"
  shows "parse_member (json_member (k, v) @ c # t) = Some ((utf8_fix k, utf8_fix v), c # t)"
proof -
  have "json_member (k, v) @ c # t = quote # json_escape k @ quote # CHR '':'' # json_string v @ c # t"
    by (simp add: json_member_def json_string_def)
  moreover have "skip_ws (json_string v @ c # t) = json_string v @ c # t"
    by (simp add: json_string_append)
  ultimately show ?thesis
    using assms by (simp add: parse_member_def unescape_escape parse_value_string)
qed

lemma parse_members_json:
  "kvs \<noteq> [] \<Longrightarrow> parse_members m (json_members kvs @ CHR ''}'' # t) =
     Some (foldl (\<lambda>m (k, v). AList.update (utf8_fix k) (utf8_fix v) m) m kvs, t)"
proof (induction kvs arbitrary: m rule: json_members.induct)
  case (2 kv)
  show ?case by (cases kv) (simp add: parse_members.simps parse_member_json)
next
  case (3 kv kv' kvs)
  then show ?case
    by (cases kv) (subst parse_members.simps, simp add: parse_member_json)
qed simp

lemma foldl_update_fresh:
  "distinct (map fst (m @ kvs)) \<Longrightarrow> foldl (\<lambda>m (k, v). AList.update k v m) m kvs = m @ kvs"
proof (induction kvs arbitrary: m)
  case (Cons kv kvs)
  obtain k v where kv: "kv = (k, v)" by force
  have "AList.update k v m = m @ [(k, v)]"
    using Cons.prems kv by (induction m) auto
  with Cons.IH [of "m @ [kv]"] Cons.prems kv show ?case by simp
qed simp

lemma foldl_valid:
  "\<forall>(k, v) \<in> set kvs. utf8_valid k \<and> utf8_valid v \<Longrightarrow>
   foldl (\<lambda>m (k, v). AList.update (utf8_fix k) (utf8_fix v) m) m kvs = foldl (\<lambda>m (k, v). AList.update k v m) m kvs"
proof (induction kvs arbitrary: m)
  case (Cons kv kvs)
  then show ?case by (cases kv) (simp add: utf8_fix_valid)
qed simp

definition valid_gomap :: "gomap \<Rightarrow> bool" where
  "valid_gomap m \<longleftrightarrow> distinct (map fst m) \<and> (\<forall>(k, v) \<in> set m. utf8_valid k \<and> utf8_valid v)"

text \<open>
  What \<open>Marshal\<close> writes for a map of UTF-8 strings, \<open>Unmarshal\<close> reads back as the same map,
  with its pairs in the order of their keys.
\<close>

lemma unmarshal_marshal:
  assumes "valid_gomap m"
  shows "Unmarshal (Marshal m) = Some (Some (sort_key fst m)) \<and> map_of (sort_key fst m) = map_of m"
proof -
  let ?s = "sort_key fst m"
  have d: "distinct (map fst ?s)" using assms by (simp add: valid_gomap_def distinct_map)
  have v: "\<forall>(k, v) \<in> set ?s. utf8_valid k \<and> utf8_valid v"
    using assms by (simp add: valid_gomap_def)
  have "map_of ?s = map_of m"
  proof -
    have "distinct (map fst m)" using assms by (simp add: valid_gomap_def)
    then show ?thesis using d by (intro map_of_inject_set [THEN iffD2]) auto
  qed
  moreover have "Unmarshal (Marshal m) = Some (Some ?s)"
  proof (cases "?s = []")
    case True
    then show ?thesis by (simp add: Marshal_def Unmarshal_def)
  next
    case False
    have q: "\<exists>u. json_members ?s @ ''}'' = quote # u"
      using False by (cases ?s rule: json_members.cases) (auto simp: json_member_def json_string_def)
    have "parse_members [] (json_members ?s @ ''}'') = Some (?s, [])"
      using parse_members_json [OF False, of "[]" "[]"] foldl_valid [of ?s "[]"] v foldl_update_fresh [of "[]" ?s] d
      by simp
    with q show ?thesis by (auto simp: Marshal_def Unmarshal_def) (simp_all add: quote_def)
  qed
  ultimately show ?thesis by blast
qed

end
