(* ===== verification/DeploymentController.thy ===== *)
theory DeploymentController
  imports ImageController GoJson
begin

text \<open>
  The Deployment controller of \<open>internal/controller/deployment_controller.go\<close>: it compares the
  images of a deployment with those recorded in an annotation and creates a PrePullImage for
  each changed one. A Go map of images is an association list; Go ranges over it in the order
  that \<open>MapOrder\<close> gives.
\<close>

section \<open>Constants\<close>

definition AnnotationLastImages :: string where "AnnotationLastImages = ''kwarm.io/last-images''"
definition LabelDeployment :: string where "LabelDeployment = ''kwarm.io/deployment''"
definition LabelPolicy :: string where "LabelPolicy = ''kwarm.io/policy''"

section \<open>The matching policy\<close>

definition deploymentMatchesPolicy :: "'a lib_scheme \<Rightarrow> Deployment \<Rightarrow> PrePullPolicy \<Rightarrow> bool" where
  "deploymentMatchesPolicy k deployment policy =
     (let selector = pspec_Selector (pol_Spec policy) in
      if 0 < length (sel_Namespaces selector) \<and>
         \<not> list_ex (\<lambda>ns. ns = meta_Namespace (dep_Meta deployment)) (sel_Namespaces selector) then False
      else if length (sel_MatchLabels selector) = 0 then False
      else SelectorFromSet k (map_of (sel_MatchLabels selector)) (meta_Labels (dep_Meta deployment)))"

fun first_match :: "'a lib_scheme \<Rightarrow> Deployment \<Rightarrow> PrePullPolicy list \<Rightarrow> PrePullPolicy option" where
  "first_match k deployment [] = None"
| "first_match k deployment (policy # policies) =
     (if deploymentMatchesPolicy k deployment policy then Some policy
      else first_match k deployment policies)"

definition getMatchingPolicy ::
  "'w k8s \<Rightarrow> Deployment \<Rightarrow> 'w \<Rightarrow> (go_error + PrePullPolicy option) \<times> 'w" where
  "getMatchingPolicy k deployment w =
     (case ListPolicy k w of
        (Inl err, w1) \<Rightarrow> (Inl err, w1)
      | (Inr items, w1) \<Rightarrow> (Inr (first_match k deployment items), w1))"

section \<open>Images\<close>

definition extractImages :: "Deployment \<Rightarrow> gomap" where
  "extractImages deployment =
     (let images = foldl (\<lambda>m c. AList.update (c_Name c) (c_Image c) m) []
            (pod_Containers (tmpl_Spec (dep_Template deployment)))
      in foldl (\<lambda>m c. AList.update (''init-'' @ c_Name c) (c_Image c) m) images
            (pod_InitContainers (tmpl_Spec (dep_Template deployment))))"

definition getLastImages :: "Deployment \<Rightarrow> gomap option" where
  "getLastImages deployment =
     (case meta_Annotations (dep_Meta deployment) of
        None \<Rightarrow> None
      | Some annotations \<Rightarrow>
          let annotation = map_read_str annotations AnnotationLastImages
          in if annotation = '''' then None
             else (case Unmarshal annotation of None \<Rightarrow> None | Some images \<Rightarrow> images))"

text \<open>The loop of \<open>findChangedImages\<close>, over the keys in the order of Go's \<open>range\<close>.\<close>

fun changed_images :: "gomap option \<Rightarrow> gomap \<Rightarrow> string list \<Rightarrow> string list" where
  "changed_images lastImages currentImages [] = []"
| "changed_images lastImages currentImages (containerName # names) =
     (let currentImage = map_read_str (map_of currentImages) containerName;
          rest = changed_images lastImages currentImages names
      in case lastImages of
           None \<Rightarrow> currentImage # rest
         | Some m \<Rightarrow> (case map_of m containerName of
               None \<Rightarrow> currentImage # rest
             | Some lastImage \<Rightarrow> if lastImage \<noteq> currentImage then currentImage # rest else rest))"

definition findChangedImages :: "'w k8s \<Rightarrow> gomap option \<Rightarrow> gomap \<Rightarrow> 'w \<Rightarrow> string list \<times> 'w" where
  "findChangedImages k lastImages currentImages w =
     (case MapOrder k (map fst currentImages) w of
        (names, w1) \<Rightarrow> (changed_images lastImages currentImages names, w1))"

text \<open>A \<open>nil\<close> map has length 0 and no pairs.\<close>

definition map_pairs :: "gomap option \<Rightarrow> gomap" where
  "map_pairs m = (case m of None \<Rightarrow> [] | Some kvs \<Rightarrow> kvs)"

definition imagesEqual :: "gomap option \<Rightarrow> gomap \<Rightarrow> bool" where
  "imagesEqual a b =
     (if length (map_pairs a) \<noteq> length b then False
      else list_all (\<lambda>(k, v). map_read_str (map_of b) k = v) (map_pairs a))"

text \<open>\<open>json.Marshal\<close> of a map of strings returns no error.\<close>

definition with_last_images :: "gomap \<Rightarrow> Deployment \<Rightarrow> Deployment" where
  "with_last_images images deployment =
     (let annotations = (case meta_Annotations (dep_Meta deployment) of None \<Rightarrow> Map.empty | Some m \<Rightarrow> m)
      in deployment\<lparr>dep_Meta := (dep_Meta deployment)
           \<lparr>meta_Annotations := Some (annotations(AnnotationLastImages \<mapsto> Marshal images))\<rparr>\<rparr>)"

definition updateLastImagesAnnotation ::
  "'w k8s \<Rightarrow> Deployment \<Rightarrow> gomap \<Rightarrow> 'w \<Rightarrow> go_error option \<times> 'w" where
  "updateLastImagesAnnotation k deployment images w =
     (case UpdateDeployment k (with_last_images images deployment) w of
        (Inl err, w1) \<Rightarrow> (Some err, w1)
      | (Inr _, w1) \<Rightarrow> (None, w1))"

section \<open>Target nodes\<close>

definition getTargetNodes_Deployment :: "'w k8s \<Rightarrow> PrePullPolicy \<Rightarrow> 'w \<Rightarrow> (go_error + string list) \<times> 'w" where
  "getTargetNodes_Deployment k policy w =
     (let match = nsel_MatchLabels (pspec_NodeSelector (pol_Spec policy))
      in case ListNode k (if 0 < length match then NodesWithLabels (map_of match) else AllNodes) w of
           (Inl err, w1) \<Rightarrow> (Inl err, w1)
         | (Inr items, w1) \<Rightarrow> (Inr (ready_node_names items), w1))"

section \<open>Creating a PrePullImage\<close>

definition generatePrePullImageName :: "string \<Rightarrow> string \<Rightarrow> string" where
  "generatePrePullImageName deploymentName img =
     (let hashStr = take 8 (hex_string (Sum256 img));
          name = deploymentName @ ''-'' @ hashStr
      in if 63 < length name then take 63 name else name)"

definition pull_secrets :: "Deployment \<Rightarrow> PrePullPolicy \<Rightarrow> LocalObjectReference list" where
  "pull_secrets deployment policy =
     (let secrets = pspec_ImagePullSecrets (pol_Spec policy);
          inherited = (if ips_Inherit secrets
            then map (\<lambda>secret. \<lparr>ref_Name = ref_Name secret\<rparr>)
                   (pod_ImagePullSecrets (tmpl_Spec (dep_Template deployment)))
            else [])
      in inherited @ ips_Additional secrets)"

definition default_resources :: "ResourceRequirements \<Rightarrow> ResourceRequirements" where
  "default_resources resources =
     (let resources1 = (if res_Requests resources = None
            then resources\<lparr>res_Requests := Some [''memory'' \<mapsto> ''64Mi'', ''cpu'' \<mapsto> ''100m'']\<rparr> else resources)
      in if res_Limits resources1 = None
         then resources1\<lparr>res_Limits := Some [''memory'' \<mapsto> ''256Mi'', ''cpu'' \<mapsto> ''500m'']\<rparr> else resources1)"

definition default_retry :: "RetryPolicy \<Rightarrow> RetryPolicy" where
  "default_retry retry =
     (let retry1 = (if retry_MaxAttempts retry = 0 then retry\<lparr>retry_MaxAttempts := 3\<rparr> else retry)
      in if retry_BackoffSeconds retry1 = 0 then retry1\<lparr>retry_BackoffSeconds := 30\<rparr> else retry1)"

definition default_timeout :: "string \<Rightarrow> string" where
  "default_timeout timeout = (if timeout = '''' then ''10m'' else timeout)"

text \<open>The composite literal of \<open>createPrePullImage\<close>.\<close>

definition new_ppi :: "Deployment \<Rightarrow> PrePullPolicy \<Rightarrow> string \<Rightarrow> string list \<Rightarrow> PrePullImage" where
  "new_ppi deployment policy img targetNodes =
     \<lparr>ppi_Meta = zero_meta
        \<lparr>meta_Name := generatePrePullImageName (meta_Name (dep_Meta deployment)) img,
         meta_Namespace := meta_Namespace (dep_Meta deployment),
         meta_Labels := [LabelDeployment \<mapsto> meta_Name (dep_Meta deployment),
                         LabelPolicy \<mapsto> meta_Name (pol_Meta policy)],
         meta_OwnerReferences :=
           [\<lparr>owner_APIVersion = ''apps/v1'', owner_Kind = ''Deployment'',
             owner_Name = meta_Name (dep_Meta deployment), owner_UID = meta_UID (dep_Meta deployment),
             owner_Controller = True, owner_BlockOwnerDeletion = True\<rparr>]\<rparr>,
      ppi_Spec =
        \<lparr>spec_Image = img, spec_ImageDigest = '''',
         spec_Nodes = \<lparr>nts_Selector = None, nts_Names = targetNodes\<rparr>,
         spec_ImagePullSecrets = pull_secrets deployment policy,
         spec_Resources = default_resources (pspec_Resources (pol_Spec policy)),
         spec_Retry = default_retry (pspec_Retry (pol_Spec policy)),
         spec_Timeout = default_timeout (pspec_Timeout (pol_Spec policy))\<rparr>,
      ppi_Status = zero_ppi_status\<rparr>"

text \<open>The end of \<open>createPrePullImage\<close>, when no object is in the way any more.\<close>

definition create_new_ppi ::
  "'w k8s \<Rightarrow> Deployment \<Rightarrow> PrePullPolicy \<Rightarrow> string \<Rightarrow> string list \<Rightarrow> 'w \<Rightarrow> go_error option \<times> 'w" where
  "create_new_ppi k deployment policy img targetNodes w =
     (case CreatePPI k (new_ppi deployment policy img targetNodes) w of
        (Inl err, w1) \<Rightarrow> (Some (WrapError ''failed to create PrePullImage: '' err), w1)
      | (Inr _, w1) \<Rightarrow> (None, w1))"

definition createPrePullImage ::
  "'w k8s \<Rightarrow> Deployment \<Rightarrow> PrePullPolicy \<Rightarrow> string \<Rightarrow> string list \<Rightarrow> 'w \<Rightarrow> go_error option \<times> 'w" where
  "createPrePullImage k deployment policy img targetNodes w =
     (let name = generatePrePullImageName (meta_Name (dep_Meta deployment)) img
      in case GetPPI k (meta_Namespace (dep_Meta deployment), name) w of
           (Inr existing, w1) \<Rightarrow>
             if spec_Image (ppi_Spec existing) = img then (None, w1)
             else (case DeletePPI k existing w1 of
                     (Some err, w2) \<Rightarrow> (Some err, w2)
                   | (None, w2) \<Rightarrow> create_new_ppi k deployment policy img targetNodes w2)
         | (Inl err, w1) \<Rightarrow>
             if IsNotFound k err then create_new_ppi k deployment policy img targetNodes w1
             else (Some err, w1))"

section \<open>Reconcile\<close>

definition event_Deployment :: "Deployment \<Rightarrow> string \<Rightarrow> string \<Rightarrow> string \<Rightarrow> 'w op \<Rightarrow> 'w op" where
  "event_Deployment d etype reason message = emit (Event ''Deployment'' (key_of (dep_Meta d)) etype reason message)"

fun create_all ::
  "'w k8s \<Rightarrow> Deployment \<Rightarrow> PrePullPolicy \<Rightarrow> string list \<Rightarrow> string list \<Rightarrow> 'w op \<Rightarrow> go_error option \<times> 'w op" where
  "create_all k deployment policy [] targetNodes s = (None, s)"
| "create_all k deployment policy (img # images) targetNodes s =
     (case world (createPrePullImage k deployment policy img targetNodes) s of
        (Some err, s1) \<Rightarrow> (Some err, s1)
      | (None, s1) \<Rightarrow>
          create_all k deployment policy images targetNodes
            (event_Deployment deployment ''Normal'' ''PrePullTriggered''
               (''Image pre-pull initiated for '' @ img) s1))"

definition save_images :: "'w k8s \<Rightarrow> Deployment \<Rightarrow> gomap \<Rightarrow> 'w op \<Rightarrow> (go_error + Result) \<times> 'w op" where
  "save_images k deployment images s =
     (case world (updateLastImagesAnnotation k deployment images) s of
        (Some err, s1) \<Rightarrow> (Inl err, s1)
      | (None, s1) \<Rightarrow> (Inr no_requeue, s1))"

definition reconcile_images ::
  "'w k8s \<Rightarrow> Deployment \<Rightarrow> PrePullPolicy \<Rightarrow> 'w op \<Rightarrow> (go_error + Result) \<times> 'w op" where
  "reconcile_images k deployment policy s =
     (let currentImages = extractImages deployment; lastImages = getLastImages deployment
      in case world (findChangedImages k lastImages currentImages) s of
           (changedImages, s1) \<Rightarrow>
             if length changedImages = 0 then
               (if \<not> imagesEqual lastImages currentImages then save_images k deployment currentImages s1
                else (Inr no_requeue, s1))
             else
               (case world (getTargetNodes_Deployment k policy) s1 of
                  (Inl err, s2) \<Rightarrow> (Inl err, s2)
                | (Inr targetNodes, s2) \<Rightarrow>
                    if length targetNodes = 0 then (Inr no_requeue, s2)
                    else (case create_all k deployment policy changedImages targetNodes s2 of
                            (Some err, s3) \<Rightarrow> (Inl err, s3)
                          | (None, s3) \<Rightarrow> save_images k deployment currentImages s3)))"

definition reconcile_body_Deployment :: "'w k8s \<Rightarrow> objkey \<Rightarrow> 'w op \<Rightarrow> (go_error + Result) \<times> 'w op" where
  "reconcile_body_Deployment k req s =
     (case world (GetDeployment k req) s of
        (Inl err, s1) \<Rightarrow> if IsNotFound k err then (Inr no_requeue, s1) else (Inl err, s1)
      | (Inr deployment, s1) \<Rightarrow>
          (case world (getMatchingPolicy k deployment) s1 of
             (Inl err, s2) \<Rightarrow> (Inl err, s2)
           | (Inr None, s2) \<Rightarrow> (Inr no_requeue, s2)
           | (Inr (Some policy), s2) \<Rightarrow> reconcile_images k deployment policy s2))"

definition Reconcile_Deployment :: "'w k8s \<Rightarrow> objkey \<Rightarrow> 'w op \<Rightarrow> (go_error + Result) \<times> 'w op" where
  "Reconcile_Deployment k req s =
     (case world (Now k) s of (startTime, s1) \<Rightarrow>
      case reconcile_body_Deployment k req s1 of (res, s2) \<Rightarrow>
      case world (Now k) s2 of (t, s3) \<Rightarrow>
        (res, RecordReconcile ''deployment'' ''success'' (time_sub t startTime) s3))"

end
