(* ===== verification/PolicyController.thy ===== *)
theory PolicyController
  imports ImageController
begin

text \<open>
  The PrePullPolicy controller of \<open>internal/controller/prepullpolicy_controller.go\<close>: it counts
  the deployments that a policy selects and writes the count to the policy's status and to a
  gauge.
\<close>

section \<open>Matching\<close>

definition deploymentMatchesSelector :: "'a lib_scheme \<Rightarrow> Deployment \<Rightarrow> PolicySelector \<Rightarrow> bool" where
  "deploymentMatchesSelector k deployment selector =
     (if length (sel_MatchLabels selector) = 0 then False
      else SelectorFromSet k (map_of (sel_MatchLabels selector)) (meta_Labels (dep_Meta deployment)))"

text \<open>The inner loop over the items of a list, and the outer loop over the namespaces.\<close>

fun count_items :: "'a lib_scheme \<Rightarrow> PolicySelector \<Rightarrow> Deployment list \<Rightarrow> go_int \<Rightarrow> go_int" where
  "count_items k selector [] n = n"
| "count_items k selector (d # ds) n =
     count_items k selector ds (if deploymentMatchesSelector k d selector then n + 1 else n)"

fun count_namespaces ::
  "'w k8s \<Rightarrow> PolicySelector \<Rightarrow> string list \<Rightarrow> go_int \<Rightarrow> 'w \<Rightarrow> (go_error + go_int) \<times> 'w" where
  "count_namespaces k selector [] n w = (Inr n, w)"
| "count_namespaces k selector (ns # nss) n w =
     (case ListDeployment k (if ns \<noteq> '''' then Some ns else None) w of
        (Inl err, w1) \<Rightarrow> (Inl err, w1)
      | (Inr items, w1) \<Rightarrow> count_namespaces k selector nss (count_items k selector items n) w1)"

definition search_namespaces :: "PolicySelector \<Rightarrow> string list" where
  "search_namespaces selector =
     (if length (sel_Namespaces selector) = 0 then [''''] else sel_Namespaces selector)"

definition countMatchingDeployments :: "'w k8s \<Rightarrow> PrePullPolicy \<Rightarrow> 'w \<Rightarrow> (go_error + go_int) \<times> 'w" where
  "countMatchingDeployments k policy w =
     count_namespaces k (pspec_Selector (pol_Spec policy))
       (search_namespaces (pspec_Selector (pol_Spec policy))) 0 w"

section \<open>Reconcile\<close>

definition setCondition_Policy ::
  "'w k8s \<Rightarrow> string \<Rightarrow> string \<Rightarrow> string \<Rightarrow> string \<Rightarrow> PrePullPolicy \<Rightarrow> 'w \<Rightarrow> PrePullPolicy \<times> 'w"
where
  "setCondition_Policy k conditionType status reason message policy w =
     (case Now k w of (t, w1) \<Rightarrow>
        let condition = \<lparr>cond_Type = conditionType, cond_Status = status,
              cond_ObservedGeneration = meta_Generation (pol_Meta policy),
              cond_LastTransitionTime = t, cond_Reason = reason, cond_Message = message\<rparr>
        in (policy\<lparr>pol_Status := (pol_Status policy)
              \<lparr>pst_Conditions := SetStatusCondition k (pst_Conditions (pol_Status policy)) condition\<rparr>\<rparr>, w1))"

definition set_watched :: "go_int \<Rightarrow> instant \<Rightarrow> PrePullPolicy \<Rightarrow> PrePullPolicy" where
  "set_watched n t policy = policy\<lparr>pol_Status := (pol_Status policy)
     \<lparr>pst_WatchedDeployments := ucast n, pst_LastUpdated := Some t\<rparr>\<rparr>"

definition reconcile_policy :: "'w k8s \<Rightarrow> PrePullPolicy \<Rightarrow> 'w op \<Rightarrow> (go_error + Result) \<times> 'w op" where
  "reconcile_policy k policy s =
     (case world (countMatchingDeployments k policy) s of
        (Inl err, s1) \<Rightarrow>
          (case world (setCondition_Policy k ConditionTypeReady ConditionFalse ''Error''
                        (error_text err) policy) s1 of
             (policy1, s2) \<Rightarrow> (Inl err, snd (world (StatusUpdatePolicy k policy1) s2)))
      | (Inr watchedCount, s1) \<Rightarrow>
          (case world (Now k) s1 of (now, s2) \<Rightarrow>
           case world (setCondition_Policy k ConditionTypeReady ConditionTrue ''Reconciled''
                        ''Policy is active'' (set_watched watchedCount now policy)) s2 of
             (policy1, s3) \<Rightarrow>
               (case world (StatusUpdatePolicy k policy1) s3 of
                  (Inl err, s4) \<Rightarrow> (Inl err, s4)
                | (Inr _, s4) \<Rightarrow>
                    (Inr \<lparr>Requeue = False, RequeueAfter = of_nat (5 * Minute)\<rparr>,
                     SetWatchedDeployments (sint watchedCount) s4))))"

definition reconcile_body_Policy :: "'w k8s \<Rightarrow> objkey \<Rightarrow> 'w op \<Rightarrow> (go_error + Result) \<times> 'w op" where
  "reconcile_body_Policy k req s =
     (case world (GetPolicy k req) s of
        (Inl err, s1) \<Rightarrow> if IsNotFound k err then (Inr no_requeue, s1) else (Inl err, s1)
      | (Inr policy, s1) \<Rightarrow> reconcile_policy k policy s1)"

definition Reconcile_Policy :: "'w k8s \<Rightarrow> objkey \<Rightarrow> 'w op \<Rightarrow> (go_error + Result) \<times> 'w op" where
  "Reconcile_Policy k req s =
     (case world (Now k) s of (startTime, s1) \<Rightarrow>
      case reconcile_body_Policy k req s1 of (res, s2) \<Rightarrow>
      case world (Now k) s2 of (t, s3) \<Rightarrow>
        (res, RecordReconcile ''prepullpolicy'' ''success'' (time_sub t startTime) s3))"

end
