(* ===== verification/DeploymentImages.thy ===== *)
theory DeploymentImages
  imports DeploymentController MemoryClient
begin

text \<open>
  Properties of theory DeploymentController that concern the images of a deployment: which
  images the controller sees, which of them count as changed, and the record of images in the
  annotation with its round trip.
\<close>

section \<open>The images of a deployment\<close>

text \<open>The containers of the pod template, then its init containers, by the names of the map.\<close>

definition image_pairs :: "Deployment \<Rightarrow> (string \<times> string) list" where
  "image_pairs d =
     map (\<lambda>c. (c_Name c, c_Image c)) (pod_Containers (tmpl_Spec (dep_Template d))) @
     map (\<lambda>c. (''init-'' @ c_Name c, c_Image c)) (pod_InitContainers (tmpl_Spec (dep_Template d)))"

lemma foldl_update_pairs:
  "foldl (\<lambda>m c. AList.update (f c) (g c) m) m cs = foldl (\<lambda>m (a, b). AList.update a b m) m (map (\<lambda>c. (f c, g c)) cs)"
  by (induction cs arbitrary: m) simp_all

lemma extractImages_pairs: "extractImages d = foldl (\<lambda>m (a, b). AList.update a b m) [] (image_pairs d)"
  unfolding extractImages_def image_pairs_def Let_def by (subst (1 2) foldl_update_pairs) simp

lemma foldl_update_map: "map_of (foldl (\<lambda>m (a, b). AList.update a b m) m kvs) = map_of m ++ map_of (rev kvs)"
  by (induction kvs arbitrary: m) (auto simp: update_conv' fun_eq_iff map_add_def split: option.splits)

lemma foldl_update_keys:
  "distinct (map fst m) \<Longrightarrow> distinct (map fst (foldl (\<lambda>m (a, b). AList.update a b m) m kvs))"
  by (induction kvs arbitrary: m) (auto simp: distinct_update)

lemma distinct_extractImages [simp]: "distinct (map fst (extractImages d))"
  by (simp add: extractImages_pairs foldl_update_keys)

lemma map_of_extractImages: "map_of (extractImages d) = map_of (rev (image_pairs d))"
  by (simp add: extractImages_pairs foldl_update_map)

lemma distinct_pairs_mset:
  assumes "distinct (map fst xs)" and "distinct (map fst ys)" and "map_of xs = map_of ys"
  shows "mset xs = mset ys"
proof -
  have "set xs = set ys"
    using assms by (metis map_of_inject_set)
  moreover have "distinct xs" "distinct ys" using assms(1,2) by (simp_all add: distinct_map)
  ultimately show ?thesis by (simp add: set_eq_iff_mset_eq_distinct)
qed

text \<open>
  (C20) The controller sees the image of every container and init container, as long as the names
  are distinct with \<open>init-\<close> put before those of the init containers. Kubernetes makes the names
  themselves distinct, and that is not enough: a container called \<open>init-x\<close> and an init
  container called \<open>x\<close> share an entry. Of equal names the last counts, so the image of the
  container is not seen and never pulled ahead.
\<close>

theorem extracted_images:
  "map_of (extractImages d) = map_of (rev (image_pairs d)) \<and> distinct (map fst (extractImages d)) \<and>
   (distinct (map fst (image_pairs d)) \<longrightarrow> mset (extractImages d) = mset (image_pairs d))"
proof -
  have "mset (extractImages d) = mset (image_pairs d)" if "distinct (map fst (image_pairs d))"
    using that distinct_pairs_mset [of "extractImages d" "rev (image_pairs d)"]
    by (simp add: map_of_extractImages rev_map [symmetric])
  then show ?thesis by (simp add: map_of_extractImages)
qed

definition sample_container :: "string \<Rightarrow> string \<Rightarrow> Container" where
  "sample_container name img =
     \<lparr>c_Name = name, c_Image = img, c_Command = [], c_Resources = sample_resources\<rparr>"

definition sample_deployment :: "Container list \<Rightarrow> Container list \<Rightarrow> Deployment" where
  "sample_deployment cs ics =
     \<lparr>dep_Meta = zero_meta\<lparr>meta_Name := ''web'', meta_Namespace := ''prod'', meta_Labels := [''app'' \<mapsto> ''web'']\<rparr>,
      dep_Template = \<lparr>tmpl_Labels = Map.empty,
        tmpl_Spec = \<lparr>pod_NodeSelector = Map.empty, pod_Tolerations = [], pod_RestartPolicy = '''',
          pod_Containers = cs, pod_InitContainers = ics, pod_ImagePullSecrets = []\<rparr>\<rparr>\<rparr>"

definition sample_policy :: PrePullPolicy where
  "sample_policy =
     \<lparr>pol_Meta = zero_meta\<lparr>meta_Name := ''pull-web''\<rparr>,
      pol_Spec = \<lparr>pspec_Selector = \<lparr>sel_MatchLabels = [(''app'', ''web'')], sel_Namespaces = []\<rparr>,
        pspec_NodeSelector = \<lparr>nsel_MatchLabels = []\<rparr>, pspec_Resources = sample_resources,
        pspec_Retry = \<lparr>retry_MaxAttempts = 0, retry_BackoffSeconds = 0\<rparr>, pspec_Timeout = '''',
        pspec_ImagePullSecrets = \<lparr>ips_Inherit = True, ips_Additional = []\<rparr>\<rparr>,
      pol_Status = \<lparr>pst_WatchedDeployments = 0, pst_LastUpdated = None, pst_Conditions = []\<rparr>\<rparr>"

text \<open>A server with one ready node, one policy and the deployments given.\<close>

definition deployment_world :: "Deployment list \<Rightarrow> mem" where
  "deployment_world ds = empty_mem
     \<lparr>mem_deployments := ds, mem_policies := [sample_policy],
      mem_nodes := [\<lparr>node_Meta = zero_meta\<lparr>meta_Name := ''n1''\<rparr>, node_Unschedulable = False,
        node_Conditions = [\<lparr>nc_Type = ''Ready'', nc_Status = ConditionTrue\<rparr>]\<rparr>]\<rparr>"

lemmas deployment_defs = sample_container_def sample_deployment_def image_pairs_def

lemma extracted_images_witness:
  "mset (extractImages (sample_deployment [sample_container ''x'' ''a''] [sample_container ''x'' ''b''])) =
     {#(''x'', ''a''), (''init-x'', ''b'')#} \<and>
   map_of (extractImages (sample_deployment [sample_container ''init-x'' ''a''] [sample_container ''x'' ''b'']))
     ''init-x'' = Some ''b''"
  using extracted_images [of "sample_deployment [sample_container ''x'' ''a''] [sample_container ''x'' ''b'']"]
    extracted_images [of "sample_deployment [sample_container ''init-x'' ''a''] [sample_container ''x'' ''b'']"]
  by (simp add: deployment_defs)

section \<open>Changed images\<close>

text \<open>Go visits every key of a map once.\<close>

definition order_law :: "'w k8s \<Rightarrow> bool" where
  "order_law k \<longleftrightarrow> (\<forall>ks w. mset (fst (MapOrder k ks w)) = mset ks)"

text \<open>Whether an image counts as changed.\<close>

definition is_changed :: "gomap option \<Rightarrow> string \<times> string \<Rightarrow> bool" where
  "is_changed lastImages kv = (case lastImages of None \<Rightarrow> True | Some m \<Rightarrow> map_of m (fst kv) \<noteq> Some (snd kv))"

lemma changed_images_mset:
  "mset (changed_images la cur names) =
     image_mset (\<lambda>n. map_read_str (map_of cur) n)
       (filter_mset (\<lambda>n. is_changed la (n, map_read_str (map_of cur) n)) (mset names))"
  by (induction names) (auto simp: Let_def is_changed_def split: option.splits)

lemma findChangedImages_mset:
  assumes "order_law k" and "distinct (map fst cur)" and "findChangedImages k la cur w = (changed, w')"
  shows "mset changed = image_mset snd (filter_mset (is_changed la) (mset cur))"
proof -
  have r: "map_read_str (map_of cur) (fst kv) = snd kv" if "kv \<in> set cur" for kv
    using map_of_is_SomeI [OF assms(2), of "fst kv" "snd kv"] that by (simp add: map_read_str_def)
  have "changed = changed_images la cur (fst (MapOrder k (map fst cur) w))"
    using assms(3) by (auto simp: findChangedImages_def split: prod.splits)
  moreover have "mset (fst (MapOrder k (map fst cur) w)) = image_mset fst (mset cur)"
    using assms(1) by (simp add: order_law_def)
  ultimately have "mset changed = image_mset (\<lambda>kv. map_read_str (map_of cur) (fst kv))
      (filter_mset (\<lambda>kv. is_changed la (fst kv, map_read_str (map_of cur) (fst kv))) (mset cur))"
    by (simp add: changed_images_mset filter_mset_image_mset multiset.map_comp comp_def)
  also have "\<dots> = image_mset snd (filter_mset (is_changed la) (mset cur))"
  proof -
    have "filter_mset (\<lambda>kv. is_changed la (fst kv, map_read_str (map_of cur) (fst kv))) (mset cur) =
        filter_mset (is_changed la) (mset cur)"
      by (rule filter_mset_cong) (use r in auto)
    then show ?thesis using r by (auto intro!: image_mset_cong)
  qed
  finally show ?thesis .
qed

text \<open>
  (C30) The changed images are exactly the images of the containers that are new or whose
  image differs from the recorded one (all of them when nothing is recorded), once for each
  such container, whatever the order in which Go ranges over the map.
\<close>

theorem changed_images_exact:
  assumes "order_law k" and "findChangedImages k la (extractImages d) w = (changed, w')"
  shows "mset changed = image_mset snd (filter_mset (is_changed la) (mset (extractImages d)))"
  using assms(1) distinct_extractImages assms(2) by (rule findChangedImages_mset)

lemma mem_order_law: "order_law mem_k8s"
  by (simp add: order_law_def)

lemma changed_images_exact_witness:
  "mset (fst (findChangedImages mem_k8s (Some [(''x'', ''a''), (''y'', ''c'')])
     (extractImages (sample_deployment [sample_container ''x'' ''a''] [sample_container ''x'' ''b''])) empty_mem)) =
   {#''b''#}"
  using changed_images_exact [OF mem_order_law surjective_pairing, of "Some [(''x'', ''a''), (''y'', ''c'')]"
      "sample_deployment [sample_container ''x'' ''a''] [sample_container ''x'' ''b'']" empty_mem]
  by (simp add: extractImages_pairs deployment_defs is_changed_def)

section \<open>The record of images\<close>

lemma getLastImages_recorded:
  "valid_gomap images \<Longrightarrow> getLastImages (with_last_images images d) = Some (sort_key fst images)"
  using unmarshal_marshal [of images]
  by (auto simp: getLastImages_def with_last_images_def map_read_str_def Let_def Marshal_def)

lemma extractImages_recorded [simp]: "extractImages (with_last_images images d) = extractImages d"
  by (simp add: extractImages_def with_last_images_def Let_def)

text \<open>
  (C19) The record of images survives its way through the annotation: what
  \<open>updateLastImagesAnnotation\<close> writes, \<open>getLastImages\<close> reads back as the same map, and the
  other annotations and the images of the deployment stay as they are.
\<close>

theorem image_record_roundtrip:
  assumes "valid_gomap images"
  shows "\<exists>m. getLastImages (with_last_images images d) = Some m \<and> map_of m = map_of images \<and>
      length m = length images \<and> distinct (map fst m) \<and>
    extractImages (with_last_images images d) = extractImages d \<and>
    (\<forall>a. a \<noteq> AnnotationLastImages \<longrightarrow>
       (case meta_Annotations (dep_Meta (with_last_images images d)) of None \<Rightarrow> None | Some as \<Rightarrow> as a) =
       (case meta_Annotations (dep_Meta d) of None \<Rightarrow> None | Some as \<Rightarrow> as a))"
proof -
  have "distinct (map fst (sort_key fst images))"
    using assms by (simp add: valid_gomap_def distinct_map)
  then show ?thesis
    using unmarshal_marshal [OF assms] getLastImages_recorded [OF assms]
    by (auto simp: with_last_images_def extractImages_def Let_def split: option.splits)
qed

lemma image_record_roundtrip_witness:
  "\<exists>m. getLastImages (with_last_images [(''x'', ''a'')] (sample_deployment [] [])) = Some m \<and> map_of m ''x'' = Some ''a''"
proof -
  have "valid_gomap [(''x'', ''a'')]"
    by (auto simp: valid_gomap_def intro!: utf8_valid_ascii)
  from image_record_roundtrip [OF this, of "sample_deployment [] []"] show ?thesis by auto
qed

text \<open>
  With no changed image, \<open>imagesEqual\<close> decides whether the record is the map of the current
  images, although it reads missing keys as the empty text: the record is then rewritten only
  when a container has been removed.
\<close>

lemma images_equal_exact:
  assumes "order_law k" and "distinct (map fst m)"
    and "findChangedImages k (Some m) (extractImages d) w = ([], w')"
  shows "imagesEqual (Some m) (extractImages d) \<longleftrightarrow> map_of m = map_of (extractImages d)"
proof -
  let ?c = "extractImages d"
  have "{#} = image_mset snd (filter_mset (is_changed (Some m)) (mset ?c))"
    using findChangedImages_mset [OF assms(1) distinct_extractImages assms(3)] by simp
  then have none: "\<not> is_changed (Some m) kv" if "kv \<in> set ?c" for kv
    using that by (metis filter_mset_eq_mempty_iff image_mset_is_empty_iff set_mset_mset)
  then have sub: "set ?c \<subseteq> set m"
    by (force simp: is_changed_def intro: map_of_SomeD)
  have len: "length xs = card (set xs)" if "distinct (map fst xs)" for xs :: gomap
    using that by (simp add: distinct_card distinct_map)
  show ?thesis
  proof
    assume "imagesEqual (Some m) ?c"
    then have "card (set m) = card (set ?c)"
      using len [OF assms(2)] len [OF distinct_extractImages] by (simp add: imagesEqual_def map_pairs_def split: if_splits)
    with sub have "set ?c = set m" by (simp add: card_subset_eq)
    then show "map_of m = map_of ?c"
      using assms(2) distinct_extractImages by (metis map_of_inject_set)
  next
    assume eq: "map_of m = map_of ?c"
    then have "set m = set ?c" using assms(2) distinct_extractImages by (metis map_of_inject_set)
    then have "length m = length ?c" using len [OF assms(2)] len [OF distinct_extractImages] by simp
    moreover have "map_read_str (map_of ?c) a = b" if "(a, b) \<in> set m" for a b
      using that assms(2) eq by (metis map_of_is_SomeI map_read_str_def option.simps(5))
    ultimately show "imagesEqual (Some m) ?c" by (auto simp: imagesEqual_def map_pairs_def list_all_iff)
  qed
qed

lemma images_equal_exact_witness:
  "\<not> imagesEqual (Some [(''x'', ''a''), (''y'', ''c'')]) (extractImages (sample_deployment [sample_container ''x'' ''a''] []))"
  using images_equal_exact [OF mem_order_law, of "[(''x'', ''a''), (''y'', ''c'')]"
      "sample_deployment [sample_container ''x'' ''a''] []" empty_mem empty_mem]
  by (simp add: extractImages_pairs deployment_defs findChangedImages_def map_read_str_def fun_eq_iff)

text \<open>
  A deployment whose images are recorded is left alone: a reconcile that finds it and its
  policy creates nothing, writes nothing and reports no event; besides reading, all it does is
  range over the images once.
\<close>

lemma recorded_deployment_quiet:
  assumes "order_law k" and "valid_gomap (extractImages d)"
  shows "reconcile_images k (with_last_images (extractImages d) d) policy s =
    (Inr no_requeue, s\<lparr>op_World := snd (MapOrder k (map fst (extractImages d)) (op_World s))\<rparr>)"
proof -
  let ?d = "with_last_images (extractImages d) d" and ?c = "extractImages d"
  note la = getLastImages_recorded [OF assms(2), of d]
  have "map_of (sort_key fst ?c) = map_of ?c" using unmarshal_marshal [OF assms(2)] by simp
  then have same: "\<not> is_changed (Some (sort_key fst ?c)) kv" if "kv \<in> set ?c" for kv
    using that by (simp add: is_changed_def)
  obtain changed w1 where f: "findChangedImages k (Some (sort_key fst ?c)) ?c (op_World s) = (changed, w1)"
    by (metis surj_pair)
  then have "mset changed = {#}"
    using findChangedImages_mset [OF assms(1) distinct_extractImages f] same by simp
  then have none: "changed = []" by simp
  have w1: "w1 = snd (MapOrder k (map fst ?c) (op_World s))"
    using f by (auto simp: findChangedImages_def split: prod.splits)
  have "imagesEqual (Some (sort_key fst ?c)) ?c"
    using map_of_is_SomeI [OF distinct_extractImages]
    by (auto simp: imagesEqual_def map_pairs_def list_all_iff map_read_str_def)
  then show ?thesis
    using f none w1 by (simp add: reconcile_images_def world_def la Let_def)
qed

lemma recorded_deployment_quiet_witness:
  "reconcile_images mem_k8s (with_last_images [(''x'', ''a'')] (sample_deployment [sample_container ''x'' ''a''] []))
     sample_policy (sample_op empty_mem) = (Inr no_requeue, sample_op empty_mem)"
proof -
  let ?d = "sample_deployment [sample_container ''x'' ''a''] []"
  have e: "extractImages ?d = [(''x'', ''a'')]" by (simp add: extractImages_pairs deployment_defs)
  have "valid_gomap (extractImages ?d)"
    unfolding e by (auto simp: valid_gomap_def intro!: utf8_valid_ascii)
  from recorded_deployment_quiet [OF mem_order_law this, of sample_policy "sample_op empty_mem"]
  show ?thesis by (simp add: e sample_op_def)
qed

end
