(* ===== verification/DeploymentSystem.thy ===== *)
theory DeploymentSystem
  imports DeploymentImages PullJobs ImageSystem
begin

text \<open>
  The Deployment controller against the API server: the names of the objects it creates, what
  a reconcile leaves in the server, and what happens when two images get one name. The laws of
  the server are \<open>image_api\<close>.
\<close>

declare split_paired_All [simp del] split_paired_Ex [simp del]

section \<open>Names of the objects\<close>

interpretation image_name: cut_names generatePrePullImageName "''''"
  by unfold_locales (simp add: generatePrePullImageName_def hash8_def Let_def)

text \<open>
  (C21) The name of a PrePullImage has at most 63 bytes. For deployments whose names have at most
  54 bytes two objects of a namespace have the same name only for one deployment and images
  with the same eight hash digits. From 62 bytes on, all images of a deployment get one name.
\<close>

theorem image_names_distinct:
  "length (generatePrePullImageName d img) \<le> 63 \<and>
   (length d \<le> 54 \<and> length d' \<le> 54 \<longrightarrow>
     (generatePrePullImageName d img = generatePrePullImageName d' img' \<longleftrightarrow> d = d' \<and> hash8 img = hash8 img')) \<and>
   (62 \<le> length d \<longrightarrow> generatePrePullImageName d img = generatePrePullImageName d img')"
  using image_name.bounded [of d img] image_name.distinct [of d d' img img']
    image_name.base_only [of d img] image_name.base_only [of d img']
  by simp

lemma image_names_distinct_witness:
  "generatePrePullImageName ''web'' ''a'' \<noteq> generatePrePullImageName ''api'' ''a'' \<and>
   generatePrePullImageName (replicate 62 (CHR ''d'')) ''a'' = generatePrePullImageName (replicate 62 (CHR ''d'')) ''b''"
  using image_names_distinct [of "''web''" "''a''" "''api''" "''a''"]
    image_names_distinct [of "replicate 62 (CHR ''d'')" "''a''" "[]" "''b''"]
  by simp

text \<open>
  (C22) The two cuts compose: the jobs of an object are named after an object named after a
  deployment. From 42 bytes of the deployment's name on, all nodes share the job of an image;
  from 52 bytes on, all images of the deployment share one job on all nodes, and so do the
  images of any two deployments whose names agree in the first 52 bytes, in whatever namespaces.
\<close>

theorem long_deployment_names_share_jobs:
  "(42 \<le> length d \<longrightarrow>
     GenerateJobName (generatePrePullImageName d img) n = GenerateJobName (generatePrePullImageName d img) n') \<and>
   (52 \<le> length d \<and> take 52 d' = take 52 d \<longrightarrow>
     GenerateJobName (generatePrePullImageName d img) n = GenerateJobName (generatePrePullImageName d' img') n')"
proof (intro conjI impI)
  assume "42 \<le> length d"
  then have "51 \<le> length (generatePrePullImageName d img)" by (simp add: image_name.make)
  then show "GenerateJobName (generatePrePullImageName d img) n = GenerateJobName (generatePrePullImageName d img) n'"
    by (simp add: job_name.base_only)
next
  assume l: "52 \<le> length d \<and> take 52 d' = take 52 d"
  then have "52 \<le> length d'" by (metis length_take min.absorb_iff2)
  with l have "GenerateJobName (generatePrePullImageName e i) m = take 63 (JobNamePrefix @ ''-'' @ take 52 d)"
    if "e \<in> {d, d'}" for e i m
    using that by (auto simp: image_name.make job_name.make take_append min_def)
  then show "GenerateJobName (generatePrePullImageName d img) n = GenerateJobName (generatePrePullImageName d' img') n'"
    by simp
qed

lemma long_deployment_names_share_jobs_witness:
  "GenerateJobName (generatePrePullImageName (replicate 52 (CHR ''d'') @ ''-a'') ''x'') ''n1'' =
   GenerateJobName (generatePrePullImageName (replicate 52 (CHR ''d'') @ ''-b'') ''y'') ''n2''"
  using long_deployment_names_share_jobs [of "replicate 52 (CHR ''d'') @ ''-a''" "''x''" "''n1''" "''n2''"
    "replicate 52 (CHR ''d'') @ ''-b''" "''y''"] by auto

section \<open>Laws of the server\<close>

text \<open>
  \<open>stored\<close> are the PrePullImages of the server, \<open>deps\<close> its deployments. A created object is
  stored under its key with its image, its nodes and no status; defaults may be filled in
  elsewhere.
\<close>

definition image_api :: "'w k8s \<Rightarrow> ('w \<Rightarrow> objkey \<rightharpoonup> PrePullImage) \<Rightarrow> ('w \<Rightarrow> objkey \<rightharpoonup> Deployment) \<Rightarrow> bool" where
  "image_api k stored deps \<longleftrightarrow>
     order_law k \<and> (\<forall>ks. quiet stored (MapOrder k ks) \<and> quiet deps (MapOrder k ks)) \<and>
     (\<forall>nf. quiet stored (ListNode k nf) \<and> quiet deps (ListNode k nf)) \<and>
     (\<forall>key. quiet stored (GetPPI k key) \<and> quiet deps (GetPPI k key)) \<and>
     (\<forall>w key p. fst (GetPPI k key w) = Inr p \<longrightarrow> stored w key = Some p \<and> key_of (ppi_Meta p) = key) \<and>
     (\<forall>w key e. fst (GetPPI k key w) = Inl e \<longrightarrow> IsNotFound k e \<longrightarrow> stored w key = None) \<and>
     (\<forall>w w' p q. CreatePPI k p w = (Inr q, w') \<longrightarrow> deps w' = deps w \<and> stored w (key_of (ppi_Meta p)) = None \<and>
        stored w' = (stored w)(key_of (ppi_Meta p) \<mapsto> q) \<and>
        key_of (ppi_Meta q) = key_of (ppi_Meta p) \<and> (ppi_Nodes p = [] \<longrightarrow> ppi_Nodes q = []) \<and>
        spec_Image (ppi_Spec q) = spec_Image (ppi_Spec p) \<and> spec_Nodes (ppi_Spec q) = spec_Nodes (ppi_Spec p)) \<and>
     (\<forall>w w' p e. CreatePPI k p w = (Inl e, w') \<longrightarrow> deps w' = deps w \<and> stored w' = stored w) \<and>
     (\<forall>w w' p. DeletePPI k p w = (None, w') \<longrightarrow> deps w' = deps w \<and> object_deleted p (stored w) (stored w')) \<and>
     (\<forall>w w' p e. DeletePPI k p w = (Some e, w') \<longrightarrow> deps w' = deps w \<and> stored w' = stored w) \<and>
     (\<forall>w w' d d'. UpdateDeployment k d w = (Inr d', w') \<longrightarrow> stored w' = stored w \<and>
        deps w' = (deps w)(key_of (dep_Meta d) \<mapsto> d') \<and> dep_Template d' = dep_Template d \<and>
        meta_Annotations (dep_Meta d') = meta_Annotations (dep_Meta d)) \<and>
     (\<forall>w w' d e. UpdateDeployment k d w = (Inl e, w') \<longrightarrow> stored w' = stored w \<and> deps w' = deps w)"

lemma image_api_quiet:
  assumes "image_api k stored deps"
  shows "quiet stored (MapOrder k ks)" "quiet deps (MapOrder k ks)"
    "quiet stored (ListNode k nf)" "quiet deps (ListNode k nf)"
    "quiet stored (GetPPI k key)" "quiet deps (GetPPI k key)" "order_law k"
  using assms by (simp_all add: image_api_def)

lemma image_api_get:
  "image_api k stored deps \<Longrightarrow> GetPPI k key w = (Inr p, w') \<Longrightarrow> stored w key = Some p \<and> key_of (ppi_Meta p) = key"
  "image_api k stored deps \<Longrightarrow> GetPPI k key w = (Inl e, w') \<Longrightarrow> IsNotFound k e \<Longrightarrow> stored w key = None"
  unfolding image_api_def by (metis fst_conv)+

lemma image_api_create:
  "image_api k stored deps \<Longrightarrow> CreatePPI k p w = (Inr q, w') \<Longrightarrow> deps w' = deps w \<and>
     stored w (key_of (ppi_Meta p)) = None \<and> stored w' = (stored w)(key_of (ppi_Meta p) \<mapsto> q) \<and>
     key_of (ppi_Meta q) = key_of (ppi_Meta p) \<and> (ppi_Nodes p = [] \<longrightarrow> ppi_Nodes q = []) \<and>
     spec_Image (ppi_Spec q) = spec_Image (ppi_Spec p) \<and> spec_Nodes (ppi_Spec q) = spec_Nodes (ppi_Spec p)"
  "image_api k stored deps \<Longrightarrow> CreatePPI k p w = (Inl e, w') \<Longrightarrow> deps w' = deps w \<and> stored w' = stored w"
  unfolding image_api_def by metis+

lemma image_api_delete:
  "image_api k stored deps \<Longrightarrow> DeletePPI k p w = (None, w') \<Longrightarrow>
     deps w' = deps w \<and> object_deleted p (stored w) (stored w')"
  "image_api k stored deps \<Longrightarrow> DeletePPI k p w = (Some e, w') \<Longrightarrow> deps w' = deps w \<and> stored w' = stored w"
  unfolding image_api_def by metis+

lemma image_api_deployment:
  "image_api k stored deps \<Longrightarrow> UpdateDeployment k d w = (Inr d', w') \<Longrightarrow> stored w' = stored w \<and>
     deps w' = (deps w)(key_of (dep_Meta d) \<mapsto> d') \<and> dep_Template d' = dep_Template d \<and>
     meta_Annotations (dep_Meta d') = meta_Annotations (dep_Meta d)"
  "image_api k stored deps \<Longrightarrow> UpdateDeployment k d w = (Inl e, w') \<Longrightarrow> stored w' = stored w \<and> deps w' = deps w"
  unfolding image_api_def by metis+

section \<open>Creating one object\<close>

definition image_key :: "Deployment \<Rightarrow> string \<Rightarrow> objkey" where
  "image_key d img = (meta_Namespace (dep_Meta d), generatePrePullImageName (meta_Name (dep_Meta d)) img)"

lemma new_ppi_simps [simp]:
  "key_of (ppi_Meta (new_ppi d policy img nodes)) = image_key d img"
  "spec_Image (ppi_Spec (new_ppi d policy img nodes)) = img"
  "nts_Names (spec_Nodes (ppi_Spec (new_ppi d policy img nodes))) = nodes"
  by (simp_all add: new_ppi_def key_of_def image_key_def)

definition has_image :: "PrePullImage option \<Rightarrow> string \<Rightarrow> bool" where
  "has_image p img = (case p of None \<Rightarrow> False | Some q \<Rightarrow> spec_Image (ppi_Spec q) = img)"

lemma create_new_ppi_outcome:
  assumes "image_api k stored deps" and "create_new_ppi k d policy img nodes w = (e, w')"
  shows "deps w' = deps w \<and> (e = None \<longrightarrow> stored w (image_key d img) = None \<and>
      (\<exists>q. stored w' = (stored w)(image_key d img \<mapsto> q) \<and> has_image (Some q) img)) \<and>
    (e \<noteq> None \<longrightarrow> stored w' = stored w)"
  using assms(2) image_api_create [OF assms(1), of "new_ppi d policy img nodes" w]
  by (auto simp: create_new_ppi_def has_image_def split: prod.splits sum.splits)

text \<open>
  A successful call leaves an object for the image under its key; no other key is touched, no
  deployment, and no object that is already there for the image.
\<close>

lemma createPrePullImage_outcome:
  assumes api: "image_api k stored deps" and r: "createPrePullImage k d policy img nodes w = (e, w')"
  shows "deps w' = deps w \<and> (\<forall>key. key \<noteq> image_key d img \<longrightarrow> stored w' key = stored w key) \<and>
    (e = None \<longrightarrow> has_image (stored w' (image_key d img)) img) \<and>
    (has_image (stored w (image_key d img)) img \<longrightarrow> stored w' = stored w)"
proof -
  let ?key = "image_key d img"
  obtain g w1 where g: "GetPPI k ?key w = (g, w1)" by (metis surj_pair)
  have q: "stored w1 = stored w" "deps w1 = deps w"
    using quietD [OF image_api_quiet(5) [OF api] g] quietD [OF image_api_quiet(6) [OF api] g] by simp_all
  have c: "createPrePullImage k d policy img nodes w =
      (case g of Inr existing \<Rightarrow>
         if spec_Image (ppi_Spec existing) = img then (None, w1)
         else (case DeletePPI k existing w1 of (Some err, w2) \<Rightarrow> (Some err, w2)
               | (None, w2) \<Rightarrow> create_new_ppi k d policy img nodes w2)
       | Inl err \<Rightarrow> if IsNotFound k err then create_new_ppi k d policy img nodes w1 else (Some err, w1))"
    using g by (simp add: createPrePullImage_def image_key_def)
  show ?thesis
  proof (cases g)
    case (Inl err)
    show ?thesis
    proof (cases "IsNotFound k err")
      case True
      with Inl g have "stored w ?key = None" using image_api_get(2) [OF api] by blast
      with create_new_ppi_outcome [OF api, of d policy img nodes w1 e w'] True Inl c r q
      show ?thesis by (cases e) (auto simp: has_image_def)
    next
      case False
      with Inl c r q show ?thesis by auto
    qed
  next
    case (Inr p)
    with g have p: "stored w ?key = Some p" "key_of (ppi_Meta p) = ?key" using image_api_get(1) [OF api] by blast+
    show ?thesis
    proof (cases "spec_Image (ppi_Spec p) = img")
      case True
      with Inr c r q p show ?thesis by (auto simp: has_image_def)
    next
      case False
      obtain de w2 where de: "DeletePPI k p w1 = (de, w2)" by (metis surj_pair)
      show ?thesis
      proof (cases de)
        case None
        with de have o: "deps w2 = deps w1" "object_deleted p (stored w1) (stored w2)"
          using image_api_delete(1) [OF api] by blast+
        have "\<forall>key. key \<noteq> ?key \<longrightarrow> stored w2 key = stored w1 key"
          using o(2) p by (auto simp: object_deleted_def split: if_splits)
        with create_new_ppi_outcome [OF api, of d policy img nodes w2 e w'] None False Inr c r q o p de
        show ?thesis by (cases e) (auto simp: has_image_def)
      next
        case (Some err)
        with de have "deps w2 = deps w1" "stored w2 = stored w1" using image_api_delete(2) [OF api] by blast+
        with Some False Inr c r q p de show ?thesis by (auto simp: has_image_def)
      qed
    qed
  qed
qed


section \<open>One name for two images\<close>

text \<open>
  (C23) When the name of an image is taken by an object for another image, as it is for two images of
  a deployment with a long name, and that object has its finalizer, which the other controller
  adds at once, then the creation fails: the deletion only marks the old object, and its name
  stays taken. The reconcile returns the error and starts again from the first image.
\<close>

theorem taken_name_fails:
  assumes api: "image_api k stored deps" and r: "createPrePullImage k d policy img nodes w = (e, w')"
    and p: "stored w (image_key d img) = Some p" "spec_Image (ppi_Spec p) \<noteq> img" "ppi_finalizers p \<noteq> {}"
  shows "e \<noteq> None \<and>
    (stored w' = stored w \<or> (\<exists>q. stored w' = (stored w)(image_key d img \<mapsto> q) \<and> ppi_deleted q))"
proof -
  let ?key = "image_key d img"
  obtain g w1 where g: "GetPPI k ?key w = (g, w1)" by (metis surj_pair)
  have q: "stored w1 = stored w" using quietD [OF image_api_quiet(5) [OF api] g] .
  show ?thesis
  proof (cases g)
    case (Inl err)
    with g p(1) have "\<not> IsNotFound k err" using image_api_get(2) [OF api, of ?key w err w1] by auto
    with Inl g r q show ?thesis by (auto simp: createPrePullImage_def image_key_def)
  next
    case (Inr p')
    with g p(1) have p': "p' = p" "key_of (ppi_Meta p) = ?key" using image_api_get(1) [OF api, of ?key w p' w1] by auto
    obtain de w2 where de: "DeletePPI k p w1 = (de, w2)" by (metis surj_pair)
    show ?thesis
    proof (cases de)
      case None
      with de have "object_deleted p (stored w1) (stored w2)" using image_api_delete(1) [OF api, of p w1 w2] by blast
      then obtain new where n: "stored w2 = (stored w)(?key \<mapsto> new)" "ppi_deleted new"
        using p p' q by (auto simp: object_deleted_def)
      have "createPrePullImage k d policy img nodes w = create_new_ppi k d policy img nodes w2"
        using g Inr p' p(2) de None by (simp add: createPrePullImage_def image_key_def)
      with r create_new_ppi_outcome [OF api, of d policy img nodes w2 e w'] n show ?thesis by auto
    next
      case (Some err)
      with de have "stored w2 = stored w1" using image_api_delete(2) [OF api, of p w1 err w2] by blast
      moreover have "createPrePullImage k d policy img nodes w = (Some err, w2)"
        using g Inr p' p(2) de Some by (simp add: createPrePullImage_def image_key_def)
      ultimately show ?thesis using r q by auto
    qed
  qed
qed

section \<open>The loop over the changed images\<close>

definition names_apart :: "Deployment \<Rightarrow> string set \<Rightarrow> bool" where
  "names_apart d imgs \<longleftrightarrow> inj_on (image_key d) imgs"

lemma event_frame [simp]:
  "op_World (event_Deployment d t r m s) = op_World s" "op_Limiter (event_Deployment d t r m s) = op_Limiter s"
  by (simp_all add: event_Deployment_def)

lemma create_all_Cons:
  "create_all k d policy (img # imgs) nodes s =
     (case createPrePullImage k d policy img nodes (op_World s) of
        (Some err, w1) \<Rightarrow> (Some err, s\<lparr>op_World := w1\<rparr>)
      | (None, w1) \<Rightarrow> create_all k d policy imgs nodes
          (event_Deployment d ''Normal'' ''PrePullTriggered'' (''Image pre-pull initiated for '' @ img)
            (s\<lparr>op_World := w1\<rparr>)))"
  by (auto simp: world_def split: prod.splits option.splits)

declare create_all.simps(2) [simp del]

lemma create_all_outcome:
  assumes "image_api k stored deps" and "create_all k d policy imgs nodes s = (e, s')"
  shows "deps (op_World s') = deps (op_World s) \<and>
    (\<forall>key. key \<notin> image_key d ` set imgs \<longrightarrow> stored (op_World s') key = stored (op_World s) key) \<and>
    (names_apart d (set imgs) \<longrightarrow>
       (e = None \<longrightarrow> (\<forall>img \<in> set imgs. has_image (stored (op_World s') (image_key d img)) img)) \<and>
       (\<forall>img \<in> set imgs. has_image (stored (op_World s) (image_key d img)) img \<longrightarrow>
          stored (op_World s') (image_key d img) = stored (op_World s) (image_key d img)))"
  using assms(2)
proof (induction imgs arbitrary: s)
  case (Cons img imgs)
  obtain c w1 where c: "createPrePullImage k d policy img nodes (op_World s) = (c, w1)" by (metis surj_pair)
  note o = createPrePullImage_outcome [OF assms(1) c]
  have kept: "stored w1 (image_key d i) = stored (op_World s) (image_key d i)"
    if "names_apart d (set (img # imgs))" "i \<in> set (img # imgs)"
      "i \<noteq> img \<or> has_image (stored (op_World s) (image_key d i)) i" for i
  proof (cases "i = img")
    case False
    with that(1,2) have "image_key d i \<noteq> image_key d img"
      by (metis inj_on_eq_iff list.set_intros(1) names_apart_def)
    with o show ?thesis by blast
  qed (use that o in simp)
  show ?case
  proof (cases c)
    case (Some err)
    then have s': "op_World s' = w1" "e = Some err" using Cons.prems c by (auto simp: create_all_Cons)
    show ?thesis unfolding s' using o kept by auto
  next
    case None
    let ?s1 = "event_Deployment d ''Normal'' ''PrePullTriggered'' (''Image pre-pull initiated for '' @ img)
      (s\<lparr>op_World := w1\<rparr>)"
    have w: "op_World ?s1 = w1" by simp
    have "create_all k d policy imgs nodes ?s1 = (e, s')"
      using Cons.prems c None by (simp add: create_all_Cons)
    note ih = Cons.IH [OF this, unfolded w]
    have new: "has_image (stored w1 (image_key d img)) img" using o None by blast
    have apart: "names_apart d (set imgs)" "img \<notin> set imgs \<longrightarrow> image_key d img \<notin> image_key d ` set imgs"
      if "names_apart d (set (img # imgs))"
      using that by (auto simp: names_apart_def)
    have first: "stored (op_World s') (image_key d img) = stored w1 (image_key d img)"
      if "names_apart d (set (img # imgs))"
      using ih new apart [OF that] by (cases "img \<in> set imgs") auto
    have all: "has_image (stored (op_World s') (image_key d i)) i"
      if "names_apart d (set (img # imgs))" "e = None" "i \<in> set (img # imgs)" for i
      using ih first [OF that(1)] new apart [OF that(1)] that by (cases "i = img") simp_all
    have keep: "stored (op_World s') (image_key d i) = stored (op_World s) (image_key d i)"
      if "names_apart d (set (img # imgs))" "i \<in> set (img # imgs)"
        "has_image (stored (op_World s) (image_key d i)) i" for i
      using ih first [OF that(1)] kept [OF that(1,2)] apart [OF that(1)] that by (cases "i = img") simp_all
    have frame: "stored (op_World s') key = stored (op_World s) key"
      if "key \<notin> image_key d ` set (img # imgs)" for key
      using ih o that by simp
    have "deps (op_World s') = deps (op_World s)" using ih o by simp
    then show ?thesis
      by (intro conjI allI impI ballI) (assumption | erule frame | (rule all; assumption) | (rule keep; assumption))+
  qed
qed simp


section \<open>A reconcile\<close>

lemma extractImages_cong: "dep_Template d' = dep_Template d \<Longrightarrow> extractImages d' = extractImages d"
  by (simp add: extractImages_def)

lemma getLastImages_cong:
  "meta_Annotations (dep_Meta d') = meta_Annotations (dep_Meta d) \<Longrightarrow> getLastImages d' = getLastImages d"
  by (simp add: getLastImages_def)

lemma save_images_outcome:
  assumes api: "image_api k stored deps" and r: "save_images k d images s = (r, s')"
  shows "stored (op_World s') = stored (op_World s) \<and>
    (case r of
       Inl err \<Rightarrow> deps (op_World s') = deps (op_World s)
     | Inr res \<Rightarrow> res = no_requeue \<and> (\<exists>d'. deps (op_World s') = (deps (op_World s))(key_of (dep_Meta d) \<mapsto> d') \<and>
         getLastImages d' = getLastImages (with_last_images images d) \<and> extractImages d' = extractImages d))"
proof -
  obtain u w1 where u: "UpdateDeployment k (with_last_images images d) (op_World s) = (u, w1)" by (metis surj_pair)
  have key: "key_of (dep_Meta (with_last_images images d)) = key_of (dep_Meta d)"
    "dep_Template (with_last_images images d) = dep_Template d"
    by (simp_all add: with_last_images_def Let_def key_of_def)
  show ?thesis
  proof (cases u)
    case (Inl err)
    with u r image_api_deployment(2) [OF api, of "with_last_images images d" "op_World s" err w1] show ?thesis
      by (auto simp: save_images_def updateLastImagesAnnotation_def world_def)
  next
    case (Inr d')
    with u image_api_deployment(1) [OF api, of "with_last_images images d" "op_World s" d' w1] key
    have "stored w1 = stored (op_World s)" "deps w1 = (deps (op_World s))(key_of (dep_Meta d) \<mapsto> d')"
      "dep_Template d' = dep_Template d"
      "meta_Annotations (dep_Meta d') = meta_Annotations (dep_Meta (with_last_images images d))" by simp_all
    note w1 = this(1,2) extractImages_cong [OF this(3)] getLastImages_cong [OF this(4)]
    have "r = Inr no_requeue" "op_World s' = w1"
      using u r Inr by (auto simp: save_images_def updateLastImagesAnnotation_def world_def)
    then show ?thesis using w1 by auto
  qed
qed

lemma getTargetNodes_quiet:
  assumes "image_api k stored deps" and "getTargetNodes_Deployment k policy w = (r, w')"
  shows "stored w' = stored w \<and> deps w' = deps w"
  using assms(2) image_api_quiet(3,4) [OF assms(1)]
  by (auto simp: getTargetNodes_Deployment_def Let_def quiet_def split: prod.splits sum.splits if_splits)
    (metis snd_conv)+

lemma findChangedImages_quiet:
  assumes "image_api k stored deps" and "findChangedImages k la cur w = (changed, w')"
  shows "stored w' = stored w \<and> deps w' = deps w"
  using assms(2) image_api_quiet(1,2) [OF assms(1)]
  by (auto simp: findChangedImages_def quiet_def split: prod.splits) (metis snd_conv)+

text \<open>The images of the containers that count as changed.\<close>

definition changed_set :: "Deployment \<Rightarrow> string set" where
  "changed_set d = snd ` {kv \<in> set (extractImages d). is_changed (getLastImages d) kv}"

lemma set_findChangedImages:
  assumes "image_api k stored deps"
    and "findChangedImages k (getLastImages d) (extractImages d) w = (changed, w')"
  shows "set changed = changed_set d"
proof -
  note findChangedImages_mset [OF image_api_quiet(7) [OF assms(1)] distinct_extractImages assms(2)]
  from arg_cong [OF this, of set_mset] show ?thesis by (simp add: changed_set_def)
qed

text \<open>The ways through \<open>reconcile_images\<close>.\<close>

lemma reconcile_images_cases:
  assumes api: "image_api k stored deps" and r: "reconcile_images k d policy s = (r, s')"
  obtains (quiet) "changed_set d = {}" "imagesEqual (getLastImages d) (extractImages d)" "r = Inr no_requeue"
      "stored (op_World s') = stored (op_World s)" "deps (op_World s') = deps (op_World s)"
    | (rewrite) s1 where "changed_set d = {}" "stored (op_World s1) = stored (op_World s)"
      "deps (op_World s1) = deps (op_World s)" "save_images k d (extractImages d) s1 = (r, s')"
    | (no_nodes) err where "r = Inl err \<or> r = Inr no_requeue"
      "r = Inr no_requeue \<longrightarrow> fst (getTargetNodes_Deployment k policy
         (snd (MapOrder k (map fst (extractImages d)) (op_World s)))) = Inr []"
      "stored (op_World s') = stored (op_World s)" "deps (op_World s') = deps (op_World s)"
    | (failed) s1 imgs nodes err where "set imgs = changed_set d" "stored (op_World s1) = stored (op_World s)"
      "deps (op_World s1) = deps (op_World s)" "create_all k d policy imgs nodes s1 = (Some err, s')" "r = Inl err"
    | (created) s1 imgs nodes s2 where "set imgs = changed_set d" "stored (op_World s1) = stored (op_World s)"
      "deps (op_World s1) = deps (op_World s)" "create_all k d policy imgs nodes s1 = (None, s2)"
      "save_images k d (extractImages d) s2 = (r, s')"
proof -
  obtain imgs w1 where f: "findChangedImages k (getLastImages d) (extractImages d) (op_World s) = (imgs, w1)"
    by (metis surj_pair)
  have q1: "stored w1 = stored (op_World s)" "deps w1 = deps (op_World s)" and set: "set imgs = changed_set d"
    using findChangedImages_quiet [OF api f] set_findChangedImages [OF api f] by simp_all
  have w1: "w1 = snd (MapOrder k (map fst (extractImages d)) (op_World s))"
    using f by (auto simp: findChangedImages_def split: prod.splits)
  obtain t w2 where t: "getTargetNodes_Deployment k policy w1 = (t, w2)" by (metis surj_pair)
  have q2: "stored w2 = stored (op_World s)" "deps w2 = deps (op_World s)"
    using getTargetNodes_quiet [OF api t] q1 by simp_all
  have eq: "reconcile_images k d policy s =
      (if imgs = [] then
         if \<not> imagesEqual (getLastImages d) (extractImages d)
         then save_images k d (extractImages d) (s\<lparr>op_World := w1\<rparr>) else (Inr no_requeue, s\<lparr>op_World := w1\<rparr>)
       else (case t of Inl err \<Rightarrow> (Inl err, s\<lparr>op_World := w2\<rparr>)
             | Inr nodes \<Rightarrow> if nodes = [] then (Inr no_requeue, s\<lparr>op_World := w2\<rparr>)
                 else (case create_all k d policy imgs nodes (s\<lparr>op_World := w2\<rparr>) of
                         (Some err, s3) \<Rightarrow> (Inl err, s3)
                       | (None, s3) \<Rightarrow> save_images k d (extractImages d) s3)))"
    using f t unfolding reconcile_images_def length_0_conv by (simp add: world_def Let_def)
  show thesis
  proof (cases "imgs = []")
    case True
    with set have "changed_set d = {}" by simp
    with True r eq q1 quiet rewrite [of "s\<lparr>op_World := w1\<rparr>"] show thesis by (auto split: if_splits)
  next
    case ne: False
    show thesis
    proof (cases t)
      case (Inl err)
      with ne r eq q2 show thesis by (intro no_nodes [of err]) auto
    next
      case (Inr nodes)
      show thesis
      proof (cases "nodes = []")
        case True
        with t Inr w1 True ne r eq q2 show thesis by (intro no_nodes) auto
      next
        case False
        obtain c s3 where c: "create_all k d policy imgs nodes (s\<lparr>op_World := w2\<rparr>) = (c, s3)" by (metis surj_pair)
        with False ne Inr r eq q2 set failed [of imgs "s\<lparr>op_World := w2\<rparr>" nodes] created [of imgs "s\<lparr>op_World := w2\<rparr>" nodes s3]
        show thesis by (cases c) simp_all
      qed
    qed
  qed
qed


lemma recorded_unchanged:
  assumes "valid_gomap (extractImages d)" and "extractImages d' = extractImages d"
    and "getLastImages d' = getLastImages (with_last_images (extractImages d) d)"
  shows "changed_set d' = {}"
  using assms unmarshal_marshal [OF assms(1)] getLastImages_recorded [OF assms(1), of d]
  by (auto simp: changed_set_def is_changed_def)

text \<open>
  (C16) Let the changed images of a deployment have different object names (for names of
  deployments up to 54 bytes, let their hashes differ; from 62 bytes on two changed images never
  have). A reconcile that then succeeds has done its work: either it found no target node and
  changed nothing, or every changed image has its object, no other object is touched, and the
  images are recorded, so that no image counts as changed any more.
\<close>

theorem successful_reconcile_complete:
  assumes api: "image_api k stored deps" and apart: "names_apart d (changed_set d)"
    and valid: "valid_gomap (extractImages d)" and r: "reconcile_images k d policy s = (Inr res, s')"
  shows "res = no_requeue \<and>
    (fst (getTargetNodes_Deployment k policy (snd (MapOrder k (map fst (extractImages d)) (op_World s)))) = Inr [] \<and>
       stored (op_World s') = stored (op_World s) \<and> deps (op_World s') = deps (op_World s) \<or>
     (\<forall>img \<in> changed_set d. has_image (stored (op_World s') (image_key d img)) img) \<and>
       (\<forall>key. key \<notin> image_key d ` changed_set d \<longrightarrow> stored (op_World s') key = stored (op_World s) key) \<and>
       (deps (op_World s') = deps (op_World s) \<and> changed_set d = {} \<or>
        (\<exists>d'. deps (op_World s') = (deps (op_World s))(key_of (dep_Meta d) \<mapsto> d') \<and>
           extractImages d' = extractImages d \<and> changed_set d' = {})))"
  using api r
proof (cases rule: reconcile_images_cases)
  case (rewrite s1)
  note o = save_images_outcome [OF api rewrite(4)]
  then obtain d' where "deps (op_World s') = (deps (op_World s1))(key_of (dep_Meta d) \<mapsto> d')"
    "extractImages d' = extractImages d" "changed_set d' = {}"
    using recorded_unchanged [OF valid] by auto
  with o rewrite(1-3) show ?thesis by auto
next
  case (created s1 imgs nodes s2)
  note o = save_images_outcome [OF api created(5)] and c = create_all_outcome [OF api created(4)]
  from o obtain d' where "deps (op_World s') = (deps (op_World s2))(key_of (dep_Meta d) \<mapsto> d')"
    "extractImages d' = extractImages d" "changed_set d' = {}"
    using recorded_unchanged [OF valid] by auto
  moreover have "res = no_requeue" "stored (op_World s') = stored (op_World s2)" using o by simp_all
  moreover have "\<forall>img \<in> changed_set d. has_image (stored (op_World s2) (image_key d img)) img"
    "\<forall>key. key \<notin> image_key d ` changed_set d \<longrightarrow> stored (op_World s2) key = stored (op_World s) key"
    "deps (op_World s2) = deps (op_World s)"
    using c apart created(1-3) by simp_all
  ultimately show ?thesis by auto
qed auto

text \<open>
  (C17) A reconcile that fails writes no record, so the next one finds the same changed images
  again. Whatever the outcome, no object is touched but those under the names of the changed
  images; and when these names are different, an object that already holds the changed image
  of its name is kept as it is, so that it is not pulled twice. (An object under such a name
  that holds another image is not kept: theorem \<open>taken_name_fails\<close>.)
\<close>

theorem failed_reconcile_retries:
  assumes api: "image_api k stored deps" and r: "reconcile_images k d policy s = (r, s')"
  shows "(\<forall>err. r = Inl err \<longrightarrow> deps (op_World s') = deps (op_World s)) \<and>
    (\<forall>key. key \<notin> image_key d ` changed_set d \<longrightarrow> stored (op_World s') key = stored (op_World s) key) \<and>
    (names_apart d (changed_set d) \<longrightarrow> (\<forall>img \<in> changed_set d.
       has_image (stored (op_World s) (image_key d img)) img \<longrightarrow>
       stored (op_World s') (image_key d img) = stored (op_World s) (image_key d img)))"
  using api r
proof (cases rule: reconcile_images_cases)
  case (rewrite s1)
  then show ?thesis using save_images_outcome [OF api rewrite(4)] by auto
next
  case (failed s1 imgs nodes err)
  then show ?thesis using create_all_outcome [OF api failed(4)] by auto
next
  case (created s1 imgs nodes s2)
  then show ?thesis using save_images_outcome [OF api created(5)] create_all_outcome [OF api created(4)] by auto
qed auto


section \<open>The laws on the in-memory server\<close>

lemma find_replace:
  "find (\<lambda>e. key_of (dep_Meta e) = key) (replace_deployment d ds) =
     map_option (\<lambda>e. if key = key_of (dep_Meta d) then d else e) (find (\<lambda>e. key_of (dep_Meta e) = key) ds)"
  by (induction ds) (auto simp: replace_deployment_def)

lemma mem_deployment_update:
  assumes "mem_update_deployment d w = (Inr d', w')"
  shows "mem_ppis w' = mem_ppis w \<and> mem_deployment w' = (mem_deployment w)(key_of (dep_Meta d) \<mapsto> d') \<and> d' = d"
proof -
  have "mem_deployment w' key = ((mem_deployment w)(key_of (dep_Meta d) \<mapsto> d)) key" for key
    using assms by (cases "mem_deployment w key")
      (auto simp: mem_update_deployment_def mem_deployment_def find_replace split: if_splits)
  with assms show ?thesis by (auto simp: mem_update_deployment_def split: if_splits)
qed

lemma mem_image_calls:
  "mem_update_deployment d w = (Inl e, w') \<Longrightarrow> w' = w"
  "mem_get_ppi w key = Inr p \<Longrightarrow> mem_ppis w key = Some p \<and> key_of (ppi_Meta p) = key"
  "mem_get_ppi w key = Inl e \<Longrightarrow> error_reason e = ''NotFound'' \<Longrightarrow> mem_ppis w key = None"
  "mem_create_ppi p w = (Inr q, w') \<Longrightarrow> mem_deployment w' = mem_deployment w \<and>
     mem_ppis w (key_of (ppi_Meta p)) = None \<and> mem_ppis w' = (mem_ppis w)(key_of (ppi_Meta p) \<mapsto> q) \<and> q = p"
  "mem_create_ppi p w = (Inl e, w') \<Longrightarrow> w' = w"
  "mem_delete_ppi p w = (None, w') \<Longrightarrow> mem_deployment w' = mem_deployment w"
  "mem_delete_ppi p w = (Some e, w') \<Longrightarrow> w' = w"
  by (auto simp: mem_defs fun_eq_iff split: option.splits if_splits)

lemma mem_image_api: "image_api mem_k8s mem_ppis mem_deployment"
  unfolding image_api_def
  by (intro conjI allI impI)
    (auto simp: mem_order_law quiet_def mem_list_node_def
      dest: mem_image_calls mem_deployment_update mem_delete_law)


definition taken_ppi :: PrePullImage where
  "taken_ppi = (new_ppi (sample_deployment [] []) sample_policy ''a'' [])
     \<lparr>ppi_Meta := zero_meta\<lparr>meta_Namespace := ''prod'', meta_Name := generatePrePullImageName ''web'' ''b'',
        meta_Finalizers := [FinalizerName]\<rparr>\<rparr>"

lemma taken_name_fails_witness:
  "fst (createPrePullImage mem_k8s (sample_deployment [] []) sample_policy ''b'' [] (sample_world taken_ppi)) \<noteq> None"
proof -
  let ?d = "sample_deployment [] []" and ?w = "sample_world taken_ppi"
  have "mem_ppis ?w (image_key ?d ''b'') = Some taken_ppi"
    by (simp add: sample_world_def taken_ppi_def image_key_def sample_deployment_def key_of_def)
  moreover have "spec_Image (ppi_Spec taken_ppi) \<noteq> ''b''" "ppi_finalizers taken_ppi \<noteq> {}"
    by (simp_all add: taken_ppi_def)
  ultimately show ?thesis
    using taken_name_fails [OF mem_image_api surjective_pairing, of ?w ?d "''b''" taken_ppi sample_policy "[]"] by simp
qed

abbreviation one_deployment :: Deployment where
  "one_deployment \<equiv> sample_deployment [sample_container ''x'' ''a''] []"

lemma one_deployment_images:
  "extractImages one_deployment = [(''x'', ''a'')]" "getLastImages one_deployment = None"
  "changed_set one_deployment = {''a''}" "valid_gomap (extractImages one_deployment)"
proof -
  show e: "extractImages one_deployment = [(''x'', ''a'')]"
    by (simp add: extractImages_pairs deployment_defs)
  show l: "getLastImages one_deployment = None"
    by (simp add: getLastImages_def sample_deployment_def zero_meta_def)
  show "changed_set one_deployment = {''a''}"
    by (simp add: changed_set_def e l is_changed_def)
  show "valid_gomap (extractImages one_deployment)"
    unfolding e by (auto simp: valid_gomap_def intro!: utf8_valid_ascii)
qed

lemma one_deployment_create:
  "create_all mem_k8s one_deployment sample_policy [''a''] nodes (sample_op (deployment_world ds)) =
     (None, event_Deployment one_deployment ''Normal'' ''PrePullTriggered'' ''Image pre-pull initiated for a''
        (sample_op (deployment_world ds)
          \<lparr>op_World := snd (mem_create_ppi (new_ppi one_deployment sample_policy ''a'' nodes) (deployment_world ds))\<rparr>))"
  by (simp add: create_all_Cons createPrePullImage_def create_new_ppi_def mem_defs deployment_world_def
      sample_op_def empty_mem_def)

lemma one_deployment_calls:
  "findChangedImages mem_k8s None [(''x'', ''a'')] w = ([''a''], w)"
  "getTargetNodes_Deployment mem_k8s sample_policy (deployment_world ds) = (Inr [''n1''], deployment_world ds)"
  "world f (sample_op w) = (let (x, w') = f w in (x, sample_op w'))"
  by (simp_all add: findChangedImages_def map_read_str_def getTargetNodes_Deployment_def sample_policy_def
      mem_list_node_def deployment_world_def empty_mem_def isNodeReady_def zero_meta_def world_def sample_op_def)

lemma one_deployment_reconcile:
  "reconcile_images mem_k8s one_deployment sample_policy (sample_op (deployment_world ds)) =
     save_images mem_k8s one_deployment [(''x'', ''a'')]
       (snd (create_all mem_k8s one_deployment sample_policy [''a''] [''n1''] (sample_op (deployment_world ds))))"
  by (simp add: reconcile_images_def one_deployment_images one_deployment_calls one_deployment_create)

text \<open>The deployment is in the server, or has been deleted since it was read.\<close>

lemma successful_reconcile_complete_witness:
  "\<exists>s'. reconcile_images mem_k8s one_deployment sample_policy (sample_op (deployment_world [one_deployment])) =
      (Inr no_requeue, s') \<and> has_image (mem_ppis (op_World s') (image_key one_deployment ''a'')) ''a''"
proof -
  let ?s = "sample_op (deployment_world [one_deployment])"
  obtain s' where r: "reconcile_images mem_k8s one_deployment sample_policy ?s = (Inr no_requeue, s')"
    unfolding one_deployment_reconcile one_deployment_create
    by (simp add: save_images_def updateLastImagesAnnotation_def
        world_def mem_create_ppi_def mem_update_deployment_def mem_deployment_def deployment_world_def
        empty_mem_def with_last_images_def key_of_def Let_def)
  have "names_apart one_deployment (changed_set one_deployment)"
    by (simp add: names_apart_def one_deployment_images)
  from successful_reconcile_complete [OF mem_image_api this one_deployment_images(4) r] r show ?thesis
    by (auto simp: one_deployment_images one_deployment_calls sample_op_def)
qed

lemma failed_reconcile_retries_witness:
  "\<exists>err s'. reconcile_images mem_k8s one_deployment sample_policy (sample_op (deployment_world [])) = (Inl err, s') \<and>
     mem_deployment (op_World s') = mem_deployment (deployment_world [])"
proof -
  let ?s = "sample_op (deployment_world [])"
  obtain err s' where r: "reconcile_images mem_k8s one_deployment sample_policy ?s = (Inl err, s')"
    unfolding one_deployment_reconcile one_deployment_create
    by (simp add: save_images_def updateLastImagesAnnotation_def
        world_def mem_create_ppi_def mem_update_deployment_def mem_deployment_def deployment_world_def
        empty_mem_def with_last_images_def key_of_def Let_def)
  with failed_reconcile_retries [OF mem_image_api r] show ?thesis by (auto simp: sample_op_def)
qed

end
