(* ===== verification/PolicyCount.thy ===== *)
theory PolicyCount
  imports PolicyController DeploymentSystem
begin

text \<open>
  Properties of the PrePullPolicy controller: what \<open>countMatchingDeployments\<close> counts, whether it
  agrees with the Deployment controller, and what a reconcile writes.
\<close>

declare split_paired_All [simp del] split_paired_Ex [simp del]

section \<open>What is counted\<close>

text \<open>\<open>all_deps\<close> are the deployments in the server, in the order in which it lists them.\<close>

definition deployment_list :: "'w k8s \<Rightarrow> ('w \<Rightarrow> Deployment list) \<Rightarrow> bool" where
  "deployment_list k all_deps \<longleftrightarrow>
     (\<forall>ns w w' items. ListDeployment k ns w = (Inr items, w') \<longrightarrow> all_deps w' = all_deps w \<and>
        items = filter (\<lambda>d. ns = None \<or> ns = Some (meta_Namespace (dep_Meta d))) (all_deps w))"

text \<open>The deployments of a namespace that the selector of a policy matches; \<open>''''\<close> stands for all.\<close>

definition selected_in :: "'a lib_scheme \<Rightarrow> PolicySelector \<Rightarrow> Deployment list \<Rightarrow> string \<Rightarrow> Deployment list" where
  "selected_in k sel ds ns =
     filter (\<lambda>d. (ns = '''' \<or> meta_Namespace (dep_Meta d) = ns) \<and> deploymentMatchesSelector k d sel) ds"

lemma count_items_eq:
  "count_items k sel ds n = n + of_nat (length (filter (\<lambda>d. deploymentMatchesSelector k d sel) ds))"
  by (induction ds arbitrary: n) simp_all

lemma count_namespaces_eq:
  assumes "deployment_list k all_deps" and "count_namespaces k sel nss n w = (Inr m, w')"
  shows "m = n + of_nat (length (concat (map (selected_in k sel (all_deps w)) nss))) \<and> all_deps w' = all_deps w"
  using assms(2)
proof (induction nss arbitrary: n w)
  case (Cons ns nss)
  let ?arg = "if ns \<noteq> '''' then Some ns else None"
  obtain r w1 where l: "ListDeployment k ?arg w = (r, w1)" by (metis surj_pair)
  with Cons.prems obtain items where r: "r = Inr items"
    by (cases r) simp_all
  have law: "all_deps w1 = all_deps w"
    "items = filter (\<lambda>d. ?arg = None \<or> ?arg = Some (meta_Namespace (dep_Meta d))) (all_deps w)"
    using assms(1) l r unfolding deployment_list_def by blast+
  have "filter (\<lambda>d. deploymentMatchesSelector k d sel) items = selected_in k sel (all_deps w) ns"
    unfolding law(2) selected_in_def by (auto intro!: filter_cong simp: conj_commute)
  with Cons.IH [of "count_items k sel items n" w1] Cons.prems l r law(1) show ?case
    by (simp add: count_items_eq)
qed simp

lemma deploymentMatchesPolicy_selector:
  "deploymentMatchesPolicy k d p \<longleftrightarrow>
     (sel_Namespaces (pspec_Selector (pol_Spec p)) = [] \<or>
      meta_Namespace (dep_Meta d) \<in> set (sel_Namespaces (pspec_Selector (pol_Spec p)))) \<and>
     deploymentMatchesSelector k d (pspec_Selector (pol_Spec p))"
  by (auto simp: deploymentMatchesPolicy_def deploymentMatchesSelector_def list_ex_iff Let_def)

lemma length_selected:
  assumes "distinct nss" and "'''' \<notin> set nss"
  shows "length (concat (map (selected_in k sel ds) nss)) =
    length (filter (\<lambda>d. meta_Namespace (dep_Meta d) \<in> set nss \<and> deploymentMatchesSelector k d sel) ds)"
  using assms
proof (induction nss)
  case (Cons ns nss)
  let ?in = "\<lambda>d. meta_Namespace (dep_Meta d)" and ?m = "\<lambda>d. deploymentMatchesSelector k d sel"
  have "length (filter (\<lambda>d. ?in d \<in> set (ns # nss) \<and> ?m d) ds) =
      length (filter (\<lambda>d. ?in d = ns \<and> ?m d) ds) + length (filter (\<lambda>d. ?in d \<in> set nss \<and> ?m d) ds)"
    using Cons.prems(1) by (induction ds) auto
  moreover have "ns \<noteq> ''''" using Cons.prems(2) by auto
  then have "selected_in k sel ds ns = filter (\<lambda>d. ?in d = ns \<and> ?m d) ds" by (simp add: selected_in_def)
  ultimately show ?case using Cons by simp
qed simp

text \<open>
  (C24) The count of a policy is the sum, over its listed namespaces, of the deployments there
  that its labels match. So when the namespaces are distinct and none is the empty text, it is
  the number of the deployments for which the Deployment controller takes the policy into
  account; a namespace listed twice counts twice, and the empty text counts the deployments of
  all namespaces, none of which the Deployment controller then matches by it.
\<close>

theorem policy_count_exact:
  assumes "deployment_list k all_deps" and "countMatchingDeployments k policy w = (Inr n, w')"
  shows "n = of_nat (sum_list (map (\<lambda>ns. length (selected_in k (pspec_Selector (pol_Spec policy)) (all_deps w) ns))
      (search_namespaces (pspec_Selector (pol_Spec policy))))) \<and>
    (distinct (sel_Namespaces (pspec_Selector (pol_Spec policy))) \<and>
     '''' \<notin> set (sel_Namespaces (pspec_Selector (pol_Spec policy))) \<longrightarrow>
     n = of_nat (length (filter (\<lambda>d. deploymentMatchesPolicy k d policy) (all_deps w))))"
proof -
  let ?sel = "pspec_Selector (pol_Spec policy)"
  have n: "n = of_nat (length (concat (map (selected_in k ?sel (all_deps w)) (search_namespaces ?sel))))"
    using count_namespaces_eq [OF assms(1)] assms(2) by (fastforce simp: countMatchingDeployments_def)
  have "length (concat (map (selected_in k ?sel (all_deps w)) (search_namespaces ?sel))) =
      length (filter (\<lambda>d. deploymentMatchesPolicy k d policy) (all_deps w))"
    if "distinct (sel_Namespaces ?sel)" "'''' \<notin> set (sel_Namespaces ?sel)"
  proof (cases "sel_Namespaces ?sel = []")
    case True
    then show ?thesis by (simp add: search_namespaces_def selected_in_def deploymentMatchesPolicy_selector)
  next
    case False
    with length_selected [OF that] show ?thesis
      by (simp add: search_namespaces_def deploymentMatchesPolicy_selector)
  qed
  with n show ?thesis by (simp add: length_concat comp_def)
qed

lemma mem_deployment_list: "deployment_list mem_k8s mem_deployments"
  by (simp add: deployment_list_def)

definition twice_policy :: PrePullPolicy where
  "twice_policy = sample_policy\<lparr>pol_Spec := (pol_Spec sample_policy)
     \<lparr>pspec_Selector := \<lparr>sel_MatchLabels = [(''app'', ''web'')], sel_Namespaces = [''prod'', ''prod'']\<rparr>\<rparr>\<rparr>"

lemma policy_count_exact_witness:
  "fst (countMatchingDeployments mem_k8s sample_policy (deployment_world [one_deployment])) = Inr 1 \<and>
   fst (countMatchingDeployments mem_k8s twice_policy (deployment_world [one_deployment])) = Inr 2"
proof -
  let ?w = "deployment_world [one_deployment]"
  have c: "\<exists>n. countMatchingDeployments mem_k8s p ?w = (Inr n, ?w)" if "p \<in> {sample_policy, twice_policy}" for p
    using that by (auto simp: countMatchingDeployments_def sample_policy_def twice_policy_def search_namespaces_def)
  obtain n m where n: "countMatchingDeployments mem_k8s sample_policy ?w = (Inr n, ?w)"
    and m: "countMatchingDeployments mem_k8s twice_policy ?w = (Inr m, ?w)"
    using c by blast
  have "n = 1"
    using policy_count_exact [OF mem_deployment_list n]
    by (simp add: sample_policy_def search_namespaces_def selected_in_def deployment_world_def
        sample_deployment_def deploymentMatchesSelector_def map_le_def)
  moreover have "m = 2"
    using policy_count_exact [OF mem_deployment_list m]
    by (simp add: twice_policy_def search_namespaces_def selected_in_def deployment_world_def
        sample_deployment_def deploymentMatchesSelector_def map_le_def)
  ultimately show ?thesis using n m by simp
qed


section \<open>What a reconcile of a policy writes\<close>

text \<open>The gauge \<open>kwarm_watched_deployments\<close>: the value of its last \<open>Set\<close>.\<close>

fun watched_gauge :: "effect list \<Rightarrow> int option" where
  "watched_gauge [] = None"
| "watched_gauge (e # es) =
     (case watched_gauge es of
        Some n \<Rightarrow> Some n
      | None \<Rightarrow> (case e of WatchedDeploymentsSet n \<Rightarrow> Some n | _ \<Rightarrow> None))"

lemma watched_gauge_set [simp]: "watched_gauge (es @ [WatchedDeploymentsSet n]) = Some n"
  by (induction es) simp_all

text \<open>
  What the API server stores of a status: everything but the fractions of a second of its time
  stamps. So a written status is known by its count and, of each condition, by all but the time.
\<close>

definition same_policy_status :: "PrePullPolicyStatus \<Rightarrow> PrePullPolicyStatus \<Rightarrow> bool" where
  "same_policy_status st st' \<longleftrightarrow> pst_WatchedDeployments st' = pst_WatchedDeployments st \<and>
     (pst_LastUpdated st' = None \<longleftrightarrow> pst_LastUpdated st = None) \<and>
     map (\<lambda>c. (cond_Type c, cond_Status c, cond_Reason c, cond_Message c)) (pst_Conditions st') =
       map (\<lambda>c. (cond_Type c, cond_Status c, cond_Reason c, cond_Message c)) (pst_Conditions st)"

definition policy_store :: "'w k8s \<Rightarrow> ('w \<Rightarrow> objkey \<rightharpoonup> PrePullPolicy) \<Rightarrow> bool" where
  "policy_store k pols \<longleftrightarrow> documented k \<and> quiet pols (Now k) \<and> (\<forall>ns. quiet pols (ListDeployment k ns)) \<and>
     (\<forall>w w' p q. StatusUpdatePolicy k p w = (Inr q, w') \<longrightarrow>
        pols w' = (pols w)(key_of (pol_Meta p) \<mapsto> q) \<and> same_policy_status (pol_Status p) (pol_Status q)) \<and>
     (\<forall>w w' p e. StatusUpdatePolicy k p w = (Inl e, w') \<longrightarrow> pols w' = pols w)"

definition ready_is :: "PrePullPolicy \<Rightarrow> string \<Rightarrow> string \<Rightarrow> bool" where
  "ready_is p status message \<longleftrightarrow> (\<exists>c \<in> set (pst_Conditions (pol_Status p)).
     cond_Type c = ConditionTypeReady \<and> cond_Status c = status \<and> cond_Message c = message)"

lemma same_policy_status_ready:
  assumes "same_policy_status (pol_Status p) (pol_Status q)" and "ready_is p status message"
  shows "ready_is q status message"
proof -
  let ?f = "\<lambda>c. (cond_Type c, cond_Status c, cond_Reason c, cond_Message c)"
  obtain c where c: "c \<in> set (pst_Conditions (pol_Status p))" "cond_Type c = ConditionTypeReady"
    "cond_Status c = status" "cond_Message c = message"
    using assms(2) by (auto simp: ready_is_def)
  have "?f ` set (pst_Conditions (pol_Status q)) = ?f ` set (pst_Conditions (pol_Status p))"
    using assms(1) arg_cong [of _ _ set] unfolding same_policy_status_def set_map [symmetric] by blast
  with c(1) have "?f c \<in> ?f ` set (pst_Conditions (pol_Status q))" by blast
  then obtain d where "d \<in> set (pst_Conditions (pol_Status q))" "?f d = ?f c" by (rule imageE) simp
  with c show ?thesis by (auto simp: ready_is_def)
qed

lemma count_namespaces_quiet:
  assumes "\<forall>ns. quiet pols (ListDeployment k ns)"
  shows "pols (snd (count_namespaces k sel nss n w)) = pols w"
proof (induction nss arbitrary: n w)
  case (Cons ns nss)
  obtain r w1 where l: "ListDeployment k (if ns \<noteq> '''' then Some ns else None) w = (r, w1)" by (metis surj_pair)
  then have "pols w1 = pols w" using assms by (metis quietD)
  with Cons.IH l show ?case by (cases r) simp_all
qed simp

lemma setCondition_Policy_ready:
  assumes "policy_store k pols"
    and "setCondition_Policy k ConditionTypeReady status reason message policy w = (p', w')"
  shows "ready_is p' status message \<and> pol_Meta p' = pol_Meta policy \<and> pols w' = pols w \<and>
    pst_WatchedDeployments (pol_Status p') = pst_WatchedDeployments (pol_Status policy)"
proof -
  obtain t where n: "Now k w = (t, w')"
    using assms(2) by (auto simp: setCondition_Policy_def Let_def split: prod.splits)
  moreover have "\<And>cs c. \<exists>c' \<in> set (SetStatusCondition k cs c). cond_Type c' = cond_Type c \<and>
      cond_Status c' = cond_Status c \<and> cond_Reason c' = cond_Reason c \<and> cond_Message c' = cond_Message c"
    using assms(1) by (simp add: policy_store_def documented_def)
  ultimately show ?thesis
    using assms quietD [of pols "Now k" w t w']
    by (fastforce simp: setCondition_Policy_def Let_def ready_is_def policy_store_def)
qed

lemma policy_store_quiet:
  assumes "policy_store k pols"
  shows "Now k w = (t, w1) \<Longrightarrow> pols w1 = pols w"
    and "countMatchingDeployments k policy w = (c, w2) \<Longrightarrow> pols w2 = pols w"
  using assms count_namespaces_quiet [of pols k]
  unfolding countMatchingDeployments_def policy_store_def by (metis quietD, metis snd_conv)

text \<open>Both branches end this way: the condition is set, then the status is written.\<close>

lemma condition_written:
  assumes store: "policy_store k pols"
    and c: "setCondition_Policy k ConditionTypeReady status reason message policy w = (p1, w1)"
    and u: "StatusUpdatePolicy k p1 w1 = (x, w2)"
  shows "case x of
      Inl e \<Rightarrow> pols w2 = pols w
    | Inr q \<Rightarrow> pols w2 = (pols w)(key_of (pol_Meta policy) \<mapsto> q) \<and> ready_is q status message \<and>
        pst_WatchedDeployments (pol_Status q) = pst_WatchedDeployments (pol_Status policy)"
proof -
  note p1 = setCondition_Policy_ready [OF store c]
  show ?thesis
  proof (cases x)
    case (Inr q)
    with store u have "pols w2 = (pols w1)(key_of (pol_Meta p1) \<mapsto> q)"
      "same_policy_status (pol_Status p1) (pol_Status q)"
      unfolding policy_store_def by blast+
    with p1 Inr same_policy_status_ready [of p1 q] show ?thesis by (simp add: same_policy_status_def)
  next
    case (Inl e)
    with store u have "pols w2 = pols w1" unfolding policy_store_def by blast
    with p1 Inl show ?thesis by simp
  qed
qed

lemma reconcile_policy_failed_count:
  assumes store: "policy_store k pols" and r: "reconcile_policy k policy s = (res, s')"
    and count: "countMatchingDeployments k policy (op_World s) = (Inl err, w)"
  shows "res = Inl err \<and> op_Effects s' = op_Effects s \<and>
    (pols (op_World s') = pols (op_World s) \<or>
     (\<exists>q. pols (op_World s') = (pols (op_World s))(key_of (pol_Meta policy) \<mapsto> q) \<and>
        ready_is q ConditionFalse (error_text err)))"
proof -
  obtain p1 w1 where p1: "setCondition_Policy k ConditionTypeReady ConditionFalse ''Error'' (error_text err) policy w = (p1, w1)"
    by (metis surj_pair)
  obtain x w2 where u: "StatusUpdatePolicy k p1 w1 = (x, w2)" by (metis surj_pair)
  have "res = Inl err \<and> op_Effects s' = op_Effects s \<and> op_World s' = w2"
    using r count p1 u by (auto simp: reconcile_policy_def world_def)
  with condition_written [OF store p1 u] policy_store_quiet(2) [OF store count] show ?thesis
    by (cases x) auto
qed

lemma reconcile_policy_counted:
  assumes store: "policy_store k pols" and r: "reconcile_policy k policy s = (res, s')"
    and count: "countMatchingDeployments k policy (op_World s) = (Inr n, w)"
  shows "case res of
      Inr x \<Rightarrow> RequeueAfter x = of_nat (5 * Minute) \<and> watched_gauge (op_Effects s') = Some (sint n) \<and>
        (\<exists>q. pols (op_World s') = (pols (op_World s))(key_of (pol_Meta policy) \<mapsto> q) \<and>
           pst_WatchedDeployments (pol_Status q) = ucast n \<and> ready_is q ConditionTrue ''Policy is active'')
    | Inl err \<Rightarrow> op_Effects s' = op_Effects s \<and> pols (op_World s') = pols (op_World s)"
proof -
  obtain t w1 where t: "Now k w = (t, w1)" by (metis surj_pair)
  obtain p1 w2 where p1: "setCondition_Policy k ConditionTypeReady ConditionTrue ''Reconciled'' ''Policy is active''
      (set_watched n t policy) w1 = (p1, w2)" by (metis surj_pair)
  obtain x w3 where u: "StatusUpdatePolicy k p1 w2 = (x, w3)" by (metis surj_pair)
  have "reconcile_policy k policy s = (case x of
        Inl err \<Rightarrow> (Inl err, s\<lparr>op_World := w3\<rparr>)
      | Inr _ \<Rightarrow> (Inr \<lparr>Requeue = False, RequeueAfter = of_nat (5 * Minute)\<rparr>,
          SetWatchedDeployments (sint n) (s\<lparr>op_World := w3\<rparr>)))"
    unfolding reconcile_policy_def world_def using count t p1 u by simp
  moreover have "pst_WatchedDeployments (pol_Status (set_watched n t policy)) = ucast n"
    "pol_Meta (set_watched n t policy) = pol_Meta policy" by (simp_all add: set_watched_def)
  ultimately show ?thesis
    using r condition_written [OF store p1 u] policy_store_quiet(1) [OF store t]
      policy_store_quiet(2) [OF store count]
    by (cases x) (auto simp: SetWatchedDeployments_def)
qed

text \<open>
  (C25) A reconcile of a policy that succeeds stores the count (cut to 32 bits) and the condition
  Ready, asks to be repeated in five minutes, and sets the gauge of watched deployments to the
  count of this policy, whatever other policies had set it to. When the counting fails, the
  gauge stays, the reconcile returns the error, and a status that could be written shows
  that the policy is not ready and why.
\<close>

theorem policy_reconcile_reports:
  assumes store: "policy_store k pols" and r: "reconcile_policy k policy s = (res, s')"
    and count: "countMatchingDeployments k policy (op_World s) = (c, w)"
  shows "(case c of
       Inr n \<Rightarrow>
         (\<forall>x. res = Inr x \<longrightarrow> RequeueAfter x = of_nat (5 * Minute) \<and> watched_gauge (op_Effects s') = Some (sint n) \<and>
            (\<exists>q. pols (op_World s') = (pols (op_World s))(key_of (pol_Meta policy) \<mapsto> q) \<and>
               pst_WatchedDeployments (pol_Status q) = ucast n \<and> ready_is q ConditionTrue ''Policy is active'')) \<and>
         (\<forall>err. res = Inl err \<longrightarrow> op_Effects s' = op_Effects s \<and> pols (op_World s') = pols (op_World s))
     | Inl err \<Rightarrow> res = Inl err \<and> op_Effects s' = op_Effects s \<and>
         (pols (op_World s') = pols (op_World s) \<or>
          (\<exists>q. pols (op_World s') = (pols (op_World s))(key_of (pol_Meta policy) \<mapsto> q) \<and>
             ready_is q ConditionFalse (error_text err))))"
  using reconcile_policy_failed_count [OF store r] reconcile_policy_counted [OF store r] count
  by (cases c) (auto split: sum.splits)


lemma mem_policy_store: "policy_store mem_k8s mem_policy"
  by (auto simp: policy_store_def same_policy_status_def mem_documented quiet_def
      mem_status_update_policy_def mem_policy_def find_filter fun_eq_iff)

lemma policy_reconcile_reports_witness:
  "\<exists>s' q. reconcile_policy mem_k8s sample_policy (sample_op (deployment_world [one_deployment])) =
      (Inr \<lparr>Requeue = False, RequeueAfter = of_nat (5 * Minute)\<rparr>, s') \<and>
     watched_gauge (op_Effects s') = Some 1 \<and> mem_policy (op_World s') ('''', ''pull-web'') = Some q \<and>
     pst_WatchedDeployments (pol_Status q) = 1"
proof -
  let ?w = "deployment_world [one_deployment]"
  have c: "countMatchingDeployments mem_k8s sample_policy ?w = (Inr 1, ?w)"
    by (simp add: countMatchingDeployments_def sample_policy_def search_namespaces_def deployment_world_def
        empty_mem_def sample_deployment_def deploymentMatchesSelector_def map_le_def)
  obtain res s' where r: "reconcile_policy mem_k8s sample_policy (sample_op ?w) = (res, s')" by (metis surj_pair)
  then have "res = Inr \<lparr>Requeue = False, RequeueAfter = of_nat (5 * Minute)\<rparr>"
    using c by (auto simp: reconcile_policy_def world_def sample_op_def mem_status_update_policy_def
        setCondition_Policy_def Let_def)
  moreover have "key_of (pol_Meta sample_policy) = ('''', ''pull-web'')"
    by (simp add: key_of_def sample_policy_def zero_meta_def)
  ultimately show ?thesis
    using policy_reconcile_reports [OF mem_policy_store r, of "Inr 1" ?w] r c by (auto simp: sample_op_def)
qed


section \<open>The policy of a deployment\<close>

lemma first_match_None: "first_match k d ps = None \<longleftrightarrow> (\<forall>p \<in> set ps. \<not> deploymentMatchesPolicy k d p)"
  by (induction ps) auto

lemma first_match_Some:
  "first_match k d ps = Some p \<longleftrightarrow>
     (\<exists>before after. ps = before @ p # after \<and> deploymentMatchesPolicy k d p \<and>
        (\<forall>q \<in> set before. \<not> deploymentMatchesPolicy k d q))"
proof (induction ps)
  case (Cons a ps)
  show ?case
  proof (cases "deploymentMatchesPolicy k d a")
    case True
    then have "(\<exists>before after. a # ps = before @ p # after \<and> deploymentMatchesPolicy k d p \<and>
        (\<forall>q \<in> set before. \<not> deploymentMatchesPolicy k d q)) \<longleftrightarrow> a = p"
      by (auto simp: Cons_eq_append_conv)
    with True show ?thesis by simp
  next
    case False
    then show ?thesis
      unfolding Cons_eq_append_conv using Cons by auto (metis set_ConsD)
  qed
qed simp

text \<open>
  The policy of a deployment is the first in the order of the list that selects it, so that of
  two policies that select it only one applies. A policy selects it when its labels include all
  pairs of the policy, of which there must be one at least, and when the policy lists no
  namespaces or lists its namespace. A deployment that no policy selects is not touched.
\<close>

lemma matching_policy_first:
  assumes doc: "documented k" and l: "ListPolicy k w = (Inr ps, w')"
    and r: "getMatchingPolicy k d w = (Inr p, w'')"
  shows "w'' = w' \<and>
    (case p of
       None \<Rightarrow> (\<forall>q \<in> set ps. \<not> deploymentMatchesPolicy k d q) \<and>
         (\<forall>s key. GetDeployment k key (op_World s) = (Inr d, w) \<longrightarrow>
            reconcile_body_Deployment k key s = (Inr no_requeue, s\<lparr>op_World := w'\<rparr>))
     | Some p \<Rightarrow> \<exists>before after. ps = before @ p # after \<and> deploymentMatchesPolicy k d p \<and>
         (\<forall>q \<in> set before. \<not> deploymentMatchesPolicy k d q)) \<and>
    (\<forall>q. deploymentMatchesPolicy k d q \<longleftrightarrow>
       (let sel = pspec_Selector (pol_Spec q) in
        (sel_Namespaces sel = [] \<or> meta_Namespace (dep_Meta d) \<in> set (sel_Namespaces sel)) \<and>
        sel_MatchLabels sel \<noteq> [] \<and> map_of (sel_MatchLabels sel) \<subseteq>\<^sub>m meta_Labels (dep_Meta d)))"
proof -
  have "p = first_match k d ps" "w'' = w'" using l r by (simp_all add: getMatchingPolicy_def)
  moreover have "SelectorFromSet k m n \<longleftrightarrow> m \<subseteq>\<^sub>m n" for m n using doc by (simp add: documented_def)
  moreover have "reconcile_body_Deployment k key s = (Inr no_requeue, s\<lparr>op_World := w'\<rparr>)"
    if "GetDeployment k key (op_World s) = (Inr d, w)" "first_match k d ps = None" for s key
    using that l by (simp add: reconcile_body_Deployment_def world_def getMatchingPolicy_def)
  ultimately show ?thesis
    by (auto simp: deploymentMatchesPolicy_selector deploymentMatchesSelector_def Let_def
        first_match_None first_match_Some split: option.splits)
qed

lemma matching_policy_first_witness:
  "fst (getMatchingPolicy mem_k8s one_deployment (deployment_world [])) = Inr (Some sample_policy) \<and>
   deploymentMatchesPolicy mem_k8s one_deployment sample_policy"
proof -
  let ?w = "deployment_world []"
  have l: "ListPolicy mem_k8s ?w = (Inr [sample_policy], ?w)" by (simp add: deployment_world_def)
  obtain p where r: "getMatchingPolicy mem_k8s one_deployment ?w = (Inr p, ?w)"
    by (simp add: getMatchingPolicy_def l)
  note m = matching_policy_first [OF mem_documented l r]
  then have d: "deploymentMatchesPolicy mem_k8s one_deployment sample_policy"
    by (simp add: sample_policy_def sample_deployment_def Let_def map_le_def)
  with m have "p = Some sample_policy" by (auto simp: Cons_eq_append_conv split: option.splits)
  with r d show ?thesis by simp
qed

end
