(* ===== verification/ReconcileMetrics.thy ===== *)
theory ReconcileMetrics
  imports PolicyCount
begin

text \<open>
  What the three controllers share: each wraps its work in two readings of the clock and a
  deferred call of \<open>RecordReconcile\<close>. The locale \<open>reconciler\<close> is this shape; it is interpreted on
  the three \<open>Reconcile\<close> functions.
\<close>

definition is_total :: "effect \<Rightarrow> bool" where
  "is_total e = (case e of ReconcileTotalInc c r \<Rightarrow> True | _ \<Rightarrow> False)"

text \<open>The increments of \<open>kwarm_reconcile_total\<close> made so far.\<close>

definition reconciles :: "'w op \<Rightarrow> effect list" where
  "reconciles s = filter is_total (op_Effects s)"

lemma reconciles_emit [simp]: "reconciles (emit e s) = reconciles s @ (if is_total e then [e] else [])"
  by (simp add: reconciles_def)

lemma reconciles_update [simp]:
  "reconciles (s\<lparr>op_Limiter := l\<rparr>) = reconciles s" "reconciles (s\<lparr>op_World := w\<rparr>) = reconciles s"
  by (simp_all add: reconciles_def)

lemma reconciles_world: "world f s = (x, s') \<Longrightarrow> reconciles s' = reconciles s"
  by (auto simp: reconciles_def dest: world_eqD)

locale reconciler =
  fixes k :: "'w k8s" and work run :: "objkey \<Rightarrow> 'w op \<Rightarrow> (go_error + Result) \<times> 'w op" and name :: string
  assumes run: "run req s =
      (case world (Now k) s of (startTime, s1) \<Rightarrow>
       case work req s1 of (res, s2) \<Rightarrow>
       case world (Now k) s2 of (t, s3) \<Rightarrow> (res, RecordReconcile name ''success'' (time_sub t startTime) s3))"
    and quiet_work: "work req s = (res, s') \<Longrightarrow> reconciles s' = reconciles s"
begin

lemma counted:
  assumes "run req s = (res, s')"
  shows "reconciles s' = reconciles s @ [ReconcileTotalInc name ''success'']"
proof -
  obtain t1 s1 where 1: "world (Now k) s = (t1, s1)" by (metis surj_pair)
  obtain x s2 where 2: "work req s1 = (x, s2)" by (metis surj_pair)
  obtain t2 s3 where 3: "world (Now k) s2 = (t2, s3)" by (metis surj_pair)
  have "reconciles s3 = reconciles s"
    using reconciles_world [OF 1] quiet_work [OF 2] reconciles_world [OF 3] by simp
  moreover have "s' = RecordReconcile name ''success'' (time_sub t2 t1) s3"
    using assms 1 2 3 by (simp add: run)
  ultimately show ?thesis by (simp add: RecordReconcile_def is_total_def)
qed

end

section \<open>The work of the controllers\<close>

lemma reconciles_metrics [simp]:
  "reconciles (RecordPullDuration a b d u s) = reconciles s"
  "reconciles (IncrementActivePulls s) = reconciles s"
  "reconciles (DecrementActivePulls s) = reconciles s"
  "reconciles (SetQueueDepth n s) = reconciles s"
  "reconciles (IncrementPullsTotal a s) = reconciles s"
  "reconciles (SetPrePullImagesByPhase a n s) = reconciles s"
  "reconciles (SetWatchedDeployments n s) = reconciles s"
  by (simp_all add: metrics_defs is_total_def)

lemma reconciles_events [simp]:
  "reconciles (event_PPI p a b m s) = reconciles s"
  "reconciles (event_Deployment d a b m s) = reconciles s"
  "reconciles (release_slot n s) = reconciles s"
  by (simp_all add: event_PPI_def event_Deployment_def is_total_def release_slot_def)

lemma reconciles_Policy: "reconcile_body_Policy k req s = (res, s') \<Longrightarrow> reconciles s' = reconciles s"
  by (auto simp: reconcile_body_Policy_def reconcile_policy_def Let_def split: prod.splits sum.splits if_splits
      dest!: reconciles_world)
    (metis reconciles_world prod.collapse)+

lemma reconciles_save_images: "save_images k d m s = (res, s') \<Longrightarrow> reconciles s' = reconciles s"
  by (auto simp: save_images_def split: prod.splits option.splits dest!: reconciles_world)

lemma reconciles_create_all: "create_all k d p imgs ns s = (e, s') \<Longrightarrow> reconciles s' = reconciles s"
proof (induction imgs arbitrary: s)
  case (Cons img imgs)
  then show ?case
    by (auto simp: create_all_Cons split: prod.splits option.splits dest!: Cons.IH)
qed simp

lemma reconciles_Deployment: "reconcile_body_Deployment k req s = (res, s') \<Longrightarrow> reconciles s' = reconciles s"
  by (auto simp: reconcile_body_Deployment_def reconcile_images_def Let_def
      split: prod.splits sum.splits option.splits if_splits
      dest!: reconciles_world reconciles_save_images reconciles_create_all)

lemma reconciles_setCondition: "setCondition_PPI k a b c d p s = (p', s') \<Longrightarrow> reconciles s' = reconciles s"
  by (auto simp: setCondition_PPI_def Let_def split: prod.splits dest!: reconciles_world)

lemma reconciles_handleNodePending: "handleNodePending k p ns c s = (ns', c', s') \<Longrightarrow> reconciles s' = reconciles s"
  by (auto simp: handleNodePending_def split: prod.splits option.splits bool.splits dest!: reconciles_world)

lemma reconciles_handleNodeSucceeded: "handleNodeSucceeded k p ns c s = (ns', c', s') \<Longrightarrow> reconciles s' = reconciles s"
  by (auto simp: handleNodeSucceeded_def Let_def split: prod.splits option.splits dest!: reconciles_world)

lemma reconciles_snd_world [simp]: "reconciles (snd (world f s)) = reconciles s"
  by (metis reconciles_world prod.collapse)

lemma reconciles_handleNodeRetry: "handleNodeRetry k ns c s = (ns', c', s') \<Longrightarrow> reconciles s' = reconciles s"
  by (auto simp: handleNodeRetry_def Let_def)

lemma reconciles_handleNodeGaveUp: "handleNodeGaveUp k p ns c s = (ns', c', s') \<Longrightarrow> reconciles s' = reconciles s"
  by (auto simp: handleNodeGaveUp_def Let_def split: prod.splits dest!: reconciles_world)

lemma reconciles_handleNode: "handleNode k p ns c s = (ns', c', s') \<Longrightarrow> reconciles s' = reconciles s"
  by (auto simp: handleNode_def handleNodePulling_def split: prod.splits sum.splits JobStatus.splits if_splits
      dest!: reconciles_world reconciles_handleNodePending reconciles_handleNodeSucceeded
        reconciles_handleNodeRetry reconciles_handleNodeGaveUp)

lemma reconciles_handleNodes: "handleNodes k p nss c s = (nss', c', s') \<Longrightarrow> reconciles s' = reconciles s"
  by (induction nss arbitrary: c s nss') (auto split: prod.splits dest!: reconciles_handleNode)

lemma reconciles_conclude: "conclude k c p s = (p', s') \<Longrightarrow> reconciles s' = reconciles s"
  by (auto simp: conclude_def conclude_failed_def conclude_completed_def Let_def split: prod.splits if_splits
      dest!: reconciles_world reconciles_setCondition)

lemma reconciles_phase_gauges: "reconciles (set_phase_gauges m ps s) = reconciles s"
  by (induction ps arbitrary: s) simp_all

lemma reconciles_phases [simp]: "reconciles (updatePhaseMetrics k s) = reconciles s"
  by (auto simp: updatePhaseMetrics_def Let_def reconciles_phase_gauges split: prod.splits sum.splits
      dest!: reconciles_world)

lemma reconciles_handleInProgress: "handleInProgress k p s = (res, s') \<Longrightarrow> reconciles s' = reconciles s"
  by (auto simp: handleInProgress_def progress_def Let_def split: prod.splits sum.splits if_splits
      dest!: reconciles_world reconciles_handleNodes reconciles_conclude)

lemma reconciles_handlePending: "handlePending k p s = (res, s') \<Longrightarrow> reconciles s' = reconciles s"
  by (auto simp: handlePending_def Let_def split: prod.splits sum.splits if_splits
      dest!: reconciles_world reconciles_setCondition)

lemma reconciles_handleCompleted: "handleCompleted k p s = (res, s') \<Longrightarrow> reconciles s' = reconciles s"
  by (auto simp: handleCompleted_def Let_def split: prod.splits option.splits if_splits dest!: reconciles_world)

lemma reconciles_release_pulling [simp]: "reconciles (release_pulling nss s) = reconciles s"
  by (induction nss arbitrary: s) simp_all

lemma reconciles_handleDeletion: "handleDeletion k p s = (res, s') \<Longrightarrow> reconciles s' = reconciles s"
  by (auto simp: handleDeletion_def Let_def split: prod.splits sum.splits option.splits if_splits dest!: reconciles_world)

lemma reconciles_PPI: "reconcile_body_PPI k req s = (res, s') \<Longrightarrow> reconciles s' = reconciles s"
  by (auto simp: reconcile_body_PPI_def dispatch_PPI_def handleFailed_def Let_def
      split: prod.splits sum.splits option.splits if_splits
      dest!: reconciles_world reconciles_handleInProgress reconciles_handlePending reconciles_handleCompleted
        reconciles_handleDeletion)

interpretation image_reconciler: reconciler k "reconcile_body_PPI k" "Reconcile_PPI k" "''prepullimage''" for k
  by unfold_locales (simp_all add: Reconcile_PPI_def reconciles_PPI)

interpretation deployment_reconciler: reconciler k "reconcile_body_Deployment k" "Reconcile_Deployment k" "''deployment''" for k
  by unfold_locales (simp_all add: Reconcile_Deployment_def reconciles_Deployment)

interpretation policy_reconciler: reconciler k "reconcile_body_Policy k" "Reconcile_Policy k" "''prepullpolicy''" for k
  by unfold_locales (simp_all add: Reconcile_Policy_def reconciles_Policy)


text \<open>
  (C27) Every reconcile of every controller, whatever it did and whether or not it returned an
  error, adds one to the counter of successes of its controller, and to no other counter of
  reconciles: \<open>kwarm_reconcile_total\<close> never shows an error or a requeue.
\<close>

theorem reconciles_always_count_success:
  "reconciles (snd (Reconcile_PPI k req s)) = reconciles s @ [ReconcileTotalInc ''prepullimage'' ''success''] \<and>
   reconciles (snd (Reconcile_Deployment k req s)) = reconciles s @ [ReconcileTotalInc ''deployment'' ''success''] \<and>
   reconciles (snd (Reconcile_Policy k req s)) = reconciles s @ [ReconcileTotalInc ''prepullpolicy'' ''success'']"
  by (intro conjI image_reconciler.counted [OF surjective_pairing]
      deployment_reconciler.counted [OF surjective_pairing] policy_reconciler.counted [OF surjective_pairing])


section \<open>The gauges of the phases\<close>

lemma bump_phase_map: "map_of (bump_phase p m) = (map_of m)(p \<mapsto> (case map_of m p of None \<Rightarrow> 0 | Some n \<Rightarrow> n) + 1)"
  by (induction m) (auto simp: fun_eq_iff)

lemma bump_phase_keys: "fst ` set (bump_phase p m) = insert p (fst ` set m)"
  by (simp add: bump_phase_map flip: dom_map_of_conv_image_fst)

definition with_label :: "PrePullImage list \<Rightarrow> string \<Rightarrow> int" where
  "with_label ppis p = int (length (filter (\<lambda>q. phase_label q = p) ppis))"

lemma foldl_bump:
  "fst ` set (foldl (\<lambda>m ppi. bump_phase (phase_label ppi) m) m ppis) = fst ` set m \<union> phase_label ` set ppis \<and>
   (p \<in> fst ` set m \<union> phase_label ` set ppis \<longrightarrow>
      map_of (foldl (\<lambda>m ppi. bump_phase (phase_label ppi) m) m ppis) p =
        Some ((case map_of m p of None \<Rightarrow> 0 | Some n \<Rightarrow> n) + with_label ppis p))"
proof (induction ppis arbitrary: m)
  case Nil
  have "map_of m p = Some (case map_of m p of None \<Rightarrow> 0 | Some n \<Rightarrow> n)" if "p \<in> fst ` set m"
    using that by (cases "map_of m p") (simp_all add: map_of_eq_None_iff)
  then show ?case by (simp add: with_label_def)
next
  case (Cons q qs)
  show ?case
    using Cons [of "bump_phase (phase_label q) m"]
    by (auto simp: with_label_def bump_phase_map bump_phase_keys)
qed

lemma phase_gauge_set [simp]:
  "phase_gauge p (es @ [PrePullImagesByPhaseSet q n]) = (if q = p then Some n else phase_gauge p es)"
proof (induction es)
  case (Cons e es)
  then show ?case by (cases e) auto
qed simp

lemma set_phase_gauges_effects:
  "phase_gauge p (op_Effects (set_phase_gauges m ps s)) =
     (if p \<in> set ps then Some (case map_of m p of None \<Rightarrow> 0 | Some n \<Rightarrow> n) else phase_gauge p (op_Effects s))"
  by (induction ps arbitrary: s) (auto simp: SetPrePullImagesByPhase_def)

text \<open>The phase an object counts for: its own, or \<open>Pending\<close> while it has none.\<close>

definition in_phase :: "string \<Rightarrow> PrePullImage \<Rightarrow> bool" where
  "in_phase p q \<longleftrightarrow> (if ppi_Phase q = '''' then p = PrePullImagePhasePending else p = ppi_Phase q)"

lemma in_phase_label: "in_phase p q \<longleftrightarrow> phase_label q = p"
  by (auto simp: in_phase_def phase_label_def)

lemma phase_label_image:
  "insert PrePullImagePhasePending (phase_label ` set items) =
     insert PrePullImagePhasePending (ppi_Phase ` set items - {''''})"
  by (auto simp: phase_label_def image_iff)

text \<open>The gauges that an update sets, and the one of no phase at all, which it never does.\<close>

lemma phase_gauge_updated:
  assumes order: "order_law k" and l: "ListPPI k (op_World s) = (Inr items, w)"
  shows "phase_gauge p (op_Effects (updatePhaseMetrics k s)) =
    (if p \<in> {PrePullImagePhasePending, PrePullImagePhaseInProgress, PrePullImagePhaseCompleted,
        PrePullImagePhaseFailed} \<union> phase_label ` set items
     then Some (with_label items p) else phase_gauge p (op_Effects s))"
proof -
  let ?m = "count_phases items"
  let ?all = "{PrePullImagePhasePending, PrePullImagePhaseInProgress, PrePullImagePhaseCompleted,
      PrePullImagePhaseFailed} \<union> phase_label ` set items"
  have zero: "fst ` set zero_phases = {PrePullImagePhasePending, PrePullImagePhaseInProgress,
      PrePullImagePhaseCompleted, PrePullImagePhaseFailed}" "map_of zero_phases p = None \<or> map_of zero_phases p = Some 0"
    by (simp_all add: zero_phases_def)
  then have keys: "set (map fst ?m) = ?all" and m: "p \<in> ?all \<longrightarrow> map_of ?m p = Some (with_label items p)"
    using foldl_bump [of zero_phases items p] by (auto simp: count_phases_def)
  obtain ps w2 where o: "MapOrder k (map fst ?m) w = (ps, w2)" by (metis surj_pair)
  then have "mset ps = mset (map fst ?m)" using order unfolding order_law_def by (metis fst_conv)
  then have "set ps = ?all" using keys by (metis set_mset_mset)
  then show ?thesis
    using l o m by (simp add: updatePhaseMetrics_def world_def Let_def set_phase_gauges_effects)
qed

lemma sum_with_label:
  assumes "finite A" and "phase_label ` set items \<subseteq> A"
  shows "int (length items) = (\<Sum>p \<in> A. with_label items p)"
proof -
  have "length items = (\<Sum>p \<in> A. length (filter (\<lambda>q. phase_label q = p) items))"
    using sum_count_set [of "map phase_label items" A] assms
    by (simp add: count_list_eq_length_filter filter_map comp_def eq_commute)
  then show ?thesis by (simp add: with_label_def)
qed

text \<open>
  (C26) After an update of the phase metrics each of the four phases, and every other phase that
  occurs, has its gauge at the number of objects in that phase. An object without a phase, one
  that no reconcile has looked at yet, counts as pending, and no gauge for the empty phase is
  set, so these gauges add up to all objects.
\<close>

theorem phase_gauges_exact:
  assumes order: "order_law k" and l: "ListPPI k (op_World s) = (Inr items, w)"
  shows "(\<forall>p \<in> {PrePullImagePhasePending, PrePullImagePhaseInProgress, PrePullImagePhaseCompleted,
        PrePullImagePhaseFailed} \<union> (ppi_Phase ` set items - {''''}).
      phase_gauge p (op_Effects (updatePhaseMetrics k s)) = Some (int (length (filter (in_phase p) items)))) \<and>
    phase_gauge '''' (op_Effects (updatePhaseMetrics k s)) = phase_gauge '''' (op_Effects s) \<and>
    int (length items) = (\<Sum>p \<in> insert PrePullImagePhasePending (ppi_Phase ` set items - {''''}).
      the (phase_gauge p (op_Effects (updatePhaseMetrics k s))))"
proof -
  note u = phase_gauge_updated [OF order l]
  have n: "int (length (filter (in_phase p) items)) = with_label items p" for p
    by (simp add: with_label_def flip: in_phase_label)
  have sub: "ppi_Phase ` set items - {''''} \<subseteq> phase_label ` set items"
    by (auto simp: phase_label_def)
  have no: "'''' \<notin> phase_label ` set items" by (auto simp: phase_label_def phase_defs)
  let ?A = "insert PrePullImagePhasePending (ppi_Phase ` set items - {''''})"
  have "int (length items) = (\<Sum>p \<in> ?A. with_label items p)"
    by (rule sum_with_label) (use phase_label_image [of items] in auto)
  also have "\<dots> = (\<Sum>p \<in> ?A. the (phase_gauge p (op_Effects (updatePhaseMetrics k s))))"
    by (rule sum.cong) (use u sub in auto)
  finally show ?thesis
    using u sub no unfolding n by (auto simp: phase_defs)
qed

lemma phase_gauges_exact_witness:
  "phase_gauge PrePullImagePhasePending
     (op_Effects (updatePhaseMetrics mem_k8s (sample_op (sample_world (sample_ppi [] [] [] []))))) = Some 1"
proof -
  let ?p = "sample_ppi [] [] [] []"
  have "ListPPI mem_k8s (op_World (sample_op (sample_world ?p))) = (Inr [?p], sample_world ?p)"
    by (simp add: sample_op_def sample_world_def)
  from phase_gauges_exact [OF mem_order_law this]
  show ?thesis by (simp add: in_phase_def sample_ppi_def zero_ppi_status_def)
qed

end
