(* ===== verification/GoFlag.thy ===== *)
theory GoFlag
  imports KwarmPrelude
begin

text \<open>
  What \<open>cmd/main.go\<close> uses of Go's packages \<open>flag\<close> and \<open>strconv\<close>: \<open>ParseBool\<close>, \<open>ParseInt\<close> with base 0
  and 64 bits, and the loop of \<open>FlagSet.Parse\<close>. Strings are lists of bytes.
\<close>

section \<open>Booleans\<close>

definition ParseBool :: "string \<Rightarrow> bool option" where
  "ParseBool s =
     (if s \<in> set [''1'', ''t'', ''T'', ''true'', ''TRUE'', ''True''] then Some True
      else if s \<in> set [''0'', ''f'', ''F'', ''false'', ''FALSE'', ''False''] then Some False
      else None)"

section \<open>Integers\<close>

text \<open>\<open>lower\<close> sets the bit of value 32, so letters become small letters.\<close>

definition lower :: "char \<Rightarrow> nat" where
  "lower c = (let n = of_char c :: nat in if n div 32 mod 2 = 0 then n + 32 else n)"

definition digit_value :: "nat \<Rightarrow> char \<Rightarrow> nat option" where
  "digit_value base c =
     (let n = of_char c :: nat;
          d = (if 48 \<le> n \<and> n \<le> 57 then Some (n - 48)
               else if 97 \<le> lower c \<and> lower c \<le> 122 then Some (lower c - 97 + 10) else None)
      in case d of None \<Rightarrow> None | Some v \<Rightarrow> if base \<le> v then None else Some v)"

text \<open>The value of the digits; an underscore is skipped here and looked at by \<open>underscore_ok\<close>.\<close>

fun digits_value :: "nat \<Rightarrow> nat \<Rightarrow> string \<Rightarrow> nat option" where
  "digits_value base n [] = Some n"
| "digits_value base n (c # s) =
     (if c = CHR ''_'' then digits_value base n s
      else case digit_value base c of
        None \<Rightarrow> None
      | Some d \<Rightarrow> digits_value base (n * base + d) s)"

text \<open>The prefix of the base: the base, and the rest of the text.\<close>

definition split_base :: "string \<Rightarrow> nat \<times> string" where
  "split_base s =
     (case s of
        a # b # c # t \<Rightarrow>
          if a \<noteq> CHR ''0'' then (10, s)
          else if lower b = 98 then (2, c # t)
          else if lower b = 111 then (8, c # t)
          else if lower b = 120 then (16, c # t)
          else (8, b # c # t)
      | a # t \<Rightarrow> if a = CHR ''0'' then (8, t) else (10, s)
      | [] \<Rightarrow> (10, []))"

text \<open>\<open>underscoreOK\<close>: an underscore stands between digits, or after the prefix of the base.\<close>

datatype seen = SeenStart | SeenDigit | SeenUnderscore | SeenOther

fun underscores :: "bool \<Rightarrow> seen \<Rightarrow> string \<Rightarrow> bool" where
  "underscores hex saw [] = (saw \<noteq> SeenUnderscore)"
| "underscores hex saw (c # s) =
     (if (48 \<le> (of_char c :: nat) \<and> (of_char c :: nat) \<le> 57) \<or> (hex \<and> 97 \<le> lower c \<and> lower c \<le> 102)
      then underscores hex SeenDigit s
      else if c = CHR ''_'' then saw = SeenDigit \<and> underscores hex SeenUnderscore s
      else saw \<noteq> SeenUnderscore \<and> underscores hex SeenOther s)"

definition underscore_ok :: "string \<Rightarrow> bool" where
  "underscore_ok s =
     (case s of
        a # b # t \<Rightarrow>
          if a = CHR ''0'' \<and> lower b \<in> {98, 111, 120} then underscores (lower b = 120) SeenDigit t
          else underscores False SeenStart s
      | _ \<Rightarrow> underscores False SeenStart s)"

definition ParseUint :: "string \<Rightarrow> nat option" where
  "ParseUint s =
     (if s = [] then None
      else case split_base s of (base, t) \<Rightarrow>
        (case digits_value base 0 t of
           None \<Rightarrow> None
         | Some n \<Rightarrow> if CHR ''_'' \<in> set t \<and> \<not> underscore_ok s then None
             else if 2 ^ 64 \<le> n then None else Some n))"

definition ParseInt :: "string \<Rightarrow> go_int option" where
  "ParseInt s =
     (case s of
        [] \<Rightarrow> None
      | c # t \<Rightarrow>
          let neg = (c = CHR ''-''); digits = (if c = CHR ''+'' \<or> neg then t else s)
          in case ParseUint digits of
               None \<Rightarrow> None
             | Some un \<Rightarrow>
                 if \<not> neg \<and> 2 ^ 63 \<le> un then None
                 else if neg \<and> 2 ^ 63 < un then None
                 else Some (if neg then - of_nat un else of_nat un))"

section \<open>Flags\<close>

text \<open>
  A flag set: for a defined flag whether it is boolean, and how it is set from a text (\<open>None\<close>
  for a text it refuses). \<open>Parse\<close> ends with the values and the arguments left over, or ends the
  process: with code 0 after \<open>-help\<close>, with code 2 after an error.
\<close>

record 'o flag_set =
  is_bool_flag :: "string \<Rightarrow> bool option"
  set_flag :: "string \<Rightarrow> string \<Rightarrow> 'o \<Rightarrow> 'o option"

datatype 'o parsed = Parsed 'o "string list" | ExitHelp | ExitUsage

definition split_value :: "string \<Rightarrow> string \<times> string option" where
  "split_value name =
     (takeWhile (\<lambda>c. c \<noteq> CHR ''='') name,
      if CHR ''='' \<in> set name then Some (tl (dropWhile (\<lambda>c. c \<noteq> CHR ''='') name)) else None)"

text \<open>The name after one or two dashes.\<close>

definition flag_name :: "string \<Rightarrow> string" where
  "flag_name s = (if s ! 1 = CHR ''-'' then drop 2 s else drop 1 s)"

fun Parse :: "'o flag_set \<Rightarrow> string list \<Rightarrow> 'o \<Rightarrow> 'o parsed" where
  "Parse fs [] v = Parsed v []"
| "Parse fs (s # args) v =
     (if length s < 2 \<or> hd s \<noteq> CHR ''-'' then Parsed v (s # args)
      else if s = ''--'' then Parsed v args
      else let name = flag_name s in
        if name = [] \<or> hd name = CHR ''-'' \<or> hd name = CHR ''='' then ExitUsage
        else case split_value name of (flag, val) \<Rightarrow>
          (case is_bool_flag fs flag of
             None \<Rightarrow> if flag = ''help'' \<or> flag = ''h'' then ExitHelp else ExitUsage
           | Some True \<Rightarrow>
               (case set_flag fs flag (case val of None \<Rightarrow> ''true'' | Some x \<Rightarrow> x) v of
                  None \<Rightarrow> ExitUsage
                | Some v' \<Rightarrow> Parse fs args v')
           | Some False \<Rightarrow>
               (case val of
                  Some x \<Rightarrow> (case set_flag fs flag x v of None \<Rightarrow> ExitUsage | Some v' \<Rightarrow> Parse fs args v')
                | None \<Rightarrow>
                    (case args of
                       [] \<Rightarrow> ExitUsage
                     | x # args' \<Rightarrow>
                         (case set_flag fs flag x v of None \<Rightarrow> ExitUsage | Some v' \<Rightarrow> Parse fs args' v')))))"

section \<open>Reading back a printed number\<close>

lemma digit_char_value: "d < 10 \<Longrightarrow> digit_value 10 (digit_char d) = Some d"
  by (simp add: digit_value_def digit_char_def)

lemma digit_char_eq: "d < 10 \<Longrightarrow> digit_char d = c \<longleftrightarrow> 48 + d = (of_char c :: nat)"
proof -
  assume "d < 10"
  then have "of_char (digit_char d) = 48 + d" by (simp add: digit_char_def)
  then show ?thesis by (metis char_of_char)
qed

lemma digit_char_plain: "d < 10 \<Longrightarrow> digit_char d \<notin> {CHR ''_'', CHR ''-'', CHR ''+'', CHR ''=''}"
  by (simp add: digit_char_eq)

lemma digit_char_zero: "d < 10 \<Longrightarrow> digit_char d = CHR ''0'' \<longleftrightarrow> d = 0"
  by (simp add: digit_char_eq)

lemma digits_value_append:
  "digits_value b n (s @ t) = (case digits_value b n s of None \<Rightarrow> None | Some m \<Rightarrow> digits_value b m t)"
  by (induction s arbitrary: n) (auto split: option.splits)

lemma show_nat_digits:
  "digits_value 10 0 (show_nat m) = Some m \<and>
   set (show_nat m) \<inter> {CHR ''_'', CHR ''-'', CHR ''+'', CHR ''=''} = {} \<and> (0 < m \<longrightarrow> hd (show_nat m) \<noteq> CHR ''0'')"
proof (induction m rule: show_nat.induct)
  case (1 m)
  show ?case
  proof (cases "m < 10")
    case True
    then show ?thesis
      using digit_char_plain [of m] by (subst (1 2 3) show_nat.simps) (simp add: digit_char_value digit_char_zero)
  next
    case False
    then have m: "show_nat m = show_nat (m div 10) @ [digit_char (m mod 10)]"
      by (subst show_nat.simps) simp
    from 1 [OF False] False show ?thesis
      unfolding m using digit_char_plain [of "m mod 10"]
      by (auto simp: digits_value_append digit_char_value)
  qed
qed

lemma split_base_show_nat: "0 < m \<Longrightarrow> split_base (show_nat m) = (10, show_nat m)"
  using show_nat_digits [of m] by (auto simp: split_base_def split: list.splits)

lemma ParseUint_show_nat: "m < 2 ^ 64 \<Longrightarrow> ParseUint (show_nat m) = Some m"
proof (cases "m = 0")
  case True
  have "show_nat 0 = ''0''" by (simp add: show_nat.simps [of 0] digit_char_eq)
  then show ?thesis by (simp add: True ParseUint_def split_base_def)
next
  case False
  assume "m < 2 ^ 64"
  with False show_nat_digits [of m] split_base_show_nat [of m] show ?thesis
    by (auto simp: ParseUint_def)
qed

text \<open>\<open>ParseInt\<close> reads what \<open>%d\<close> prints.\<close>

lemma ParseInt_show_int: "ParseInt (show_int (sint (n :: go_int))) = Some n"
proof -
  have range: "- (2 ^ 63) \<le> sint n" "sint n < 2 ^ 63"
    using sint_ge [of n] sint_lt [of n] by simp_all
  show ?thesis
  proof (cases "sint n < 0")
    case True
    have "ParseUint (show_nat (nat (- sint n))) = Some (nat (- sint n))"
      using True range by (intro ParseUint_show_nat) (simp add: nat_less_iff)
    then show ?thesis using True range
      by (simp add: ParseInt_def show_int_def Let_def nat_le_iff)
  next
    case False
    obtain c t where s: "show_nat (nat (sint n)) = c # t" by (cases "show_nat (nat (sint n))") simp_all
    with show_nat_digits [of "nat (sint n)"] have "c \<noteq> CHR ''-''" "c \<noteq> CHR ''+''" by auto
    moreover have "ParseUint (c # t) = Some (nat (sint n))"
      unfolding s [symmetric] using False range by (intro ParseUint_show_nat) (simp add: nat_less_iff)
    ultimately show ?thesis using False range
      by (simp add: ParseInt_def show_int_def s nat_le_iff not_le nat_less_iff)
  qed
qed

text \<open>The other forms that \<open>ParseInt\<close> takes with base 0.\<close>

lemma ParseInt_forms:
  "ParseInt ''0x_1F'' = Some 31" "ParseInt ''-0b11'' = Some (- 3)" "ParseInt ''017'' = Some 15"
  "ParseInt ''+1_000'' = Some 1000" "ParseInt ''1__0'' = None" "ParseInt ''9223372036854775808'' = None"
  by (simp_all add: ParseInt_def ParseUint_def split_base_def lower_def digit_value_def underscore_ok_def)

end
