(* ===== verification/Startup.thy ===== *)
theory Startup
  imports GoFlag ImageController
begin

text \<open>
  \<open>cmd/main.go\<close> and the functions \<open>SetupWithManager\<close> of the three controllers: the flags, the options
  of the two servers and of the manager, and the sequence of set-up calls, each of which ends
  the process when it fails. The configuration and the manager of controller-runtime and its
  health checks are the record \<open>runtime\<close>, a parameter.
\<close>

section \<open>Flags\<close>

record options =
  metricsAddr :: string
  metricsCertPath :: string
  metricsCertName :: string
  metricsCertKey :: string
  webhookCertPath :: string
  webhookCertName :: string
  webhookCertKey :: string
  enableLeaderElection :: bool
  probeAddr :: string
  secureMetrics :: bool
  enableHTTP2 :: bool
  maxConcurrentPulls_flag :: go_int
  maxPullsPerNode_flag :: go_int

definition default_options :: options where
  "default_options =
     \<lparr>metricsAddr = ''0'', metricsCertPath = '''', metricsCertName = ''tls.crt'', metricsCertKey = ''tls.key'',
      webhookCertPath = '''', webhookCertName = ''tls.crt'', webhookCertKey = ''tls.key'',
      enableLeaderElection = False, probeAddr = '':8081'', secureMetrics = True, enableHTTP2 = False,
      maxConcurrentPulls_flag = 10, maxPullsPerNode_flag = 2\<rparr>"

text \<open>
  The flags by name: \<open>StringVar\<close>, \<open>BoolVar\<close> and \<open>IntVar\<close> each with the variable it sets. A flag that a
  library registers (the logger's, \<open>kubeconfig\<close>) changes none of these variables; a record
  \<open>library_flags\<close> says whether such a flag is boolean and which texts it takes.
\<close>

datatype flag_var =
    StringVar "string \<Rightarrow> options \<Rightarrow> options"
  | BoolVar "bool \<Rightarrow> options \<Rightarrow> options"
  | IntVar "go_int \<Rightarrow> options \<Rightarrow> options"

definition flag_vars :: "string \<rightharpoonup> flag_var" where
  "flag_vars =
     [''metrics-bind-address'' \<mapsto> StringVar (\<lambda>x. metricsAddr_update (\<lambda>_. x)),
      ''health-probe-bind-address'' \<mapsto> StringVar (\<lambda>x. probeAddr_update (\<lambda>_. x)),
      ''leader-elect'' \<mapsto> BoolVar (\<lambda>x. enableLeaderElection_update (\<lambda>_. x)),
      ''metrics-secure'' \<mapsto> BoolVar (\<lambda>x. secureMetrics_update (\<lambda>_. x)),
      ''webhook-cert-path'' \<mapsto> StringVar (\<lambda>x. webhookCertPath_update (\<lambda>_. x)),
      ''webhook-cert-name'' \<mapsto> StringVar (\<lambda>x. webhookCertName_update (\<lambda>_. x)),
      ''webhook-cert-key'' \<mapsto> StringVar (\<lambda>x. webhookCertKey_update (\<lambda>_. x)),
      ''metrics-cert-path'' \<mapsto> StringVar (\<lambda>x. metricsCertPath_update (\<lambda>_. x)),
      ''metrics-cert-name'' \<mapsto> StringVar (\<lambda>x. metricsCertName_update (\<lambda>_. x)),
      ''metrics-cert-key'' \<mapsto> StringVar (\<lambda>x. metricsCertKey_update (\<lambda>_. x)),
      ''enable-http2'' \<mapsto> BoolVar (\<lambda>x. enableHTTP2_update (\<lambda>_. x)),
      ''max-concurrent-pulls'' \<mapsto> IntVar (\<lambda>x. maxConcurrentPulls_flag_update (\<lambda>_. x)),
      ''max-pulls-per-node'' \<mapsto> IntVar (\<lambda>x. maxPullsPerNode_flag_update (\<lambda>_. x))]"

record library_flags =
  lib_is_bool :: "string \<Rightarrow> bool option"
  lib_accepts :: "string \<Rightarrow> string \<Rightarrow> bool"

definition set_var :: "flag_var \<Rightarrow> string \<Rightarrow> options \<Rightarrow> options option" where
  "set_var v x o1 =
     (case v of
        StringVar f \<Rightarrow> Some (f x o1)
      | BoolVar f \<Rightarrow> map_option (\<lambda>b. f b o1) (ParseBool x)
      | IntVar f \<Rightarrow> map_option (\<lambda>n. f n o1) (ParseInt x))"

definition CommandLine :: "library_flags \<Rightarrow> options flag_set" where
  "CommandLine z =
     \<lparr>is_bool_flag = (\<lambda>name. case flag_vars name of
          None \<Rightarrow> lib_is_bool z name
        | Some v \<Rightarrow> Some (case v of BoolVar f \<Rightarrow> True | _ \<Rightarrow> False)),
      set_flag = (\<lambda>name x o1. case flag_vars name of
          None \<Rightarrow> if lib_accepts z name x then Some o1 else None
        | Some v \<Rightarrow> set_var v x o1)\<rparr>"

section \<open>Options of the servers and the manager\<close>

record tls_config =
  NextProtos :: "string list"

definition disableHTTP2 :: "tls_config \<Rightarrow> tls_config" where
  "disableHTTP2 c = c\<lparr>NextProtos := [''http/1.1'']\<rparr>"

definition tlsOpts :: "options \<Rightarrow> (tls_config \<Rightarrow> tls_config) list" where
  "tlsOpts o1 = (if \<not> enableHTTP2 o1 then [disableHTTP2] else [])"

record webhook_options =
  wh_TLSOpts :: "(tls_config \<Rightarrow> tls_config) list"
  wh_CertDir :: string
  wh_CertName :: string
  wh_KeyName :: string

definition webhookServerOptions :: "options \<Rightarrow> webhook_options" where
  "webhookServerOptions o1 =
     (let opts = \<lparr>wh_TLSOpts = tlsOpts o1, wh_CertDir = '''', wh_CertName = '''', wh_KeyName = ''''\<rparr>
      in if 0 < length (webhookCertPath o1)
         then opts\<lparr>wh_CertDir := webhookCertPath o1, wh_CertName := webhookCertName o1,
                   wh_KeyName := webhookCertKey o1\<rparr>
         else opts)"

text \<open>\<open>FilterProvider\<close> is nil or \<open>WithAuthenticationAndAuthorization\<close>.\<close>

record metrics_options =
  ms_BindAddress :: string
  ms_SecureServing :: bool
  ms_TLSOpts :: "(tls_config \<Rightarrow> tls_config) list"
  ms_WithAuth :: bool
  ms_CertDir :: string
  ms_CertName :: string
  ms_KeyName :: string

definition metricsServerOptions :: "options \<Rightarrow> metrics_options" where
  "metricsServerOptions o1 =
     (let opts = \<lparr>ms_BindAddress = metricsAddr o1, ms_SecureServing = secureMetrics o1, ms_TLSOpts = tlsOpts o1,
                  ms_WithAuth = False, ms_CertDir = '''', ms_CertName = '''', ms_KeyName = ''''\<rparr>;
          opts1 = (if secureMetrics o1 then opts\<lparr>ms_WithAuth := True\<rparr> else opts)
      in if 0 < length (metricsCertPath o1)
         then opts1\<lparr>ms_CertDir := metricsCertPath o1, ms_CertName := metricsCertName o1,
                    ms_KeyName := metricsCertKey o1\<rparr>
         else opts1)"

record manager_options =
  mo_Metrics :: metrics_options
  mo_WebhookServer :: webhook_options
  mo_HealthProbeBindAddress :: string
  mo_LeaderElection :: bool
  mo_LeaderElectionID :: string

definition manager_options_of :: "options \<Rightarrow> manager_options" where
  "manager_options_of o1 =
     \<lparr>mo_Metrics = metricsServerOptions o1, mo_WebhookServer = webhookServerOptions o1,
      mo_HealthProbeBindAddress = probeAddr o1, mo_LeaderElection = enableLeaderElection o1,
      mo_LeaderElectionID = ''c4bdb06d.kwarm.io''\<rparr>"

section \<open>Controllers\<close>

text \<open>What a controller is built from: the kinds it is for and owns, its name, recorder and limiter.\<close>

record controller =
  ctl_For :: string
  ctl_Owns :: "string list"
  ctl_Named :: string
  ctl_Recorder :: "string option"
  ctl_RateLimiter :: "RateLimiter option"

record ('m, 'w) runtime =
  GetConfigOk :: "string list \<Rightarrow> 'w \<Rightarrow> bool \<times> 'w"
  NewManager :: "manager_options \<Rightarrow> 'w \<Rightarrow> (go_error + 'm) \<times> 'w"
  Complete :: "'m \<Rightarrow> controller \<Rightarrow> 'w \<Rightarrow> go_error option \<times> 'w"
  AddHealthzCheck :: "'m \<Rightarrow> string \<Rightarrow> 'w \<Rightarrow> go_error option \<times> 'w"
  AddReadyzCheck :: "'m \<Rightarrow> string \<Rightarrow> 'w \<Rightarrow> go_error option \<times> 'w"
  Start :: "'m \<Rightarrow> 'w \<Rightarrow> go_error option \<times> 'w"

definition SetupWithManager_Policy :: "('m, 'w) runtime \<Rightarrow> 'm \<Rightarrow> 'w \<Rightarrow> go_error option \<times> 'w" where
  "SetupWithManager_Policy rt mgr =
     Complete rt mgr \<lparr>ctl_For = ''PrePullPolicy'', ctl_Owns = [], ctl_Named = ''prepullpolicy'',
       ctl_Recorder = None, ctl_RateLimiter = None\<rparr>"

definition SetupWithManager_Deployment :: "('m, 'w) runtime \<Rightarrow> string \<Rightarrow> 'm \<Rightarrow> 'w \<Rightarrow> go_error option \<times> 'w" where
  "SetupWithManager_Deployment rt recorder mgr =
     Complete rt mgr \<lparr>ctl_For = ''Deployment'', ctl_Owns = [], ctl_Named = ''deployment'',
       ctl_Recorder = Some recorder, ctl_RateLimiter = None\<rparr>"

definition SetupWithManager_PPI ::
  "('m, 'w) runtime \<Rightarrow> string \<Rightarrow> RateLimiter \<Rightarrow> 'm \<Rightarrow> 'w \<Rightarrow> go_error option \<times> 'w" where
  "SetupWithManager_PPI rt recorder limiter mgr =
     Complete rt mgr \<lparr>ctl_For = ''PrePullImage'', ctl_Owns = [''Job''], ctl_Named = ''prepullimage'',
       ctl_Recorder = Some recorder, ctl_RateLimiter = Some limiter\<rparr>"

section \<open>main\<close>

text \<open>The process ends with a code, or \<open>main\<close> returns. A failing step ends it with code 1.\<close>

datatype exit = Exit nat | Returned

definition or_exit :: "('w \<Rightarrow> go_error option \<times> 'w) \<Rightarrow> ('w \<Rightarrow> exit \<times> 'w) \<Rightarrow> 'w \<Rightarrow> exit \<times> 'w" where
  "or_exit step rest w = (case step w of (Some err, w1) \<Rightarrow> (Exit 1, w1) | (None, w1) \<Rightarrow> rest w1)"

definition run_manager :: "('m, 'w) runtime \<Rightarrow> options \<Rightarrow> 'm \<Rightarrow> 'w \<Rightarrow> exit \<times> 'w" where
  "run_manager rt o1 mgr =
     (let rateLimiter = NewRateLimiter (maxConcurrentPulls_flag o1) (maxPullsPerNode_flag o1) in
      or_exit (SetupWithManager_Policy rt mgr)
        (or_exit (SetupWithManager_Deployment rt ''kwarm-deployment-controller'' mgr)
          (or_exit (SetupWithManager_PPI rt ''kwarm-prepullimage-controller'' rateLimiter mgr)
            (or_exit (AddHealthzCheck rt mgr ''healthz'')
              (or_exit (AddReadyzCheck rt mgr ''readyz'')
                (or_exit (Start rt mgr) (\<lambda>w. (Returned, w))))))))"

definition main :: "('m, 'w) runtime \<Rightarrow> library_flags \<Rightarrow> string list \<Rightarrow> 'w \<Rightarrow> exit \<times> 'w" where
  "main rt z args w =
     (case Parse (CommandLine z) args default_options of
        ExitHelp \<Rightarrow> (Exit 0, w)
      | ExitUsage \<Rightarrow> (Exit 2, w)
      | Parsed o1 rest \<Rightarrow>
          (case GetConfigOk rt args w of
             (False, w1) \<Rightarrow> (Exit 1, w1)
           | (True, w1) \<Rightarrow>
               (case NewManager rt (manager_options_of o1) w1 of
                  (Inl err, w2) \<Rightarrow> (Exit 1, w2)
                | (Inr mgr, w2) \<Rightarrow> run_manager rt o1 mgr w2)))"


section \<open>Properties of the start-up\<close>

lemma split_value_eq:
  "CHR ''='' \<notin> set name \<Longrightarrow> split_value (name @ CHR ''='' # x) = (name, Some x)"
  by (induction name) (auto simp: split_value_def)

lemma Parse_assign:
  assumes "flag_vars name = Some v" and "CHR ''='' \<notin> set name" and "name \<noteq> []" and "hd name \<noteq> CHR ''-''"
    and "set_var v x o1 = Some o2"
  shows "Parse (CommandLine z) ((''--'' @ name @ CHR ''='' # x) # args) o1 = Parse (CommandLine z) args o2"
proof -
  have n: "flag_name (CHR ''-'' # CHR ''-'' # name @ CHR ''='' # x) = name @ CHR ''='' # x" by (simp add: flag_name_def)
  have "hd name \<noteq> CHR ''=''" using assms(2,3) by (metis hd_in_set)
  then have "hd (name @ CHR ''='' # x) \<notin> {CHR ''-'', CHR ''=''}" using assms(3,4) by simp
  moreover have "is_bool_flag (CommandLine z) name = Some (case v of BoolVar f \<Rightarrow> True | _ \<Rightarrow> False)"
    "set_flag (CommandLine z) name x o1 = Some o2"
    using assms(1,5) by (simp_all add: CommandLine_def)
  ultimately show ?thesis
    by (subst Parse.simps(2)) (simp add: n split_value_eq [OF assms(2)] Let_def split: bool.split)
qed

text \<open>The limits on the command line, printed as decimal numbers of 64 bits, are read back exactly.\<close>

definition limit_args :: "go_int \<Rightarrow> go_int \<Rightarrow> string list" where
  "limit_args n m = [''--max-concurrent-pulls='' @ show_int (sint n), ''--max-pulls-per-node='' @ show_int (sint m)]"

lemma limit_args_read:
  "Parse (CommandLine z) (limit_args n m) default_options =
     Parsed (default_options\<lparr>maxConcurrentPulls_flag := n, maxPullsPerNode_flag := m\<rparr>) []"
proof -
  have v: "flag_vars ''max-concurrent-pulls'' = Some (IntVar (\<lambda>x. maxConcurrentPulls_flag_update (\<lambda>_. x)))"
    "flag_vars ''max-pulls-per-node'' = Some (IntVar (\<lambda>x. maxPullsPerNode_flag_update (\<lambda>_. x)))"
    by (simp_all add: flag_vars_def)
  have c: "Parse (CommandLine z) ((''--max-concurrent-pulls='' @ show_int (sint n)) # args) o1 =
      Parse (CommandLine z) args (o1\<lparr>maxConcurrentPulls_flag := n\<rparr>)" for args o1
    using Parse_assign [OF v(1), of "show_int (sint n)" o1] by (simp add: set_var_def ParseInt_show_int)
  have m: "Parse (CommandLine z) ((''--max-pulls-per-node='' @ show_int (sint m)) # args) o1 =
      Parse (CommandLine z) args (o1\<lparr>maxPullsPerNode_flag := m\<rparr>)" for args o1
    using Parse_assign [OF v(2), of "show_int (sint m)" o1] by (simp add: set_var_def ParseInt_show_int)
  show ?thesis unfolding limit_args_def c m by simp
qed

text \<open>A variable changes only by its flag.\<close>

definition flag_of :: "string \<Rightarrow> string" where
  "flag_of arg = fst (split_value (flag_name arg))"

lemma Parse_keeps:
  assumes keep: "\<And>name x v w. name \<noteq> flag \<Longrightarrow> set_flag fs name x v = Some w \<Longrightarrow> get w = get v"
    and "\<forall>a \<in> set args. flag_of a \<noteq> flag" and "Parse fs args v = Parsed w rest"
  shows "get w = get v"
  using assms(2,3)
proof (induction args arbitrary: v rule: length_induct)
  case (1 args)
  show ?case
  proof (cases args)
    case Nil
    with 1 show ?thesis by simp
  next
    case (Cons s args')
    obtain f val where f: "split_value (flag_name s) = (f, val)" by (metis surj_pair)
    with Cons 1(2) have ne: "f \<noteq> flag" by (simp add: flag_of_def)
    have ih: "Parse fs as v' = Parsed w rest \<Longrightarrow> get w = get v'"
      if "length as < length args" "set as \<subseteq> set args" for as v'
      using 1(1) that 1(2) by blast
    have step: "get w = get v"
      if "(case set_flag fs f x v of None \<Rightarrow> ExitUsage | Some v' \<Rightarrow> Parse fs as v') = Parsed w rest"
        "length as < length args" "set as \<subseteq> set args" for x as
      using that ih [OF that(2,3)] keep [OF ne] by (auto split: option.splits)
    note p = 1(3) [unfolded Cons Parse.simps(2) Let_def f prod.case]
    show ?thesis
    proof (cases "length s < 2 \<or> hd s \<noteq> CHR ''-'' \<or> s = ''--''")
      case True
      with p show ?thesis by (auto split: if_splits)
    next
      case False
      with p obtain b where b: "is_bool_flag fs f = Some b" by (auto split: if_splits option.splits)
      show ?thesis
      proof (cases b)
        case True
        with p b False step [where x = "case val of None \<Rightarrow> ''true'' | Some x \<Rightarrow> x" and as = args'] Cons show ?thesis
          by (simp split: if_splits) blast
      next
        case nb: False
        show ?thesis
        proof (cases val)
          case (Some x)
          with p b nb False step [where x = x and as = args'] Cons show ?thesis by (simp split: if_splits) blast
        next
          case None
          with p b nb False obtain x as where "args' = x # as" by (auto split: if_splits list.splits)
          with None p b nb False step [where x = x and as = as] Cons show ?thesis by (simp split: if_splits) blast
        qed
      qed
    qed
  qed
qed


lemma set_flag_http2:
  "name \<noteq> ''enable-http2'' \<Longrightarrow> set_flag (CommandLine z) name x v = Some w \<Longrightarrow> enableHTTP2 w = enableHTTP2 v"
  by (auto simp: CommandLine_def set_var_def flag_vars_def split: if_splits option.splits)

text \<open>
  (C29) Unless the flag \<open>enable-http2\<close> occurs on the command line, whatever else does, both servers
  negotiate HTTP/1.1 only: their TLS options override the protocols of every configuration. The
  metrics are served with authentication exactly when they are served over TLS.
\<close>

theorem http2_off_by_default:
  assumes "Parse (CommandLine z) args default_options = Parsed opts rest"
    and "\<forall>a \<in> set args. flag_of a \<noteq> ''enable-http2''"
  shows "foldl (\<lambda>c f. f c) c (wh_TLSOpts (mo_WebhookServer (manager_options_of opts))) = c\<lparr>NextProtos := [''http/1.1'']\<rparr> \<and>
    foldl (\<lambda>c f. f c) c (ms_TLSOpts (mo_Metrics (manager_options_of opts))) = c\<lparr>NextProtos := [''http/1.1'']\<rparr> \<and>
    (ms_WithAuth (mo_Metrics (manager_options_of opts)) \<longleftrightarrow> ms_SecureServing (mo_Metrics (manager_options_of opts)))"
proof -
  have "enableHTTP2 opts = enableHTTP2 default_options"
    by (rule Parse_keeps [OF set_flag_http2 assms(2,1)])
  then show ?thesis
    by (simp add: manager_options_of_def webhookServerOptions_def metricsServerOptions_def tlsOpts_def
        disableHTTP2_def default_options_def Let_def)
qed

definition no_library_flags :: library_flags where
  "no_library_flags = \<lparr>lib_is_bool = Map.empty, lib_accepts = (\<lambda>name x. False)\<rparr>"

lemma http2_off_by_default_witness:
  "\<exists>opts. Parse (CommandLine no_library_flags) [''-leader-elect'', ''--metrics-bind-address'', '':8443''] default_options =
      Parsed opts [] \<and>
     foldl (\<lambda>c f. f c) \<lparr>NextProtos = [''h2'']\<rparr> (ms_TLSOpts (mo_Metrics (manager_options_of opts))) =
       \<lparr>NextProtos = [''http/1.1'']\<rparr>"
proof -
  let ?args = "[''-leader-elect'', ''--metrics-bind-address'', '':8443'']"
  obtain opts where p: "Parse (CommandLine no_library_flags) ?args default_options = Parsed opts []"
    by (simp add: flag_name_def split_value_def CommandLine_def flag_vars_def set_var_def ParseBool_def Let_def)
  have "\<forall>a \<in> set ?args. flag_of a \<noteq> ''enable-http2''"
    by (simp add: flag_of_def flag_name_def split_value_def)
  from http2_off_by_default [OF p this, of "\<lparr>NextProtos = [''h2'']\<rparr>"] p show ?thesis by auto
qed

end
