(* ===== verification/OperatorSystem.thy ===== *)
theory OperatorSystem
  imports DeploymentSystem PolicyCount
begin

text \<open>
  The three controllers together, over one API server and one rate limiter: reconciles of
  PrePullImages, deployments and policies in any order. A reconcile of a deployment or of a
  policy is a change that theory ImageSystem allows its environment, so its bound on the pulling
  nodes holds for the whole operator.
\<close>

declare split_paired_All [simp del] split_paired_Ex [simp del]

section \<open>Steps that the environment may make\<close>

text \<open>The calls of the other two controllers that leave the PrePullImages alone.\<close>

definition other_calls_quiet :: "'w k8s \<Rightarrow> ('w \<Rightarrow> 's) \<Rightarrow> bool" where
  "other_calls_quiet k stored \<longleftrightarrow>
     (\<forall>key. quiet stored (GetDeployment k key)) \<and> quiet stored (ListPolicy k) \<and>
     (\<forall>key. quiet stored (GetPolicy k key)) \<and> (\<forall>ns. quiet stored (ListDeployment k ns)) \<and>
     (\<forall>p. quiet stored (StatusUpdatePolicy k p))"

lemma reachable_store:
  assumes "ppi_store k stored" and "reachable k stored a b B F s"
  shows "finite (dom (stored (op_World s)))" "stored (op_World s) key = Some p \<Longrightarrow> key_of (ppi_Meta p) = key"
  using reachable_covers [OF assms] by (auto simp: in_sync_def store_ok_def)

lemma env_object_refl: "env_object v v"
  by (simp add: env_object_def same_status_def split: option.split)

lemma reachable_key:
  assumes k: "ppi_store k stored" and r: "reachable k stored a b B F s" and l: "op_Limiter s' = op_Limiter s"
    and m: "\<And>j. j \<noteq> key \<Longrightarrow> stored (op_World s') j = stored (op_World s) j"
    and o: "env_object (stored (op_World s) key) (stored (op_World s') key)"
    and n: "\<And>p. stored (op_World s') key = Some p \<Longrightarrow> key_of (ppi_Meta p) = key"
  shows "reachable k stored a b B F s'"
proof (rule reachable.environment [OF r _ l])
  have "dom (stored (op_World s')) \<subseteq> insert key (dom (stored (op_World s)))"
    using m by (auto simp: dom_def)
  then have "finite (dom (stored (op_World s')))"
    using reachable_store(1) [OF k r] by (meson finite.insertI finite_subset)
  moreover have "key_of (ppi_Meta p) = j" if "stored (op_World s') j = Some p" for j p
    using n reachable_store(2) [OF k r] m that by (cases "j = key") auto
  moreover have "env_object (stored (op_World s) j) (stored (op_World s') j)" for j
    using o m env_object_refl by (cases "j = key") auto
  ultimately show "env_change (stored (op_World s)) (stored (op_World s'))"
    by (simp add: env_change_def)
qed

lemma reachable_same:
  assumes "ppi_store k stored" and "reachable k stored a b B F s" and "op_Limiter s' = op_Limiter s"
    and "stored (op_World s') = stored (op_World s)"
  shows "reachable k stored a b B F s'"
  by (rule reachable_key [OF assms(1-3), of undefined])
    (use assms(4) reachable_store(2) [OF assms(1,2)] env_object_refl in simp_all)

lemma reachable_world:
  assumes "ppi_store k stored" and "reachable k stored a b B F s" and "quiet stored f" and "world f s = (x, s')"
  shows "reachable k stored a b B F s'"
  using reachable_same [OF assms(1,2)] quiet_world [OF assms(3,4)] world_eqD [OF assms(4)] by simp

section \<open>Reconciles of deployments and policies\<close>

lemma create_reachable:
  assumes k: "ppi_store k stored" and api: "image_api k stored deps" and r: "reachable k stored a b B F s"
    and c: "create_new_ppi k d policy img nodes (op_World s) = (e, w')"
  shows "reachable k stored a b B F (s\<lparr>op_World := w'\<rparr>)"
proof -
  let ?p = "new_ppi d policy img nodes"
  obtain x where x: "CreatePPI k ?p (op_World s) = (x, w')"
    using c by (auto simp: create_new_ppi_def split: prod.splits sum.splits)
  show ?thesis
  proof (cases x)
    case (Inl err)
    then show ?thesis using image_api_create(2) [OF api] x by (intro reachable_same [OF k r]) auto
  next
    case (Inr q)
    have "ppi_Nodes ?p = []" by (simp add: new_ppi_def zero_ppi_status_def)
    with image_api_create(1) [OF api, of ?p "op_World s" q w'] x Inr
    show ?thesis by (intro reachable_key [OF k r, of _ "image_key d img"]) (simp_all add: env_object_def)
  qed
qed

lemma delete_reachable:
  assumes k: "ppi_store k stored" and api: "image_api k stored deps" and r: "reachable k stored a b B F s"
    and c: "DeletePPI k p (op_World s) = (None, w')"
  shows "reachable k stored a b B F (s\<lparr>op_World := w'\<rparr>)"
proof -
  let ?key = "key_of (ppi_Meta p)" and ?m = "stored (op_World s)"
  have "object_deleted p ?m (stored w')" using image_api_delete(1) [OF api c] by blast
  then obtain old where old: "?m ?key = Some old" and
    o: "if ppi_finalizers old = {} then stored w' = ?m(?key := None)
        else \<exists>new. stored w' = ?m(?key \<mapsto> new) \<and> key_of (ppi_Meta new) = key_of (ppi_Meta old) \<and>
           ppi_finalizers new = ppi_finalizers old \<and> ppi_deleted new \<and>
           same_status (ppi_Status old) (ppi_Status new)"
    by (auto simp: object_deleted_def)
  have key: "key_of (ppi_Meta old) = ?key" using reachable_store(2) [OF k r old] .
  show ?thesis
  proof (cases "ppi_finalizers old = {}")
    case True
    with o old show ?thesis by (intro reachable_key [OF k r, of _ ?key]) (simp_all add: env_object_def)
  next
    case False
    with o obtain new where "stored w' = ?m(?key \<mapsto> new)" "key_of (ppi_Meta new) = ?key"
      "ppi_finalizers new = ppi_finalizers old" "ppi_deleted new" "same_status (ppi_Status old) (ppi_Status new)"
      using key by auto
    with old show ?thesis by (intro reachable_key [OF k r, of _ ?key]) (simp_all add: env_object_def)
  qed
qed

lemma createPrePullImage_reachable:
  assumes k: "ppi_store k stored" and api: "image_api k stored deps" and r: "reachable k stored a b B F s"
    and c: "createPrePullImage k d policy img nodes (op_World s) = (e, w')"
  shows "reachable k stored a b B F (s\<lparr>op_World := w'\<rparr>)"
proof -
  obtain g w1 where g: "GetPPI k (image_key d img) (op_World s) = (g, w1)" by (metis surj_pair)
  have r1: "reachable k stored a b B F (s\<lparr>op_World := w1\<rparr>)"
    using quietD [OF image_api_quiet(5) [OF api] g] by (intro reachable_same [OF k r]) simp_all
  have new: "reachable k stored a b B F (s\<lparr>op_World := w'\<rparr>)"
    if "create_new_ppi k d policy img nodes v = (e, w')" "reachable k stored a b B F (s\<lparr>op_World := v\<rparr>)" for v
    using create_reachable [OF k api that(2)] that(1) by simp
  note c' = c [unfolded createPrePullImage_def Let_def, folded image_key_def, unfolded g prod.case]
  show ?thesis
  proof (cases g)
    case (Inl err)
    with c' new [OF _ r1] r1 show ?thesis by (auto split: if_splits)
  next
    case (Inr p)
    show ?thesis
    proof (cases "spec_Image (ppi_Spec p) = img")
      case True
      with c' Inr r1 show ?thesis by auto
    next
      case False
      obtain de w2 where de: "DeletePPI k p w1 = (de, w2)" by (metis surj_pair)
      show ?thesis
      proof (cases de)
        case None
        then have "reachable k stored a b B F (s\<lparr>op_World := w2\<rparr>)"
          using delete_reachable [OF k api r1, of p w2] de by simp
        with c' Inr False de None new [of w2] show ?thesis by simp
      next
        case (Some err)
        then have "stored w2 = stored w1" using image_api_delete(2) [OF api, of p w1 err w2] de by blast
        then have "reachable k stored a b B F (s\<lparr>op_World := w2\<rparr>)" by (intro reachable_same [OF k r1]) simp_all
        with c' Inr False de Some show ?thesis by simp
      qed
    qed
  qed
qed

lemma create_all_reachable:
  assumes k: "ppi_store k stored" and api: "image_api k stored deps"
  shows "reachable k stored a b B F s \<Longrightarrow> create_all k d policy imgs nodes s = (e, s') \<Longrightarrow> reachable k stored a b B F s'"
proof (induction imgs arbitrary: s)
  case (Cons img imgs)
  obtain c w1 where c: "createPrePullImage k d policy img nodes (op_World s) = (c, w1)" by (metis surj_pair)
  note r1 = createPrePullImage_reachable [OF k api Cons.prems(1) c]
  show ?case
  proof (cases c)
    case (Some err)
    with c Cons.prems(2) r1 show ?thesis by (simp add: create_all_Cons)
  next
    case None
    have "reachable k stored a b B F (event_Deployment d ''Normal'' ''PrePullTriggered''
        (''Image pre-pull initiated for '' @ img) (s\<lparr>op_World := w1\<rparr>))"
      by (rule reachable_same [OF k r1]) simp_all
    with Cons.IH Cons.prems(2) c None show ?thesis by (simp add: create_all_Cons)
  qed
qed simp


lemma save_images_reachable:
  assumes k: "ppi_store k stored" and api: "image_api k stored deps" and r: "reachable k stored a b B F s"
    and c: "save_images k d images s = (res, s')"
  shows "reachable k stored a b B F s'"
proof -
  have "op_Limiter s' = op_Limiter s"
    using c by (auto simp: save_images_def split: prod.splits option.splits dest!: world_eqD)
  with save_images_outcome [OF api c] show ?thesis by (intro reachable_same [OF k r]) simp_all
qed

lemma reconcile_images_reachable:
  assumes k: "ppi_store k stored" and api: "image_api k stored deps" and r: "reachable k stored a b B F s"
    and c: "reconcile_images k d policy s = (res, s')"
  shows "reachable k stored a b B F s'"
proof -
  obtain imgs s1 where f: "world (findChangedImages k (getLastImages d) (extractImages d)) s = (imgs, s1)"
    by (metis surj_pair)
  have r1: "reachable k stored a b B F s1"
    using findChangedImages_quiet [OF api] world_eqD [OF f] by (intro reachable_same [OF k r]) auto
  obtain t s2 where t: "world (getTargetNodes_Deployment k policy) s1 = (t, s2)" by (metis surj_pair)
  have r2: "reachable k stored a b B F s2"
    using getTargetNodes_quiet [OF api] world_eqD [OF t] by (intro reachable_same [OF k r1]) auto
  note c' = c [unfolded reconcile_images_def Let_def f prod.case t length_0_conv]
  show ?thesis
  proof (cases "imgs = []")
    case True
    with c' r1 save_images_reachable [OF k api r1] show ?thesis by (auto split: if_splits)
  next
    case False
    show ?thesis
    proof (cases t)
      case (Inl err)
      with c' False r2 show ?thesis by simp
    next
      case (Inr nodes)
      obtain e s3 where a: "create_all k d policy imgs nodes s2 = (e, s3)" by (metis surj_pair)
      note r3 = create_all_reachable [OF k api r2 a]
      from c' False Inr a r2 r3 save_images_reachable [OF k api r3] show ?thesis
        by (auto split: if_splits option.splits)
    qed
  qed
qed

lemma emit_reachable:
  assumes "ppi_store k stored" and "reachable k stored a b B F s"
  shows "reachable k stored a b B F (RecordReconcile c r d s)" "reachable k stored a b B F (SetWatchedDeployments n s)"
  by (rule reachable_same [OF assms]; simp add: RecordReconcile_def SetWatchedDeployments_def)+

lemma Reconcile_Deployment_reachable:
  assumes k: "ppi_store k stored" and api: "image_api k stored deps" and o: "other_calls_quiet k stored"
    and r: "reachable k stored a b B F s" and c: "Reconcile_Deployment k req s = (res, s')"
  shows "reachable k stored a b B F s'"
proof -
  note now = store_quiet(1) [OF k]
  obtain t1 s1 where 1: "world (Now k) s = (t1, s1)" by (metis surj_pair)
  obtain x s2 where 2: "reconcile_body_Deployment k req s1 = (x, s2)" by (metis surj_pair)
  obtain t3 s3 where 3: "world (Now k) s2 = (t3, s3)" by (metis surj_pair)
  note r1 = reachable_world [OF k r now 1]
  have r2: "reachable k stored a b B F s2"
  proof -
    obtain g u1 where g: "world (GetDeployment k req) s1 = (g, u1)" by (metis surj_pair)
    have "quiet stored (GetDeployment k req)" using o by (simp add: other_calls_quiet_def)
    note v1 = reachable_world [OF k r1 this g]
    show ?thesis
    proof (cases g)
      case (Inl err)
      with 2 g v1 show ?thesis by (auto simp: reconcile_body_Deployment_def split: if_splits)
    next
      case (Inr d)
      obtain m u2 where m: "world (getMatchingPolicy k d) u1 = (m, u2)" by (metis surj_pair)
      have "quiet stored (getMatchingPolicy k d)"
        using o by (auto simp: other_calls_quiet_def quiet_def getMatchingPolicy_def split: prod.split sum.split)
          (metis snd_conv)+
      note v2 = reachable_world [OF k v1 this m]
      from 2 g Inr m v2 reconcile_images_reachable [OF k api v2] show ?thesis
        by (auto simp: reconcile_body_Deployment_def split: sum.splits option.splits)
    qed
  qed
  note r3 = reachable_world [OF k r2 now 3]
  have "s' = RecordReconcile ''deployment'' ''success'' (time_sub t3 t1) s3"
    using c 1 2 3 by (simp add: Reconcile_Deployment_def)
  with emit_reachable(1) [OF k r3] show ?thesis by simp
qed

lemma reconcile_policy_reachable:
  assumes k: "ppi_store k stored" and o: "other_calls_quiet k stored"
    and r: "reachable k stored a b B F s" and c: "reconcile_policy k p s = (res, s')"
  shows "reachable k stored a b B F s'"
proof -
  note now = store_quiet(1) [OF k]
  have count: "quiet stored (countMatchingDeployments k q)" for q
    using count_namespaces_quiet [of stored k] o
    by (simp add: quiet_def other_calls_quiet_def countMatchingDeployments_def)
  have cond: "quiet stored (setCondition_Policy k x y z w q)" for x y z w q
    using now by (auto simp: quiet_def setCondition_Policy_def Let_def split: prod.split) (metis snd_conv)
  have upd: "quiet stored (StatusUpdatePolicy k q)" for q using o by (simp add: other_calls_quiet_def)
  obtain n s1 where n: "world (countMatchingDeployments k p) s = (n, s1)" by (metis surj_pair)
  note r1 = reachable_world [OF k r count n]
  show ?thesis
  proof (cases n)
    case (Inl err)
    obtain p1 s2 where p1: "world (setCondition_Policy k ConditionTypeReady ConditionFalse ''Error'' (error_text err) p) s1 = (p1, s2)"
      by (metis surj_pair)
    obtain x s3 where x: "world (StatusUpdatePolicy k p1) s2 = (x, s3)" by (metis surj_pair)
    have "reachable k stored a b B F s3"
      by (rule reachable_world [OF k reachable_world [OF k r1 cond p1] upd x])
    with c n Inl p1 x show ?thesis by (simp add: reconcile_policy_def)
  next
    case (Inr m)
    obtain t s2 where t: "world (Now k) s1 = (t, s2)" by (metis surj_pair)
    obtain p1 s3 where p1: "world (setCondition_Policy k ConditionTypeReady ConditionTrue ''Reconciled'' ''Policy is active''
        (set_watched m t p)) s2 = (p1, s3)" by (metis surj_pair)
    obtain x s4 where x: "world (StatusUpdatePolicy k p1) s3 = (x, s4)" by (metis surj_pair)
    have r4: "reachable k stored a b B F s4"
      by (rule reachable_world [OF k reachable_world [OF k reachable_world [OF k r1 now t] cond p1] upd x])
    from c n Inr t p1 x show ?thesis
      using r4 emit_reachable(2) [OF k r4] by (cases x) (auto simp: reconcile_policy_def)
  qed
qed

lemma Reconcile_Policy_reachable:
  assumes k: "ppi_store k stored" and o: "other_calls_quiet k stored"
    and r: "reachable k stored a b B F s" and c: "Reconcile_Policy k req s = (res, s')"
  shows "reachable k stored a b B F s'"
proof -
  note now = store_quiet(1) [OF k]
  obtain t1 s1 where 1: "world (Now k) s = (t1, s1)" by (metis surj_pair)
  obtain x s2 where 2: "reconcile_body_Policy k req s1 = (x, s2)" by (metis surj_pair)
  obtain t3 s3 where 3: "world (Now k) s2 = (t3, s3)" by (metis surj_pair)
  note r1 = reachable_world [OF k r now 1]
  obtain g u1 where g: "world (GetPolicy k req) s1 = (g, u1)" by (metis surj_pair)
  have "quiet stored (GetPolicy k req)" using o by (simp add: other_calls_quiet_def)
  note v1 = reachable_world [OF k r1 this g]
  have r2: "reachable k stored a b B F s2"
    using 2 g v1 reconcile_policy_reachable [OF k o v1]
    by (cases g) (auto simp: reconcile_body_Policy_def split: if_splits)
  note r3 = reachable_world [OF k r2 now 3]
  have "s' = RecordReconcile ''prepullpolicy'' ''success'' (time_sub t3 t1) s3"
    using c 1 2 3 by (simp add: Reconcile_Policy_def)
  with emit_reachable(1) [OF k r3] show ?thesis by simp
qed

section \<open>The whole operator\<close>

text \<open>
  Runs of the operator that \<open>main\<close> starts with the flags \<open>a\<close> and \<open>b\<close>: its three controllers share
  the limiter and the server, and their reconciles, succeeding or failing, mix in any order with
  restarts and with what others do to the objects. \<open>B\<close> and \<open>F\<close> are those of \<open>reachable\<close>: the slots
  of the nodes that were pulling when the process started, and what failed reconciles of
  PrePullImages did to the limiter.
\<close>

inductive operator ::
  "'w k8s \<Rightarrow> ('w \<Rightarrow> objkey \<rightharpoonup> PrePullImage) \<Rightarrow> go_int \<Rightarrow> go_int \<Rightarrow> string multiset \<Rightarrow>
     (RateLimiter \<times> RateLimiter) list \<Rightarrow> 'w op \<Rightarrow> bool"
  for k stored
where
  op_installed: "finite (dom (stored (op_World s))) \<Longrightarrow>
    (\<And>key p. stored (op_World s) key = Some p \<Longrightarrow>
       key_of (ppi_Meta p) = key \<and> pulling_slots (ppi_Nodes p) = {#}) \<Longrightarrow>
    op_Limiter s = NewRateLimiter a b \<Longrightarrow> operator k stored a b {#} [] s"
| op_restarted: "operator k stored a' b' B F s \<Longrightarrow> env_change (stored (op_World s)) (stored (op_World s')) \<Longrightarrow>
    op_Limiter s' = NewRateLimiter a b \<Longrightarrow>
    operator k stored a b (stored_slots (stored (op_World s'))) [] s'"
| op_image: "operator k stored a b B F s \<Longrightarrow> Reconcile_PPI k req s = (Inr res, s') \<Longrightarrow>
    operator k stored a b B F s'"
| op_image_failed: "operator k stored a b B F s \<Longrightarrow> Reconcile_PPI k req s = (Inl err, s') \<Longrightarrow>
    operator k stored a b B ((op_Limiter s, op_Limiter s') # F) s'"
| op_deployment: "operator k stored a b B F s \<Longrightarrow> Reconcile_Deployment k req s = (r, s') \<Longrightarrow>
    operator k stored a b B F s'"
| op_policy: "operator k stored a b B F s \<Longrightarrow> Reconcile_Policy k req s = (r, s') \<Longrightarrow>
    operator k stored a b B F s'"
| op_environment: "operator k stored a b B F s \<Longrightarrow> env_change (stored (op_World s)) (stored (op_World s')) \<Longrightarrow>
    op_Limiter s' = op_Limiter s \<Longrightarrow> operator k stored a b B F s'"

lemma operator_reachable:
  assumes k: "ppi_store k stored" and api: "image_api k stored deps" and o: "other_calls_quiet k stored"
  shows "operator k stored a b B F s \<Longrightarrow> reachable k stored a b B F s"
proof (induction rule: operator.induct)
  case (op_installed s a b)
  then show ?case by (rule reachable.installed)
next
  case (op_restarted a' b' B F s s' a b)
  then show ?case by (blast intro: reachable.restarted)
next
  case (op_image a b B F s req res s')
  then show ?case by (blast intro: reachable.reconciled)
next
  case (op_image_failed a b B F s req err s')
  then show ?case by (blast intro: reachable.reconcile_failed)
next
  case (op_deployment a b B F s req r s')
  then show ?case by (blast intro: Reconcile_Deployment_reachable [OF k api o])
next
  case (op_policy a b B F s req r s')
  then show ?case by (blast intro: Reconcile_Policy_reachable [OF k o])
next
  case (op_environment a b B F s s')
  then show ?case by (blast intro: reachable.environment)
qed

text \<open>
  (C2) Every run of the whole operator is a run of the PrePullImage controller among changes of
  its environment: whatever the other two controllers do, failed reconciles included, is a
  change that the environment may make. So the bound of \<open>ImageSystem\<close> holds for the whole
  operator: the nodes being pulled are at most the limits of the flags (10 and 2 in place of
  limits that are not positive), plus the nodes that were pulling when the process started,
  plus the slots by which failed reconciles of PrePullImages had lowered the counters.
\<close>

theorem operator_refines_environment:
  assumes "ppi_store k stored" and "image_api k stored deps" and "other_calls_quiet k stored"
    and "operator k stored a b B F s"
  shows "reachable k stored a b B F s \<and>
    int (size (stored_slots (stored (op_World s))))
      \<le> (if a \<le>s 0 then 10 else sint a) + int (size B) + int (slots_dropped F) \<and>
    (\<forall>n. int (count (stored_slots (stored (op_World s))) n)
      \<le> (if b \<le>s 0 then 2 else sint b) + int (count B n) + int (slots_dropped_on F n))"
proof -
  have r: "reachable k stored a b B F s" using operator_reachable [OF assms] .
  have l: "sint (MaxConcurrentPulls (NewRateLimiter a b)) = (if a \<le>s 0 then 10 else sint a)"
    "sint (MaxPullsPerNode (NewRateLimiter a b)) = (if b \<le>s 0 then 2 else sint b)"
    by (simp_all add: MaxConcurrentPulls_def MaxPullsPerNode_def NewRateLimiter_def Let_def)
  show ?thesis
    using r reachable_bounds [OF assms(1) r] unfolding l by blast
qed


lemma mem_other_quiet: "other_calls_quiet mem_k8s mem_ppis"
  by (auto simp: other_calls_quiet_def quiet_def mem_status_update_policy_def)

lemma operator_refines_environment_witness:
  "reachable mem_k8s mem_ppis 10 2 {#} []
     (snd (Reconcile_Deployment mem_k8s (''prod'', ''web'') (sample_op (deployment_world [one_deployment]))))"
proof -
  have "operator mem_k8s mem_ppis 10 2 {#} [] (sample_op (deployment_world [one_deployment]))"
    by (rule op_installed) (simp_all add: sample_op_def deployment_world_def empty_mem_def)
  then have "operator mem_k8s mem_ppis 10 2 {#} []
      (snd (Reconcile_Deployment mem_k8s (''prod'', ''web'') (sample_op (deployment_world [one_deployment]))))"
    by (rule op_deployment) (rule surjective_pairing)
  from operator_refines_environment [OF mem_ppi_store mem_image_api mem_other_quiet this] show ?thesis by blast
qed

end
