(* ===== verification/ImageLiveness.thy ===== *)
theory ImageLiveness
  imports ImagePhases
begin

text \<open>
  Objects finish. A pass over an object is responsive when the cluster answers: jobs can be
  created, the jobs of its pulling nodes have ended, and a slot is free for it when it pulls
  nothing. Between such passes anything may happen, other passes included.
\<close>

section \<open>Responsive passes\<close>

text \<open>\<open>good\<close> is a property of the world that the calls of the pass keep.\<close>

definition responsive :: "'w k8s \<Rightarrow> PrePullImage \<Rightarrow> NodeStatus list \<Rightarrow> ('w \<Rightarrow> bool) \<Rightarrow> bool" where
  "responsive k p nss good \<longleftrightarrow>
     (\<forall>w ns. good w \<and> ns \<in> set nss \<and> node_pending ns \<longrightarrow>
        fst (fst (startPullJob k p ns w)) = None \<and> good (snd (startPullJob k p ns w))) \<and>
     (\<forall>w ns. good w \<and> ns \<in> set nss \<and> node_pulling ns \<longrightarrow>
        fst (fst (checkJobStatus k ns w)) \<in> {Inr JobStatusSucceeded, Inr JobStatusFailed})"

definition slot_free :: "RateLimiter \<Rightarrow> NodeStatus list \<Rightarrow> bool" where
  "slot_free l nss \<longleftrightarrow> (\<exists>ns \<in> set nss. node_pulling ns) \<or>
     (\<forall>ns \<in> set nss. node_pending ns \<longrightarrow> fst (TryAcquire l (ns_Node ns)))"

definition responsive_pass :: "'w k8s \<Rightarrow> PrePullImage \<Rightarrow> 'w op \<Rightarrow> bool" where
  "responsive_pass k p s \<longleftrightarrow> slot_free (op_Limiter s) (ppi_Nodes p) \<and>
     (\<exists>good. responsive k p (ppi_Nodes p) good \<and> good (op_World s))"

lemma responsive_tl: "responsive k p (ns # nss) good \<Longrightarrow> responsive k p nss good"
  by (simp add: responsive_def)

lemma handleNode_pulling:
  assumes "responsive k p nss good" and "good (op_World s)" and "ns \<in> set nss" and "node_pulling ns"
    and "handleNode k p ns c s = (ns', c', s')"
  shows "ns' \<noteq> ns"
proof -
  obtain r ns1 w1 where ck: "checkJobStatus k ns (op_World s) = ((r, ns1), w1)" by (metis prod.collapse)
  with assms(1-4) have r: "r = Inr JobStatusSucceeded \<or> r = Inr JobStatusFailed"
    unfolding responsive_def by (metis fst_conv insertE singletonD)
  have "ns_Status ns' \<noteq> NodePullStatusPulling"
    using assms(4,5) ck r
    by (auto simp: handleNode_def handleNodePulling_def world_def handleNodeSucceeded_def handleNodeRetry_def
        handleNodeGaveUp_def Let_def split: prod.splits option.splits if_splits)
  with assms(4) show ?thesis by auto
qed

lemma handleNode_pending:
  assumes "responsive k p nss good" and "good (op_World s)" and "ns \<in> set nss" and "node_pending ns"
    and "handleNode k p ns c s = (ns', c', s')"
  shows "good (op_World s') \<and> (fst (TryAcquire (op_Limiter s) (ns_Node ns)) \<longrightarrow> ns' \<noteq> ns)"
proof -
  obtain e ns1 w1 where st: "startPullJob k p ns (op_World s) = ((e, ns1), w1)" by (metis prod.collapse)
  with assms(1-4) have ok: "e = None" "good w1" unfolding responsive_def by (metis fst_conv snd_conv)+
  from st ok have "ns_Status ns1 = NodePullStatusPulling"
    by (cases rule: startPullJob_cases) (auto simp: mark_pulling_def)
  with assms st ok show ?thesis
    by (auto simp: handleNode_def handleNodePending_def world_def IncrementActivePulls_def split: prod.splits bool.splits)
qed

lemma handleNodes_change:
  assumes "responsive k p nss good" and "good (op_World s)" and "slot_free (op_Limiter s) nss"
    and "\<exists>ns \<in> set nss. node_pending ns \<or> node_pulling ns"
    and "handleNodes k p nss c s = (nss', c', s')"
  shows "nss' \<noteq> nss"
  using assms
proof (induction nss arbitrary: c s nss')
  case (Cons ns nss)
  obtain ns1 c1 s1 where h: "handleNode k p ns c s = (ns1, c1, s1)" by (metis prod_cases3)
  obtain nss2 where t: "handleNodes k p nss c1 s1 = (nss2, c', s')" and eq: "nss' = ns1 # nss2"
    using Cons.prems(5) h by (auto split: prod.splits)
  note tl = responsive_tl [OF Cons.prems(1)]
  show ?case
  proof (cases "node_pulling ns \<or> ns1 \<noteq> ns")
    case True
    with handleNode_pulling [OF Cons.prems(1,2) _ _ h] eq show ?thesis by auto
  next
    case False
    show ?thesis
    proof (cases "node_pending ns")
      case True
      with handleNode_pending [OF Cons.prems(1,2) _ _ h] False
      have "good (op_World s1)" "\<not> fst (TryAcquire (op_Limiter s) (ns_Node ns))" by auto
      moreover with Cons.prems(3) True False have "\<exists>ns \<in> set nss. node_pulling ns" by (auto simp: slot_free_def)
      ultimately have "nss2 \<noteq> nss"
        using Cons.IH [OF tl _ _ _ t] by (auto simp: slot_free_def)
      with eq show ?thesis by simp
    next
      case np: False
      with False h have "s1 = s" by (auto simp: handleNode_def split: if_splits)
      moreover have "slot_free (op_Limiter s) nss" "\<exists>ns \<in> set nss. node_pending ns \<or> node_pulling ns"
        using Cons.prems(3,4) False np by (auto simp: slot_free_def)
      ultimately have "nss2 \<noteq> nss" using Cons.IH [OF tl _ _ _ t] Cons.prems(2) by auto
      with eq show ?thesis by simp
    qed
  qed
qed simp


section \<open>Runs while an object is in progress\<close>

text \<open>
  \<open>attended k p n q\<close>: passes over the object \<open>p\<close> while it is in progress lead to \<open>q\<close>, and \<open>n\<close> of
  them were responsive.
\<close>

inductive attended :: "'w k8s \<Rightarrow> PrePullImage \<Rightarrow> nat \<Rightarrow> PrePullImage \<Rightarrow> bool" for k p where
  unattended: "attended k p 0 p"
| attend: "attended k p n q \<Longrightarrow> ppi_Phase q = PrePullImagePhaseInProgress \<Longrightarrow> progress k q s = (q', c, s') \<Longrightarrow>
    attended k p (if responsive_pass k q s then Suc n else n) q'"

definition unfinished :: "PrePullImage \<Rightarrow> bool" where
  "unfinished p \<longleftrightarrow> (\<exists>ns \<in> set (ppi_Nodes p). node_pending ns \<or> node_pulling ns)"

lemma responsive_pass_changes:
  assumes "responsive_pass k p s" and "unfinished p" and "progress k p s = (p', c, s')"
  shows "ppi_Nodes p' \<noteq> ppi_Nodes p"
  using assms(3)
proof (rule progress_split)
  fix nss s1 s2
  assume "handleNodes k p (ppi_Nodes p) zero_tally s = (nss, c, s1)" "ppi_Nodes p' = nss"
  with assms(1,2) show ?thesis
    unfolding responsive_pass_def unfinished_def using handleNodes_change by blast
qed

lemma unfinished_moves: "unfinished p \<Longrightarrow> 0 < total_moves_left p"
proof -
  assume "unfinished p"
  then obtain ns where "ns \<in> set (ppi_Nodes p)" "0 < moves_left (ppi_MaxAttempts p) ns"
    by (auto simp: unfinished_def moves_left_def)
  then have "0 < moves_left (ppi_MaxAttempts p) ns"
    "moves_left (ppi_MaxAttempts p) ns \<le> total_moves_left p"
    unfolding total_moves_left_def by (auto intro!: member_le_sum_list)
  then show ?thesis by simp
qed

text \<open>A pass leaves the object unfinished and in progress, or ended with a completion time.\<close>

lemma progress_ends:
  assumes "progress k p s = (p', c, s')" and "length (ppi_Nodes p) < 2 ^ 31"
    and "ppi_Phase p = PrePullImagePhaseInProgress"
  shows "if unfinished p' then ppi_Phase p' = PrePullImagePhaseInProgress
    else ppi_Phase p' \<in> {PrePullImagePhaseCompleted, PrePullImagePhaseFailed} \<and>
      st_CompletionTime (ppi_Status p') \<noteq> None"
  using progress_phase_nodes [OF assms(1,2)] assms(3) by (auto simp: unfinished_def)

lemma attended_inv:
  assumes "length (ppi_Nodes p) < 2 ^ 31" and "ppi_Phase p = PrePullImagePhaseInProgress" and "unfinished p"
  shows "attended k p n q \<Longrightarrow> n + total_moves_left q \<le> total_moves_left p \<and>
    length (ppi_Nodes q) = length (ppi_Nodes p) \<and>
    (if unfinished q then ppi_Phase q = PrePullImagePhaseInProgress
     else ppi_Phase q \<in> {PrePullImagePhaseCompleted, PrePullImagePhaseFailed} \<and>
       st_CompletionTime (ppi_Status q) \<noteq> None)"
proof (induction rule: attended.induct)
  case unattended
  with assms show ?case by simp
next
  case (attend n q s q' c s')
  have len: "length (ppi_Nodes q) < 2 ^ 31" using attend.IH assms(1) by simp
  have "unfinished q" using attend.IH attend.hyps(2) by (auto split: if_splits)
  then have "if responsive_pass k q s then total_moves_left q' < total_moves_left q
      else total_moves_left q' \<le> total_moves_left q"
    using progress_moves_left [OF attend.hyps(3)] responsive_pass_changes [OF _ _ attend.hyps(3)]
    by (auto split: if_splits)
  with attend.IH progress_length [OF attend.hyps(3)] progress_ends [OF attend.hyps(3) len attend.hyps(2)]
  show ?case by (simp split: if_splits)
qed

text \<open>
  (C7) Every object finishes. Whatever happens in between, at the latest after
  \<open>n * (2 * MaxAttempts + 2)\<close> responsive passes over an object with \<open>n\<close> nodes it is no longer in
  progress but completed or failed, with a completion time, and no node pending or pulling.
\<close>

theorem object_finishes:
  assumes "attended k p n q" and "ppi_Phase p = PrePullImagePhaseInProgress"
    and "\<exists>ns \<in> set (ppi_Nodes p). node_pending ns \<or> node_pulling ns"
    and "\<forall>ns \<in> set (ppi_Nodes p). node_ok (ppi_MaxAttempts p) ns" and "length (ppi_Nodes p) < 2 ^ 31"
    and "length (ppi_Nodes p) * (2 * nat (sint (ppi_MaxAttempts p)) + 2) \<le> n"
  shows "ppi_Phase q \<in> {PrePullImagePhaseCompleted, PrePullImagePhaseFailed} \<and>
    st_CompletionTime (ppi_Status q) \<noteq> None \<and>
    (\<forall>ns \<in> set (ppi_Nodes q). \<not> node_pending ns \<and> \<not> node_pulling ns)"
proof -
  have "unfinished p" using assms(3) by (simp add: unfinished_def)
  note inv = attended_inv [OF assms(5,2) this assms(1)]
  have "total_moves_left p \<le> n" using total_moves_left_bound [OF assms(4)] assms(6) by simp
  with inv have "\<not> unfinished q" using unfinished_moves [of q] by auto
  with inv show ?thesis by (auto simp: unfinished_def)
qed


text \<open>An object without retries whose job is gone: it starts, and then fails.\<close>

definition hasty_ppi :: PrePullImage where
  "hasty_ppi = one_ppi\<lparr>ppi_Spec := (ppi_Spec one_ppi)
     \<lparr>spec_Retry := \<lparr>retry_MaxAttempts = 0, retry_BackoffSeconds = 0\<rparr>\<rparr>\<rparr>"

lemma mem_start_ok: "\<exists>ns' w'. startPullJob mem_k8s p ns w = ((None, ns'), w')"
  by (cases "mem_job w (OperatorNamespace, GenerateJobName (ppi_Name p) (ns_Node ns))")
    (simp_all add: startPullJob_def CreatePullJob_def mem_create_job_def already_exists_def pull_job_def key_of_def)

lemma object_finishes_witness:
  "\<exists>q. attended mem_k8s hasty_ppi 2 q \<and> ppi_Phase q \<in> {PrePullImagePhaseCompleted, PrePullImagePhaseFailed}"
proof -
  let ?s = "sample_op empty_mem" and ?ns = "sample_node_status ''n1'' NodePullStatusPending"
  have nodes: "ppi_Nodes hasty_ppi = [?ns]" "node_pending ?ns" "ppi_Phase hasty_ppi = PrePullImagePhaseInProgress"
    "ppi_MaxAttempts hasty_ppi = 0" "sint (ns_RetryCount ?ns) = 0"
    by (simp_all add: hasty_ppi_def one_ppi_def sample_defs)
  have free: "fst (TryAcquire (op_Limiter ?s) n)" for n
    by (simp add: sample_op_def new_limiter_first)
  have "responsive mem_k8s hasty_ppi [?ns] (\<lambda>w. True)"
    using nodes(2) mem_start_ok [of hasty_ppi] by (auto simp: responsive_def) (metis fst_conv)
  then have rp: "responsive_pass mem_k8s hasty_ppi ?s"
    unfolding responsive_pass_def nodes(1) using free by (auto simp: slot_free_def)
  obtain p1 c1 s1 where 1: "progress mem_k8s hasty_ppi ?s = (p1, c1, s1)" by (metis prod_cases3)
  have un: "unfinished hasty_ppi" using nodes by (simp add: unfinished_def)
  have "ppi_Nodes p1 \<noteq> [?ns]" using responsive_pass_changes [OF rp un 1] nodes(1) by simp
  with progress_list_moves [OF 1] nodes obtain ns1 where n1: "ppi_Nodes p1 = [ns1]" "node_move 0 ?ns ns1"
    by (auto simp: list_all2_Cons1)
  then have pull: "node_pulling ns1" using nodes(2) by (auto elim!: node_moveE simp: mark_pulling_def)
  have "length (ppi_Nodes hasty_ppi) < 2 ^ 31" by (simp add: nodes(1))
  with progress_ends [OF 1 _ nodes(3)] n1 pull have ph: "ppi_Phase p1 = PrePullImagePhaseInProgress"
    by (simp add: unfinished_def)
  have "attended mem_k8s hasty_ppi 1 p1"
    using attended.attend [OF attended.unattended nodes(3) 1] rp by simp
  moreover have "responsive mem_k8s p1 [ns1] (\<lambda>w. mem_jobs w = [])"
    using pull by (simp add: responsive_def checkJobStatus_def GetJob_def mem_get_def mem_job_def not_found_def)
  then have "responsive_pass mem_k8s p1 ?s"
    unfolding responsive_pass_def n1(1) using pull
    by (intro conjI exI [of _ "\<lambda>w. mem_jobs w = []"]) (auto simp: slot_free_def sample_op_def empty_mem_def)
  moreover obtain q c2 s2 where "progress mem_k8s p1 ?s = (q, c2, s2)" by (metis prod_cases3)
  ultimately have q: "attended mem_k8s hasty_ppi 2 q"
    using attended.attend [OF _ ph, of mem_k8s hasty_ppi 1 ?s q c2 s2] by (simp add: numeral_2_eq_2)
  have "\<forall>ns \<in> set (ppi_Nodes hasty_ppi). node_ok (ppi_MaxAttempts hasty_ppi) ns"
    using nodes by (simp add: node_ok_def)
  with object_finishes [OF q nodes(3)] nodes show ?thesis using q by auto
qed

end
