(* ===== verification/DeepCopier.thy ===== *)
theory DeepCopier
  imports GoMemory
begin

text \<open>
  What a deep copy promises: the locale \<open>deep_copier\<close>, over the locale \<open>reader\<close>, and the lemmas
  by which fields, pointers, slices and maps that are copied one after the other keep it. A
  reader gives the list of the blocks it went through, so that the promise also says that no two
  references of a copy lead to the same block.
\<close>

section \<open>Heaps that grow and heaps that change\<close>

definition grows :: "'c heap \<Rightarrow> 'c heap \<Rightarrow> bool" where
  "grows h h' \<longleftrightarrow> length h \<le> length h' \<and> (\<forall>b < length h. h' ! b = h ! b)"

definition changed_only_in :: "block set \<Rightarrow> 'c heap \<Rightarrow> 'c heap \<Rightarrow> bool" where
  "changed_only_in B h h' \<longleftrightarrow> length h \<le> length h' \<and> (\<forall>b < length h. b \<notin> B \<longrightarrow> h' ! b = h ! b)"

lemma grows_refl [simp]: "grows h h"
  by (simp add: grows_def)

lemma grows_trans [trans]: "grows h h1 \<Longrightarrow> grows h1 h2 \<Longrightarrow> grows h h2"
  by (simp add: grows_def)

lemma grows_length: "grows h h' \<Longrightarrow> length h \<le> length h'"
  by (simp add: grows_def)

lemma grows_append [simp]: "grows h (h @ cs)"
  by (simp add: grows_def nth_append)

lemma grows_update: "grows h h' \<Longrightarrow> length h \<le> b \<Longrightarrow> grows h (h'[b := c])"
  by (simp add: grows_def)

lemma length_store [simp]: "length (store K p v h) = length h"
  by (simp add: store_def split: option.split)

lemma grows_store: "grows h h' \<Longrightarrow> length h \<le> ptr_block p \<Longrightarrow> grows h (store K p v h')"
  by (simp add: store_def grows_update split: option.split)

lemma store_changes: "changed_only_in {ptr_block p} h (store K p v h)"
  by (simp add: store_def changed_only_in_def split: option.split)

lemma changed_trans:
  "changed_only_in B h h1 \<Longrightarrow> changed_only_in B h1 h2 \<Longrightarrow> changed_only_in B h h2"
  by (simp add: changed_only_in_def)

section \<open>Readers\<close>

type_synonym ('c, 'v, 'y) reading = "'c heap \<Rightarrow> 'v \<Rightarrow> (block list \<times> 'y) option"

locale reader =
  fixes rd :: "('c, 'v, 'y) reading"
  assumes bounded: "rd h v = Some (f, y) \<Longrightarrow> set f \<subseteq> {..<length h}"
    and frame: "rd h v = Some (f, y) \<Longrightarrow> (\<And>b. b \<in> set f \<Longrightarrow> b < length h' \<and> h' ! b = h ! b) \<Longrightarrow>
      rd h' v = Some (f, y)"
begin

lemma stable:
  assumes "rd h v = Some (f, y)" and "grows h h'"
  shows "rd h' v = Some (f, y)"
  using bounded [OF assms(1)] assms(2) by (intro frame [OF assms(1)]) (force simp: grows_def)

lemma unaffected:
  assumes "rd h v = Some (f, y)" and "changed_only_in B h h'" and "set f \<inter> B = {}"
  shows "rd h' v = Some (f, y)"
  using bounded [OF assms(1)] assms(2,3) by (intro frame [OF assms(1)]) (force simp: changed_only_in_def)

end

locale deep_copier = reader rd for rd :: "('c, 'v, 'y) reading" +
  fixes cp :: "'v \<Rightarrow> 'c heap \<Rightarrow> 'v \<times> 'c heap"
  assumes copied: "rd h v = Some (f, y) \<Longrightarrow> cp v h = (v', h') \<Longrightarrow>
      grows h h' \<and> (\<exists>g. rd h' v' = Some (g, y) \<and> distinct g \<and> set g \<subseteq> {length h..<length h'})"
begin

text \<open>The copy has the same contents in new blocks, and neither sees later changes of the other.\<close>

lemma independent:
  assumes "rd h v = Some (f, y)" and "cp v h = (v', h')"
  obtains g where "grows h h'" and "rd h' v' = Some (g, y)" and "distinct g" and "set f \<inter> set g = {}"
    and "\<And>h2. changed_only_in (set g) h' h2 \<Longrightarrow> rd h2 v = Some (f, y)"
    and "\<And>h2. changed_only_in (set f) h' h2 \<Longrightarrow> rd h2 v' = Some (g, y)"
proof -
  obtain g where g: "grows h h'" "rd h' v' = Some (g, y)" "distinct g" "set g \<subseteq> {length h..<length h'}"
    using copied [OF assms] by blast
  have d: "set f \<inter> set g = {}"
    using bounded [OF assms(1)] g(4) by force
  show ?thesis
    using that [OF g(1-3) d] unaffected [OF stable [OF assms(1) g(1)]] unaffected [OF g(2)] d by blast
qed

end

section \<open>Structures\<close>

definition both :: "(block list \<times> 'a) option \<Rightarrow> (block list \<times> 'b) option \<Rightarrow> (block list \<times> 'a \<times> 'b) option" where
  "both r q = (case r of None \<Rightarrow> None | Some (f, x) \<Rightarrow>
     (case q of None \<Rightarrow> None | Some (g, y) \<Rightarrow> Some (f @ g, (x, y))))"

lemma both_Some: "both r q = Some (k, z) \<longleftrightarrow>
    (\<exists>f x g y. r = Some (f, x) \<and> q = Some (g, y) \<and> k = f @ g \<and> z = (x, y))"
  by (auto simp: both_def split: option.splits)

definition view_as :: "('y \<Rightarrow> 'z) \<Rightarrow> (block list \<times> 'y) option \<Rightarrow> (block list \<times> 'z) option" where
  "view_as m r = map_option (apsnd m) r"

lemma view_as_Some: "view_as m r = Some (f, z) \<longleftrightarrow> (\<exists>y. r = Some (f, y) \<and> z = m y)"
  by (auto simp: view_as_def)

definition read_plain :: "('c, 'v, 'v) reading" where
  "read_plain h v = Some ([], v)"

lemma deep_copier_plain: "deep_copier read_plain assign"
  by unfold_locales (auto simp: read_plain_def assign_def)

definition read_pair :: "('c, 'v, 'y) reading \<Rightarrow> ('c, 'w, 'z) reading \<Rightarrow> ('c, 'v \<times> 'w, 'y \<times> 'z) reading" where
  "read_pair rd1 rd2 h vw = both (rd1 h (fst vw)) (rd2 h (snd vw))"

definition copy_pair :: "('v \<Rightarrow> 'c heap \<Rightarrow> 'v \<times> 'c heap) \<Rightarrow> ('w \<Rightarrow> 'c heap \<Rightarrow> 'w \<times> 'c heap) \<Rightarrow>
    'v \<times> 'w \<Rightarrow> 'c heap \<Rightarrow> ('v \<times> 'w) \<times> 'c heap" where
  "copy_pair cp1 cp2 vw h = (case cp1 (fst vw) h of (v, h1) \<Rightarrow> (case cp2 (snd vw) h1 of (w, h2) \<Rightarrow> ((v, w), h2)))"

lemma reader_pair:
  assumes "reader rd1" and "reader rd2"
  shows "reader (read_pair rd1 rd2)"
proof (unfold_locales, goal_cases)
  case (1 h v f y)
  then show ?case
    using reader.bounded [OF assms(1)] reader.bounded [OF assms(2)]
    by (fastforce simp: read_pair_def both_Some)
next
  case (2 h v f y h')
  then obtain f1 y1 f2 y2 where s: "rd1 h (fst v) = Some (f1, y1)" "rd2 h (snd v) = Some (f2, y2)"
    "f = f1 @ f2" "y = (y1, y2)"
    by (auto simp: read_pair_def both_Some)
  have "rd1 h' (fst v) = Some (f1, y1)" "rd2 h' (snd v) = Some (f2, y2)"
    using 2(2) s(3) reader.frame [OF assms(1) s(1)] reader.frame [OF assms(2) s(2)] by auto
  then show ?case by (simp add: read_pair_def both_Some s)
qed

lemma deep_copier_pair:
  assumes "deep_copier rd1 cp1" and "deep_copier rd2 cp2"
  shows "deep_copier (read_pair rd1 rd2) (copy_pair cp1 cp2)"
proof -
  have r: "reader rd1" "reader rd2"
    using assms deep_copier.axioms(1) by blast+
  show ?thesis
  proof (intro deep_copier.intro deep_copier_axioms.intro reader_pair r, goal_cases)
    case (1 h v f y v' h')
    obtain f1 y1 f2 y2 where s: "rd1 h (fst v) = Some (f1, y1)" "rd2 h (snd v) = Some (f2, y2)"
      "y = (y1, y2)"
      using 1(1) by (auto simp: read_pair_def both_Some)
    obtain w1 h1 w2 where c: "cp1 (fst v) h = (w1, h1)" "cp2 (snd v) h1 = (w2, h')" "v' = (w1, w2)"
      using 1(2) by (auto simp: copy_pair_def split: prod.splits)
    obtain g1 where g1: "grows h h1" "rd1 h1 w1 = Some (g1, y1)" "distinct g1" "set g1 \<subseteq> {length h..<length h1}"
      using deep_copier.copied [OF assms(1) s(1) c(1)] by blast
    obtain g2 where g2: "grows h1 h'" "rd2 h' w2 = Some (g2, y2)" "distinct g2" "set g2 \<subseteq> {length h1..<length h'}"
      using deep_copier.copied [OF assms(2) reader.stable [OF r(2) s(2) g1(1)] c(2)] by blast
    have "rd1 h' w1 = Some (g1, y1)"
      by (rule reader.stable [OF r(1) g1(2) g2(1)])
    then have "read_pair rd1 rd2 h' v' = Some (g1 @ g2, y)"
      using g2(2) by (simp add: read_pair_def both_Some c(3) s(3))
    moreover have "distinct (g1 @ g2)" "set (g1 @ g2) \<subseteq> {length h..<length h'}"
      using g1(3,4) g2(3,4) grows_length [OF g1(1)] grows_length [OF g2(1)] by (auto, force+)
    ultimately show ?case
      using grows_trans [OF g1(1) g2(1)] by blast
  qed
qed

text \<open>
  A structure: \<open>flds\<close> are its references and the structures it embeds, in the order in which
  they are copied, and \<open>put\<close> writes them; the rest is copied by \<open>*out = *in\<close>.
\<close>

lemma deep_copier_struct:
  assumes "deep_copier rd cp"
    and read: "\<And>h v. rds h v = view_as (mk v) (rd h (flds v))"
    and copy: "\<And>h v. cps v h = (case cp (flds v) h of (t, h') \<Rightarrow> (put v t, h'))"
    and flds: "\<And>v t. flds (put v t) = t"
    and rest: "\<And>v t. mk (put v t) = mk v"
  shows "deep_copier rds cps"
proof -
  have r: "reader rd"
    using assms(1) deep_copier.axioms(1) by blast
  show ?thesis
  proof (unfold_locales, goal_cases)
    case (1 h v f y)
    then show ?case by (auto simp: read view_as_Some dest!: reader.bounded [OF r])
  next
    case (2 h v f y h')
    then obtain y0 where s: "rd h (flds v) = Some (f, y0)" "y = mk v y0"
      by (auto simp: read view_as_Some)
    show ?case
      using reader.frame [OF r s(1) 2(2)] by (simp add: read view_as_Some s(2))
  next
    case (3 h v f y v' h')
    then show ?case using deep_copier.copied [OF assms(1)]
      by (fastforce simp: read copy view_as_Some flds rest split: prod.splits)
  qed
qed

section \<open>Fields that may be nil\<close>

definition read_opt :: "('c, 'r, 'y) reading \<Rightarrow> ('c, 'r option, 'y option) reading" where
  "read_opt rd h r = (case r of None \<Rightarrow> Some ([], None) | Some p \<Rightarrow> view_as Some (rd h p))"

lemma deep_copier_opt:
  assumes "deep_copier rd cp"
  shows "deep_copier (read_opt rd) (if_not_nil cp)"
proof -
  have r: "reader rd"
    using assms(1) deep_copier.axioms(1) by blast
  show ?thesis
  proof (unfold_locales, goal_cases)
    case (1 h v f y)
    then show ?case by (auto simp: read_opt_def view_as_Some dest!: reader.bounded [OF r] split: option.splits)
  next
    case (2 h v f y h')
    show ?case
    proof (cases v)
      case None
      with 2(1) show ?thesis by (simp add: read_opt_def)
    next
      case (Some p)
      with 2(1) obtain y0 where s: "rd h p = Some (f, y0)" "y = Some y0"
        by (auto simp: read_opt_def view_as_Some)
      show ?thesis
        using reader.frame [OF r s(1) 2(2)] by (simp add: read_opt_def view_as_Some s(2) Some)
    qed
  next
    case (3 h v f y v' h')
    then show ?case using deep_copier.copied [OF assms(1)]
      by (fastforce simp: read_opt_def if_not_nil_def view_as_Some split: option.splits prod.splits)
  qed
qed

section \<open>Lists of values\<close>

primrec read_list :: "('c, 'v, 'y) reading \<Rightarrow> ('c, 'v list, 'y list) reading" where
  "read_list rd h [] = Some ([], [])"
| "read_list rd h (v # vs) = view_as (\<lambda>(x, xs). x # xs) (both (rd h v) (read_list rd h vs))"

lemma read_list_Cons_Some: "read_list rd h (v # vs) = Some (k, zs) \<longleftrightarrow>
    (\<exists>f x g ys. rd h v = Some (f, x) \<and> read_list rd h vs = Some (g, ys) \<and> k = f @ g \<and> zs = x # ys)"
  by (auto simp: view_as_Some both_Some)

declare read_list.simps(2) [simp del]

lemma read_list_snoc:
  "read_list rd h vs = Some (f, ys) \<Longrightarrow> rd h v = Some (g, y) \<Longrightarrow>
    read_list rd h (vs @ [v]) = Some (f @ g, ys @ [y])"
  by (induction vs arbitrary: f ys) (fastforce simp: read_list_Cons_Some)+

lemma read_list_nth:
  "read_list rd h vs = Some (f, ys) \<Longrightarrow>
    length ys = length vs \<and> (\<forall>i < length vs. \<exists>g. rd h (vs ! i) = Some (g, ys ! i))"
proof (induction vs arbitrary: f ys)
  case (Cons v vs)
  then obtain g x k zs where s: "rd h v = Some (g, x)" "read_list rd h vs = Some (k, zs)" "ys = x # zs"
    by (auto simp: read_list_Cons_Some)
  with Cons.IH [OF s(2)] show ?case by (auto simp: less_Suc_eq_0_disj)
qed simp

lemma reader_list:
  assumes "reader rd"
  shows "reader (read_list rd)"
proof (unfold_locales, goal_cases)
  case (1 h vs f ys)
  then show ?case
  proof (induction vs arbitrary: f ys)
    case (Cons v vs)
    then show ?case using reader.bounded [OF assms, of h v]
      by (auto simp: read_list_Cons_Some simp del: lessThan_iff)
  qed simp
next
  case (2 h vs f ys h')
  then show ?case
  proof (induction vs arbitrary: f ys)
    case (Cons v vs)
    then obtain g x k zs where s: "rd h v = Some (g, x)" "read_list rd h vs = Some (k, zs)" "ys = x # zs" "f = g @ k"
      by (auto simp: read_list_Cons_Some)
    have "rd h' v = Some (g, x)" "read_list rd h' vs = Some (k, zs)"
      using reader.frame [OF assms s(1)] Cons.IH [OF s(2)] Cons.prems(2) s(4) by auto
    then show ?case by (simp add: read_list_Cons_Some s)
  qed simp
qed

section \<open>Pointers\<close>

definition in_block :: "block \<Rightarrow> (block list \<times> 'y) option \<Rightarrow> (block list \<times> 'y) option" where
  "in_block b r = map_option (apfst ((#) b)) r"

lemma in_block_Some: "in_block b r = Some (f, y) \<longleftrightarrow> (\<exists>g. r = Some (g, y) \<and> f = b # g)"
  by (auto simp: in_block_def)

definition read_ptr :: "('c, 'v) kind \<Rightarrow> ('c, 'v, 'y) reading \<Rightarrow> ('c, pointer, 'y) reading" where
  "read_ptr K rd h p = (case load_opt K h p of None \<Rightarrow> None | Some v \<Rightarrow> in_block (ptr_block p) (rd h v))"

lemma read_ptr_Some: "read_ptr K rd h p = Some (f, y) \<longleftrightarrow>
    (\<exists>v g. load_opt K h p = Some v \<and> rd h v = Some (g, y) \<and> f = ptr_block p # g)"
  by (auto simp: read_ptr_def in_block_Some split: option.splits)

lemma array_at_length: "array_at K h b = Some xs \<Longrightarrow> b < length h"
  by (simp add: array_at_def split: if_splits)

lemma array_at_frame: "array_at K h b = Some xs \<Longrightarrow> b < length h' \<Longrightarrow> h' ! b = h ! b \<Longrightarrow> array_at K h' b = Some xs"
  by (simp add: array_at_def split: if_splits)

lemma array_at_grows: "array_at K h b = Some xs \<Longrightarrow> grows h h' \<Longrightarrow> array_at K h' b = Some xs"
  by (auto simp: array_at_def grows_def split: if_splits)

lemma load_opt_array: "load_opt K h p = Some v \<longleftrightarrow>
    (\<exists>xs. array_at K h (ptr_block p) = Some xs \<and> ptr_index p < length xs \<and> v = xs ! ptr_index p)"
  by (auto simp: load_opt_def split: option.splits if_splits)

lemma load_opt_grows: "load_opt K h p = Some v \<Longrightarrow> grows h h' \<Longrightarrow> load_opt K h' p = Some v"
  by (auto simp: load_opt_array dest: array_at_grows)

lemma load_eq: "load_opt K h p = Some v \<Longrightarrow> load K h p = v"
  by (simp add: load_def)

lemma array_at_store_other: "b \<noteq> ptr_block p \<Longrightarrow> array_at K' (store K p v h) b = array_at K' h b"
  by (simp add: store_def array_at_def split: option.split)

lemma array_at_store:
  "kind_ok K \<Longrightarrow> array_at K h (ptr_block p) = Some xs \<Longrightarrow>
    array_at K (store K p v h) (ptr_block p) = Some (xs[ptr_index p := v])"
  by (simp add: store_def array_at_def kind_ok_def split: if_splits)

lemma reader_ptr:
  assumes "reader rd"
  shows "reader (read_ptr K rd)"
proof (unfold_locales, goal_cases)
  case (1 h p f y)
  then show ?case using reader.bounded [OF assms, of h]
    by (fastforce simp: read_ptr_Some load_opt_array dest: array_at_length)
next
  case (2 h p f y h')
  then obtain v g where s: "load_opt K h p = Some v" "rd h v = Some (g, y)" "f = ptr_block p # g"
    by (auto simp: read_ptr_Some)
  have "load_opt K h' p = Some v"
    using s 2(2) [of "ptr_block p"] by (auto simp: load_opt_array dest: array_at_frame)
  moreover have "rd h' v = Some (g, y)"
    using reader.frame [OF assms s(2)] 2(2) s(3) by simp
  ultimately show ?case by (simp add: read_ptr_Some s(3))
qed

lemma go_new_eq: "go_new K h = (\<lparr>ptr_block = length h, ptr_index = 0\<rparr>, h @ [k_put K [k_zero K]])"
  by (simp add: go_new_def alloc_def)

lemma deep_copier_new:
  assumes "deep_copier rd cp" and "kind_ok K"
  shows "deep_copier (read_ptr K rd) (copy_new K cp)"
proof -
  have r: "reader rd"
    using assms(1) deep_copier.axioms(1) by blast
  show ?thesis
  proof (intro deep_copier.intro deep_copier_axioms.intro reader_ptr r, goal_cases)
    case (1 h p f y p' h')
    obtain v f1 where s: "load_opt K h p = Some v" "rd h v = Some (f1, y)"
      using 1(1) by (auto simp: read_ptr_Some)
    define h1 where "h1 = h @ [k_put K [k_zero K]]"
    have g1: "grows h h1" by (simp add: h1_def)
    obtain w h2 where c: "cp v h1 = (w, h2)" by (metis surj_pair)
    have e: "p' = \<lparr>ptr_block = length h, ptr_index = 0\<rparr>" "h' = store K p' w h2"
      using 1(2) c load_eq [OF load_opt_grows [OF s(1) g1]]
      by (auto simp: copy_new_def go_new_eq h1_def [symmetric])
    obtain g where g: "grows h1 h2" "rd h2 w = Some (g, y)" "distinct g" "set g \<subseteq> {length h1..<length h2}"
      using deep_copier.copied [OF assms(1) reader.stable [OF r s(2) g1] c] by blast
    have l: "length h1 = Suc (length h)" by (simp add: h1_def)
    have "array_at K h1 (length h) = Some [k_zero K]"
      using assms(2) by (simp add: array_at_def h1_def kind_ok_def)
    from array_at_grows [OF this g(1)] have "array_at K h2 (ptr_block p') = Some [k_zero K]"
      by (simp add: e(1))
    from array_at_store [OF assms(2) this, of w] have "load_opt K h' p' = Some w"
      by (simp add: load_opt_array e)
    moreover have "rd h' w = Some (g, y)"
      unfolding e(2) using g(4) l
      by (intro reader.unaffected [OF r g(2) store_changes]) (force simp: e(1))
    ultimately have "read_ptr K rd h' p' = Some (length h # g, y)"
      by (simp add: read_ptr_Some e(1))
    moreover have "distinct (length h # g)" "set (length h # g) \<subseteq> {length h..<length h'}"
      using g(3,4) l grows_length [OF g(1)] by (auto simp: e(2))
    moreover have "grows h h'"
      unfolding e(2) by (rule grows_store [OF grows_trans [OF g1 g(1)]]) (simp add: e(1))
    ultimately show ?case by blast
  qed
qed


section \<open>Maps\<close>

text \<open>The order in which Go ranges over a map is unspecified; it lists every key.\<close>

definition lists_keys :: "(('k \<rightharpoonup> 'v) \<Rightarrow> 'k list) \<Rightarrow> bool" where
  "lists_keys order \<longleftrightarrow> (\<forall>m. finite (dom m) \<longrightarrow> set (order m) = dom m)"

definition read_finite :: "('c, 'k \<rightharpoonup> 'v, 'k \<rightharpoonup> 'v) reading" where
  "read_finite h m = (if finite (dom m) then Some ([], m) else None)"

definition read_map :: "('c, 'k \<rightharpoonup> 'v) kind \<Rightarrow> ('c, pointer, 'k \<rightharpoonup> 'v) reading" where
  "read_map K = read_ptr K read_finite"

definition map_kind_ok :: "('c, 'k \<rightharpoonup> 'v) kind \<Rightarrow> bool" where
  "map_kind_ok K \<longleftrightarrow> kind_ok K \<and> k_zero K = Map.empty"

lemma reader_finite: "reader read_finite"
  by unfold_locales (auto simp: read_finite_def split: if_splits)

lemma copy_entries_eq:
  assumes "kind_ok K" and "load_opt K h src = Some m" and "array_at K h b = Some [m0]" and "ptr_block src \<noteq> b"
  shows "array_at K (copy_entries K src \<lparr>ptr_block = b, ptr_index = 0\<rparr> keys h) b =
      Some [\<lambda>k. if k \<in> set keys then m k else m0 k] \<and>
    length (copy_entries K src \<lparr>ptr_block = b, ptr_index = 0\<rparr> keys h) = length h \<and>
    changed_only_in {b} h (copy_entries K src \<lparr>ptr_block = b, ptr_index = 0\<rparr> keys h)"
  using assms(2,3)
proof (induction keys arbitrary: h m0)
  case Nil
  then show ?case by (simp add: changed_only_in_def)
next
  case (Cons key keys)
  let ?p = "\<lparr>ptr_block = b, ptr_index = 0\<rparr>"
  have l: "load K h ?p = m0" "load K h src = m"
    using Cons.prems by (simp_all add: load_eq load_opt_array)
  define h1 where "h1 = store K ?p (m0(key := m key)) h"
  have a: "array_at K h1 b = Some [m0(key := m key)]"
    using array_at_store [OF assms(1), of h ?p "[m0]" "m0(key := m key)"] Cons.prems(2) by (simp add: h1_def)
  have s: "load_opt K h1 src = Some m"
    using Cons.prems(1) assms(4) by (auto simp: load_opt_array h1_def array_at_store_other)
  have c: "changed_only_in {b} h h1"
    using store_changes [of ?p h K] by (simp add: h1_def)
  have e: "copy_entries K src ?p (key # keys) h = copy_entries K src ?p keys h1"
    by (simp add: l h1_def Let_def)
  have m: "(\<lambda>k. if k \<in> set keys then m k else (m0(key := m key)) k) = (\<lambda>k. if k \<in> set (key # keys) then m k else m0 k)"
    by auto
  show ?case
    using Cons.IH [OF s a] changed_trans [OF c] unfolding e m by (simp add: h1_def)
qed

lemma deep_copier_map:
  assumes "map_kind_ok K" and "lists_keys order"
  shows "deep_copier (read_map K) (copy_map K order)"
  unfolding read_map_def
proof (intro deep_copier.intro deep_copier_axioms.intro reader_ptr reader_finite, goal_cases)
  case (1 h p f y p' h')
  from 1(1) have s: "load_opt K h p = Some y" "finite (dom y)"
    by (auto simp: read_ptr_Some read_finite_def split: if_splits)
  define h1 where "h1 = h @ [k_put K [Map.empty]]"
  let ?b = "length h"
  let ?p = "\<lparr>ptr_block = ?b, ptr_index = 0\<rparr>"
  have k: "kind_ok K" "k_zero K = Map.empty"
    using assms(1) by (simp_all add: map_kind_ok_def)
  have g1: "grows h h1" by (simp add: h1_def)
  have s1: "load_opt K h1 p = Some y" by (rule load_opt_grows [OF s(1) g1])
  have e: "p' = ?p" "h' = copy_entries K p ?p (order y) h1"
    using 1(2) load_eq [OF s1] k(2) by (auto simp: copy_map_def go_new_eq h1_def [symmetric])
  have a: "array_at K h1 ?b = Some [Map.empty]"
    using k(1) by (simp add: array_at_def h1_def kind_ok_def)
  have ne: "ptr_block p \<noteq> ?b"
    using s(1) by (auto simp: load_opt_array dest: array_at_length)
  have o: "set (order y) = dom y"
    using assms(2) s(2) by (simp add: lists_keys_def)
  have "(\<lambda>k. if k \<in> dom y then y k else Map.empty k) = y"
    by (rule ext) (simp add: domIff)
  with copy_entries_eq [OF k(1) s1 a ne, of "order y"] o
  have c: "array_at K h' ?b = Some [y]" "length h' = length h1" "changed_only_in {?b} h1 h'"
    by (simp_all add: e(2))
  have "read_ptr K read_finite h' p' = Some ([?b], y)"
    using c(1) s(2) by (simp add: read_ptr_Some load_opt_array e(1) read_finite_def)
  moreover have "grows h h'"
    using g1 c(3) by (auto simp: grows_def changed_only_in_def)
  ultimately show ?case
    using c(2) by (auto simp: h1_def)
qed

section \<open>Slices\<close>

definition read_slice :: "('c, 'v) kind \<Rightarrow> ('c, 'v, 'y) reading \<Rightarrow> ('c, gslice, 'y list) reading" where
  "read_slice K rd h s = (case array_at K h (sl_block s) of
      None \<Rightarrow> None
    | Some xs \<Rightarrow> if sl_first s + sl_len s \<le> length xs
        then in_block (sl_block s) (read_list rd h (take (sl_len s) (drop (sl_first s) xs))) else None)"

lemma read_slice_Some: "read_slice K rd h s = Some (f, ys) \<longleftrightarrow>
    (\<exists>xs g. array_at K h (sl_block s) = Some xs \<and> sl_first s + sl_len s \<le> length xs \<and>
       read_list rd h (take (sl_len s) (drop (sl_first s) xs)) = Some (g, ys) \<and> f = sl_block s # g)"
  by (auto simp: read_slice_def in_block_Some split: option.splits)

lemma reader_slice:
  assumes "reader rd"
  shows "reader (read_slice K rd)"
proof (unfold_locales, goal_cases)
  case (1 h s f y)
  then show ?case using reader.bounded [OF reader_list [OF assms], of h]
    by (fastforce simp: read_slice_Some dest: array_at_length)
next
  case (2 h s f y h')
  then obtain xs g where s: "array_at K h (sl_block s) = Some xs" "sl_first s + sl_len s \<le> length xs"
    "read_list rd h (take (sl_len s) (drop (sl_first s) xs)) = Some (g, y)" "f = sl_block s # g"
    by (auto simp: read_slice_Some)
  have "array_at K h' (sl_block s) = Some xs"
    using array_at_frame [OF s(1)] 2(2) [of "sl_block s"] s(4) by simp
  moreover have "read_list rd h' (take (sl_len s) (drop (sl_first s) xs)) = Some (g, y)"
    using reader.frame [OF reader_list [OF assms] s(3)] 2(2) s(4) by simp
  ultimately show ?case using s(2,4) by (simp add: read_slice_Some)
qed

text \<open>
  The loop over the elements: before round \<open>i\<close> the new array holds copies of the first \<open>i\<close>
  elements, followed by zero values.
\<close>

lemma copy_elements_copied:
  assumes dc: "deep_copier rd cp" and K: "kind_ok K"
    and src: "array_at K h0 (sl_block src) = Some xs" "sl_first src + n \<le> length xs"
    and rd: "\<And>i. i < n \<Longrightarrow> \<exists>f. rd h0 (xs ! (sl_first src + i)) = Some (f, ys ! i)" "length ys = n"
    and dst: "dst = \<lparr>sl_block = length h0, sl_first = 0, sl_len = n\<rparr>"
  shows "i \<le> n \<Longrightarrow> grows h0 h \<Longrightarrow> array_at K h (length h0) = Some (ws @ replicate (n - i) (k_zero K)) \<Longrightarrow>
    length ws = i \<Longrightarrow> read_list rd h ws = Some (g, take i ys) \<Longrightarrow> distinct g \<Longrightarrow>
    set g \<subseteq> {Suc (length h0)..<length h} \<Longrightarrow> h' = copy_elements K cp src dst [i..<n] h \<Longrightarrow>
    grows h0 h' \<and> (\<exists>ws g. array_at K h' (length h0) = Some ws \<and> length ws = n \<and>
      read_list rd h' ws = Some (g, ys) \<and> distinct g \<and> set g \<subseteq> {Suc (length h0)..<length h'})"
proof (induction "n - i" arbitrary: i h ws g)
  case 0
  then have "i = n" by simp
  with 0 rd(2) show ?case by auto
next
  case (Suc m)
  have r: "reader rd" and rl: "reader (read_list rd)"
    using dc deep_copier.axioms(1) reader_list by blast+
  have i: "i < n" using Suc(2) by simp
  let ?x = "xs ! (sl_first src + i)"
  have x: "load K h (slice_ptr src i) = ?x"
    using load_eq [of K h "slice_ptr src i" ?x] array_at_grows [OF src(1) Suc(4)] src(2) i
    by (simp add: load_opt_array slice_ptr_def)
  obtain f where f: "rd h ?x = Some (f, ys ! i)"
    using rd(1) [OF i] reader.stable [OF r _ Suc(4)] by blast
  obtain w h1 where c: "cp ?x h = (w, h1)" by (metis surj_pair)
  obtain g1 where g1: "grows h h1" "rd h1 w = Some (g1, ys ! i)" "distinct g1" "set g1 \<subseteq> {length h..<length h1}"
    using deep_copier.copied [OF dc f c] by blast
  define h2 where "h2 = store K (slice_ptr dst i) w h1"
  have p: "ptr_block (slice_ptr dst i) = length h0" "ptr_index (slice_ptr dst i) = i"
    by (simp_all add: slice_ptr_def dst)
  have lh: "length h0 < length h"
    using array_at_length [OF Suc(5)] .
  have ch: "changed_only_in {length h0} h1 h2"
    using store_changes [of "slice_ptr dst i" h1 K w] by (simp add: h2_def p)
  have "read_list rd h1 ws = Some (g, take i ys)"
    by (rule reader.stable [OF rl Suc(7) g1(1)])
  from read_list_snoc [OF this g1(2)]
  have "read_list rd h1 (ws @ [w]) = Some (g @ g1, take (Suc i) ys)"
    using i rd(2) by (simp add: take_Suc_conv_app_nth)
  moreover have "length h0 \<notin> set (g @ g1)"
    using Suc(9) g1(4) lh by force
  ultimately have ws: "read_list rd h2 (ws @ [w]) = Some (g @ g1, take (Suc i) ys)"
    using reader.unaffected [OF rl _ ch] by simp
  have "replicate (n - i) (k_zero K) = k_zero K # replicate (n - Suc i) (k_zero K)"
    using i by (metis Suc_diff_Suc replicate_Suc)
  with array_at_grows [OF Suc(5) g1(1)]
  have "array_at K h1 (length h0) = Some (ws @ k_zero K # replicate (n - Suc i) (k_zero K))" by simp
  with array_at_store [OF K, of h1 "slice_ptr dst i" _ w] Suc(6) p
  have a: "array_at K h2 (length h0) = Some ((ws @ [w]) @ replicate (n - Suc i) (k_zero K))"
    by (simp add: h2_def list_update_append)
  have l2: "length h2 = length h1" by (simp add: h2_def)
  have gr: "grows h0 h2"
    unfolding h2_def by (rule grows_store [OF grows_trans [OF Suc(4) g1(1)]]) (simp add: p)
  have d: "distinct (g @ g1)"
    using Suc(8,9) g1(3,4) by force
  have sub: "set (g @ g1) \<subseteq> {Suc (length h0)..<length h2}"
    using Suc(9) g1(4) lh grows_length [OF g1(1)] l2 by force
  have e: "h' = copy_elements K cp src dst [Suc i..<n] h2"
    using Suc(10) i by (simp add: upt_conv_Cons x c h2_def)
  show ?case
    using Suc(1) [of "Suc i" h2 "ws @ [w]" "g @ g1"] Suc(2,6) i gr a ws d sub e by simp
qed

lemma deep_copier_slice_deep:
  assumes "deep_copier rd cp" and "kind_ok K"
  shows "deep_copier (read_slice K rd) (copy_slice_deep K cp)"
proof -
  have r: "reader rd"
    using assms(1) deep_copier.axioms(1) by blast
  show ?thesis
  proof (intro deep_copier.intro deep_copier_axioms.intro reader_slice r, goal_cases)
    case (1 h s f ys s' h')
    obtain xs f1 where s: "array_at K h (sl_block s) = Some xs" "sl_first s + sl_len s \<le> length xs"
      "read_list rd h (take (sl_len s) (drop (sl_first s) xs)) = Some (f1, ys)"
      using 1(1) by (auto simp: read_slice_Some)
    let ?n = "sl_len s"
    define h1 where "h1 = h @ [k_put K (replicate ?n (k_zero K))]"
    have e: "s' = \<lparr>sl_block = length h, sl_first = 0, sl_len = ?n\<rparr>" "h' = copy_elements K cp s s' [0..<?n] h1"
      using 1(2) by (auto simp: copy_slice_deep_def make_slice_def alloc_def h1_def)
    have rd: "length ys = ?n" "\<And>i. i < ?n \<Longrightarrow> \<exists>f. rd h (xs ! (sl_first s + i)) = Some (f, ys ! i)"
      using read_list_nth [OF s(3)] s(2) by simp_all
    have a: "array_at K h1 (length h) = Some ([] @ replicate (?n - 0) (k_zero K))"
      using assms(2) by (simp add: array_at_def h1_def kind_ok_def)
    have g: "grows h h1" by (simp add: h1_def)
    obtain ws g where w: "grows h h'" "array_at K h' (length h) = Some ws" "length ws = ?n"
      "read_list rd h' ws = Some (g, ys)" "distinct g" "set g \<subseteq> {Suc (length h)..<length h'}"
      using copy_elements_copied [OF assms s(1,2) rd(2,1) e(1), of 0 h1 "[]" "[]" h'] a g e(2) by auto
    have "read_slice K rd h' s' = Some (length h # g, ys)"
      using w(2,3,4) by (simp add: read_slice_Some e(1))
    moreover have "distinct (length h # g)" "set (length h # g) \<subseteq> {length h..<length h'}"
      using w(5,6) array_at_length [OF w(2)] by force+
    ultimately show ?case
      using w(1) by blast
  qed
qed

lemma deep_copier_slice: "kind_ok K \<Longrightarrow> deep_copier (read_slice K read_plain) (copy_slice K)"
  unfolding copy_slice_def by (rule deep_copier_slice_deep [OF deep_copier_plain])

end
