(* ===== verification/DeepCopy.thy ===== *)
theory DeepCopy
  imports DeepCopier ApiTypes
begin

text \<open>
  The generated deep copies of \<open>api/v1alpha1/zz_generated.deepcopy.go\<close>, statement by statement
  over the memory of \<open>GoMemory\<close>. A structure of \<open>api/v1alpha1\<close> that holds references is a record
  whose reference fields have type parameters: in memory they are pointers and slices, in what a
  reader sees the contents. \<open>RetryPolicy\<close>, \<open>PullSummary\<close> and \<open>LocalObjectReference\<close> hold no
  references and are the records of \<open>ApiTypes\<close>.

  The structures of apimachinery and core/v1 that are embedded (\<open>ObjectMeta\<close>, \<open>ListMeta\<close>,
  \<open>ResourceRequirements\<close>, \<open>LabelSelector\<close>, \<open>Condition\<close>) are values of a type parameter, and their
  copying methods, like that of \<open>metav1.Time\<close>, are fields of the record \<open>machinery\<close>.
\<close>

section \<open>The structures\<close>

record TypeMeta =
  tm_Kind :: string
  tm_APIVersion :: string

record ('refs) ImagePullSecretsConfig_of =
  ipsc_Inherit :: bool
  ipsc_Additional :: 'refs

record ('map) NodeSelector_of =
  nsl_MatchLabels :: 'map

record ('map, 'strs) PolicySelector_of =
  psl_MatchLabels :: 'map
  psl_Namespaces :: 'strs

record ('sel, 'strs) NodeTargetSelector_of =
  ntsl_Selector :: 'sel
  ntsl_Names :: 'strs

record ('time) NodeStatus_of =
  nst_Node :: string
  nst_Status :: NodePullStatus
  nst_StartedAt :: 'time
  nst_CompletedAt :: 'time
  nst_Duration :: string
  nst_Error :: string
  nst_RetryCount :: int32
  nst_JobName :: string

record ('nodes, 'refs, 'res) PrePullImageSpec_of =
  pis_Image :: string
  pis_ImageDigest :: string
  pis_Nodes :: 'nodes
  pis_ImagePullSecrets :: 'refs
  pis_Resources :: 'res
  pis_Retry :: RetryPolicy
  pis_Timeout :: string

record ('nss, 'conds, 'time) PrePullImageStatus_of =
  pist_Phase :: PrePullImagePhase
  pist_NodeStatus :: 'nss
  pist_Summary :: PullSummary
  pist_Conditions :: 'conds
  pist_StartTime :: 'time
  pist_CompletionTime :: 'time

record ('om, 'spec, 'st) PrePullImage_of =
  pi_TypeMeta :: TypeMeta
  pi_ObjectMeta :: 'om
  pi_Spec :: 'spec
  pi_Status :: 'st

record ('lm, 'items) PrePullImageList_of =
  pil_TypeMeta :: TypeMeta
  pil_ListMeta :: 'lm
  pil_Items :: 'items

record ('psel, 'nsel, 'res, 'ips) PrePullPolicySpec_of =
  pps_Selector :: 'psel
  pps_NodeSelector :: 'nsel
  pps_Resources :: 'res
  pps_Retry :: RetryPolicy
  pps_Timeout :: string
  pps_ImagePullSecrets :: 'ips

record ('conds, 'time) PrePullPolicyStatus_of =
  ppst_WatchedDeployments :: int32
  ppst_LastUpdated :: 'time
  ppst_Conditions :: 'conds

record ('om, 'spec, 'st) PrePullPolicy_of =
  pp_TypeMeta :: TypeMeta
  pp_ObjectMeta :: 'om
  pp_Spec :: 'spec
  pp_Status :: 'st

record ('lm, 'items) PrePullPolicyList_of =
  ppl_TypeMeta :: TypeMeta
  ppl_ListMeta :: 'lm
  ppl_Items :: 'items

text \<open>The structures in memory, and what a reader sees.\<close>

type_synonym m_Secrets = "gslice option ImagePullSecretsConfig_of"
type_synonym m_NodeSelector = "pointer option NodeSelector_of"
type_synonym m_PolicySelector = "(pointer option, gslice option) PolicySelector_of"
type_synonym m_Targets = "(pointer option, gslice option) NodeTargetSelector_of"
type_synonym m_NodeStatus = "pointer option NodeStatus_of"
type_synonym 'x m_ImageSpec = "(m_Targets, gslice option, 'x) PrePullImageSpec_of"
type_synonym m_ImageStatus = "(gslice option, gslice option, pointer option) PrePullImageStatus_of"
type_synonym 'x m_Image = "('x, 'x m_ImageSpec, m_ImageStatus) PrePullImage_of"
type_synonym 'x m_ImageList = "('x, gslice option) PrePullImageList_of"
type_synonym 'x m_PolicySpec = "(m_PolicySelector, m_NodeSelector, 'x, m_Secrets) PrePullPolicySpec_of"
type_synonym m_PolicyStatus = "(gslice option, pointer option) PrePullPolicyStatus_of"
type_synonym 'x m_Policy = "('x, 'x m_PolicySpec, m_PolicyStatus) PrePullPolicy_of"
type_synonym 'x m_PolicyList = "('x, gslice option) PrePullPolicyList_of"

type_synonym v_Secrets = "LocalObjectReference list option ImagePullSecretsConfig_of"
type_synonym v_NodeSelector = "(string \<rightharpoonup> string) option NodeSelector_of"
type_synonym v_PolicySelector = "((string \<rightharpoonup> string) option, string list option) PolicySelector_of"
type_synonym 'y v_Targets = "('y option, string list option) NodeTargetSelector_of"
type_synonym 'y v_NodeStatus = "'y option NodeStatus_of"
type_synonym 'y v_ImageSpec = "('y v_Targets, LocalObjectReference list option, 'y) PrePullImageSpec_of"
type_synonym 'y v_ImageStatus = "('y v_NodeStatus list option, 'y list option, 'y option) PrePullImageStatus_of"
type_synonym 'y v_Image = "('y, 'y v_ImageSpec, 'y v_ImageStatus) PrePullImage_of"
type_synonym 'y v_ImageList = "('y, 'y v_Image list option) PrePullImageList_of"
type_synonym 'y v_PolicySpec = "(v_PolicySelector, v_NodeSelector, 'y, v_Secrets) PrePullPolicySpec_of"
type_synonym 'y v_PolicyStatus = "('y list option, 'y option) PrePullPolicyStatus_of"
type_synonym 'y v_Policy = "('y, 'y v_PolicySpec, 'y v_PolicyStatus) PrePullPolicy_of"
type_synonym 'y v_PolicyList = "('y, 'y v_Policy list option) PrePullPolicyList_of"

section \<open>What a block holds\<close>

datatype 'x cell =
    Strings "string list"
  | LocalRefs "LocalObjectReference list"
  | Maps "(string \<rightharpoonup> string) list"
  | Foreigns "('x) list"
  | Secrets_bl "m_Secrets list"
  | NodeSelectors "m_NodeSelector list"
  | PolicySelectors "m_PolicySelector list"
  | Targets_bl "m_Targets list"
  | NodeStatuses "m_NodeStatus list"
  | Summaries "PullSummary list"
  | Retries "RetryPolicy list"
  | ImageSpecs "('x m_ImageSpec) list"
  | ImageStatuses "m_ImageStatus list"
  | Images_bl "('x m_Image) list"
  | ImageLists "('x m_ImageList) list"
  | PolicySpecs "('x m_PolicySpec) list"
  | PolicyStatuses "m_PolicyStatus list"
  | Policies_bl "('x m_Policy) list"
  | PolicyLists "('x m_PolicyList) list"

text \<open>The code outside the repository: zero values, copying methods, and how a reader sees the values.\<close>

record ('c, 'v, 'y) foreign =
  fg_zero :: 'v
  fg_DeepCopyInto :: "'v \<Rightarrow> 'c heap \<Rightarrow> 'v \<times> 'c heap"
  fg_read :: "('c, 'v, 'y) reading"

record ('x, 'y) machinery =
  am_ObjectMeta :: "('x cell, 'x, 'y) foreign"
  am_ListMeta :: "('x cell, 'x, 'y) foreign"
  am_ResourceRequirements :: "('x cell, 'x, 'y) foreign"
  am_LabelSelector :: "('x cell, 'x, 'y) foreign"
  am_Condition :: "('x cell, 'x, 'y) foreign"
  am_Time_DeepCopy :: "pointer \<Rightarrow> 'x cell heap \<Rightarrow> pointer \<times> 'x cell heap"
  am_Time_read :: "('x cell, pointer, 'y) reading"
  am_range :: "(string \<rightharpoonup> string) \<Rightarrow> string list"

text \<open>Zero values, as \<open>new\<close> and \<open>make\<close> give them.\<close>

definition zero_type_meta :: TypeMeta where
  "zero_type_meta = \<lparr>tm_Kind = '''', tm_APIVersion = ''''\<rparr>"

definition zero_retry :: RetryPolicy where
  "zero_retry = \<lparr>retry_MaxAttempts = 0, retry_BackoffSeconds = 0\<rparr>"

definition z_Secrets :: m_Secrets where
  "z_Secrets = \<lparr>ipsc_Inherit = False, ipsc_Additional = None\<rparr>"

definition z_NodeSelector :: m_NodeSelector where
  "z_NodeSelector = \<lparr>nsl_MatchLabels = None\<rparr>"

definition z_PolicySelector :: m_PolicySelector where
  "z_PolicySelector = \<lparr>psl_MatchLabels = None, psl_Namespaces = None\<rparr>"

definition z_Targets :: m_Targets where
  "z_Targets = \<lparr>ntsl_Selector = None, ntsl_Names = None\<rparr>"

definition z_NodeStatus :: m_NodeStatus where
  "z_NodeStatus = \<lparr>nst_Node = '''', nst_Status = '''', nst_StartedAt = None, nst_CompletedAt = None,
     nst_Duration = '''', nst_Error = '''', nst_RetryCount = 0, nst_JobName = ''''\<rparr>"

definition z_ImageSpec :: "('x, 'y) machinery \<Rightarrow> 'x m_ImageSpec" where
  "z_ImageSpec F = \<lparr>pis_Image = '''', pis_ImageDigest = '''', pis_Nodes = z_Targets, pis_ImagePullSecrets = None,
     pis_Resources = fg_zero (am_ResourceRequirements F), pis_Retry = zero_retry, pis_Timeout = ''''\<rparr>"

definition z_ImageStatus :: m_ImageStatus where
  "z_ImageStatus = \<lparr>pist_Phase = '''', pist_NodeStatus = None, pist_Summary = zero_summary,
     pist_Conditions = None, pist_StartTime = None, pist_CompletionTime = None\<rparr>"

definition z_Image :: "('x, 'y) machinery \<Rightarrow> 'x m_Image" where
  "z_Image F = \<lparr>pi_TypeMeta = zero_type_meta, pi_ObjectMeta = fg_zero (am_ObjectMeta F),
     pi_Spec = z_ImageSpec F, pi_Status = z_ImageStatus\<rparr>"

definition z_ImageList :: "('x, 'y) machinery \<Rightarrow> 'x m_ImageList" where
  "z_ImageList F = \<lparr>pil_TypeMeta = zero_type_meta, pil_ListMeta = fg_zero (am_ListMeta F), pil_Items = None\<rparr>"

definition z_PolicySpec :: "('x, 'y) machinery \<Rightarrow> 'x m_PolicySpec" where
  "z_PolicySpec F = \<lparr>pps_Selector = z_PolicySelector, pps_NodeSelector = z_NodeSelector,
     pps_Resources = fg_zero (am_ResourceRequirements F), pps_Retry = zero_retry, pps_Timeout = '''',
     pps_ImagePullSecrets = z_Secrets\<rparr>"

definition z_PolicyStatus :: m_PolicyStatus where
  "z_PolicyStatus = \<lparr>ppst_WatchedDeployments = 0, ppst_LastUpdated = None, ppst_Conditions = None\<rparr>"

definition z_Policy :: "('x, 'y) machinery \<Rightarrow> 'x m_Policy" where
  "z_Policy F = \<lparr>pp_TypeMeta = zero_type_meta, pp_ObjectMeta = fg_zero (am_ObjectMeta F),
     pp_Spec = z_PolicySpec F, pp_Status = z_PolicyStatus\<rparr>"

definition z_PolicyList :: "('x, 'y) machinery \<Rightarrow> 'x m_PolicyList" where
  "z_PolicyList F = \<lparr>ppl_TypeMeta = zero_type_meta, ppl_ListMeta = fg_zero (am_ListMeta F), ppl_Items = None\<rparr>"

text \<open>The kinds of block.\<close>

definition k_Strings :: "('x cell, string) kind" where
  "k_Strings = \<lparr>k_put = Strings, k_get = (\<lambda>c. case c of Strings xs \<Rightarrow> Some xs | _ \<Rightarrow> None), k_zero = ''''\<rparr>"

definition k_LocalRefs :: "('x cell, LocalObjectReference) kind" where
  "k_LocalRefs = \<lparr>k_put = LocalRefs, k_get = (\<lambda>c. case c of LocalRefs xs \<Rightarrow> Some xs | _ \<Rightarrow> None), k_zero = \<lparr>ref_Name = ''''\<rparr>\<rparr>"

definition k_Maps :: "('x cell, string \<rightharpoonup> string) kind" where
  "k_Maps = \<lparr>k_put = Maps, k_get = (\<lambda>c. case c of Maps xs \<Rightarrow> Some xs | _ \<Rightarrow> None), k_zero = Map.empty\<rparr>"

definition k_Foreigns :: "'x \<Rightarrow> ('x cell, 'x) kind" where
  "k_Foreigns zero = \<lparr>k_put = Foreigns, k_get = (\<lambda>c. case c of Foreigns xs \<Rightarrow> Some xs | _ \<Rightarrow> None), k_zero = zero\<rparr>"

definition k_Secrets_bl :: "('x cell, m_Secrets) kind" where
  "k_Secrets_bl = \<lparr>k_put = Secrets_bl, k_get = (\<lambda>c. case c of Secrets_bl xs \<Rightarrow> Some xs | _ \<Rightarrow> None), k_zero = z_Secrets\<rparr>"

definition k_NodeSelectors :: "('x cell, m_NodeSelector) kind" where
  "k_NodeSelectors = \<lparr>k_put = NodeSelectors, k_get = (\<lambda>c. case c of NodeSelectors xs \<Rightarrow> Some xs | _ \<Rightarrow> None), k_zero = z_NodeSelector\<rparr>"

definition k_PolicySelectors :: "('x cell, m_PolicySelector) kind" where
  "k_PolicySelectors = \<lparr>k_put = PolicySelectors, k_get = (\<lambda>c. case c of PolicySelectors xs \<Rightarrow> Some xs | _ \<Rightarrow> None), k_zero = z_PolicySelector\<rparr>"

definition k_Targets_bl :: "('x cell, m_Targets) kind" where
  "k_Targets_bl = \<lparr>k_put = Targets_bl, k_get = (\<lambda>c. case c of Targets_bl xs \<Rightarrow> Some xs | _ \<Rightarrow> None), k_zero = z_Targets\<rparr>"

definition k_NodeStatuses :: "('x cell, m_NodeStatus) kind" where
  "k_NodeStatuses = \<lparr>k_put = NodeStatuses, k_get = (\<lambda>c. case c of NodeStatuses xs \<Rightarrow> Some xs | _ \<Rightarrow> None), k_zero = z_NodeStatus\<rparr>"

definition k_Summaries :: "('x cell, PullSummary) kind" where
  "k_Summaries = \<lparr>k_put = Summaries, k_get = (\<lambda>c. case c of Summaries xs \<Rightarrow> Some xs | _ \<Rightarrow> None), k_zero = zero_summary\<rparr>"

definition k_Retries :: "('x cell, RetryPolicy) kind" where
  "k_Retries = \<lparr>k_put = Retries, k_get = (\<lambda>c. case c of Retries xs \<Rightarrow> Some xs | _ \<Rightarrow> None), k_zero = zero_retry\<rparr>"

definition k_ImageSpecs :: "('x, 'y) machinery \<Rightarrow> ('x cell, 'x m_ImageSpec) kind" where
  "k_ImageSpecs F = \<lparr>k_put = ImageSpecs, k_get = (\<lambda>c. case c of ImageSpecs xs \<Rightarrow> Some xs | _ \<Rightarrow> None), k_zero = z_ImageSpec F\<rparr>"

definition k_ImageStatuses :: "('x cell, m_ImageStatus) kind" where
  "k_ImageStatuses = \<lparr>k_put = ImageStatuses, k_get = (\<lambda>c. case c of ImageStatuses xs \<Rightarrow> Some xs | _ \<Rightarrow> None), k_zero = z_ImageStatus\<rparr>"

definition k_Images_bl :: "('x, 'y) machinery \<Rightarrow> ('x cell, 'x m_Image) kind" where
  "k_Images_bl F = \<lparr>k_put = Images_bl, k_get = (\<lambda>c. case c of Images_bl xs \<Rightarrow> Some xs | _ \<Rightarrow> None), k_zero = z_Image F\<rparr>"

definition k_ImageLists :: "('x, 'y) machinery \<Rightarrow> ('x cell, 'x m_ImageList) kind" where
  "k_ImageLists F = \<lparr>k_put = ImageLists, k_get = (\<lambda>c. case c of ImageLists xs \<Rightarrow> Some xs | _ \<Rightarrow> None), k_zero = z_ImageList F\<rparr>"

definition k_PolicySpecs :: "('x, 'y) machinery \<Rightarrow> ('x cell, 'x m_PolicySpec) kind" where
  "k_PolicySpecs F = \<lparr>k_put = PolicySpecs, k_get = (\<lambda>c. case c of PolicySpecs xs \<Rightarrow> Some xs | _ \<Rightarrow> None), k_zero = z_PolicySpec F\<rparr>"

definition k_PolicyStatuses :: "('x cell, m_PolicyStatus) kind" where
  "k_PolicyStatuses = \<lparr>k_put = PolicyStatuses, k_get = (\<lambda>c. case c of PolicyStatuses xs \<Rightarrow> Some xs | _ \<Rightarrow> None), k_zero = z_PolicyStatus\<rparr>"

definition k_Policies_bl :: "('x, 'y) machinery \<Rightarrow> ('x cell, 'x m_Policy) kind" where
  "k_Policies_bl F = \<lparr>k_put = Policies_bl, k_get = (\<lambda>c. case c of Policies_bl xs \<Rightarrow> Some xs | _ \<Rightarrow> None), k_zero = z_Policy F\<rparr>"

definition k_PolicyLists :: "('x, 'y) machinery \<Rightarrow> ('x cell, 'x m_PolicyList) kind" where
  "k_PolicyLists F = \<lparr>k_put = PolicyLists, k_get = (\<lambda>c. case c of PolicyLists xs \<Rightarrow> Some xs | _ \<Rightarrow> None), k_zero = z_PolicyList F\<rparr>"

lemmas kind_defs = k_Strings_def k_LocalRefs_def k_Maps_def k_Foreigns_def k_Secrets_bl_def k_NodeSelectors_def k_PolicySelectors_def k_Targets_bl_def k_NodeStatuses_def k_Summaries_def k_Retries_def k_ImageSpecs_def k_ImageStatuses_def k_Images_bl_def k_ImageLists_def k_PolicySpecs_def k_PolicyStatuses_def k_Policies_bl_def k_PolicyLists_def

lemma kinds_ok [simp]:
  "kind_ok k_Strings"
  "kind_ok k_LocalRefs"
  "kind_ok k_Maps"
  "kind_ok (k_Foreigns z)"
  "kind_ok k_Secrets_bl"
  "kind_ok k_NodeSelectors"
  "kind_ok k_PolicySelectors"
  "kind_ok k_Targets_bl"
  "kind_ok k_NodeStatuses"
  "kind_ok k_Summaries"
  "kind_ok k_Retries"
  "kind_ok (k_ImageSpecs F)"
  "kind_ok k_ImageStatuses"
  "kind_ok (k_Images_bl F)"
  "kind_ok (k_ImageLists F)"
  "kind_ok (k_PolicySpecs F)"
  "kind_ok k_PolicyStatuses"
  "kind_ok (k_Policies_bl F)"
  "kind_ok (k_PolicyLists F)"
  by (simp_all add: kind_ok_def kind_defs)

lemma map_kind_ok_Maps [simp]: "map_kind_ok k_Maps"
  by (simp add: map_kind_ok_def kind_defs kind_ok_def)

section \<open>DeepCopyInto\<close>

text \<open>
  \<open>in.DeepCopyInto(out)\<close> with \<open>out\<close> in memory of its own: the value of \<open>*in\<close> is given, the value
  that ends up in \<open>*out\<close> is returned, with the memory. First \<open>*out = *in\<close>, then the fields.
\<close>

type_synonym ('x, 'v) into = "'v \<Rightarrow> 'x cell heap \<Rightarrow> 'v \<times> 'x cell heap"

definition DeepCopyInto_ImagePullSecretsConfig :: "('x, m_Secrets) into" where
  "DeepCopyInto_ImagePullSecretsConfig inp h =
     (let out = inp in
      case if_not_nil (copy_slice k_LocalRefs) (ipsc_Additional inp) h of
        (refs, h1) \<Rightarrow> (out\<lparr>ipsc_Additional := refs\<rparr>, h1))"

definition DeepCopyInto_NodeSelector :: "('x, 'y) machinery \<Rightarrow> ('x, m_NodeSelector) into" where
  "DeepCopyInto_NodeSelector F inp h =
     (let out = inp in
      case if_not_nil (copy_map k_Maps (am_range F)) (nsl_MatchLabels inp) h of
        (m, h1) \<Rightarrow> (out\<lparr>nsl_MatchLabels := m\<rparr>, h1))"

definition DeepCopyInto_NodeStatus :: "('x, 'y) machinery \<Rightarrow> ('x, m_NodeStatus) into" where
  "DeepCopyInto_NodeStatus F inp h =
     (let out = inp in
      case if_not_nil (am_Time_DeepCopy F) (nst_StartedAt inp) h of (t, h1) \<Rightarrow>
      let out = out\<lparr>nst_StartedAt := t\<rparr> in
      case if_not_nil (am_Time_DeepCopy F) (nst_CompletedAt inp) h1 of (t, h2) \<Rightarrow>
      (out\<lparr>nst_CompletedAt := t\<rparr>, h2))"

definition DeepCopyInto_NodeTargetSelector :: "('x, 'y) machinery \<Rightarrow> ('x, m_Targets) into" where
  "DeepCopyInto_NodeTargetSelector F inp h =
     (let out = inp;
          L = am_LabelSelector F in
      case if_not_nil (copy_new (k_Foreigns (fg_zero L)) (fg_DeepCopyInto L)) (ntsl_Selector inp) h of (s, h1) \<Rightarrow>
      let out = out\<lparr>ntsl_Selector := s\<rparr> in
      case if_not_nil (copy_slice k_Strings) (ntsl_Names inp) h1 of (n, h2) \<Rightarrow>
      (out\<lparr>ntsl_Names := n\<rparr>, h2))"

definition DeepCopyInto_PolicySelector :: "('x, 'y) machinery \<Rightarrow> ('x, m_PolicySelector) into" where
  "DeepCopyInto_PolicySelector F inp h =
     (let out = inp in
      case if_not_nil (copy_map k_Maps (am_range F)) (psl_MatchLabels inp) h of (m, h1) \<Rightarrow>
      let out = out\<lparr>psl_MatchLabels := m\<rparr> in
      case if_not_nil (copy_slice k_Strings) (psl_Namespaces inp) h1 of (n, h2) \<Rightarrow>
      (out\<lparr>psl_Namespaces := n\<rparr>, h2))"

definition DeepCopyInto_RetryPolicy :: "('x, RetryPolicy) into" where
  "DeepCopyInto_RetryPolicy inp h = (let out = inp in (out, h))"

definition DeepCopyInto_PullSummary :: "('x, PullSummary) into" where
  "DeepCopyInto_PullSummary inp h = (let out = inp in (out, h))"

definition DeepCopyInto_PrePullImageSpec :: "('x, 'y) machinery \<Rightarrow> ('x, 'x m_ImageSpec) into" where
  "DeepCopyInto_PrePullImageSpec F inp h =
     (let out = inp in
      case DeepCopyInto_NodeTargetSelector F (pis_Nodes inp) h of (n, h1) \<Rightarrow>
      let out = out\<lparr>pis_Nodes := n\<rparr> in
      case if_not_nil (copy_slice k_LocalRefs) (pis_ImagePullSecrets inp) h1 of (refs, h2) \<Rightarrow>
      let out = out\<lparr>pis_ImagePullSecrets := refs\<rparr> in
      case fg_DeepCopyInto (am_ResourceRequirements F) (pis_Resources inp) h2 of (r, h3) \<Rightarrow>
      let out = out\<lparr>pis_Resources := r\<rparr> in
      (out\<lparr>pis_Retry := pis_Retry inp\<rparr>, h3))"

definition DeepCopyInto_PrePullImageStatus :: "('x, 'y) machinery \<Rightarrow> ('x, m_ImageStatus) into" where
  "DeepCopyInto_PrePullImageStatus F inp h =
     (let out = inp;
          C = am_Condition F in
      case if_not_nil (copy_slice_deep k_NodeStatuses (DeepCopyInto_NodeStatus F)) (pist_NodeStatus inp) h of (ns, h1) \<Rightarrow>
      let out = out\<lparr>pist_NodeStatus := ns\<rparr>;
          out = out\<lparr>pist_Summary := pist_Summary inp\<rparr> in
      case if_not_nil (copy_slice_deep (k_Foreigns (fg_zero C)) (fg_DeepCopyInto C)) (pist_Conditions inp) h1 of (cs, h2) \<Rightarrow>
      let out = out\<lparr>pist_Conditions := cs\<rparr> in
      case if_not_nil (am_Time_DeepCopy F) (pist_StartTime inp) h2 of (t, h3) \<Rightarrow>
      let out = out\<lparr>pist_StartTime := t\<rparr> in
      case if_not_nil (am_Time_DeepCopy F) (pist_CompletionTime inp) h3 of (t, h4) \<Rightarrow>
      (out\<lparr>pist_CompletionTime := t\<rparr>, h4))"

definition DeepCopyInto_PrePullImage :: "('x, 'y) machinery \<Rightarrow> ('x, 'x m_Image) into" where
  "DeepCopyInto_PrePullImage F inp h =
     (let out = inp;
          out = out\<lparr>pi_TypeMeta := pi_TypeMeta inp\<rparr> in
      case fg_DeepCopyInto (am_ObjectMeta F) (pi_ObjectMeta inp) h of (m, h1) \<Rightarrow>
      let out = out\<lparr>pi_ObjectMeta := m\<rparr> in
      case DeepCopyInto_PrePullImageSpec F (pi_Spec inp) h1 of (sp, h2) \<Rightarrow>
      let out = out\<lparr>pi_Spec := sp\<rparr> in
      case DeepCopyInto_PrePullImageStatus F (pi_Status inp) h2 of (st, h3) \<Rightarrow>
      (out\<lparr>pi_Status := st\<rparr>, h3))"

definition DeepCopyInto_PrePullImageList :: "('x, 'y) machinery \<Rightarrow> ('x, 'x m_ImageList) into" where
  "DeepCopyInto_PrePullImageList F inp h =
     (let out = inp;
          out = out\<lparr>pil_TypeMeta := pil_TypeMeta inp\<rparr> in
      case fg_DeepCopyInto (am_ListMeta F) (pil_ListMeta inp) h of (m, h1) \<Rightarrow>
      let out = out\<lparr>pil_ListMeta := m\<rparr> in
      case if_not_nil (copy_slice_deep (k_Images_bl F) (DeepCopyInto_PrePullImage F)) (pil_Items inp) h1 of (items, h2) \<Rightarrow>
      (out\<lparr>pil_Items := items\<rparr>, h2))"

definition DeepCopyInto_PrePullPolicySpec :: "('x, 'y) machinery \<Rightarrow> ('x, 'x m_PolicySpec) into" where
  "DeepCopyInto_PrePullPolicySpec F inp h =
     (let out = inp in
      case DeepCopyInto_PolicySelector F (pps_Selector inp) h of (s, h1) \<Rightarrow>
      let out = out\<lparr>pps_Selector := s\<rparr> in
      case DeepCopyInto_NodeSelector F (pps_NodeSelector inp) h1 of (n, h2) \<Rightarrow>
      let out = out\<lparr>pps_NodeSelector := n\<rparr> in
      case fg_DeepCopyInto (am_ResourceRequirements F) (pps_Resources inp) h2 of (r, h3) \<Rightarrow>
      let out = out\<lparr>pps_Resources := r\<rparr>;
          out = out\<lparr>pps_Retry := pps_Retry inp\<rparr> in
      case DeepCopyInto_ImagePullSecretsConfig (pps_ImagePullSecrets inp) h3 of (i, h4) \<Rightarrow>
      (out\<lparr>pps_ImagePullSecrets := i\<rparr>, h4))"

definition DeepCopyInto_PrePullPolicyStatus :: "('x, 'y) machinery \<Rightarrow> ('x, m_PolicyStatus) into" where
  "DeepCopyInto_PrePullPolicyStatus F inp h =
     (let out = inp;
          C = am_Condition F in
      case if_not_nil (am_Time_DeepCopy F) (ppst_LastUpdated inp) h of (t, h1) \<Rightarrow>
      let out = out\<lparr>ppst_LastUpdated := t\<rparr> in
      case if_not_nil (copy_slice_deep (k_Foreigns (fg_zero C)) (fg_DeepCopyInto C)) (ppst_Conditions inp) h1 of (cs, h2) \<Rightarrow>
      (out\<lparr>ppst_Conditions := cs\<rparr>, h2))"

definition DeepCopyInto_PrePullPolicy :: "('x, 'y) machinery \<Rightarrow> ('x, 'x m_Policy) into" where
  "DeepCopyInto_PrePullPolicy F inp h =
     (let out = inp;
          out = out\<lparr>pp_TypeMeta := pp_TypeMeta inp\<rparr> in
      case fg_DeepCopyInto (am_ObjectMeta F) (pp_ObjectMeta inp) h of (m, h1) \<Rightarrow>
      let out = out\<lparr>pp_ObjectMeta := m\<rparr> in
      case DeepCopyInto_PrePullPolicySpec F (pp_Spec inp) h1 of (sp, h2) \<Rightarrow>
      let out = out\<lparr>pp_Spec := sp\<rparr> in
      case DeepCopyInto_PrePullPolicyStatus F (pp_Status inp) h2 of (st, h3) \<Rightarrow>
      (out\<lparr>pp_Status := st\<rparr>, h3))"

definition DeepCopyInto_PrePullPolicyList :: "('x, 'y) machinery \<Rightarrow> ('x, 'x m_PolicyList) into" where
  "DeepCopyInto_PrePullPolicyList F inp h =
     (let out = inp;
          out = out\<lparr>ppl_TypeMeta := ppl_TypeMeta inp\<rparr> in
      case fg_DeepCopyInto (am_ListMeta F) (ppl_ListMeta inp) h of (m, h1) \<Rightarrow>
      let out = out\<lparr>ppl_ListMeta := m\<rparr> in
      case if_not_nil (copy_slice_deep (k_Policies_bl F) (DeepCopyInto_PrePullPolicy F)) (ppl_Items inp) h1 of (items, h2) \<Rightarrow>
      (out\<lparr>ppl_Items := items\<rparr>, h2))"

section \<open>DeepCopy and DeepCopyObject\<close>

text \<open>\<open>DeepCopy\<close> takes and returns a pointer, nil for nil.\<close>

type_synonym 'x deep_copy = "pointer option \<Rightarrow> 'x cell heap \<Rightarrow> pointer option \<times> 'x cell heap"

definition DeepCopy_ImagePullSecretsConfig :: "'x deep_copy" where
  "DeepCopy_ImagePullSecretsConfig = if_not_nil (copy_new k_Secrets_bl DeepCopyInto_ImagePullSecretsConfig)"

definition DeepCopy_NodeSelector :: "('x, 'y) machinery \<Rightarrow> 'x deep_copy" where
  "DeepCopy_NodeSelector F = if_not_nil (copy_new k_NodeSelectors (DeepCopyInto_NodeSelector F))"

definition DeepCopy_NodeStatus :: "('x, 'y) machinery \<Rightarrow> 'x deep_copy" where
  "DeepCopy_NodeStatus F = if_not_nil (copy_new k_NodeStatuses (DeepCopyInto_NodeStatus F))"

definition DeepCopy_NodeTargetSelector :: "('x, 'y) machinery \<Rightarrow> 'x deep_copy" where
  "DeepCopy_NodeTargetSelector F = if_not_nil (copy_new k_Targets_bl (DeepCopyInto_NodeTargetSelector F))"

definition DeepCopy_PolicySelector :: "('x, 'y) machinery \<Rightarrow> 'x deep_copy" where
  "DeepCopy_PolicySelector F = if_not_nil (copy_new k_PolicySelectors (DeepCopyInto_PolicySelector F))"

definition DeepCopy_PrePullImage :: "('x, 'y) machinery \<Rightarrow> 'x deep_copy" where
  "DeepCopy_PrePullImage F = if_not_nil (copy_new (k_Images_bl F) (DeepCopyInto_PrePullImage F))"

definition DeepCopy_PrePullImageList :: "('x, 'y) machinery \<Rightarrow> 'x deep_copy" where
  "DeepCopy_PrePullImageList F = if_not_nil (copy_new (k_ImageLists F) (DeepCopyInto_PrePullImageList F))"

definition DeepCopy_PrePullImageSpec :: "('x, 'y) machinery \<Rightarrow> 'x deep_copy" where
  "DeepCopy_PrePullImageSpec F = if_not_nil (copy_new (k_ImageSpecs F) (DeepCopyInto_PrePullImageSpec F))"

definition DeepCopy_PrePullImageStatus :: "('x, 'y) machinery \<Rightarrow> 'x deep_copy" where
  "DeepCopy_PrePullImageStatus F = if_not_nil (copy_new k_ImageStatuses (DeepCopyInto_PrePullImageStatus F))"

definition DeepCopy_PrePullPolicy :: "('x, 'y) machinery \<Rightarrow> 'x deep_copy" where
  "DeepCopy_PrePullPolicy F = if_not_nil (copy_new (k_Policies_bl F) (DeepCopyInto_PrePullPolicy F))"

definition DeepCopy_PrePullPolicyList :: "('x, 'y) machinery \<Rightarrow> 'x deep_copy" where
  "DeepCopy_PrePullPolicyList F = if_not_nil (copy_new (k_PolicyLists F) (DeepCopyInto_PrePullPolicyList F))"

definition DeepCopy_PrePullPolicySpec :: "('x, 'y) machinery \<Rightarrow> 'x deep_copy" where
  "DeepCopy_PrePullPolicySpec F = if_not_nil (copy_new (k_PolicySpecs F) (DeepCopyInto_PrePullPolicySpec F))"

definition DeepCopy_PrePullPolicyStatus :: "('x, 'y) machinery \<Rightarrow> 'x deep_copy" where
  "DeepCopy_PrePullPolicyStatus F = if_not_nil (copy_new k_PolicyStatuses (DeepCopyInto_PrePullPolicyStatus F))"

definition DeepCopy_PullSummary :: "'x deep_copy" where
  "DeepCopy_PullSummary = if_not_nil (copy_new k_Summaries DeepCopyInto_PullSummary)"

definition DeepCopy_RetryPolicy :: "'x deep_copy" where
  "DeepCopy_RetryPolicy = if_not_nil (copy_new k_Retries DeepCopyInto_RetryPolicy)"

text \<open>
  A value of the interface \<open>runtime.Object\<close> holds a pointer to one of the four types that have
  \<open>DeepCopyObject\<close>. A nil interface is not the interface that holds a nil pointer: \<open>DeepCopyObject\<close>
  of a nil pointer returns the nil interface.
\<close>

datatype runtime_object =
    PrePullImage_obj "pointer option"
  | PrePullImageList_obj "pointer option"
  | PrePullPolicy_obj "pointer option"
  | PrePullPolicyList_obj "pointer option"

definition DeepCopyObject_PrePullImage ::
  "('x, 'y) machinery \<Rightarrow> pointer option \<Rightarrow> 'x cell heap \<Rightarrow> runtime_object option \<times> 'x cell heap" where
  "DeepCopyObject_PrePullImage F p h =
     (case DeepCopy_PrePullImage F p h of (c, h1) \<Rightarrow> (if c \<noteq> None then Some (PrePullImage_obj c) else None, h1))"

definition DeepCopyObject_PrePullImageList ::
  "('x, 'y) machinery \<Rightarrow> pointer option \<Rightarrow> 'x cell heap \<Rightarrow> runtime_object option \<times> 'x cell heap" where
  "DeepCopyObject_PrePullImageList F p h =
     (case DeepCopy_PrePullImageList F p h of (c, h1) \<Rightarrow> (if c \<noteq> None then Some (PrePullImageList_obj c) else None, h1))"

definition DeepCopyObject_PrePullPolicy ::
  "('x, 'y) machinery \<Rightarrow> pointer option \<Rightarrow> 'x cell heap \<Rightarrow> runtime_object option \<times> 'x cell heap" where
  "DeepCopyObject_PrePullPolicy F p h =
     (case DeepCopy_PrePullPolicy F p h of (c, h1) \<Rightarrow> (if c \<noteq> None then Some (PrePullPolicy_obj c) else None, h1))"

definition DeepCopyObject_PrePullPolicyList ::
  "('x, 'y) machinery \<Rightarrow> pointer option \<Rightarrow> 'x cell heap \<Rightarrow> runtime_object option \<times> 'x cell heap" where
  "DeepCopyObject_PrePullPolicyList F p h =
     (case DeepCopy_PrePullPolicyList F p h of (c, h1) \<Rightarrow> (if c \<noteq> None then Some (PrePullPolicyList_obj c) else None, h1))"

text \<open>The method of the interface.\<close>

fun DeepCopyObject :: "('x, 'y) machinery \<Rightarrow> runtime_object \<Rightarrow> 'x cell heap \<Rightarrow> runtime_object option \<times> 'x cell heap" where
  "DeepCopyObject F (PrePullImage_obj p) h = DeepCopyObject_PrePullImage F p h"
| "DeepCopyObject F (PrePullImageList_obj p) h = DeepCopyObject_PrePullImageList F p h"
| "DeepCopyObject F (PrePullPolicy_obj p) h = DeepCopyObject_PrePullPolicy F p h"
| "DeepCopyObject F (PrePullPolicyList_obj p) h = DeepCopyObject_PrePullPolicyList F p h"

end
