(* ===== verification/DeepCopyFacts.thy ===== *)
theory DeepCopyFacts
  imports DeepCopy "HOL-Library.List_Lexorder" "HOL-Library.Char_ord"
begin

text \<open>
  The generated deep copies keep the promise of \<open>deep_copier\<close>, type by type: readers of the
  structures, the promise for each \<open>DeepCopyInto\<close> from those of its fields, and for objects.
\<close>

section \<open>What the copying methods of apimachinery promise\<close>

definition copies_foreign :: "('c, 'v, 'y) foreign \<Rightarrow> bool" where
  "copies_foreign T \<longleftrightarrow> deep_copier (fg_read T) (fg_DeepCopyInto T)"

definition machinery_ok :: "('x, 'y) machinery \<Rightarrow> bool" where
  "machinery_ok F \<longleftrightarrow> copies_foreign (am_ObjectMeta F) \<and> copies_foreign (am_ListMeta F) \<and>
     copies_foreign (am_ResourceRequirements F) \<and> copies_foreign (am_LabelSelector F) \<and>
     copies_foreign (am_Condition F) \<and> deep_copier (am_Time_read F) (am_Time_DeepCopy F) \<and>
     lists_keys (am_range F)"

lemma machinery_okD:
  assumes "machinery_ok F"
  shows "deep_copier (fg_read (am_ObjectMeta F)) (fg_DeepCopyInto (am_ObjectMeta F))"
    "deep_copier (fg_read (am_ListMeta F)) (fg_DeepCopyInto (am_ListMeta F))"
    "deep_copier (fg_read (am_ResourceRequirements F)) (fg_DeepCopyInto (am_ResourceRequirements F))"
    "deep_copier (fg_read (am_LabelSelector F)) (fg_DeepCopyInto (am_LabelSelector F))"
    "deep_copier (fg_read (am_Condition F)) (fg_DeepCopyInto (am_Condition F))"
    "deep_copier (am_Time_read F) (am_Time_DeepCopy F)" "lists_keys (am_range F)"
  using assms by (simp_all add: machinery_ok_def copies_foreign_def)

section \<open>The structures\<close>

text \<open>
  For each structure: its references in the order in which they are copied, how a reader sees it,
  and the promise. \<open>copy_pair\<close> of the copies of the fields is what the statements of
  \<open>DeepCopyInto\<close> do.
\<close>

lemmas struct_simps = Let_def copy_pair_def assign_def

definition read_ImagePullSecretsConfig :: "('x cell, m_Secrets, v_Secrets) reading" where
  "read_ImagePullSecretsConfig h v = view_as (\<lambda>a. \<lparr>ipsc_Inherit = ipsc_Inherit v, ipsc_Additional = a\<rparr>)
     (read_opt (read_slice k_LocalRefs read_plain)
       h (ipsc_Additional v))"

lemma deep_copier_ImagePullSecretsConfig:
  "deep_copier (read_ImagePullSecretsConfig) (DeepCopyInto_ImagePullSecretsConfig)"
proof (rule deep_copier_struct [where flds = "\<lambda>v. ipsc_Additional v" and put = "\<lambda>v a. v\<lparr>ipsc_Additional := a\<rparr>"
      and mk = "\<lambda>v a. \<lparr>ipsc_Inherit = ipsc_Inherit v, ipsc_Additional = a\<rparr>"])
  show "deep_copier (read_opt (read_slice k_LocalRefs read_plain))
      (if_not_nil (copy_slice k_LocalRefs))"
    by (intro deep_copier_pair deep_copier_opt deep_copier_map deep_copier_slice deep_copier_slice_deep deep_copier_new
         map_kind_ok_Maps kinds_ok)
qed (simp_all add: read_ImagePullSecretsConfig_def DeepCopyInto_ImagePullSecretsConfig_def struct_simps split: prod.split)

definition read_NodeSelector :: "('x, 'y) machinery \<Rightarrow> ('x cell, m_NodeSelector, v_NodeSelector) reading" where
  "read_NodeSelector F h v = view_as (\<lambda>a. \<lparr>nsl_MatchLabels = a\<rparr>)
     (read_opt (read_map k_Maps)
       h (nsl_MatchLabels v))"

lemma deep_copier_NodeSelector:
  assumes F: "machinery_ok F"
  shows "deep_copier (read_NodeSelector F) (DeepCopyInto_NodeSelector F)"
proof (rule deep_copier_struct [where flds = "\<lambda>v. nsl_MatchLabels v" and put = "\<lambda>v a. v\<lparr>nsl_MatchLabels := a\<rparr>"
      and mk = "\<lambda>v a. \<lparr>nsl_MatchLabels = a\<rparr>"])
  show "deep_copier (read_opt (read_map k_Maps))
      (if_not_nil (copy_map k_Maps (am_range F)))"
    by (intro deep_copier_pair deep_copier_opt deep_copier_map deep_copier_slice deep_copier_slice_deep deep_copier_new
         map_kind_ok_Maps kinds_ok machinery_okD [OF F])
qed (simp_all add: read_NodeSelector_def DeepCopyInto_NodeSelector_def struct_simps split: prod.split)

definition read_NodeStatus :: "('x, 'y) machinery \<Rightarrow> ('x cell, m_NodeStatus, 'y v_NodeStatus) reading" where
  "read_NodeStatus F h v = view_as (\<lambda>(a, b). \<lparr>nst_Node = nst_Node v, nst_Status = nst_Status v, nst_StartedAt = a, nst_CompletedAt = b, nst_Duration = nst_Duration v, nst_Error = nst_Error v, nst_RetryCount = nst_RetryCount v, nst_JobName = nst_JobName v\<rparr>)
     (read_pair (read_opt (am_Time_read F))
       (read_opt (am_Time_read F))
       h (nst_StartedAt v, nst_CompletedAt v))"

lemma deep_copier_NodeStatus:
  assumes F: "machinery_ok F"
  shows "deep_copier (read_NodeStatus F) (DeepCopyInto_NodeStatus F)"
proof (rule deep_copier_struct [where flds = "\<lambda>v. (nst_StartedAt v, nst_CompletedAt v)" and put = "\<lambda>v (a, b). v\<lparr>nst_StartedAt := a, nst_CompletedAt := b\<rparr>"
      and mk = "\<lambda>v (a, b). \<lparr>nst_Node = nst_Node v, nst_Status = nst_Status v, nst_StartedAt = a, nst_CompletedAt = b, nst_Duration = nst_Duration v, nst_Error = nst_Error v, nst_RetryCount = nst_RetryCount v, nst_JobName = nst_JobName v\<rparr>"])
  show "deep_copier (read_pair (read_opt (am_Time_read F)) (read_opt (am_Time_read F)))
      (copy_pair (if_not_nil (am_Time_DeepCopy F)) (if_not_nil (am_Time_DeepCopy F)))"
    by (intro deep_copier_pair deep_copier_opt deep_copier_map deep_copier_slice deep_copier_slice_deep deep_copier_new
         map_kind_ok_Maps kinds_ok machinery_okD [OF F])
qed (simp_all add: read_NodeStatus_def DeepCopyInto_NodeStatus_def struct_simps split: prod.split)

definition read_NodeTargetSelector :: "('x, 'y) machinery \<Rightarrow> ('x cell, m_Targets, 'y v_Targets) reading" where
  "read_NodeTargetSelector F h v = view_as (\<lambda>(a, b). \<lparr>ntsl_Selector = a, ntsl_Names = b\<rparr>)
     (read_pair (read_opt (read_ptr (k_Foreigns (fg_zero (am_LabelSelector F)))
       (fg_read (am_LabelSelector F))))
       (read_opt (read_slice k_Strings read_plain))
       h (ntsl_Selector v, ntsl_Names v))"

lemma deep_copier_NodeTargetSelector:
  assumes F: "machinery_ok F"
  shows "deep_copier (read_NodeTargetSelector F) (DeepCopyInto_NodeTargetSelector F)"
proof (rule deep_copier_struct [where flds = "\<lambda>v. (ntsl_Selector v, ntsl_Names v)" and put = "\<lambda>v (a, b). v\<lparr>ntsl_Selector := a, ntsl_Names := b\<rparr>"
      and mk = "\<lambda>v (a, b). \<lparr>ntsl_Selector = a, ntsl_Names = b\<rparr>"])
  show "deep_copier (read_pair (read_opt (read_ptr (k_Foreigns (fg_zero (am_LabelSelector F))) (fg_read (am_LabelSelector F)))) (read_opt (read_slice k_Strings read_plain)))
      (copy_pair (if_not_nil (copy_new (k_Foreigns (fg_zero (am_LabelSelector F))) (fg_DeepCopyInto (am_LabelSelector F)))) (if_not_nil (copy_slice k_Strings)))"
    by (intro deep_copier_pair deep_copier_opt deep_copier_map deep_copier_slice deep_copier_slice_deep deep_copier_new
         map_kind_ok_Maps kinds_ok machinery_okD [OF F])
qed (simp_all add: read_NodeTargetSelector_def DeepCopyInto_NodeTargetSelector_def struct_simps split: prod.split)

definition read_PolicySelector :: "('x, 'y) machinery \<Rightarrow> ('x cell, m_PolicySelector, v_PolicySelector) reading" where
  "read_PolicySelector F h v = view_as (\<lambda>(a, b). \<lparr>psl_MatchLabels = a, psl_Namespaces = b\<rparr>)
     (read_pair (read_opt (read_map k_Maps))
       (read_opt (read_slice k_Strings read_plain))
       h (psl_MatchLabels v, psl_Namespaces v))"

lemma deep_copier_PolicySelector:
  assumes F: "machinery_ok F"
  shows "deep_copier (read_PolicySelector F) (DeepCopyInto_PolicySelector F)"
proof (rule deep_copier_struct [where flds = "\<lambda>v. (psl_MatchLabels v, psl_Namespaces v)" and put = "\<lambda>v (a, b). v\<lparr>psl_MatchLabels := a, psl_Namespaces := b\<rparr>"
      and mk = "\<lambda>v (a, b). \<lparr>psl_MatchLabels = a, psl_Namespaces = b\<rparr>"])
  show "deep_copier (read_pair (read_opt (read_map k_Maps)) (read_opt (read_slice k_Strings read_plain)))
      (copy_pair (if_not_nil (copy_map k_Maps (am_range F))) (if_not_nil (copy_slice k_Strings)))"
    by (intro deep_copier_pair deep_copier_opt deep_copier_map deep_copier_slice deep_copier_slice_deep deep_copier_new
         map_kind_ok_Maps kinds_ok machinery_okD [OF F])
qed (simp_all add: read_PolicySelector_def DeepCopyInto_PolicySelector_def struct_simps split: prod.split)

definition read_PrePullImageSpec :: "('x, 'y) machinery \<Rightarrow> ('x cell, 'x m_ImageSpec, 'y v_ImageSpec) reading" where
  "read_PrePullImageSpec F h v = view_as (\<lambda>(a, b, c). \<lparr>pis_Image = pis_Image v, pis_ImageDigest = pis_ImageDigest v, pis_Nodes = a, pis_ImagePullSecrets = b, pis_Resources = c, pis_Retry = pis_Retry v, pis_Timeout = pis_Timeout v\<rparr>)
     (read_pair (read_NodeTargetSelector F)
       (read_pair (read_opt (read_slice k_LocalRefs read_plain))
       (fg_read (am_ResourceRequirements F)))
       h (pis_Nodes v, pis_ImagePullSecrets v, pis_Resources v))"

lemma deep_copier_PrePullImageSpec:
  assumes F: "machinery_ok F"
  shows "deep_copier (read_PrePullImageSpec F) (DeepCopyInto_PrePullImageSpec F)"
proof (rule deep_copier_struct [where flds = "\<lambda>v. (pis_Nodes v, pis_ImagePullSecrets v, pis_Resources v)" and put = "\<lambda>v (a, b, c). v\<lparr>pis_Retry := pis_Retry v, pis_Nodes := a, pis_ImagePullSecrets := b, pis_Resources := c\<rparr>"
      and mk = "\<lambda>v (a, b, c). \<lparr>pis_Image = pis_Image v, pis_ImageDigest = pis_ImageDigest v, pis_Nodes = a, pis_ImagePullSecrets = b, pis_Resources = c, pis_Retry = pis_Retry v, pis_Timeout = pis_Timeout v\<rparr>"])
  show "deep_copier (read_pair (read_NodeTargetSelector F) (read_pair (read_opt (read_slice k_LocalRefs read_plain)) (fg_read (am_ResourceRequirements F))))
      (copy_pair (DeepCopyInto_NodeTargetSelector F) (copy_pair (if_not_nil (copy_slice k_LocalRefs)) (fg_DeepCopyInto (am_ResourceRequirements F))))"
    by (intro deep_copier_pair deep_copier_opt deep_copier_map deep_copier_slice deep_copier_slice_deep deep_copier_new
        deep_copier_NodeTargetSelector [OF F] map_kind_ok_Maps kinds_ok machinery_okD [OF F])
qed (simp_all add: read_PrePullImageSpec_def DeepCopyInto_PrePullImageSpec_def struct_simps split: prod.split)

definition read_PrePullImageStatus :: "('x, 'y) machinery \<Rightarrow> ('x cell, m_ImageStatus, 'y v_ImageStatus) reading" where
  "read_PrePullImageStatus F h v = view_as (\<lambda>(a, b, c, d). \<lparr>pist_Phase = pist_Phase v, pist_NodeStatus = a, pist_Summary = pist_Summary v, pist_Conditions = b, pist_StartTime = c, pist_CompletionTime = d\<rparr>)
     (read_pair (read_opt (read_slice k_NodeStatuses (read_NodeStatus F)))
       (read_pair (read_opt (read_slice (k_Foreigns (fg_zero (am_Condition F)))
       (fg_read (am_Condition F))))
       (read_pair (read_opt (am_Time_read F))
       (read_opt (am_Time_read F))))
       h (pist_NodeStatus v, pist_Conditions v, pist_StartTime v, pist_CompletionTime v))"

lemma deep_copier_PrePullImageStatus:
  assumes F: "machinery_ok F"
  shows "deep_copier (read_PrePullImageStatus F) (DeepCopyInto_PrePullImageStatus F)"
proof (rule deep_copier_struct [where flds = "\<lambda>v. (pist_NodeStatus v, pist_Conditions v, pist_StartTime v, pist_CompletionTime v)" and put = "\<lambda>v (a, b, c, d). v\<lparr>pist_Summary := pist_Summary v, pist_NodeStatus := a, pist_Conditions := b, pist_StartTime := c, pist_CompletionTime := d\<rparr>"
      and mk = "\<lambda>v (a, b, c, d). \<lparr>pist_Phase = pist_Phase v, pist_NodeStatus = a, pist_Summary = pist_Summary v, pist_Conditions = b, pist_StartTime = c, pist_CompletionTime = d\<rparr>"])
  show "deep_copier (read_pair (read_opt (read_slice k_NodeStatuses (read_NodeStatus F))) (read_pair (read_opt (read_slice (k_Foreigns (fg_zero (am_Condition F))) (fg_read (am_Condition F)))) (read_pair (read_opt (am_Time_read F)) (read_opt (am_Time_read F)))))
      (copy_pair (if_not_nil (copy_slice_deep k_NodeStatuses (DeepCopyInto_NodeStatus F))) (copy_pair (if_not_nil (copy_slice_deep (k_Foreigns (fg_zero (am_Condition F))) (fg_DeepCopyInto (am_Condition F)))) (copy_pair (if_not_nil (am_Time_DeepCopy F)) (if_not_nil (am_Time_DeepCopy F)))))"
    by (intro deep_copier_pair deep_copier_opt deep_copier_map deep_copier_slice deep_copier_slice_deep deep_copier_new
        deep_copier_NodeStatus [OF F] map_kind_ok_Maps kinds_ok machinery_okD [OF F])
qed (simp_all add: read_PrePullImageStatus_def DeepCopyInto_PrePullImageStatus_def struct_simps split: prod.split)

definition read_PrePullImage :: "('x, 'y) machinery \<Rightarrow> ('x cell, 'x m_Image, 'y v_Image) reading" where
  "read_PrePullImage F h v = view_as (\<lambda>(a, b, c). \<lparr>pi_TypeMeta = pi_TypeMeta v, pi_ObjectMeta = a, pi_Spec = b, pi_Status = c\<rparr>)
     (read_pair (fg_read (am_ObjectMeta F))
       (read_pair (read_PrePullImageSpec F)
       (read_PrePullImageStatus F))
       h (pi_ObjectMeta v, pi_Spec v, pi_Status v))"

lemma deep_copier_PrePullImage:
  assumes F: "machinery_ok F"
  shows "deep_copier (read_PrePullImage F) (DeepCopyInto_PrePullImage F)"
proof (rule deep_copier_struct [where flds = "\<lambda>v. (pi_ObjectMeta v, pi_Spec v, pi_Status v)" and put = "\<lambda>v (a, b, c). v\<lparr>pi_TypeMeta := pi_TypeMeta v, pi_ObjectMeta := a, pi_Spec := b, pi_Status := c\<rparr>"
      and mk = "\<lambda>v (a, b, c). \<lparr>pi_TypeMeta = pi_TypeMeta v, pi_ObjectMeta = a, pi_Spec = b, pi_Status = c\<rparr>"])
  show "deep_copier (read_pair (fg_read (am_ObjectMeta F)) (read_pair (read_PrePullImageSpec F) (read_PrePullImageStatus F)))
      (copy_pair (fg_DeepCopyInto (am_ObjectMeta F)) (copy_pair (DeepCopyInto_PrePullImageSpec F) (DeepCopyInto_PrePullImageStatus F)))"
    by (intro deep_copier_pair deep_copier_opt deep_copier_map deep_copier_slice deep_copier_slice_deep deep_copier_new
        deep_copier_PrePullImageSpec [OF F] deep_copier_PrePullImageStatus [OF F] map_kind_ok_Maps kinds_ok machinery_okD [OF F])
qed (simp_all add: read_PrePullImage_def DeepCopyInto_PrePullImage_def struct_simps split: prod.split)

definition read_PrePullImageList :: "('x, 'y) machinery \<Rightarrow> ('x cell, 'x m_ImageList, 'y v_ImageList) reading" where
  "read_PrePullImageList F h v = view_as (\<lambda>(a, b). \<lparr>pil_TypeMeta = pil_TypeMeta v, pil_ListMeta = a, pil_Items = b\<rparr>)
     (read_pair (fg_read (am_ListMeta F))
       (read_opt (read_slice (k_Images_bl F)
       (read_PrePullImage F)))
       h (pil_ListMeta v, pil_Items v))"

lemma deep_copier_PrePullImageList:
  assumes F: "machinery_ok F"
  shows "deep_copier (read_PrePullImageList F) (DeepCopyInto_PrePullImageList F)"
proof (rule deep_copier_struct [where flds = "\<lambda>v. (pil_ListMeta v, pil_Items v)" and put = "\<lambda>v (a, b). v\<lparr>pil_TypeMeta := pil_TypeMeta v, pil_ListMeta := a, pil_Items := b\<rparr>"
      and mk = "\<lambda>v (a, b). \<lparr>pil_TypeMeta = pil_TypeMeta v, pil_ListMeta = a, pil_Items = b\<rparr>"])
  show "deep_copier (read_pair (fg_read (am_ListMeta F)) (read_opt (read_slice (k_Images_bl F) (read_PrePullImage F))))
      (copy_pair (fg_DeepCopyInto (am_ListMeta F)) (if_not_nil (copy_slice_deep (k_Images_bl F) (DeepCopyInto_PrePullImage F))))"
    by (intro deep_copier_pair deep_copier_opt deep_copier_map deep_copier_slice deep_copier_slice_deep deep_copier_new
        deep_copier_PrePullImage [OF F] map_kind_ok_Maps kinds_ok machinery_okD [OF F])
qed (simp_all add: read_PrePullImageList_def DeepCopyInto_PrePullImageList_def struct_simps split: prod.split)

definition read_PrePullPolicySpec :: "('x, 'y) machinery \<Rightarrow> ('x cell, 'x m_PolicySpec, 'y v_PolicySpec) reading" where
  "read_PrePullPolicySpec F h v = view_as (\<lambda>(a, b, c, d). \<lparr>pps_Selector = a, pps_NodeSelector = b, pps_Resources = c, pps_Retry = pps_Retry v, pps_Timeout = pps_Timeout v, pps_ImagePullSecrets = d\<rparr>)
     (read_pair (read_PolicySelector F)
       (read_pair (read_NodeSelector F)
       (read_pair (fg_read (am_ResourceRequirements F))
       (read_ImagePullSecretsConfig)))
       h (pps_Selector v, pps_NodeSelector v, pps_Resources v, pps_ImagePullSecrets v))"

lemma deep_copier_PrePullPolicySpec:
  assumes F: "machinery_ok F"
  shows "deep_copier (read_PrePullPolicySpec F) (DeepCopyInto_PrePullPolicySpec F)"
proof (rule deep_copier_struct [where flds = "\<lambda>v. (pps_Selector v, pps_NodeSelector v, pps_Resources v, pps_ImagePullSecrets v)" and put = "\<lambda>v (a, b, c, d). v\<lparr>pps_Retry := pps_Retry v, pps_Selector := a, pps_NodeSelector := b, pps_Resources := c, pps_ImagePullSecrets := d\<rparr>"
      and mk = "\<lambda>v (a, b, c, d). \<lparr>pps_Selector = a, pps_NodeSelector = b, pps_Resources = c, pps_Retry = pps_Retry v, pps_Timeout = pps_Timeout v, pps_ImagePullSecrets = d\<rparr>"])
  show "deep_copier (read_pair (read_PolicySelector F) (read_pair (read_NodeSelector F) (read_pair (fg_read (am_ResourceRequirements F)) (read_ImagePullSecretsConfig))))
      (copy_pair (DeepCopyInto_PolicySelector F) (copy_pair (DeepCopyInto_NodeSelector F) (copy_pair (fg_DeepCopyInto (am_ResourceRequirements F)) (DeepCopyInto_ImagePullSecretsConfig))))"
    by (intro deep_copier_pair deep_copier_opt deep_copier_map deep_copier_slice deep_copier_slice_deep deep_copier_new
        deep_copier_ImagePullSecretsConfig deep_copier_NodeSelector [OF F] deep_copier_PolicySelector [OF F] map_kind_ok_Maps kinds_ok machinery_okD [OF F])
qed (simp_all add: read_PrePullPolicySpec_def DeepCopyInto_PrePullPolicySpec_def struct_simps split: prod.split)

definition read_PrePullPolicyStatus :: "('x, 'y) machinery \<Rightarrow> ('x cell, m_PolicyStatus, 'y v_PolicyStatus) reading" where
  "read_PrePullPolicyStatus F h v = view_as (\<lambda>(a, b). \<lparr>ppst_WatchedDeployments = ppst_WatchedDeployments v, ppst_LastUpdated = a, ppst_Conditions = b\<rparr>)
     (read_pair (read_opt (am_Time_read F))
       (read_opt (read_slice (k_Foreigns (fg_zero (am_Condition F)))
       (fg_read (am_Condition F))))
       h (ppst_LastUpdated v, ppst_Conditions v))"

lemma deep_copier_PrePullPolicyStatus:
  assumes F: "machinery_ok F"
  shows "deep_copier (read_PrePullPolicyStatus F) (DeepCopyInto_PrePullPolicyStatus F)"
proof (rule deep_copier_struct [where flds = "\<lambda>v. (ppst_LastUpdated v, ppst_Conditions v)" and put = "\<lambda>v (a, b). v\<lparr>ppst_LastUpdated := a, ppst_Conditions := b\<rparr>"
      and mk = "\<lambda>v (a, b). \<lparr>ppst_WatchedDeployments = ppst_WatchedDeployments v, ppst_LastUpdated = a, ppst_Conditions = b\<rparr>"])
  show "deep_copier (read_pair (read_opt (am_Time_read F)) (read_opt (read_slice (k_Foreigns (fg_zero (am_Condition F))) (fg_read (am_Condition F)))))
      (copy_pair (if_not_nil (am_Time_DeepCopy F)) (if_not_nil (copy_slice_deep (k_Foreigns (fg_zero (am_Condition F))) (fg_DeepCopyInto (am_Condition F)))))"
    by (intro deep_copier_pair deep_copier_opt deep_copier_map deep_copier_slice deep_copier_slice_deep deep_copier_new
         map_kind_ok_Maps kinds_ok machinery_okD [OF F])
qed (simp_all add: read_PrePullPolicyStatus_def DeepCopyInto_PrePullPolicyStatus_def struct_simps split: prod.split)

definition read_PrePullPolicy :: "('x, 'y) machinery \<Rightarrow> ('x cell, 'x m_Policy, 'y v_Policy) reading" where
  "read_PrePullPolicy F h v = view_as (\<lambda>(a, b, c). \<lparr>pp_TypeMeta = pp_TypeMeta v, pp_ObjectMeta = a, pp_Spec = b, pp_Status = c\<rparr>)
     (read_pair (fg_read (am_ObjectMeta F))
       (read_pair (read_PrePullPolicySpec F)
       (read_PrePullPolicyStatus F))
       h (pp_ObjectMeta v, pp_Spec v, pp_Status v))"

lemma deep_copier_PrePullPolicy:
  assumes F: "machinery_ok F"
  shows "deep_copier (read_PrePullPolicy F) (DeepCopyInto_PrePullPolicy F)"
proof (rule deep_copier_struct [where flds = "\<lambda>v. (pp_ObjectMeta v, pp_Spec v, pp_Status v)" and put = "\<lambda>v (a, b, c). v\<lparr>pp_TypeMeta := pp_TypeMeta v, pp_ObjectMeta := a, pp_Spec := b, pp_Status := c\<rparr>"
      and mk = "\<lambda>v (a, b, c). \<lparr>pp_TypeMeta = pp_TypeMeta v, pp_ObjectMeta = a, pp_Spec = b, pp_Status = c\<rparr>"])
  show "deep_copier (read_pair (fg_read (am_ObjectMeta F)) (read_pair (read_PrePullPolicySpec F) (read_PrePullPolicyStatus F)))
      (copy_pair (fg_DeepCopyInto (am_ObjectMeta F)) (copy_pair (DeepCopyInto_PrePullPolicySpec F) (DeepCopyInto_PrePullPolicyStatus F)))"
    by (intro deep_copier_pair deep_copier_opt deep_copier_map deep_copier_slice deep_copier_slice_deep deep_copier_new
        deep_copier_PrePullPolicySpec [OF F] deep_copier_PrePullPolicyStatus [OF F] map_kind_ok_Maps kinds_ok machinery_okD [OF F])
qed (simp_all add: read_PrePullPolicy_def DeepCopyInto_PrePullPolicy_def struct_simps split: prod.split)

definition read_PrePullPolicyList :: "('x, 'y) machinery \<Rightarrow> ('x cell, 'x m_PolicyList, 'y v_PolicyList) reading" where
  "read_PrePullPolicyList F h v = view_as (\<lambda>(a, b). \<lparr>ppl_TypeMeta = ppl_TypeMeta v, ppl_ListMeta = a, ppl_Items = b\<rparr>)
     (read_pair (fg_read (am_ListMeta F))
       (read_opt (read_slice (k_Policies_bl F)
       (read_PrePullPolicy F)))
       h (ppl_ListMeta v, ppl_Items v))"

lemma deep_copier_PrePullPolicyList:
  assumes F: "machinery_ok F"
  shows "deep_copier (read_PrePullPolicyList F) (DeepCopyInto_PrePullPolicyList F)"
proof (rule deep_copier_struct [where flds = "\<lambda>v. (ppl_ListMeta v, ppl_Items v)" and put = "\<lambda>v (a, b). v\<lparr>ppl_TypeMeta := ppl_TypeMeta v, ppl_ListMeta := a, ppl_Items := b\<rparr>"
      and mk = "\<lambda>v (a, b). \<lparr>ppl_TypeMeta = ppl_TypeMeta v, ppl_ListMeta = a, ppl_Items = b\<rparr>"])
  show "deep_copier (read_pair (fg_read (am_ListMeta F)) (read_opt (read_slice (k_Policies_bl F) (read_PrePullPolicy F))))
      (copy_pair (fg_DeepCopyInto (am_ListMeta F)) (if_not_nil (copy_slice_deep (k_Policies_bl F) (DeepCopyInto_PrePullPolicy F))))"
    by (intro deep_copier_pair deep_copier_opt deep_copier_map deep_copier_slice deep_copier_slice_deep deep_copier_new
        deep_copier_PrePullPolicy [OF F] map_kind_ok_Maps kinds_ok machinery_okD [OF F])
qed (simp_all add: read_PrePullPolicyList_def DeepCopyInto_PrePullPolicyList_def struct_simps split: prod.split)

section \<open>Pointers to structures\<close>

lemma deep_copier_DeepCopy:
  "deep_copier rd into \<Longrightarrow> kind_ok K \<Longrightarrow> deep_copier (read_opt (read_ptr K rd)) (if_not_nil (copy_new K into))"
  by (intro deep_copier_opt deep_copier_new)

text \<open>The structures without references to the outside interpret the contract at once.\<close>

interpretation secrets_config: deep_copier read_ImagePullSecretsConfig DeepCopyInto_ImagePullSecretsConfig
  by (rule deep_copier_ImagePullSecretsConfig)

interpretation secrets_config_ptr: deep_copier "read_opt (read_ptr k_Secrets_bl read_ImagePullSecretsConfig)"
    DeepCopy_ImagePullSecretsConfig
  unfolding DeepCopy_ImagePullSecretsConfig_def
  by (intro deep_copier_DeepCopy deep_copier_ImagePullSecretsConfig kinds_ok)

interpretation retry_policy: deep_copier read_plain DeepCopyInto_RetryPolicy
  using deep_copier_plain by (simp add: DeepCopyInto_RetryPolicy_def [abs_def] assign_def [abs_def] Let_def)

interpretation pull_summary: deep_copier read_plain DeepCopyInto_PullSummary
  using deep_copier_plain by (simp add: DeepCopyInto_PullSummary_def [abs_def] assign_def [abs_def] Let_def)

lemma DeepCopy_structures:
  assumes F: "machinery_ok F"
  shows "deep_copier (read_opt (read_ptr k_NodeSelectors (read_NodeSelector F))) (DeepCopy_NodeSelector F)"
    "deep_copier (read_opt (read_ptr k_NodeStatuses (read_NodeStatus F))) (DeepCopy_NodeStatus F)"
    "deep_copier (read_opt (read_ptr k_Targets_bl (read_NodeTargetSelector F))) (DeepCopy_NodeTargetSelector F)"
    "deep_copier (read_opt (read_ptr k_PolicySelectors (read_PolicySelector F))) (DeepCopy_PolicySelector F)"
    "deep_copier (read_opt (read_ptr (k_ImageSpecs F) (read_PrePullImageSpec F))) (DeepCopy_PrePullImageSpec F)"
    "deep_copier (read_opt (read_ptr k_ImageStatuses (read_PrePullImageStatus F))) (DeepCopy_PrePullImageStatus F)"
    "deep_copier (read_opt (read_ptr (k_PolicySpecs F) (read_PrePullPolicySpec F))) (DeepCopy_PrePullPolicySpec F)"
    "deep_copier (read_opt (read_ptr k_PolicyStatuses (read_PrePullPolicyStatus F))) (DeepCopy_PrePullPolicyStatus F)"
    "deep_copier (read_opt (read_ptr k_Summaries read_plain)) DeepCopy_PullSummary"
    "deep_copier (read_opt (read_ptr k_Retries read_plain)) DeepCopy_RetryPolicy"
  unfolding DeepCopy_NodeSelector_def DeepCopy_NodeStatus_def DeepCopy_NodeTargetSelector_def
    DeepCopy_PolicySelector_def DeepCopy_PrePullImageSpec_def DeepCopy_PrePullImageStatus_def
    DeepCopy_PrePullPolicySpec_def DeepCopy_PrePullPolicyStatus_def DeepCopy_PullSummary_def DeepCopy_RetryPolicy_def
  by (intro deep_copier_DeepCopy kinds_ok deep_copier_NodeSelector deep_copier_NodeStatus
      deep_copier_NodeTargetSelector deep_copier_PolicySelector deep_copier_PrePullImageSpec
      deep_copier_PrePullImageStatus deep_copier_PrePullPolicySpec deep_copier_PrePullPolicyStatus
      retry_policy.deep_copier_axioms pull_summary.deep_copier_axioms F)+

lemma DeepCopy_objects:
  assumes F: "machinery_ok F"
  shows "deep_copier (read_opt (read_ptr (k_Images_bl F) (read_PrePullImage F))) (DeepCopy_PrePullImage F)"
    "deep_copier (read_opt (read_ptr (k_ImageLists F) (read_PrePullImageList F))) (DeepCopy_PrePullImageList F)"
    "deep_copier (read_opt (read_ptr (k_Policies_bl F) (read_PrePullPolicy F))) (DeepCopy_PrePullPolicy F)"
    "deep_copier (read_opt (read_ptr (k_PolicyLists F) (read_PrePullPolicyList F))) (DeepCopy_PrePullPolicyList F)"
  unfolding DeepCopy_PrePullImage_def DeepCopy_PrePullImageList_def DeepCopy_PrePullPolicy_def
    DeepCopy_PrePullPolicyList_def
  by (intro deep_copier_DeepCopy kinds_ok deep_copier_PrePullImage deep_copier_PrePullImageList
      deep_copier_PrePullPolicy deep_copier_PrePullPolicyList F)+

section \<open>Objects\<close>

datatype 'y object_view =
    See_Image "'y v_Image option"
  | See_ImageList "'y v_ImageList option"
  | See_Policy "'y v_Policy option"
  | See_PolicyList "'y v_PolicyList option"

fun read_object :: "('x, 'y) machinery \<Rightarrow> ('x cell, runtime_object, 'y object_view) reading" where
  "read_object F h (PrePullImage_obj p) = view_as See_Image (read_opt (read_ptr (k_Images_bl F) (read_PrePullImage F)) h p)"
| "read_object F h (PrePullImageList_obj p) =
     view_as See_ImageList (read_opt (read_ptr (k_ImageLists F) (read_PrePullImageList F)) h p)"
| "read_object F h (PrePullPolicy_obj p) =
     view_as See_Policy (read_opt (read_ptr (k_Policies_bl F) (read_PrePullPolicy F)) h p)"
| "read_object F h (PrePullPolicyList_obj p) =
     view_as See_PolicyList (read_opt (read_ptr (k_PolicyLists F) (read_PrePullPolicyList F)) h p)"

fun object_pointer :: "runtime_object \<Rightarrow> pointer option" where
  "object_pointer (PrePullImage_obj p) = p"
| "object_pointer (PrePullImageList_obj p) = p"
| "object_pointer (PrePullPolicy_obj p) = p"
| "object_pointer (PrePullPolicyList_obj p) = p"

text \<open>
  \<open>v'\<close> in \<open>h'\<close> is a copy of \<open>v\<close> in \<open>h\<close>: it has the same contents; its references lead to blocks
  all different from one another and from those of \<open>v\<close>, which are unchanged; and whatever is
  written to the blocks of the one, the other keeps its contents.
\<close>

definition separate_copy :: "('c, 'v, 'y) reading \<Rightarrow> 'c heap \<Rightarrow> 'v \<Rightarrow> block list \<Rightarrow> 'y \<Rightarrow> 'c heap \<Rightarrow> 'v \<Rightarrow> bool" where
  "separate_copy rd h v f y h' v' \<longleftrightarrow> grows h h' \<and>
     (\<exists>g. rd h' v' = Some (g, y) \<and> distinct g \<and> set f \<inter> set g = {} \<and>
       (\<forall>h2. changed_only_in (set g) h' h2 \<longrightarrow> rd h2 v = Some (f, y)) \<and>
       (\<forall>h2. changed_only_in (set f) h' h2 \<longrightarrow> rd h2 v' = Some (g, y)))"

lemma separate_copy_I:
  "deep_copier rd cp \<Longrightarrow> rd h v = Some (f, y) \<Longrightarrow> cp v h = (v', h') \<Longrightarrow> separate_copy rd h v f y h' v'"
  unfolding separate_copy_def by (elim deep_copier.independent [where rd = rd]) blast+

lemma separate_copy_view:
  assumes "separate_copy rd h v f y h' v'" and "\<And>h v. rds h (mk v) = view_as m (rd h v)"
  shows "separate_copy rds h (mk v) f (m y) h' (mk v')"
  using assms(1) unfolding separate_copy_def assms(2) by (fastforce simp: view_as_def)

lemma if_not_nil_None: "if_not_nil cp None h = (None, h)"
  by (simp add: if_not_nil_def)

lemma if_not_nil_Some: "fst (if_not_nil cp (Some p) h) \<noteq> None"
  by (simp add: if_not_nil_def split: prod.split)

lemma DeepCopyObject_nil:
  "object_pointer obj = None \<Longrightarrow> DeepCopyObject F obj h = (None, h)"
  by (cases obj) (simp_all add: DeepCopyObject_PrePullImage_def DeepCopyObject_PrePullImageList_def
      DeepCopyObject_PrePullPolicy_def DeepCopyObject_PrePullPolicyList_def DeepCopy_PrePullImage_def
      DeepCopy_PrePullImageList_def DeepCopy_PrePullPolicy_def DeepCopy_PrePullPolicyList_def if_not_nil_None)

lemma DeepCopyObject_cases:
  assumes "DeepCopyObject F obj h = (c, h')" and "object_pointer obj = Some p"
  obtains q where "obj = PrePullImage_obj (Some p)" "c = Some (PrePullImage_obj q)" "DeepCopy_PrePullImage F (Some p) h = (q, h')"
  | q where "obj = PrePullImageList_obj (Some p)" "c = Some (PrePullImageList_obj q)" "DeepCopy_PrePullImageList F (Some p) h = (q, h')"
  | q where "obj = PrePullPolicy_obj (Some p)" "c = Some (PrePullPolicy_obj q)" "DeepCopy_PrePullPolicy F (Some p) h = (q, h')"
  | q where "obj = PrePullPolicyList_obj (Some p)" "c = Some (PrePullPolicyList_obj q)" "DeepCopy_PrePullPolicyList F (Some p) h = (q, h')"
proof -
  have n: "fst (DeepCopy_PrePullImage F (Some p) h) \<noteq> None" "fst (DeepCopy_PrePullImageList F (Some p) h) \<noteq> None"
    "fst (DeepCopy_PrePullPolicy F (Some p) h) \<noteq> None" "fst (DeepCopy_PrePullPolicyList F (Some p) h) \<noteq> None"
    by (simp_all add: DeepCopy_PrePullImage_def DeepCopy_PrePullImageList_def DeepCopy_PrePullPolicy_def
        DeepCopy_PrePullPolicyList_def if_not_nil_Some del: not_None_eq)
  show ?thesis
    using assms n that
    by (cases obj) (auto simp: DeepCopyObject_PrePullImage_def DeepCopyObject_PrePullImageList_def
        DeepCopyObject_PrePullPolicy_def DeepCopyObject_PrePullPolicyList_def split: prod.splits if_splits)
qed

text \<open>
  (C31) \<open>DeepCopyObject\<close> copies deeply: for an object of any of the four kinds that is valid in
  memory, the result has the same contents, shares no memory with the original nor any of its own
  parts with another, and what is later written through one of the two is not seen through the
  other, given that the copying methods of apimachinery are deep. A nil pointer gives the nil
  interface.
\<close>

theorem deep_copies_are_separate:
  assumes "machinery_ok F" and "read_object F h obj = Some (f, y)" and "DeepCopyObject F obj h = (c, h')"
  shows "case c of None \<Rightarrow> object_pointer obj = None \<and> h' = h
    | Some obj' \<Rightarrow> object_pointer obj \<noteq> None \<and> separate_copy (read_object F) h obj f y h' obj'"
proof (cases "object_pointer obj")
  case None
  with assms(3) show ?thesis by (simp add: DeepCopyObject_nil)
next
  case (Some p)
  from assms(3) Some show ?thesis
  proof (cases rule: DeepCopyObject_cases)
    case (1 q)
    with assms(2) obtain z where z: "read_opt (read_ptr (k_Images_bl F) (read_PrePullImage F)) h (Some p) = Some (f, z)" "y = See_Image z"
      by (auto simp: view_as_Some)
    show ?thesis
      using separate_copy_view [OF separate_copy_I [OF DeepCopy_objects(1) [OF assms(1)] z(1) 1(3)], of "read_object F" PrePullImage_obj See_Image]
      by (simp add: 1(1,2) z(2))
  next
    case (2 q)
    with assms(2) obtain z where z: "read_opt (read_ptr (k_ImageLists F) (read_PrePullImageList F)) h (Some p) = Some (f, z)" "y = See_ImageList z"
      by (auto simp: view_as_Some)
    show ?thesis
      using separate_copy_view [OF separate_copy_I [OF DeepCopy_objects(2) [OF assms(1)] z(1) 2(3)], of "read_object F" PrePullImageList_obj See_ImageList]
      by (simp add: 2(1,2) z(2))
  next
    case (3 q)
    with assms(2) obtain z where z: "read_opt (read_ptr (k_Policies_bl F) (read_PrePullPolicy F)) h (Some p) = Some (f, z)" "y = See_Policy z"
      by (auto simp: view_as_Some)
    show ?thesis
      using separate_copy_view [OF separate_copy_I [OF DeepCopy_objects(3) [OF assms(1)] z(1) 3(3)], of "read_object F" PrePullPolicy_obj See_Policy]
      by (simp add: 3(1,2) z(2))
  next
    case (4 q)
    with assms(2) obtain z where z: "read_opt (read_ptr (k_PolicyLists F) (read_PrePullPolicyList F)) h (Some p) = Some (f, z)" "y = See_PolicyList z"
      by (auto simp: view_as_Some)
    show ?thesis
      using separate_copy_view [OF separate_copy_I [OF DeepCopy_objects(4) [OF assms(1)] z(1) 4(3)], of "read_object F" PrePullPolicyList_obj See_PolicyList]
      by (simp add: 4(1,2) z(2))
  qed
qed
text \<open>
  An instance: values of foreign structures are strings without references, a \<open>Time\<close> is one in a
  block of its own. The object's node list and names are parts of longer arrays, and the two
  times of its node are the same pointer, which the copy keeps apart.
\<close>

definition flat_foreign :: "(string cell, string, string) foreign" where
  "flat_foreign = \<lparr>fg_zero = '''', fg_DeepCopyInto = assign, fg_read = read_plain\<rparr>"

definition flat_machinery :: "(string, string) machinery" where
  "flat_machinery = \<lparr>am_ObjectMeta = flat_foreign, am_ListMeta = flat_foreign,
     am_ResourceRequirements = flat_foreign, am_LabelSelector = flat_foreign, am_Condition = flat_foreign,
     am_Time_DeepCopy = copy_new (k_Foreigns '''') assign, am_Time_read = read_ptr (k_Foreigns '''') read_plain,
     am_range = (\<lambda>m. sorted_list_of_set (dom m))\<rparr>"

lemma flat_machinery_ok: "machinery_ok flat_machinery"
  unfolding machinery_ok_def copies_foreign_def flat_machinery_def flat_foreign_def lists_keys_def
  by (simp add: deep_copier_plain deep_copier_new)

definition sample_heap :: "string cell heap" where
  "sample_heap = [Strings [''node-0'', ''node-1'', ''node-2''], Foreigns [''10:00''],
     NodeStatuses [z_NodeStatus\<lparr>nst_Node := ''node-1'', nst_StartedAt := Some \<lparr>ptr_block = 1, ptr_index = 0\<rparr>,
       nst_CompletedAt := Some \<lparr>ptr_block = 1, ptr_index = 0\<rparr>\<rparr>, z_NodeStatus],
     Images_bl [(z_Image flat_machinery)
       \<lparr>pi_Spec := (z_ImageSpec flat_machinery)\<lparr>pis_Nodes :=
          z_Targets\<lparr>ntsl_Names := Some \<lparr>sl_block = 0, sl_first = 1, sl_len = 2\<rparr>\<rparr>\<rparr>,
        pi_Status := z_ImageStatus\<lparr>pist_NodeStatus := Some \<lparr>sl_block = 2, sl_first = 0, sl_len = 1\<rparr>\<rparr>\<rparr>]]"

lemma deep_copies_are_separate_witness:
  "\<exists>y obj' h'. read_object flat_machinery sample_heap (PrePullImage_obj (Some \<lparr>ptr_block = 3, ptr_index = 0\<rparr>)) =
       Some ([3, 0, 2, 1, 1], y) \<and>
     DeepCopyObject flat_machinery (PrePullImage_obj (Some \<lparr>ptr_block = 3, ptr_index = 0\<rparr>)) sample_heap = (Some obj', h') \<and>
     separate_copy (read_object flat_machinery) sample_heap (PrePullImage_obj (Some \<lparr>ptr_block = 3, ptr_index = 0\<rparr>))
       [3, 0, 2, 1, 1] y h' obj'"
proof -
  let ?o = "PrePullImage_obj (Some \<lparr>ptr_block = 3, ptr_index = 0\<rparr>)"
  obtain y where y: "read_object flat_machinery sample_heap ?o = Some ([3, 0, 2, 1, 1], y)"
    by (simp add: sample_heap_def flat_machinery_def flat_foreign_def read_ptr_def read_opt_def load_opt_def array_at_def
        kind_defs z_Image_def z_ImageSpec_def z_Targets_def z_ImageStatus_def z_NodeStatus_def read_PrePullImage_def
        read_PrePullImageSpec_def read_NodeTargetSelector_def read_PrePullImageStatus_def read_NodeStatus_def
        read_pair_def both_def view_as_def in_block_def read_plain_def read_slice_def read_list.simps(2)
        numeral_2_eq_2 numeral_3_eq_3)
  obtain c h' where c: "DeepCopyObject flat_machinery ?o sample_heap = (c, h')" by (metis surj_pair)
  from deep_copies_are_separate [OF flat_machinery_ok y c] obtain obj' where "c = Some obj'"
    "separate_copy (read_object flat_machinery) sample_heap ?o [3, 0, 2, 1, 1] y h' obj'"
    by (cases c) simp_all
  with y c show ?thesis by blast
qed

end
