(* ===== verification/ApiJson.thy ===== *)
theory ApiJson
  imports ApiTypes "HOL-Library.Monad_Syntax"
begin

text \<open>
  The JSON of a PrePullImage, as the struct tags of \<open>prepullimage_types.go\<close> and
  \<open>prepullpolicy_types.go\<close> give it to \<open>encoding/json\<close>, and the defaults that their kubebuilder
  markers put into the CRD, which the API server fills in. JSON is a datatype here; the text of
  it plays no part. What a client writes and what the server then stores differ: \<open>omitempty\<close>
  drops a zero, and the server takes a missing field for one that was not given. There is no null
  here, and names are compared exactly: the server prunes nulls and members that the schema does
  not name.
\<close>

section \<open>JSON values\<close>

datatype json =
    JBool bool
  | JNum int
  | JStr string
  | JArr "json list"
  | JObj "(string \<times> json) list"

type_synonym members = "(string \<times> json) list"

text \<open>
  Fields by their tags: a name alone is always written; with \<open>omitempty\<close> a field is left out
  when it is false, zero, nil, or an empty string or slice, but a structure never is.
\<close>

definition always :: "string \<Rightarrow> json \<Rightarrow> members" where
  "always name j = [(name, j)]"

definition omit_string :: "string \<Rightarrow> string \<Rightarrow> members" where
  "omit_string name s = (if s = '''' then [] else [(name, JStr s)])"

definition omit_int32 :: "string \<Rightarrow> int32 \<Rightarrow> members" where
  "omit_int32 name n = (if n = 0 then [] else [(name, JNum (sint n))])"

definition omit_bool :: "string \<Rightarrow> bool \<Rightarrow> members" where
  "omit_bool name b = (if b then [(name, JBool b)] else [])"

definition omit_slice :: "string \<Rightarrow> ('a \<Rightarrow> json) \<Rightarrow> 'a list \<Rightarrow> members" where
  "omit_slice name enc xs = (if xs = [] then [] else [(name, JArr (map enc xs))])"

definition omit_pointer :: "string \<Rightarrow> ('a \<Rightarrow> json) \<Rightarrow> 'a option \<Rightarrow> members" where
  "omit_pointer name enc p = (case p of None \<Rightarrow> [] | Some x \<Rightarrow> [(name, enc x)])"

text \<open>
  Reading a field: of several members of one name the last counts, a missing one leaves the zero
  value, and a value of the wrong type, or a number out of range, is an error.
\<close>

definition jmember :: "members \<Rightarrow> string \<Rightarrow> json option" where
  "jmember ms name = map_of (rev ms) name"

definition field :: "members \<Rightarrow> string \<Rightarrow> 'a \<Rightarrow> (json \<Rightarrow> 'a option) \<Rightarrow> 'a option" where
  "field ms name zero dec = (case jmember ms name of None \<Rightarrow> Some zero | Some j \<Rightarrow> dec j)"

fun dec_string :: "json \<Rightarrow> string option" where
  "dec_string (JStr s) = Some s"
| "dec_string j = None"

fun dec_bool :: "json \<Rightarrow> bool option" where
  "dec_bool (JBool b) = Some b"
| "dec_bool j = None"

fun dec_int32 :: "json \<Rightarrow> int32 option" where
  "dec_int32 (JNum n) = (if - (2 ^ 31) \<le> n \<and> n < 2 ^ 31 then Some (word_of_int n) else None)"
| "dec_int32 j = None"

primrec all_some :: "'a option list \<Rightarrow> 'a list option" where
  "all_some [] = Some []"
| "all_some (x # xs) = (case x of None \<Rightarrow> None | Some y \<Rightarrow> map_option ((#) y) (all_some xs))"

definition dec_slice :: "(json \<Rightarrow> 'a option) \<Rightarrow> json \<Rightarrow> 'a list option" where
  "dec_slice dec j = (case j of JArr js \<Rightarrow> all_some (map dec js) | _ \<Rightarrow> None)"

definition dec_pointer :: "(json \<Rightarrow> 'a option) \<Rightarrow> json \<Rightarrow> 'a option option" where
  "dec_pointer dec j = map_option Some (dec j)"

definition dec_struct :: "(members \<Rightarrow> 'a option) \<Rightarrow> json \<Rightarrow> 'a option" where
  "dec_struct dec j = (case j of JObj ms \<Rightarrow> dec ms | _ \<Rightarrow> None)"

section \<open>Defaults\<close>

text \<open>
  The defaults of a CRD: for an object, its fields with their schemas and, where there is one,
  the default that is filled in when the field is missing. Defaulting goes down into the fields
  that are there, so a default inside a missing object does nothing.
\<close>

datatype schema =
    Leaf
  | Items schema
  | Fields "(string \<times> json option \<times> schema) list"

primrec missing_defaults :: "(string \<times> json option \<times> schema) list \<Rightarrow> members \<Rightarrow> members" where
  "missing_defaults [] ms = []"
| "missing_defaults (f # fs) ms =
     (case f of (name, d, _) \<Rightarrow>
        (case d of
           Some j \<Rightarrow> if name \<in> fst ` set ms then missing_defaults fs ms else (name, j) # missing_defaults fs ms
         | None \<Rightarrow> missing_defaults fs ms))"

lemma size_field: "map_of fs name = Some ds \<Longrightarrow> size (snd ds) < size (Fields fs)"
proof -
  assume "map_of fs name = Some ds"
  then have "(name, ds) \<in> set fs" by (rule map_of_SomeD)
  then have "size_prod (\<lambda>x. 0) (size_prod (\<lambda>x. 0) size) (name, ds) \<le>
      size_list (size_prod (\<lambda>x. 0) (size_prod (\<lambda>x. 0) size)) fs"
    by (rule size_list_estimation') simp
  then show ?thesis by (cases ds) simp
qed

function apply_defaults :: "schema \<Rightarrow> json \<Rightarrow> json" where
  "apply_defaults Leaf j = j"
| "apply_defaults (Items sc) j = (case j of JArr js \<Rightarrow> JArr (map (apply_defaults sc) js) | _ \<Rightarrow> j)"
| "apply_defaults (Fields fs) j =
     (case j of
        JObj ms \<Rightarrow> JObj (map (\<lambda>m. (fst m, case map_of fs (fst m) of None \<Rightarrow> snd m
            | Some ds \<Rightarrow> apply_defaults (snd ds) (snd m))) (ms @ missing_defaults fs ms))
      | _ \<Rightarrow> j)"
  by pat_completeness auto
termination
  by (relation "measure (\<lambda>(sc, j). size sc)") (auto dest: size_field)

section \<open>The resources in JSON\<close>

text \<open>
  Structures of apimachinery and core/v1 have coders of their own, a parameter. A value that is
  written and read comes back in the form \<open>canon\<close>: a time, for instance, in whole seconds.
\<close>

record 'a coder =
  enc :: "'a \<Rightarrow> json"
  dec :: "json \<Rightarrow> 'a option"
  canon :: "'a \<Rightarrow> 'a"

record coders =
  jc_Selector :: "LabelSelector coder"
  jc_Secret :: "LocalObjectReference coder"
  jc_Resources :: "ResourceRequirements coder"
  jc_Condition :: "Condition coder"
  jc_Time :: "instant coder"

definition retry_members :: "RetryPolicy \<Rightarrow> members" where
  "retry_members r = omit_int32 ''maxAttempts'' (retry_MaxAttempts r) @
     omit_int32 ''backoffSeconds'' (retry_BackoffSeconds r)"

definition targets_members :: "coders \<Rightarrow> NodeTargetSelector \<Rightarrow> members" where
  "targets_members C t = omit_pointer ''selector'' (enc (jc_Selector C)) (nts_Selector t) @
     omit_slice ''names'' JStr (nts_Names t)"

definition spec_members :: "coders \<Rightarrow> PrePullImageSpec \<Rightarrow> members" where
  "spec_members C s =
     always ''image'' (JStr (spec_Image s)) @
     omit_string ''imageDigest'' (spec_ImageDigest s) @
     always ''nodes'' (JObj (targets_members C (spec_Nodes s))) @
     omit_slice ''imagePullSecrets'' (enc (jc_Secret C)) (spec_ImagePullSecrets s) @
     always ''resources'' (enc (jc_Resources C) (spec_Resources s)) @
     always ''retry'' (JObj (retry_members (spec_Retry s))) @
     omit_string ''timeout'' (spec_Timeout s)"

definition node_status_members :: "coders \<Rightarrow> NodeStatus \<Rightarrow> members" where
  "node_status_members C n =
     always ''node'' (JStr (ns_Node n)) @
     always ''status'' (JStr (ns_Status n)) @
     omit_pointer ''startedAt'' (enc (jc_Time C)) (ns_StartedAt n) @
     omit_pointer ''completedAt'' (enc (jc_Time C)) (ns_CompletedAt n) @
     omit_string ''duration'' (ns_Duration n) @
     omit_string ''error'' (ns_Error n) @
     omit_int32 ''retryCount'' (ns_RetryCount n) @
     omit_string ''jobName'' (ns_JobName n)"

definition summary_members :: "PullSummary \<Rightarrow> members" where
  "summary_members s =
     always ''total'' (JNum (sint (sum_Total s))) @ always ''pending'' (JNum (sint (sum_Pending s))) @
     always ''pulling'' (JNum (sint (sum_Pulling s))) @ always ''completed'' (JNum (sint (sum_Completed s))) @
     always ''failed'' (JNum (sint (sum_Failed s)))"

definition status_members :: "coders \<Rightarrow> PrePullImageStatus \<Rightarrow> members" where
  "status_members C st =
     omit_string ''phase'' (st_Phase st) @
     omit_slice ''nodeStatus'' (\<lambda>n. JObj (node_status_members C n)) (st_NodeStatus st) @
     always ''summary'' (JObj (summary_members (st_Summary st))) @
     omit_slice ''conditions'' (enc (jc_Condition C)) (st_Conditions st) @
     omit_pointer ''startTime'' (enc (jc_Time C)) (st_StartTime st) @
     omit_pointer ''completionTime'' (enc (jc_Time C)) (st_CompletionTime st)"

text \<open>Reading them.\<close>

definition no_retry :: RetryPolicy where
  "no_retry = \<lparr>retry_MaxAttempts = 0, retry_BackoffSeconds = 0\<rparr>"

definition no_targets :: NodeTargetSelector where
  "no_targets = \<lparr>nts_Selector = None, nts_Names = []\<rparr>"

definition no_resources :: ResourceRequirements where
  "no_resources = \<lparr>res_Requests = None, res_Limits = None, res_Claims = []\<rparr>"

definition retry_of :: "members \<Rightarrow> RetryPolicy option" where
  "retry_of ms = do {
     a \<leftarrow> field ms ''maxAttempts'' 0 dec_int32;
     b \<leftarrow> field ms ''backoffSeconds'' 0 dec_int32;
     Some \<lparr>retry_MaxAttempts = a, retry_BackoffSeconds = b\<rparr> }"

definition targets_of :: "coders \<Rightarrow> members \<Rightarrow> NodeTargetSelector option" where
  "targets_of C ms = do {
     s \<leftarrow> field ms ''selector'' None (dec_pointer (dec (jc_Selector C)));
     n \<leftarrow> field ms ''names'' [] (dec_slice dec_string);
     Some \<lparr>nts_Selector = s, nts_Names = n\<rparr> }"

definition spec_of :: "coders \<Rightarrow> members \<Rightarrow> PrePullImageSpec option" where
  "spec_of C ms = do {
     i \<leftarrow> field ms ''image'' '''' dec_string;
     d \<leftarrow> field ms ''imageDigest'' '''' dec_string;
     n \<leftarrow> field ms ''nodes'' no_targets (dec_struct (targets_of C));
     s \<leftarrow> field ms ''imagePullSecrets'' [] (dec_slice (dec (jc_Secret C)));
     r \<leftarrow> field ms ''resources'' no_resources (dec (jc_Resources C));
     y \<leftarrow> field ms ''retry'' no_retry (dec_struct retry_of);
     t \<leftarrow> field ms ''timeout'' '''' dec_string;
     Some \<lparr>spec_Image = i, spec_ImageDigest = d, spec_Nodes = n, spec_ImagePullSecrets = s,
       spec_Resources = r, spec_Retry = y, spec_Timeout = t\<rparr> }"

definition node_status_of :: "coders \<Rightarrow> members \<Rightarrow> NodeStatus option" where
  "node_status_of C ms = do {
     n \<leftarrow> field ms ''node'' '''' dec_string;
     s \<leftarrow> field ms ''status'' '''' dec_string;
     a \<leftarrow> field ms ''startedAt'' None (dec_pointer (dec (jc_Time C)));
     b \<leftarrow> field ms ''completedAt'' None (dec_pointer (dec (jc_Time C)));
     d \<leftarrow> field ms ''duration'' '''' dec_string;
     e \<leftarrow> field ms ''error'' '''' dec_string;
     r \<leftarrow> field ms ''retryCount'' 0 dec_int32;
     j \<leftarrow> field ms ''jobName'' '''' dec_string;
     Some \<lparr>ns_Node = n, ns_Status = s, ns_StartedAt = a, ns_CompletedAt = b, ns_Duration = d,
       ns_Error = e, ns_RetryCount = r, ns_JobName = j\<rparr> }"

definition summary_of_members :: "members \<Rightarrow> PullSummary option" where
  "summary_of_members ms = do {
     t \<leftarrow> field ms ''total'' 0 dec_int32;
     p \<leftarrow> field ms ''pending'' 0 dec_int32;
     u \<leftarrow> field ms ''pulling'' 0 dec_int32;
     c \<leftarrow> field ms ''completed'' 0 dec_int32;
     f \<leftarrow> field ms ''failed'' 0 dec_int32;
     Some \<lparr>sum_Total = t, sum_Pending = p, sum_Pulling = u, sum_Completed = c, sum_Failed = f\<rparr> }"

definition status_of :: "coders \<Rightarrow> members \<Rightarrow> PrePullImageStatus option" where
  "status_of C ms = do {
     p \<leftarrow> field ms ''phase'' '''' dec_string;
     n \<leftarrow> field ms ''nodeStatus'' [] (dec_slice (dec_struct (node_status_of C)));
     u \<leftarrow> field ms ''summary'' zero_summary (dec_struct summary_of_members);
     c \<leftarrow> field ms ''conditions'' [] (dec_slice (dec (jc_Condition C)));
     a \<leftarrow> field ms ''startTime'' None (dec_pointer (dec (jc_Time C)));
     b \<leftarrow> field ms ''completionTime'' None (dec_pointer (dec (jc_Time C)));
     Some \<lparr>st_Phase = p, st_NodeStatus = n, st_Summary = u, st_Conditions = c, st_StartTime = a,
       st_CompletionTime = b\<rparr> }"

section \<open>The schemas of the CRD\<close>

text \<open>
  The defaults of \<open>config/crd/bases\<close>, generated from the markers; fields without a default in or
  below them are left out.
\<close>

definition retry_schema :: schema where
  "retry_schema = Fields [(''backoffSeconds'', Some (JNum 30), Leaf), (''maxAttempts'', Some (JNum 3), Leaf)]"

definition secrets_schema :: schema where
  "secrets_schema = Items (Fields [(''name'', Some (JStr ''''), Leaf)])"

definition spec_schema :: schema where
  "spec_schema = Fields [(''imagePullSecrets'', None, secrets_schema), (''retry'', None, retry_schema),
     (''timeout'', Some (JStr ''10m''), Leaf)]"

definition status_schema :: schema where
  "status_schema = Fields [(''phase'', Some (JStr ''Pending''), Leaf)]"

text \<open>What is stored of a value that is sent, as it is read again.\<close>

definition stored_spec :: "coders \<Rightarrow> PrePullImageSpec \<Rightarrow> PrePullImageSpec option" where
  "stored_spec C s = dec_struct (spec_of C) (apply_defaults spec_schema (JObj (spec_members C s)))"

definition stored_status :: "coders \<Rightarrow> PrePullImageStatus \<Rightarrow> PrePullImageStatus option" where
  "stored_status C st = dec_struct (status_of C) (apply_defaults status_schema (JObj (status_members C st)))"

section \<open>Policies\<close>

text \<open>Policies are written by users; the program only reads their specification.\<close>

definition no_node_selector :: NodeSelector where
  "no_node_selector = \<lparr>nsel_MatchLabels = []\<rparr>"

definition no_policy_selector :: PolicySelector where
  "no_policy_selector = \<lparr>sel_MatchLabels = [], sel_Namespaces = []\<rparr>"

definition no_secrets_config :: ImagePullSecretsConfig where
  "no_secrets_config = \<lparr>ips_Inherit = False, ips_Additional = []\<rparr>"

definition dec_string_map :: "json \<Rightarrow> gomap option" where
  "dec_string_map j = (case j of
     JObj ms \<Rightarrow> all_some (map (\<lambda>m. map_option (Pair (fst m)) (dec_string (snd m))) ms) | _ \<Rightarrow> None)"

definition policy_selector_of :: "members \<Rightarrow> PolicySelector option" where
  "policy_selector_of ms = do {
     l \<leftarrow> field ms ''matchLabels'' [] dec_string_map;
     n \<leftarrow> field ms ''namespaces'' [] (dec_slice dec_string);
     Some \<lparr>sel_MatchLabels = l, sel_Namespaces = n\<rparr> }"

definition node_selector_of :: "members \<Rightarrow> NodeSelector option" where
  "node_selector_of ms = do {
     l \<leftarrow> field ms ''matchLabels'' [] dec_string_map;
     Some \<lparr>nsel_MatchLabels = l\<rparr> }"

definition secrets_config_of :: "coders \<Rightarrow> members \<Rightarrow> ImagePullSecretsConfig option" where
  "secrets_config_of C ms = do {
     i \<leftarrow> field ms ''inherit'' False dec_bool;
     a \<leftarrow> field ms ''additional'' [] (dec_slice (dec (jc_Secret C)));
     Some \<lparr>ips_Inherit = i, ips_Additional = a\<rparr> }"

definition policy_spec_of :: "coders \<Rightarrow> members \<Rightarrow> PrePullPolicySpec option" where
  "policy_spec_of C ms = do {
     s \<leftarrow> field ms ''selector'' no_policy_selector (dec_struct policy_selector_of);
     n \<leftarrow> field ms ''nodeSelector'' no_node_selector (dec_struct node_selector_of);
     r \<leftarrow> field ms ''resources'' no_resources (dec (jc_Resources C));
     y \<leftarrow> field ms ''retry'' no_retry (dec_struct retry_of);
     t \<leftarrow> field ms ''timeout'' '''' dec_string;
     i \<leftarrow> field ms ''imagePullSecrets'' no_secrets_config (dec_struct (secrets_config_of C));
     Some \<lparr>pspec_Selector = s, pspec_NodeSelector = n, pspec_Resources = r, pspec_Retry = y, pspec_Timeout = t,
       pspec_ImagePullSecrets = i\<rparr> }"

definition secrets_config_schema :: schema where
  "secrets_config_schema = Fields [(''additional'', None, secrets_schema), (''inherit'', Some (JBool True), Leaf)]"

definition policy_schema :: schema where
  "policy_schema = Fields [(''imagePullSecrets'', None, secrets_config_schema), (''retry'', None, retry_schema),
     (''timeout'', Some (JStr ''10m''), Leaf)]"

text \<open>The specification the program reads of a policy that was applied with these members.\<close>

definition applied_policy_spec :: "coders \<Rightarrow> members \<Rightarrow> PrePullPolicySpec option" where
  "applied_policy_spec C ms = dec_struct (policy_spec_of C) (apply_defaults policy_schema (JObj ms))"

end
