(* ===== verification/ApiJsonFacts.thy ===== *)
theory ApiJsonFacts
  imports ApiJson DeploymentController
begin

text \<open>
  Round trips of a PrePullImage through JSON and the defaults of the CRD. Members are looked up
  by name, so the lemmas say what \<open>jmember\<close> finds in a list put together from fields, and
  what defaulting makes of it.
\<close>

section \<open>Looking up members\<close>

lemma jmember_append: "jmember (xs @ ys) n = (case jmember ys n of None \<Rightarrow> jmember xs n | Some j \<Rightarrow> Some j)"
  by (simp add: jmember_def map_add_def split: option.split)

lemma jmember_fields:
  "jmember (always k j) n = (if n = k then Some j else None)"
  "jmember (omit_string k s) n = (if n = k \<and> s \<noteq> '''' then Some (JStr s) else None)"
  "jmember (omit_int32 k i) n = (if n = k \<and> i \<noteq> 0 then Some (JNum (sint i)) else None)"
  "jmember (omit_bool k b) n = (if n = k \<and> b then Some (JBool b) else None)"
  "jmember (omit_slice k e xs) n = (if n = k \<and> xs \<noteq> [] then Some (JArr (map e xs)) else None)"
  "jmember (omit_pointer k f p) n = (if n = k then map_option f p else None)"
  by (simp_all add: jmember_def always_def omit_string_def omit_int32_def omit_bool_def omit_slice_def
      omit_pointer_def split: option.split)

lemma jmember_in: "n \<in> fst ` set ms \<longleftrightarrow> jmember ms n \<noteq> None"
  by (simp add: jmember_def map_of_eq_None_iff del: not_None_eq)

lemma jmember_map: "jmember (map (\<lambda>m. (fst m, g (fst m) (snd m))) ms) n = map_option (g n) (jmember ms n)"
  unfolding jmember_def by (induction ms rule: rev_induct) (auto simp: map_of_append)

lemma jmember_missing:
  "distinct (map fst fs) \<Longrightarrow> jmember (missing_defaults fs ms) n =
     (if jmember ms n = None then (case map_of fs n of Some (Some j, _) \<Rightarrow> Some j | _ \<Rightarrow> None) else None)"
proof (induction fs)
  case Nil
  then show ?case by (simp add: jmember_def)
next
  case (Cons f fs)
  obtain k d sc where f: "f = (k, d, sc)" by (metis surj_pair)
  have c: "jmember ((k, j) # xs) n = (case jmember xs n of None \<Rightarrow> if n = k then Some j else None | Some i \<Rightarrow> Some i)"
    for j xs using jmember_append [of "[(k, j)]" xs n] by (simp add: jmember_def map_add_def split: option.split)
  have k: "map_of fs k = None"
    using Cons.prems by (simp add: f map_of_eq_None_iff)
  have ih: "jmember (missing_defaults fs ms) n =
     (if jmember ms n = None then (case map_of fs n of Some (Some j, _) \<Rightarrow> Some j | _ \<Rightarrow> None) else None)"
    using Cons by (simp del: map_of_eq_Some_iff)
  show ?case
  proof (cases "n = k")
    case True
    show ?thesis
      by (cases d; cases "jmember ms k") (simp_all add: True f c [unfolded True] k ih [unfolded True] jmember_in)
  next
    case False
    then show ?thesis
      by (cases d; cases "jmember ms k") (simp_all add: f c ih jmember_in split: option.split)
  qed
qed

definition defaulted :: "(string \<times> json option \<times> schema) list \<Rightarrow> members \<Rightarrow> string \<Rightarrow> json option" where
  "defaulted fs ms n =
     map_option (\<lambda>j. case map_of fs n of None \<Rightarrow> j | Some ds \<Rightarrow> apply_defaults (snd ds) j)
       (case jmember ms n of Some j \<Rightarrow> Some j | None \<Rightarrow> (case map_of fs n of Some (Some j, _) \<Rightarrow> Some j | _ \<Rightarrow> None))"

lemma apply_defaults_object:
  assumes "distinct (map fst fs)"
  obtains ms' where "apply_defaults (Fields fs) (JObj ms) = JObj ms'" and "jmember ms' = defaulted fs ms"
proof -
  let ?g = "\<lambda>n j. case map_of fs n of None \<Rightarrow> j | Some ds \<Rightarrow> apply_defaults (snd ds) j"
  let ?ms = "map (\<lambda>m. (fst m, ?g (fst m) (snd m))) (ms @ missing_defaults fs ms)"
  have "apply_defaults (Fields fs) (JObj ms) = JObj ?ms"
    by simp
  moreover have "jmember ?ms n = defaulted fs ms n" for n
  proof -
    have "jmember ?ms n = map_option (?g n) (jmember (ms @ missing_defaults fs ms) n)"
      by (rule jmember_map)
    also have "jmember (ms @ missing_defaults fs ms) n = (case jmember ms n of Some j \<Rightarrow> Some j
        | None \<Rightarrow> (case map_of fs n of Some (Some j, _) \<Rightarrow> Some j | _ \<Rightarrow> None))"
      by (simp add: jmember_append jmember_missing [OF assms] split: option.split)
    finally show ?thesis by (simp add: defaulted_def)
  qed
  then have "jmember ?ms = defaulted fs ms" by (rule ext)
  ultimately show ?thesis using that by blast
qed

lemma apply_defaults_ex:
  "distinct (map fst fs) \<Longrightarrow> \<exists>ms'. apply_defaults (Fields fs) (JObj ms) = JObj ms' \<and> jmember ms' = defaulted fs ms"
  by (metis apply_defaults_object)

lemma dec_struct_object:
  assumes "distinct (map fst fs)" and "\<And>ms'. jmember ms' = defaulted fs ms \<Longrightarrow> d ms' = r"
  shows "dec_struct d (apply_defaults (Fields fs) (JObj ms)) = r"
  using apply_defaults_object [OF assms(1), of ms] assms(2) by (metis (no_types, lifting) dec_struct_def json.simps(30))

section \<open>Values\<close>

lemma dec_int32_sint [simp]: "dec_int32 (JNum (sint (n :: int32))) = Some n"
  using sint_range_size [of n] by (simp add: word_size)

lemma dec_int32_default [simp]: "dec_int32 (JNum 3) = Some 3" "dec_int32 (JNum 30) = Some 30"
  by simp_all

declare dec_int32.simps(1) [simp del]

lemma all_some_map: "(\<And>x. x \<in> set xs \<Longrightarrow> f x = Some (g x)) \<Longrightarrow> all_some (map f xs) = Some (map g xs)"
  by (induction xs) simp_all

definition coder_ok :: "schema \<Rightarrow> 'a coder \<Rightarrow> bool" where
  "coder_ok sc c \<longleftrightarrow> (\<forall>v. dec c (apply_defaults sc (enc c v)) = Some (canon c v))"

definition coders_ok :: "coders \<Rightarrow> bool" where
  "coders_ok C \<longleftrightarrow> coder_ok Leaf (jc_Selector C) \<and> coder_ok (Fields [(''name'', Some (JStr ''''), Leaf)]) (jc_Secret C) \<and>
     coder_ok Leaf (jc_Resources C) \<and> coder_ok Leaf (jc_Condition C) \<and> coder_ok Leaf (jc_Time C)"

lemma coders_okD:
  assumes "coders_ok C"
  shows "dec (jc_Selector C) (enc (jc_Selector C) a) = Some (canon (jc_Selector C) a)"
    "dec (jc_Secret C) (apply_defaults (Fields [(''name'', Some (JStr ''''), Leaf)]) (enc (jc_Secret C) b)) = Some (canon (jc_Secret C) b)"
    "dec (jc_Resources C) (enc (jc_Resources C) d) = Some (canon (jc_Resources C) d)"
    "dec (jc_Condition C) (enc (jc_Condition C) e) = Some (canon (jc_Condition C) e)"
    "dec (jc_Time C) (enc (jc_Time C) t) = Some (canon (jc_Time C) t)"
  using assms by (simp_all add: coders_ok_def coder_ok_def)

lemma retry_roundtrip:
  "dec_struct retry_of (apply_defaults retry_schema (JObj (retry_members r))) = Some (default_retry r)"
  unfolding retry_schema_def
proof (rule dec_struct_object)
  fix ms' assume m: "jmember ms' = defaulted [(''backoffSeconds'', Some (JNum 30), Leaf), (''maxAttempts'', Some (JNum 3), Leaf)] (retry_members r)"
  show "retry_of ms' = Some (default_retry r)"
    by (cases r) (simp add: retry_of_def field_def m defaulted_def retry_members_def jmember_append jmember_fields default_retry_def Let_def)
qed simp

lemma targets_roundtrip:
  assumes "coders_ok C"
  shows "dec_struct (targets_of C) (JObj (targets_members C t)) =
    Some (t\<lparr>nts_Selector := map_option (canon (jc_Selector C)) (nts_Selector t)\<rparr>)"
proof -
  have n: "all_some (map (dec_string \<circ> JStr) xs) = Some xs" for xs
    using all_some_map [of xs "dec_string \<circ> JStr" id] by simp
  show ?thesis
    by (cases t; cases "nts_Selector t"; cases "nts_Names t")
      (simp_all add: dec_struct_def targets_of_def field_def targets_members_def jmember_append jmember_fields
        dec_pointer_def dec_slice_def coders_okD [OF assms] n del: all_some.simps list.map)
qed

section \<open>The round trip of a specification\<close>

lemma secrets_roundtrip:
  assumes "coders_ok C"
  shows "dec_slice (dec (jc_Secret C)) (apply_defaults secrets_schema (JArr (map (enc (jc_Secret C)) xs))) =
    Some (map (canon (jc_Secret C)) xs)"
  by (simp add: secrets_schema_def dec_slice_def all_some_map coders_okD(2) [OF assms] del: apply_defaults.simps(3))

definition canonical_spec :: "coders \<Rightarrow> PrePullImageSpec \<Rightarrow> PrePullImageSpec" where
  "canonical_spec C s =
     s\<lparr>spec_Nodes := (spec_Nodes s)\<lparr>nts_Selector := map_option (canon (jc_Selector C)) (nts_Selector (spec_Nodes s))\<rparr>,
       spec_ImagePullSecrets := map (canon (jc_Secret C)) (spec_ImagePullSecrets s),
       spec_Resources := canon (jc_Resources C) (spec_Resources s)\<rparr>"

lemma stored_spec_eq:
  assumes "coders_ok C"
  shows "stored_spec C s = Some ((canonical_spec C s)
    \<lparr>spec_Retry := default_retry (spec_Retry s), spec_Timeout := default_timeout (spec_Timeout s)\<rparr>)"
  unfolding stored_spec_def spec_schema_def
proof (rule dec_struct_object)
  fix ms' assume m: "jmember ms' = defaulted [(''imagePullSecrets'', None, secrets_schema), (''retry'', None, retry_schema),
     (''timeout'', Some (JStr ''10m''), Leaf)] (spec_members C s)"
  have f: "field ms' ''image'' '''' dec_string = Some (spec_Image s)"
    "field ms' ''imageDigest'' '''' dec_string = Some (spec_ImageDigest s)"
    "field ms' ''timeout'' '''' dec_string = Some (default_timeout (spec_Timeout s))"
    "field ms' ''resources'' no_resources (dec (jc_Resources C)) = Some (canon (jc_Resources C) (spec_Resources s))"
    by (simp_all add: field_def m defaulted_def spec_members_def jmember_append jmember_fields default_timeout_def
        coders_okD [OF assms])
  have r: "field ms' ''retry'' no_retry (dec_struct retry_of) = Some (default_retry (spec_Retry s))"
    by (simp add: field_def m defaulted_def spec_members_def jmember_append jmember_fields retry_roundtrip)
  have n: "field ms' ''nodes'' no_targets (dec_struct (targets_of C)) = Some (spec_Nodes (canonical_spec C s))"
    by (simp add: field_def m defaulted_def spec_members_def jmember_append jmember_fields targets_roundtrip [OF assms]
        canonical_spec_def)
  have p: "field ms' ''imagePullSecrets'' [] (dec_slice (dec (jc_Secret C))) = Some (map (canon (jc_Secret C)) (spec_ImagePullSecrets s))"
    by (cases "spec_ImagePullSecrets s")
      (simp_all add: field_def m defaulted_def spec_members_def jmember_append jmember_fields
        secrets_roundtrip [OF assms, of "x # xs" for x xs, simplified list.map])
  show "spec_of C ms' = Some ((canonical_spec C s)
    \<lparr>spec_Retry := default_retry (spec_Retry s), spec_Timeout := default_timeout (spec_Timeout s)\<rparr>)"
    by (simp add: spec_of_def f r n p canonical_spec_def)
qed simp

section \<open>The round trip of a status\<close>

abbreviation canon_time :: "coders \<Rightarrow> instant option \<Rightarrow> instant option" where
  "canon_time C \<equiv> map_option (canon (jc_Time C))"

definition canonical_node :: "coders \<Rightarrow> NodeStatus \<Rightarrow> NodeStatus" where
  "canonical_node C n = n\<lparr>ns_StartedAt := canon_time C (ns_StartedAt n), ns_CompletedAt := canon_time C (ns_CompletedAt n)\<rparr>"

definition canonical_status :: "coders \<Rightarrow> PrePullImageStatus \<Rightarrow> PrePullImageStatus" where
  "canonical_status C st =
     st\<lparr>st_NodeStatus := map (canonical_node C) (st_NodeStatus st),
        st_Conditions := map (canon (jc_Condition C)) (st_Conditions st),
        st_StartTime := canon_time C (st_StartTime st), st_CompletionTime := canon_time C (st_CompletionTime st)\<rparr>"

lemma pointer_roundtrip:
  "coders_ok C \<Longrightarrow> dec_pointer (dec (jc_Time C)) (enc (jc_Time C) x) = Some (Some (canon (jc_Time C) x))"
  by (simp add: dec_pointer_def coders_okD)

lemma slice_roundtrip:
  assumes "\<And>x. d (e x) = Some (c x)"
  shows "dec_slice d (JArr (map e xs)) = Some (map c xs)"
  using all_some_map [of xs "d \<circ> e" c] assms by (simp add: dec_slice_def)

lemma node_status_roundtrip:
  assumes "coders_ok C"
  shows "dec_struct (node_status_of C) (JObj (node_status_members C n)) = Some (canonical_node C n)"
proof -
  have f: "field (node_status_members C n) ''node'' '''' dec_string = Some (ns_Node n)"
    "field (node_status_members C n) ''status'' '''' dec_string = Some (ns_Status n)"
    "field (node_status_members C n) ''duration'' '''' dec_string = Some (ns_Duration n)"
    "field (node_status_members C n) ''error'' '''' dec_string = Some (ns_Error n)"
    "field (node_status_members C n) ''jobName'' '''' dec_string = Some (ns_JobName n)"
    "field (node_status_members C n) ''retryCount'' 0 dec_int32 = Some (ns_RetryCount n)"
    by (simp_all add: field_def node_status_members_def jmember_append jmember_fields)
  have t: "field (node_status_members C n) ''startedAt'' None (dec_pointer (dec (jc_Time C))) = Some (canon_time C (ns_StartedAt n))"
    "field (node_status_members C n) ''completedAt'' None (dec_pointer (dec (jc_Time C))) = Some (canon_time C (ns_CompletedAt n))"
    by (cases "ns_StartedAt n"; cases "ns_CompletedAt n";
        simp add: field_def node_status_members_def jmember_append jmember_fields pointer_roundtrip [OF assms])+
  show ?thesis
    by (simp add: dec_struct_def node_status_of_def f t canonical_node_def)
qed

lemma summary_roundtrip:
  "dec_struct summary_of_members (JObj (summary_members s)) = Some s"
  by (simp add: dec_struct_def summary_of_members_def field_def summary_members_def jmember_append jmember_fields)

lemma stored_status_eq:
  assumes "coders_ok C"
  shows "stored_status C st = Some ((canonical_status C st)
    \<lparr>st_Phase := if st_Phase st = '''' then PrePullImagePhasePending else st_Phase st\<rparr>)"
  unfolding stored_status_def status_schema_def
proof (rule dec_struct_object)
  fix ms' assume m: "jmember ms' = defaulted [(''phase'', Some (JStr ''Pending''), Leaf)] (status_members C st)"
  note s = field_def m defaulted_def status_members_def jmember_append jmember_fields
  have f: "field ms' ''phase'' '''' dec_string = Some (if st_Phase st = '''' then PrePullImagePhasePending else st_Phase st)"
    "field ms' ''summary'' zero_summary (dec_struct summary_of_members) = Some (st_Summary st)"
    by (simp_all add: s summary_roundtrip PrePullImagePhasePending_def)
  have n: "field ms' ''nodeStatus'' [] (dec_slice (dec_struct (node_status_of C))) = Some (map (canonical_node C) (st_NodeStatus st))"
    using slice_roundtrip [of "dec_struct (node_status_of C)" "\<lambda>n. JObj (node_status_members C n)", OF node_status_roundtrip [OF assms]]
    by (simp add: s)
  have c: "field ms' ''conditions'' [] (dec_slice (dec (jc_Condition C))) = Some (map (canon (jc_Condition C)) (st_Conditions st))"
    using slice_roundtrip [of "dec (jc_Condition C)" "enc (jc_Condition C)", OF coders_okD(4) [OF assms]]
    by (simp add: s)
  have t: "field ms' ''startTime'' None (dec_pointer (dec (jc_Time C))) = Some (canon_time C (st_StartTime st))"
    "field ms' ''completionTime'' None (dec_pointer (dec (jc_Time C))) = Some (canon_time C (st_CompletionTime st))"
    by (cases "st_StartTime st"; cases "st_CompletionTime st"; simp add: s pointer_roundtrip [OF assms])+
  show "status_of C ms' = Some ((canonical_status C st)
    \<lparr>st_Phase := if st_Phase st = '''' then PrePullImagePhasePending else st_Phase st\<rparr>)"
    by (simp add: status_of_def f n c t canonical_status_def)
qed simp

section \<open>What the defaults do to the program's objects\<close>

lemma default_retry_same: "default_retry r = r \<longleftrightarrow> retry_MaxAttempts r \<noteq> 0 \<and> retry_BackoffSeconds r \<noteq> 0"
  by (cases r) (auto simp: default_retry_def Let_def)

lemma default_timeout_same: "default_timeout t = t \<longleftrightarrow> t \<noteq> ''''"
  by (auto simp: default_timeout_def)

lemma default_retry_nonzero [simp]:
  "retry_MaxAttempts (default_retry r) \<noteq> 0" "retry_BackoffSeconds (default_retry r) \<noteq> 0"
  by (simp_all add: default_retry_def Let_def)

lemma canonical_spec_frame [simp]:
  "spec_Retry (canonical_spec C s) = spec_Retry s" "spec_Timeout (canonical_spec C s) = spec_Timeout s"
  by (simp_all add: canonical_spec_def)

lemma stored_spec_canonical:
  assumes "coders_ok C"
  shows "stored_spec C s = Some (canonical_spec C s) \<longleftrightarrow>
    retry_MaxAttempts (spec_Retry s) \<noteq> 0 \<and> retry_BackoffSeconds (spec_Retry s) \<noteq> 0 \<and> spec_Timeout s \<noteq> ''''"
proof -
  have "c\<lparr>spec_Retry := y, spec_Timeout := t\<rparr> = c \<longleftrightarrow> y = spec_Retry c \<and> t = spec_Timeout c" for c :: PrePullImageSpec and y t
    by (cases c) auto
  then show ?thesis
    using default_retry_same default_timeout_same by (simp add: stored_spec_eq [OF assms])
qed

text \<open>
  The canonical forms that matter: times are in whole seconds on the wire (RFC 3339), in
  conditions too, a reference to a secret is its name, and a quantity or a selector that was read
  is written as it was.
\<close>

definition whole_second :: "instant \<Rightarrow> instant" where
  "whole_second t = t div 1000000000 * 1000000000"

lemma whole_second_again [simp]: "whole_second (whole_second t) = whole_second t"
  by (simp add: whole_second_def)

definition wire_forms :: "coders \<Rightarrow> bool" where
  "wire_forms C \<longleftrightarrow> (\<forall>t. canon (jc_Time C) t = whole_second t) \<and>
     (\<forall>c. canon (jc_Condition C) c = c\<lparr>cond_LastTransitionTime := whole_second (cond_LastTransitionTime c)\<rparr>) \<and>
     (\<forall>r. canon (jc_Secret C) r = r) \<and>
     (\<forall>x. canon (jc_Resources C) (canon (jc_Resources C) x) = canon (jc_Resources C) x) \<and>
     (\<forall>x. canon (jc_Selector C) (canon (jc_Selector C) x) = canon (jc_Selector C) x)"

definition node_in_seconds :: "NodeStatus \<Rightarrow> NodeStatus" where
  "node_in_seconds n = n\<lparr>ns_StartedAt := map_option whole_second (ns_StartedAt n),
     ns_CompletedAt := map_option whole_second (ns_CompletedAt n)\<rparr>"

definition status_in_seconds :: "PrePullImageStatus \<Rightarrow> PrePullImageStatus" where
  "status_in_seconds st =
     st\<lparr>st_NodeStatus := map node_in_seconds (st_NodeStatus st),
        st_Conditions := map (\<lambda>c. c\<lparr>cond_LastTransitionTime := whole_second (cond_LastTransitionTime c)\<rparr>) (st_Conditions st),
        st_StartTime := map_option whole_second (st_StartTime st),
        st_CompletionTime := map_option whole_second (st_CompletionTime st)\<rparr>"

lemma canonical_status_seconds:
  assumes "wire_forms C"
  shows "canonical_status C st = status_in_seconds st"
proof -
  have "canon (jc_Time C) = whole_second"
    "canon (jc_Condition C) = (\<lambda>c. c\<lparr>cond_LastTransitionTime := whole_second (cond_LastTransitionTime c)\<rparr>)"
    using assms by (auto simp: wire_forms_def)
  moreover from this have "canonical_node C = node_in_seconds"
    by (auto simp: canonical_node_def node_in_seconds_def)
  ultimately show ?thesis by (simp add: canonical_status_def status_in_seconds_def)
qed

lemma status_in_seconds_again [simp]: "status_in_seconds (status_in_seconds st) = status_in_seconds st"
  by (simp add: status_in_seconds_def node_in_seconds_def option.map_comp comp_def)

lemma status_in_seconds_phase [simp]: "st_Phase (status_in_seconds st) = st_Phase st"
  by (simp add: status_in_seconds_def)

lemma canonical_spec_again:
  assumes "wire_forms C"
  shows "canonical_spec C (canonical_spec C s) = canonical_spec C s"
proof -
  have "canon (jc_Secret C) = id" using assms by (auto simp: wire_forms_def)
  then show ?thesis
    using assms by (simp add: canonical_spec_def wire_forms_def option.map_comp comp_def)
qed

lemma stored_spec_again:
  assumes "coders_ok C" and "wire_forms C" and "stored_spec C s = Some s'"
  shows "stored_spec C s' = Some s'"
proof -
  have s': "s' = (canonical_spec C s)\<lparr>spec_Retry := default_retry (spec_Retry s), spec_Timeout := default_timeout (spec_Timeout s)\<rparr>"
    using assms(3) by (simp add: stored_spec_eq [OF assms(1)])
  have "canonical_spec C (c\<lparr>spec_Retry := r, spec_Timeout := x\<rparr>) = (canonical_spec C c)\<lparr>spec_Retry := r, spec_Timeout := x\<rparr>"
    for c :: PrePullImageSpec and r x by (simp add: canonical_spec_def)
  then have "canonical_spec C s' = s'" using s' canonical_spec_again [OF assms(2)] by simp
  moreover have "retry_MaxAttempts (spec_Retry s') \<noteq> 0" "retry_BackoffSeconds (spec_Retry s') \<noteq> 0" "spec_Timeout s' \<noteq> ''''"
    using s' by (simp_all add: default_timeout_def)
  ultimately show ?thesis using stored_spec_canonical [OF assms(1), of s'] by simp
qed

text \<open>
  (C32) What is stored of an object that is sent through JSON and the defaults of the CRD. Of a
  specification, every field of the API's own is stored as it was sent exactly when no field that
  has a default is zero (secrets included; quantities and a label selector come back in their
  canonical notation). So it is for every object that the Deployment controller creates, whose
  own defaults are those of the CRD. A status with a phase is stored as it was sent but for its
  time stamps, which are cut to the second. And what is stored is stable: sent again it is
  stored as it is.
\<close>

theorem stored_fields_exact:
  assumes "coders_ok C" and "wire_forms C"
  shows "(stored_spec C s = Some (s\<lparr>spec_Resources := canon (jc_Resources C) (spec_Resources s),
        spec_Nodes := (spec_Nodes s)\<lparr>nts_Selector := map_option (canon (jc_Selector C)) (nts_Selector (spec_Nodes s))\<rparr>\<rparr>) \<longleftrightarrow>
      retry_MaxAttempts (spec_Retry s) \<noteq> 0 \<and> retry_BackoffSeconds (spec_Retry s) \<noteq> 0 \<and> spec_Timeout s \<noteq> '''') \<and>
    stored_spec C (ppi_Spec (new_ppi d p img ns)) =
      Some ((ppi_Spec (new_ppi d p img ns))\<lparr>spec_Resources :=
        canon (jc_Resources C) (default_resources (pspec_Resources (pol_Spec p)))\<rparr>) \<and>
    (st_Phase st \<noteq> '''' \<longrightarrow> stored_status C st = Some (status_in_seconds st)) \<and>
    (\<forall>s'. stored_spec C s = Some s' \<longrightarrow> stored_spec C s' = Some s') \<and>
    (\<forall>st'. stored_status C st = Some st' \<longrightarrow> stored_status C st' = Some st')"
proof -
  have sec: "canon (jc_Secret C) = id" using assms(2) by (auto simp: wire_forms_def)
  then have c: "canonical_spec C x = x\<lparr>spec_Resources := canon (jc_Resources C) (spec_Resources x),
      spec_Nodes := (spec_Nodes x)\<lparr>nts_Selector := map_option (canon (jc_Selector C)) (nts_Selector (spec_Nodes x))\<rparr>\<rparr>" for x
    by (cases x) (simp add: canonical_spec_def)
  have spec: "stored_spec C x = Some (x\<lparr>spec_Resources := canon (jc_Resources C) (spec_Resources x),
        spec_Nodes := (spec_Nodes x)\<lparr>nts_Selector := map_option (canon (jc_Selector C)) (nts_Selector (spec_Nodes x))\<rparr>\<rparr>) \<longleftrightarrow>
      retry_MaxAttempts (spec_Retry x) \<noteq> 0 \<and> retry_BackoffSeconds (spec_Retry x) \<noteq> 0 \<and> spec_Timeout x \<noteq> ''''" for x
    using stored_spec_canonical [OF assms(1), of x] unfolding c .
  have new: "stored_spec C (ppi_Spec (new_ppi d p img ns)) =
      Some ((ppi_Spec (new_ppi d p img ns))\<lparr>spec_Resources :=
        canon (jc_Resources C) (default_resources (pspec_Resources (pol_Spec p)))\<rparr>)"
    using spec [of "ppi_Spec (new_ppi d p img ns)"] by (simp add: new_ppi_def default_timeout_def)
  have st: "stored_status C st = Some (status_in_seconds st)" if "st_Phase st \<noteq> ''''" for st
    using that by (cases st) (simp add: stored_status_eq [OF assms(1)] canonical_status_seconds [OF assms(2)] status_in_seconds_def)
  have again: "stored_status C st' = Some st'" if "stored_status C st = Some st'" for st'
  proof -
    let ?ph = "if st_Phase st = '''' then PrePullImagePhasePending else st_Phase st"
    have "st' = status_in_seconds (st\<lparr>st_Phase := ?ph\<rparr>)"
      using that by (cases st) (auto simp: stored_status_eq [OF assms(1)] canonical_status_seconds [OF assms(2)] status_in_seconds_def)
    moreover have "?ph \<noteq> ''''" by (simp add: phase_defs)
    ultimately show ?thesis using st [of st'] by simp
  qed
  show ?thesis using spec [of s] new st [of st] stored_spec_again [OF assms] again by blast
qed

end
