(* ===== verification/JsonSystem.thy ===== *)
theory JsonSystem
  imports ApiJsonFacts ImageSystem
begin

text \<open>
  What the round trip of \<open>ApiJsonFacts\<close> means for the controllers: the law of the API server that
  it stores what JSON and defaults make of an update, and the fields that change because a
  zero cannot be sent.
\<close>

declare split_paired_All [simp del] split_paired_Ex [simp del]

definition json_server :: "coders \<Rightarrow> 'w k8s \<Rightarrow> ('w \<Rightarrow> objkey \<rightharpoonup> PrePullImage) \<Rightarrow> bool" where
  "json_server C k stored \<longleftrightarrow> coders_ok C \<and> ppi_store k stored \<and>
     (\<forall>w w' p q new. UpdatePPI k p w = (Inr q, w') \<longrightarrow> stored w' (key_of (ppi_Meta p)) = Some new \<longrightarrow>
        stored_spec C (ppi_Spec p) = Some (ppi_Spec new))"

lemma json_server_update:
  assumes "json_server C k stored" and "UpdatePPI k p w = (Inr q, w')" and "stored w' (key_of (ppi_Meta p)) = Some new"
  shows "ppi_Spec new = (canonical_spec C (ppi_Spec p))
    \<lparr>spec_Retry := default_retry (spec_Retry (ppi_Spec p)), spec_Timeout := default_timeout (spec_Timeout (ppi_Spec p))\<rparr>"
proof -
  have "coders_ok C" "stored_spec C (ppi_Spec p) = Some (ppi_Spec new)"
    using assms unfolding json_server_def by blast+
  then show ?thesis by (simp add: stored_spec_eq)
qed

text \<open>
  The law of \<open>ppi_store\<close> on status updates is what JSON gives: of a status with a phase, the phase,
  the state of every node and whether there is a completion time survive the wire. (Every status
  that the handlers write has a phase.)
\<close>

lemma stored_status_same:
  assumes "coders_ok C" and "stored_status C st = Some st'" and "st_Phase st \<noteq> ''''"
  shows "same_status st st'"
  using assms(2,3) by (auto simp: stored_status_eq [OF assms(1)] same_status_def canonical_status_def canonical_node_def)

text \<open>
  (C33) The reconcile that adds the finalizer rewrites the specification: an object whose author
  asked for no retries (\<open>maxAttempts: 0\<close>) is afterwards one with three attempts, a
  backoff of 0 becomes 30 and an empty timeout ten minutes; the other fields stay.
\<close>

theorem first_reconcile_sets_defaults:
  assumes "json_server C k stored" and "stored (op_World s) key = Some p" and "key_of (ppi_Meta p) = key"
    and "\<not> ppi_deleted p" and "FinalizerName \<notin> ppi_finalizers p"
    and "Reconcile_PPI k key s = (Inr res, s')" and "Requeue res"
  shows "\<exists>new. stored (op_World s') key = Some new \<and> FinalizerName \<in> ppi_finalizers new \<and>
    spec_Image (ppi_Spec new) = spec_Image (ppi_Spec p) \<and>
    ppi_MaxAttempts new = (if ppi_MaxAttempts p = 0 then 3 else ppi_MaxAttempts p) \<and>
    retry_BackoffSeconds (spec_Retry (ppi_Spec new)) =
      (if retry_BackoffSeconds (spec_Retry (ppi_Spec p)) = 0 then 30 else retry_BackoffSeconds (spec_Retry (ppi_Spec p))) \<and>
    spec_Timeout (ppi_Spec new) = (if spec_Timeout (ppi_Spec p) = '''' then ''10m'' else spec_Timeout (ppi_Spec p)) \<and>
    nts_Names (spec_Nodes (ppi_Spec new)) = nts_Names (spec_Nodes (ppi_Spec p))"
proof -
  have st: "ppi_store k stored" and d: "documented k"
    using assms(1) by (simp_all add: json_server_def ppi_store_def)
  obtain t0 s1 where n: "world (Now k) s = (t0, s1)" by (metis surj_pair)
  obtain r s2 where b: "reconcile_body_PPI k key s1 = (r, s2)" by (metis surj_pair)
  obtain t1 s3 where n3: "world (Now k) s2 = (t1, s3)" by (metis surj_pair)
  have r: "r = Inr res" "stored (op_World s') = stored (op_World s2)"
    using assms(6) n b n3 quiet_world [OF store_quiet(1) [OF st] n3]
    by (auto simp: Reconcile_PPI_def RecordReconcile_def)
  have s1: "stored (op_World s1) key = Some p"
    using quiet_world [OF store_quiet(1) [OF st] n] assms(2) by simp
  obtain g s1' where g: "world (GetPPI k key) s1 = (g, s1')" by (metis surj_pair)
  have "g \<noteq> Inl e" for e
    using b g r(1) assms(7) by (auto simp: reconcile_body_PPI_def no_requeue_def split: if_splits)
  then obtain p' where gp: "g = Inr p'" by (cases g) auto
  have "stored (op_World s1) key = Some p'"
    using world_eqD [OF g [unfolded gp]] st unfolding ppi_store_def by (metis fst_conv)
  with s1 have p': "p' = p" by simp
  let ?p = "set_finalizers (AddFinalizer k (meta_Finalizers (ppi_Meta p)) FinalizerName) p"
  have "\<not> ContainsFinalizer k (meta_Finalizers (ppi_Meta p)) FinalizerName"
    using d assms(5) by (simp add: documented_def)
  then obtain q where u: "world (UpdatePPI k ?p) s1' = (Inr q, s2)"
    using b g gp p' assms(4) r(1) by (auto simp: reconcile_body_PPI_def dispatch_PPI_def split: prod.splits sum.splits)
  from world_eqD [OF u] have up: "UpdatePPI k ?p (op_World s1') = (Inr q, op_World s2)" by simp
  have key: "key_of (ppi_Meta ?p) = key"
    using assms(3) by (simp add: set_finalizers_def key_of_def)
  have fin: "FinalizerName \<in> ppi_finalizers ?p"
    using d by (simp add: set_finalizers_def documented_def)
  obtain new where new: "stored (op_World s2) key = Some new" "ppi_finalizers new = ppi_finalizers ?p"
    using store_update [OF st up] fin unfolding object_updated_def key by (auto split: if_splits)
  have "ppi_Spec new = (canonical_spec C (ppi_Spec p))
    \<lparr>spec_Retry := default_retry (spec_Retry (ppi_Spec p)), spec_Timeout := default_timeout (spec_Timeout (ppi_Spec p))\<rparr>"
    using json_server_update [OF assms(1) up, unfolded key, OF new(1)] by (simp add: set_finalizers_def)
  with new r(2) fin show ?thesis
    by (simp add: canonical_spec_def default_retry_def default_timeout_def Let_def)
qed

text \<open>
  A server of this kind: the one in memory, which stores of an update what it reads back from
  JSON. Its coders keep times to the second, conditions and secrets, and drop selectors and
  quantities.
\<close>

definition enc_condition :: "Condition \<Rightarrow> json" where
  "enc_condition c = JArr [JStr (cond_Type c), JStr (cond_Status c), JNum (sint (cond_ObservedGeneration c)),
     JNum (cond_LastTransitionTime c div 1000000000), JStr (cond_Reason c), JStr (cond_Message c)]"

fun dec_condition :: "json \<Rightarrow> Condition option" where
  "dec_condition (JArr [JStr y, JStr s, JNum g, JNum t, JStr r, JStr m]) =
     Some \<lparr>cond_Type = y, cond_Status = s, cond_ObservedGeneration = word_of_int g,
       cond_LastTransitionTime = t * 1000000000, cond_Reason = r, cond_Message = m\<rparr>"
| "dec_condition j = None"

definition sample_coders :: coders where
  "sample_coders =
     \<lparr>jc_Selector = \<lparr>enc = (\<lambda>v. JObj []), dec = (\<lambda>j. Some \<lparr>ls_MatchLabels = Map.empty, ls_MatchExpressions = []\<rparr>),
        canon = (\<lambda>v. \<lparr>ls_MatchLabels = Map.empty, ls_MatchExpressions = []\<rparr>)\<rparr>,
      jc_Secret = \<lparr>enc = (\<lambda>r. JObj (omit_string ''name'' (ref_Name r))),
        dec = dec_struct (\<lambda>ms. map_option LocalObjectReference.make (field ms ''name'' '''' dec_string)), canon = id\<rparr>,
      jc_Resources = \<lparr>enc = (\<lambda>v. JObj []), dec = (\<lambda>j. Some no_resources), canon = (\<lambda>v. no_resources)\<rparr>,
      jc_Condition = \<lparr>enc = enc_condition, dec = dec_condition,
        canon = (\<lambda>c. c\<lparr>cond_LastTransitionTime := whole_second (cond_LastTransitionTime c)\<rparr>)\<rparr>,
      jc_Time = \<lparr>enc = (\<lambda>t. JNum (t div 1000000000)),
        dec = (\<lambda>j. case j of JNum n \<Rightarrow> Some (n * 1000000000) | _ \<Rightarrow> None),
        canon = whole_second\<rparr>\<rparr>"

lemma sample_coders_ok: "coders_ok sample_coders"
proof -
  have "dec_struct (\<lambda>ms. map_option LocalObjectReference.make (field ms ''name'' '''' dec_string))
      (apply_defaults (Fields [(''name'', Some (JStr ''''), Leaf)]) (JObj (omit_string ''name'' (ref_Name r)))) = Some r" for r
  proof (rule dec_struct_object)
    fix ms' assume "jmember ms' = defaulted [(''name'', Some (JStr ''''), Leaf)] (omit_string ''name'' (ref_Name r))"
    then show "map_option LocalObjectReference.make (field ms' ''name'' '''' dec_string) = Some r"
      by (cases r) (simp add: field_def defaulted_def jmember_fields LocalObjectReference.make_def)
  qed simp
  then show ?thesis
    by (simp add: coders_ok_def coder_ok_def sample_coders_def enc_condition_def whole_second_def
        del: apply_defaults.simps(3))
qed

lemma sample_wire_forms: "wire_forms sample_coders"
  by (simp add: wire_forms_def sample_coders_def)

definition json_update :: "PrePullImage \<Rightarrow> mem \<Rightarrow> (go_error + PrePullImage) \<times> mem" where
  "json_update p w = (case stored_spec sample_coders (ppi_Spec p) of
     None \<Rightarrow> (Inl not_found, w) | Some sp \<Rightarrow> mem_update_ppi (p\<lparr>ppi_Spec := sp\<rparr>) w)"

definition json_k8s :: "mem k8s" where
  "json_k8s = mem_k8s\<lparr>UpdatePPI := json_update\<rparr>"

lemma json_update_store:
  "json_update p w = (Inr q, w') \<Longrightarrow> object_updated p (mem_ppis w) (mem_ppis w')"
  "json_update p w = (Inl e, w') \<Longrightarrow> mem_ppis w' = mem_ppis w"
proof -
  have o: "object_updated (p\<lparr>ppi_Spec := sp\<rparr>) m m' = object_updated p m m'" for sp m m'
    by (simp add: object_updated_def)
  show "json_update p w = (Inr q, w') \<Longrightarrow> object_updated p (mem_ppis w) (mem_ppis w')"
    using mem_update_law [of "p\<lparr>ppi_Spec := sp\<rparr>" w q w' for sp] o by (auto simp: json_update_def split: option.splits)
  show "json_update p w = (Inl e, w') \<Longrightarrow> mem_ppis w' = mem_ppis w"
    using mem_failed(2) [of "p\<lparr>ppi_Spec := sp\<rparr>" w e w' for sp] by (auto simp: json_update_def split: option.splits)
qed

lemma json_update_spec:
  "json_update p w = (Inr q, w') \<Longrightarrow> mem_ppis w' (key_of (ppi_Meta p)) = Some new \<Longrightarrow>
     stored_spec sample_coders (ppi_Spec p) = Some (ppi_Spec new)"
  by (auto simp: json_update_def mem_update_ppi_def Let_def split: option.splits if_splits)

lemma json_ppi_store: "ppi_store json_k8s mem_ppis"
proof -
  have "documented json_k8s"
    using mem_documented by (simp add: documented_def json_k8s_def)
  moreover have "calls_quiet json_k8s mem_ppis"
    using mem_ppi_store by (simp add: ppi_store_def calls_quiet_def json_k8s_def)
  ultimately show ?thesis
    using mem_ppi_store json_update_store by (simp add: ppi_store_def json_k8s_def)
qed

lemma json_k8s_server: "json_server sample_coders json_k8s mem_ppis"
  using json_ppi_store sample_coders_ok json_update_spec by (simp add: json_server_def json_k8s_def)

definition no_retries_ppi :: PrePullImage where
  "no_retries_ppi = (let p = sample_ppi [] [''n1''] '''' [] in
     p\<lparr>ppi_Spec := (ppi_Spec p)\<lparr>spec_Retry := \<lparr>retry_MaxAttempts = 0, retry_BackoffSeconds = 30\<rparr>\<rparr>\<rparr>)"

lemma first_reconcile_sets_defaults_witness:
  "\<exists>(s' :: mem op) res new. ppi_MaxAttempts no_retries_ppi = 0 \<and>
     Reconcile_PPI json_k8s (''prod'', ''app'') (sample_op (sample_world no_retries_ppi)) = (Inr res, s') \<and>
     mem_ppis (op_World s') (''prod'', ''app'') = Some new \<and> ppi_MaxAttempts new = 3"
proof -
  let ?s = "sample_op (sample_world no_retries_ppi)"
  have k: "Now json_k8s w = (mem_clock w, w)" "GetPPI json_k8s key w = (mem_get_ppi w key, w)"
    "UpdatePPI json_k8s = json_update" "ContainsFinalizer json_k8s fs f = (f \<in> set fs)"
    "AddFinalizer json_k8s fs f = (if f \<in> set fs then fs else fs @ [f])" for w key fs f
    by (simp_all add: json_k8s_def)
  obtain sp where sp: "stored_spec sample_coders (ppi_Spec no_retries_ppi) = Some sp"
    by (simp add: stored_spec_eq [OF sample_coders_ok])
  have g: "mem_get_ppi (op_World ?s) (''prod'', ''app'') = Inr no_retries_ppi"
    by (simp add: mem_get_ppi_def no_retries_ppi_def sample_defs)
  have u: "\<exists>q w. json_update (set_finalizers [FinalizerName] no_retries_ppi) (op_World ?s) = (Inr q, w)"
    using sp by (simp add: json_update_def mem_update_ppi_def set_finalizers_def no_retries_ppi_def sample_defs Let_def)
  have f: "meta_Finalizers (ppi_Meta no_retries_ppi) = []" "meta_DeletionTimestamp (ppi_Meta no_retries_ppi) = None"
    by (simp_all add: no_retries_ppi_def sample_defs)
  from u obtain q w where "json_update (set_finalizers [FinalizerName] no_retries_ppi) (op_World ?s) = (Inr q, w)" by blast
  then obtain s' where r: "Reconcile_PPI json_k8s (''prod'', ''app'') ?s = (Inr \<lparr>Requeue = True, RequeueAfter = 0\<rparr>, s')"
    by (simp add: Reconcile_PPI_def reconcile_body_PPI_def dispatch_PPI_def world_def k g f)
  obtain new where "mem_ppis (op_World s') (''prod'', ''app'') = Some new"
    "ppi_MaxAttempts new = (if ppi_MaxAttempts no_retries_ppi = 0 then 3 else ppi_MaxAttempts no_retries_ppi)"
    using first_reconcile_sets_defaults [OF json_k8s_server, of ?s "(''prod'', ''app'')" no_retries_ppi, OF _ _ _ _ r]
    by (auto simp: no_retries_ppi_def sample_defs)
  moreover have "ppi_MaxAttempts no_retries_ppi = 0"
    by (simp add: no_retries_ppi_def Let_def)
  ultimately show ?thesis using r by auto
qed

lemma stored_fields_exact_witness:
  "stored_status sample_coders (zero_ppi_status\<lparr>st_Phase := PrePullImagePhaseInProgress, st_StartTime := Some 1500000000\<rparr>) =
     Some (zero_ppi_status\<lparr>st_Phase := PrePullImagePhaseInProgress, st_StartTime := Some 1000000000\<rparr>)"
  using stored_fields_exact [OF sample_coders_ok sample_wire_forms, where st =
      "zero_ppi_status\<lparr>st_Phase := PrePullImagePhaseInProgress, st_StartTime := Some 1500000000\<rparr>"]
  by (simp add: status_in_seconds_def zero_ppi_status_def whole_second_def phase_defs)

section \<open>Policies as they are applied\<close>

lemma applied_fields:
  assumes "applied_policy_spec C ms = Some sp"
  obtains ms' where "jmember ms' = defaulted [(''imagePullSecrets'', None, secrets_config_schema), (''retry'', None, retry_schema),
      (''timeout'', Some (JStr ''10m''), Leaf)] ms"
    and "field ms' ''imagePullSecrets'' no_secrets_config (dec_struct (secrets_config_of C)) = Some (pspec_ImagePullSecrets sp)"
    and "field ms' ''retry'' no_retry (dec_struct retry_of) = Some (pspec_Retry sp)"
proof -
  have "distinct (map fst [(''imagePullSecrets'', None :: json option, secrets_config_schema), (''retry'', None, retry_schema),
      (''timeout'', Some (JStr ''10m''), Leaf)])" by simp
  from apply_defaults_ex [OF this, of ms]
  obtain ms' where m: "apply_defaults policy_schema (JObj ms) = JObj ms'"
    "jmember ms' = defaulted [(''imagePullSecrets'', None, secrets_config_schema), (''retry'', None, retry_schema),
      (''timeout'', Some (JStr ''10m''), Leaf)] ms"
    unfolding policy_schema_def by blast
  have "policy_spec_of C ms' = Some sp"
    using assms by (simp add: applied_policy_spec_def m(1) dec_struct_def)
  then show ?thesis
    by (intro that [OF m(2)]) (auto simp: policy_spec_of_def bind_eq_Some_conv)
qed

lemma secrets_config_of_object:
  assumes "dec_struct (secrets_config_of C) (apply_defaults secrets_config_schema (JObj xs)) = Some c"
  shows "jmember xs ''inherit'' = None \<Longrightarrow> ips_Inherit c"
    "jmember xs ''inherit'' = Some (JBool b) \<Longrightarrow> ips_Inherit c = b"
proof -
  have "distinct (map fst [(''additional'', None :: json option, secrets_schema), (''inherit'', Some (JBool True), Leaf)])" by simp
  from apply_defaults_ex [OF this, of xs]
  obtain xs' where m: "apply_defaults secrets_config_schema (JObj xs) = JObj xs'"
    "jmember xs' = defaulted [(''additional'', None, secrets_schema), (''inherit'', Some (JBool True), Leaf)] xs"
    unfolding secrets_config_schema_def by blast
  have "field xs' ''inherit'' False dec_bool = Some (ips_Inherit c)"
    using assms by (auto simp: m(1) dec_struct_def secrets_config_of_def bind_eq_Some_conv)
  then show "jmember xs ''inherit'' = None \<Longrightarrow> ips_Inherit c" "jmember xs ''inherit'' = Some (JBool b) \<Longrightarrow> ips_Inherit c = b"
    by (simp_all add: field_def m(2) defaulted_def)
qed

lemma retry_of_object:
  assumes "dec_struct retry_of (apply_defaults retry_schema (JObj xs)) = Some y"
  shows "jmember xs ''maxAttempts'' = None \<Longrightarrow> retry_MaxAttempts y = 3"
    "jmember xs ''maxAttempts'' = Some (JNum 0) \<Longrightarrow> retry_MaxAttempts y = 0"
proof -
  have "distinct (map fst [(''backoffSeconds'', Some (JNum 30), Leaf), (''maxAttempts'', Some (JNum 3), Leaf)])" by simp
  from apply_defaults_ex [OF this, of xs]
  obtain xs' where m: "apply_defaults retry_schema (JObj xs) = JObj xs'"
    "jmember xs' = defaulted [(''backoffSeconds'', Some (JNum 30), Leaf), (''maxAttempts'', Some (JNum 3), Leaf)] xs"
    unfolding retry_schema_def by blast
  have "field xs' ''maxAttempts'' 0 dec_int32 = Some (retry_MaxAttempts y)"
    using assms by (auto simp: m(1) dec_struct_def retry_of_def bind_eq_Some_conv)
  then show "jmember xs ''maxAttempts'' = None \<Longrightarrow> retry_MaxAttempts y = 3"
    "jmember xs ''maxAttempts'' = Some (JNum 0) \<Longrightarrow> retry_MaxAttempts y = 0"
    by (simp_all add: field_def m(2) defaulted_def dec_int32.simps(1))
qed

text \<open>
  (C34) A default of a policy applies only inside its block. Without \<open>imagePullSecrets\<close> a policy does
  not inherit secrets, and the objects made under it have none; with an empty block it does
  inherit. Without \<open>retry\<close> it reads as zero attempts, with an empty block as three; and an explicit
  \<open>maxAttempts: 0\<close> is read as such, but the objects made under the policy get three attempts all
  the same.
\<close>

theorem policy_defaults_need_their_block:
  assumes "applied_policy_spec C ms = Some (pol_Spec p)"
  shows "(jmember ms ''imagePullSecrets'' = None \<longrightarrow>
      spec_ImagePullSecrets (ppi_Spec (new_ppi d p img ns)) = []) \<and>
    (jmember ms ''imagePullSecrets'' = Some (JObj xs) \<and> jmember xs ''inherit'' = None \<longrightarrow>
      ips_Inherit (pspec_ImagePullSecrets (pol_Spec p))) \<and>
    (jmember ms ''retry'' = None \<longrightarrow> pspec_Retry (pol_Spec p) = no_retry) \<and>
    (jmember ms ''retry'' = Some (JObj ys) \<and> jmember ys ''maxAttempts'' = None \<longrightarrow>
      retry_MaxAttempts (pspec_Retry (pol_Spec p)) = 3) \<and>
    (jmember ms ''retry'' = Some (JObj ys) \<and> jmember ys ''maxAttempts'' = Some (JNum 0) \<longrightarrow>
      retry_MaxAttempts (pspec_Retry (pol_Spec p)) = 0 \<and> ppi_MaxAttempts (new_ppi d p img ns) = 3)"
proof -
  obtain ms' where m: "jmember ms' = defaulted [(''imagePullSecrets'', None, secrets_config_schema), (''retry'', None, retry_schema),
      (''timeout'', Some (JStr ''10m''), Leaf)] ms"
    and s: "field ms' ''imagePullSecrets'' no_secrets_config (dec_struct (secrets_config_of C)) =
      Some (pspec_ImagePullSecrets (pol_Spec p))"
    and y: "field ms' ''retry'' no_retry (dec_struct retry_of) = Some (pspec_Retry (pol_Spec p))"
    by (rule applied_fields [OF assms])
  have s0: "pspec_ImagePullSecrets (pol_Spec p) = no_secrets_config" if "jmember ms ''imagePullSecrets'' = None"
    using s that by (simp add: field_def m defaulted_def)
  have s1: "dec_struct (secrets_config_of C) (apply_defaults secrets_config_schema (JObj xs)) = Some (pspec_ImagePullSecrets (pol_Spec p))"
    if "jmember ms ''imagePullSecrets'' = Some (JObj xs)"
    using s that by (simp add: field_def m defaulted_def del: apply_defaults.simps)
  have y0: "pspec_Retry (pol_Spec p) = no_retry" if "jmember ms ''retry'' = None"
    using y that by (simp add: field_def m defaulted_def)
  have y1: "dec_struct retry_of (apply_defaults retry_schema (JObj ys)) = Some (pspec_Retry (pol_Spec p))"
    if "jmember ms ''retry'' = Some (JObj ys)"
    using y that by (simp add: field_def m defaulted_def del: apply_defaults.simps)
  have z: "ppi_MaxAttempts (new_ppi d p img ns) = 3" if "retry_MaxAttempts (pspec_Retry (pol_Spec p)) = 0"
    using that by (simp add: new_ppi_def default_retry_def Let_def)
  show ?thesis
    using s0 secrets_config_of_object(1) [OF s1] y0 retry_of_object [OF y1] z
    by (simp add: new_ppi_def pull_secrets_def no_secrets_config_def)
qed

definition bare_policy_members :: members where
  "bare_policy_members = [(''selector'', JObj [(''matchLabels'', JObj [(''app'', JStr ''web'')])])]"

lemma policy_defaults_need_their_block_witness:
  "\<exists>sp. applied_policy_spec sample_coders bare_policy_members = Some sp \<and> pspec_Retry sp = no_retry \<and>
     pspec_Timeout sp = ''10m'' \<and> (\<forall>d st img ns. spec_ImagePullSecrets (ppi_Spec (new_ppi d \<lparr>pol_Meta = zero_meta, pol_Spec = sp, pol_Status = st\<rparr> img ns)) = [])"
proof -
  obtain sp where sp: "applied_policy_spec sample_coders bare_policy_members = Some sp" "pspec_Timeout sp = ''10m''"
    by (simp add: applied_policy_spec_def policy_schema_def bare_policy_members_def dec_struct_def policy_spec_of_def
        field_def jmember_def policy_selector_of_def dec_string_map_def)
  let ?p = "\<lambda>st. \<lparr>pol_Meta = zero_meta, pol_Spec = sp, pol_Status = st\<rparr>"
  have "jmember bare_policy_members ''imagePullSecrets'' = None" "jmember bare_policy_members ''retry'' = None"
    by (simp_all add: bare_policy_members_def jmember_def)
  with policy_defaults_need_their_block [of sample_coders bare_policy_members "?p st" d img ns for d st img ns] sp
  show ?thesis by simp
qed

end
