(* ===== verification/SchemeInit.thy ===== *)
theory SchemeInit
  imports Startup DeepCopy
begin

text \<open>
  What runs before \<open>main\<close>: the package variables and \<open>init\<close> functions of \<open>api/v1alpha1\<close>, which
  collect the kinds of the API group in \<open>SchemeBuilder\<close>, and the \<open>init\<close> of \<open>cmd/main.go\<close>, which adds
  them to the scheme of the process. The scheme of apimachinery and the builder of
  controller-runtime are the record \<open>scheme_lib\<close>, a parameter. Then the whole process, and the
  calls it makes in their order.
\<close>

section \<open>The scheme\<close>

record GroupVersionT =
  gv_Group :: string
  gv_Version :: string

record ('s, 'b) scheme_lib =
  NewScheme :: 's
  NewBuilder :: "GroupVersionT \<Rightarrow> 'b"
  Register :: "string list \<Rightarrow> 'b \<Rightarrow> 'b"
  AddBuilderToScheme :: "'b \<Rightarrow> 's \<Rightarrow> go_error option \<times> 's"
  AddClientGoToScheme :: "'s \<Rightarrow> go_error option \<times> 's"

definition GroupVersion :: GroupVersionT where
  "GroupVersion = \<lparr>gv_Group = ''kwarm.io'', gv_Version = ''v1alpha1''\<rparr>"

definition SchemeBuilder :: "('s, 'b) scheme_lib \<Rightarrow> 'b" where
  "SchemeBuilder L = NewBuilder L GroupVersion"

text \<open>The \<open>init\<close> functions of the package run in the order of their files.\<close>

definition init_prepullimage_types :: "('s, 'b) scheme_lib \<Rightarrow> 'b \<Rightarrow> 'b" where
  "init_prepullimage_types L = Register L [''PrePullImage'', ''PrePullImageList'']"

definition init_prepullpolicy_types :: "('s, 'b) scheme_lib \<Rightarrow> 'b \<Rightarrow> 'b" where
  "init_prepullpolicy_types L = Register L [''PrePullPolicy'', ''PrePullPolicyList'']"

definition init_v1alpha1 :: "('s, 'b) scheme_lib \<Rightarrow> 'b" where
  "init_v1alpha1 L = init_prepullpolicy_types L (init_prepullimage_types L (SchemeBuilder L))"

text \<open>The method value of the builder, which is a pointer: it sees what \<open>init\<close> registers later.\<close>

definition AddToScheme :: "('s, 'b) scheme_lib \<Rightarrow> 'b \<Rightarrow> 's \<Rightarrow> go_error option \<times> 's" where
  "AddToScheme L = AddBuilderToScheme L"

text \<open>\<open>utilruntime.Must\<close> panics on an error.\<close>

definition init_main :: "('s, 'b) scheme_lib \<Rightarrow> go_error + 's" where
  "init_main L =
     (case AddClientGoToScheme L (NewScheme L) of
        (Some err, s1) \<Rightarrow> Inl err
      | (None, s1) \<Rightarrow>
          (case AddToScheme L (init_v1alpha1 L) s1 of
             (Some err, s2) \<Rightarrow> Inl err
           | (None, s2) \<Rightarrow> Inr s2))"

text \<open>
  What is documented of the two: a builder adds every kind that was registered with it, under its
  group and version, and what is added to a scheme stays in it.
\<close>

definition scheme_laws ::
  "('s, 'b) scheme_lib \<Rightarrow> ('s \<Rightarrow> (GroupVersionT \<times> string) set) \<Rightarrow> ('b \<Rightarrow> (GroupVersionT \<times> string) set) \<Rightarrow>
     (GroupVersionT \<times> string) set \<Rightarrow> bool" where
  "scheme_laws L known collected clientgo \<longleftrightarrow>
     (\<forall>gv ks ks'. collected (Register L ks (NewBuilder L gv)) = {gv} \<times> set ks \<and>
        collected (Register L ks' (Register L ks (NewBuilder L gv))) = {gv} \<times> (set ks \<union> set ks')) \<and>
     (\<forall>b s s'. AddBuilderToScheme L b s = (None, s') \<longrightarrow> known s' = known s \<union> collected b) \<and>
     (\<forall>s s'. AddClientGoToScheme L s = (None, s') \<longrightarrow> known s' = known s \<union> clientgo)"

fun kind_name :: "runtime_object \<Rightarrow> string" where
  "kind_name (PrePullImage_obj p) = ''PrePullImage''"
| "kind_name (PrePullImageList_obj p) = ''PrePullImageList''"
| "kind_name (PrePullPolicy_obj p) = ''PrePullPolicy''"
| "kind_name (PrePullPolicyList_obj p) = ''PrePullPolicyList''"

lemma scheme_knows_objects:
  assumes "scheme_laws L known collected clientgo" and "init_main L = Inr s"
  shows "(GroupVersion, kind_name obj) \<in> known s" and "clientgo \<subseteq> known s"
proof -
  obtain s1 where s1: "AddClientGoToScheme L (NewScheme L) = (None, s1)" "AddBuilderToScheme L (init_v1alpha1 L) s1 = (None, s)"
    using assms(2) by (auto simp: init_main_def AddToScheme_def split: prod.splits option.splits)
  have k: "known s = known s1 \<union> collected (init_v1alpha1 L)" "known s1 = known (NewScheme L) \<union> clientgo"
    using assms(1) s1 unfolding scheme_laws_def by blast+
  have "collected (init_v1alpha1 L) =
      {GroupVersion} \<times> {''PrePullImage'', ''PrePullImageList'', ''PrePullPolicy'', ''PrePullPolicyList''}"
    using assms(1) by (auto simp: scheme_laws_def init_v1alpha1_def init_prepullimage_types_def
        init_prepullpolicy_types_def SchemeBuilder_def)
  then show "(GroupVersion, kind_name obj) \<in> known s" "clientgo \<subseteq> known s"
    by (cases obj; simp add: k) (auto simp: k)
qed

section \<open>The process\<close>

text \<open>A panic ends a Go process with code 2.\<close>

definition process :: "('s, 'b) scheme_lib \<Rightarrow> ('s \<Rightarrow> ('m, 'w) runtime) \<Rightarrow> library_flags \<Rightarrow> string list \<Rightarrow> 'w \<Rightarrow> exit \<times> 'w" where
  "process L rt z args w = (case init_main L of Inl err \<Rightarrow> (Exit 2, w) | Inr s \<Rightarrow> main (rt s) z args w)"

text \<open>The calls on controller-runtime, and a runtime that keeps a record of them and of which succeeded.\<close>

datatype setup_call =
    AskConfig
  | MakeManager manager_options
  | AddController controller
  | AddHealthz string
  | AddReadyz string
  | StartManager

type_synonym setup_log = "(setup_call \<times> bool) list"

definition logged_call :: "setup_call \<Rightarrow> ('w \<Rightarrow> go_error option \<times> 'w) \<Rightarrow> 'w \<times> setup_log \<Rightarrow> go_error option \<times> 'w \<times> setup_log" where
  "logged_call c f wl = (case f (fst wl) of (e, w) \<Rightarrow> (e, w, snd wl @ [(c, e = None)]))"

definition logged :: "('m, 'w) runtime \<Rightarrow> ('m, 'w \<times> setup_log) runtime" where
  "logged rt =
     \<lparr>GetConfigOk = (\<lambda>args wl. case GetConfigOk rt args (fst wl) of (b, w) \<Rightarrow> (b, w, snd wl @ [(AskConfig, b)])),
      NewManager = (\<lambda>o1 wl. case NewManager rt o1 (fst wl) of
        (r, w) \<Rightarrow> (r, w, snd wl @ [(MakeManager o1, case r of Inl _ \<Rightarrow> False | Inr _ \<Rightarrow> True)])),
      Complete = (\<lambda>m c. logged_call (AddController c) (Complete rt m c)),
      AddHealthzCheck = (\<lambda>m n. logged_call (AddHealthz n) (AddHealthzCheck rt m n)),
      AddReadyzCheck = (\<lambda>m n. logged_call (AddReadyz n) (AddReadyzCheck rt m n)),
      Start = (\<lambda>m. logged_call StartManager (Start rt m))\<rparr>"

definition setup_plan :: "options \<Rightarrow> setup_call list" where
  "setup_plan o1 =
     [AskConfig, MakeManager (manager_options_of o1),
      AddController \<lparr>ctl_For = ''PrePullPolicy'', ctl_Owns = [], ctl_Named = ''prepullpolicy'',
        ctl_Recorder = None, ctl_RateLimiter = None\<rparr>,
      AddController \<lparr>ctl_For = ''Deployment'', ctl_Owns = [], ctl_Named = ''deployment'',
        ctl_Recorder = Some ''kwarm-deployment-controller'', ctl_RateLimiter = None\<rparr>,
      AddController \<lparr>ctl_For = ''PrePullImage'', ctl_Owns = [''Job''], ctl_Named = ''prepullimage'',
        ctl_Recorder = Some ''kwarm-prepullimage-controller'',
        ctl_RateLimiter = Some (NewRateLimiter (maxConcurrentPulls_flag o1) (maxPullsPerNode_flag o1))\<rparr>,
      AddHealthz ''healthz'', AddReadyz ''readyz'', StartManager]"

text \<open>The log after the plan was followed: to its end, or up to the first call that failed.\<close>

definition done_all :: "setup_call list \<Rightarrow> setup_log" where
  "done_all cs = map (\<lambda>c. (c, True)) cs"

definition followed :: "setup_call list \<Rightarrow> exit \<Rightarrow> setup_log \<Rightarrow> bool" where
  "followed cs e lg \<longleftrightarrow> e = Returned \<and> lg = done_all cs \<or>
     (\<exists>n < length cs. e = Exit 1 \<and> lg = done_all (take n cs) @ [(cs ! n, False)])"

lemma followed_Nil [simp]: "followed [] e lg \<longleftrightarrow> e = Returned \<and> lg = []"
  by (simp add: followed_def done_all_def)

lemma followed_Cons:
  "followed (c # cs) e lg \<longleftrightarrow>
     (e = Exit 1 \<and> lg = [(c, False)]) \<or> (\<exists>lg'. lg = (c, True) # lg' \<and> followed cs e lg')"
proof
  assume "followed (c # cs) e lg"
  then consider "e = Returned" "lg = (c, True) # done_all cs"
    | n where "n < Suc (length cs)" "e = Exit 1" "lg = done_all (take n (c # cs)) @ [((c # cs) ! n, False)]"
    by (auto simp: followed_def done_all_def)
  then show "(e = Exit 1 \<and> lg = [(c, False)]) \<or> (\<exists>lg'. lg = (c, True) # lg' \<and> followed cs e lg')"
  proof cases
    case 2
    then show ?thesis by (cases n) (auto simp: followed_def done_all_def)
  qed (simp add: followed_def)
next
  assume "(e = Exit 1 \<and> lg = [(c, False)]) \<or> (\<exists>lg'. lg = (c, True) # lg' \<and> followed cs e lg')"
  then show "followed (c # cs) e lg"
    unfolding followed_def done_all_def
    by (elim disjE exE conjE) (force intro: exI [of _ 0], force, metis (no_types, lifting) Suc_less_eq append_Cons
        length_Cons list.simps(9) nth_Cons_Suc take_Suc_Cons)
qed

lemma or_exit_followed:
  assumes "or_exit (logged_call c f) rest (w, l) = (e, w', l')"
    and "\<And>w1. rest (w1, l @ [(c, True)]) = (e, w', l') \<Longrightarrow> \<exists>lg. l' = (l @ [(c, True)]) @ lg \<and> followed cs e lg"
  shows "\<exists>lg. l' = l @ lg \<and> followed (c # cs) e lg"
proof -
  obtain r w1 where f: "f w = (r, w1)" by (metis surj_pair)
  show ?thesis
  proof (cases r)
    case None
    with assms(1) f have "rest (w1, l @ [(c, True)]) = (e, w', l')"
      by (simp add: or_exit_def logged_call_def)
    from assms(2) [OF this] show ?thesis by (auto simp: followed_Cons)
  next
    case (Some err)
    with assms(1) f show ?thesis by (auto simp: or_exit_def logged_call_def followed_Cons)
  qed
qed

lemma run_manager_followed:
  assumes "run_manager (logged rt) o1 mgr (w, l) = (e, w', l')"
  shows "\<exists>lg. l' = l @ lg \<and> followed (drop 2 (setup_plan o1)) e lg"
  using assms
  unfolding run_manager_def Let_def setup_plan_def logged_def SetupWithManager_Policy_def SetupWithManager_Deployment_def
    SetupWithManager_PPI_def runtime.simps
  by simp ((rule or_exit_followed, assumption)+, simp)

lemma main_followed:
  assumes "main (logged rt) z args (w, []) = (e, w', lg)"
  shows "lg = [] \<and> e \<noteq> Returned \<or>
    (\<exists>o1 rest. Parse (CommandLine z) args default_options = Parsed o1 rest \<and> followed (setup_plan o1) e lg)"
proof (cases "Parse (CommandLine z) args default_options")
  case (Parsed o1 rest)
  obtain b w1 where c: "GetConfigOk rt args w = (b, w1)" by (metis surj_pair)
  have cs: "setup_plan o1 = AskConfig # MakeManager (manager_options_of o1) # drop 2 (setup_plan o1)"
    by (simp add: setup_plan_def)
  have "followed (setup_plan o1) e lg"
  proof (cases b)
    case False
    with assms c Parsed show ?thesis
      by (subst cs) (auto simp: main_def logged_def followed_Cons)
  next
    case b: True
    obtain r w2 where m: "NewManager rt (manager_options_of o1) w1 = (r, w2)" by (metis surj_pair)
    show ?thesis
    proof (cases r)
      case (Inl err)
      with assms c m b Parsed show ?thesis
        by (subst cs) (auto simp: main_def logged_def followed_Cons)
    next
      case (Inr mgr)
      with assms c m b Parsed
      have "run_manager (logged rt) o1 mgr (w2, [(AskConfig, True), (MakeManager (manager_options_of o1), True)]) = (e, w', lg)"
        by (simp add: main_def logged_def)
      from run_manager_followed [OF this] show ?thesis
        by (subst cs) (auto simp: followed_Cons)
    qed
  qed
  with Parsed show ?thesis by blast
qed (use assms in \<open>auto simp: main_def\<close>)

text \<open>
  (C35) The process makes its calls on controller-runtime in one order, with the arguments that the
  flags give, and stops at the first that fails, with code 1: the manager is started only when
  its configuration, the three controllers and both checks are in place, and all controllers share
  one limiter with the limits of the flags. A process that makes any call has registered every
  kind of object of the API group, and those of client-go, with the scheme.
\<close>

theorem manager_started_last:
  assumes "scheme_laws L known collected clientgo"
    and "process L (\<lambda>s. logged (rt s)) z args (w, []) = (e, w', lg)"
  shows "lg = [] \<and> e \<noteq> Returned \<or>
    (\<exists>s o1 rest. init_main L = Inr s \<and> clientgo \<subseteq> known s \<and> (\<forall>obj. (GroupVersion, kind_name obj) \<in> known s) \<and>
       Parse (CommandLine z) args default_options = Parsed o1 rest \<and> followed (setup_plan o1) e lg)"
proof (cases "init_main L")
  case (Inl err)
  with assms(2) show ?thesis by (auto simp: process_def)
next
  case (Inr s)
  have "main (logged (rt s)) z args (w, []) = (e, w', lg)"
    using assms(2) Inr by (simp add: process_def)
  from main_followed [OF this] scheme_knows_objects [OF assms(1) Inr] Inr show ?thesis by blast
qed

text \<open>A scheme that is the set of its kinds, and a manager that cannot add the last controller.\<close>

definition set_scheme :: "((GroupVersionT \<times> string) set, GroupVersionT \<times> string list) scheme_lib" where
  "set_scheme =
     \<lparr>NewScheme = {}, NewBuilder = (\<lambda>gv. (gv, [])), Register = (\<lambda>ks b. (fst b, snd b @ ks)),
      AddBuilderToScheme = (\<lambda>b s. (None, s \<union> {fst b} \<times> set (snd b))),
      AddClientGoToScheme = (\<lambda>s. (None, s \<union> {(\<lparr>gv_Group = ''apps'', gv_Version = ''v1''\<rparr>, ''Deployment'')}))\<rparr>"

definition failing_runtime :: "(unit, unit) runtime" where
  "failing_runtime =
     \<lparr>GetConfigOk = (\<lambda>args w. (True, w)), NewManager = (\<lambda>o1 w. (Inr (), w)),
      Complete = (\<lambda>m c w. (if ctl_For c = ''PrePullImage'' then Some (PlainError ''no field index'') else None, w)),
      AddHealthzCheck = (\<lambda>m n w. (None, w)), AddReadyzCheck = (\<lambda>m n w. (None, w)), Start = (\<lambda>m w. (None, w))\<rparr>"

definition good_runtime :: "(unit, unit) runtime" where
  "good_runtime = failing_runtime\<lparr>Complete := (\<lambda>m c w. (None, w))\<rparr>"

lemma set_scheme_laws:
  "scheme_laws set_scheme id (\<lambda>b. {fst b} \<times> set (snd b)) {(\<lparr>gv_Group = ''apps'', gv_Version = ''v1''\<rparr>, ''Deployment'')}"
  by (auto simp: scheme_laws_def set_scheme_def)

lemma manager_started_last_witness:
  "\<exists>lg s o1. process set_scheme (\<lambda>s. logged failing_runtime) no_library_flags [''--leader-elect''] ((), []) = (Exit 1, (), lg) \<and>
     followed (setup_plan o1) (Exit 1) lg \<and> length lg = 5 \<and> enableLeaderElection o1 \<and>
     init_main set_scheme = Inr s \<and> (GroupVersion, ''PrePullImageList'') \<in> s"
proof -
  let ?args = "[''--leader-elect'']"
  obtain o1 where p: "Parse (CommandLine no_library_flags) ?args default_options = Parsed o1 []" "enableLeaderElection o1"
    by (simp add: flag_name_def split_value_def CommandLine_def flag_vars_def set_var_def ParseBool_def Let_def)
  obtain s where s: "init_main set_scheme = Inr s"
    by (simp add: init_main_def set_scheme_def AddToScheme_def)
  obtain lg where lg: "process set_scheme (\<lambda>s. logged failing_runtime) no_library_flags ?args ((), []) = (Exit 1, (), lg)"
    "length lg = 5"
    using p(1) s by (simp add: process_def main_def logged_def failing_runtime_def run_manager_def or_exit_def logged_call_def
        SetupWithManager_Policy_def SetupWithManager_Deployment_def SetupWithManager_PPI_def Let_def)
  from manager_started_last [OF set_scheme_laws lg(1)] lg(2) s p
  have "\<forall>obj. (GroupVersion, kind_name obj) \<in> s" "followed (setup_plan o1) (Exit 1) lg" by auto
  with lg s p(2) kind_name.simps(2) [of None] show ?thesis by metis
qed

section \<open>The limiter that main builds\<close>

lemma followed_calls:
  assumes "followed cs e lg"
  shows "(c, ok) \<in> set lg \<Longrightarrow> c \<in> set cs" and "e = Returned \<Longrightarrow> c \<in> set cs \<Longrightarrow> (c, True) \<in> set lg"
  using assms by (auto simp: followed_def done_all_def dest: in_set_takeD)

text \<open>
  (C28) The limits given on the command line reach the limiter: however a run of \<open>main\<close> with the
  two flags ends, a controller that it adds with a limiter is the one for PrePullImages, and the
  limiter has no pull in progress and exactly these limits, where 10 and 2 stand in for limits
  that are not positive; so its first attempt succeeds on every node. A run in which the manager
  was started has added that controller.
\<close>

theorem limits_from_flags:
  assumes "main (logged rt) z (limit_args n m) (w, []) = (e, w', lg)"
  shows "(\<forall>c ok limiter. (AddController c, ok) \<in> set lg \<and> ctl_RateLimiter c = Some limiter \<longrightarrow>
      ctl_For c = ''PrePullImage'' \<and> CurrentPulls limiter = 0 \<and>
      MaxConcurrentPulls limiter = (if n \<le>s 0 then 10 else n) \<and>
      MaxPullsPerNode limiter = (if m \<le>s 0 then 2 else m) \<and> fst (TryAcquire limiter node)) \<and>
    (e = Returned \<longrightarrow> (\<exists>c limiter. (AddController c, True) \<in> set lg \<and> ctl_RateLimiter c = Some limiter))"
proof (cases "lg = [] \<and> e \<noteq> Returned")
  case False
  let ?o = "default_options\<lparr>maxConcurrentPulls_flag := n, maxPullsPerNode_flag := m\<rparr>"
  let ?c = "\<lparr>ctl_For = ''PrePullImage'', ctl_Owns = [''Job''], ctl_Named = ''prepullimage'',
        ctl_Recorder = Some ''kwarm-prepullimage-controller'', ctl_RateLimiter = Some (NewRateLimiter n m)\<rparr>"
  from False main_followed [OF assms] have f: "followed (setup_plan ?o) e lg"
    by (auto simp: limit_args_read)
  have l: "CurrentPulls (NewRateLimiter n m) = 0" "MaxConcurrentPulls (NewRateLimiter n m) = (if n \<le>s 0 then 10 else n)"
    "MaxPullsPerNode (NewRateLimiter n m) = (if m \<le>s 0 then 2 else m)"
    by (simp_all add: NewRateLimiter_def CurrentPulls_def MaxConcurrentPulls_def MaxPullsPerNode_def Let_def)
  have plan: "AddController ?c \<in> set (setup_plan ?o)" by (simp add: setup_plan_def)
  have only: "c = ?c" if "AddController c \<in> set (setup_plan ?o)" "ctl_RateLimiter c = Some limiter" for c limiter
    using that by (auto simp: setup_plan_def)
  show ?thesis
  proof (intro conjI allI impI; (elim conjE)?)
    fix c ok limiter
    assume c: "(AddController c, ok) \<in> set lg" "ctl_RateLimiter c = Some limiter"
    have "c = ?c" using only [OF followed_calls(1) [OF f c(1)] c(2)] .
    with c(2) have "ctl_For c = ''PrePullImage''" "limiter = NewRateLimiter n m" by simp_all
    with l new_limiter_first show "ctl_For c = ''PrePullImage''" "CurrentPulls limiter = 0"
      "MaxConcurrentPulls limiter = (if n \<le>s 0 then 10 else n)"
      "MaxPullsPerNode limiter = (if m \<le>s 0 then 2 else m)" "fst (TryAcquire limiter node)" by simp_all
  next
    assume "e = Returned"
    from followed_calls(2) [OF f this plan]
    show "\<exists>c limiter. (AddController c, True) \<in> set lg \<and> ctl_RateLimiter c = Some limiter" by force
  qed
qed simp

lemma limits_from_flags_witness:
  "\<exists>lg c limiter. main (logged good_runtime) no_library_flags (limit_args 7 0) ((), []) = (Returned, ((), lg)) \<and>
     (AddController c, True) \<in> set lg \<and> ctl_RateLimiter c = Some limiter \<and>
     MaxConcurrentPulls limiter = 7 \<and> MaxPullsPerNode limiter = 2"
proof -
  obtain lg where m: "main (logged good_runtime) no_library_flags (limit_args 7 0) ((), []) = (Returned, ((), lg))"
    by (simp add: main_def limit_args_read logged_def good_runtime_def failing_runtime_def run_manager_def or_exit_def logged_call_def
        SetupWithManager_Policy_def SetupWithManager_Deployment_def SetupWithManager_PPI_def Let_def)
  from limits_from_flags [OF m] obtain c limiter where "(AddController c, True) \<in> set lg" "ctl_RateLimiter c = Some limiter"
    by blast
  with limits_from_flags [OF m] m show ?thesis by (auto simp: word_sle_eq)
qed

end
