(* ===== verification/TargetNodes.thy ===== *)
theory TargetNodes
  imports DeploymentSystem ImageSystem
begin

text \<open>
  From the node list to the nodes of an object: the Deployment controller chooses the nodes and
  writes their names into the specification, the PrePullImage controller takes the names from
  there.
\<close>

declare split_paired_All [simp del] split_paired_Ex [simp del]

definition policy_nodes :: "PrePullPolicy \<Rightarrow> node_filter" where
  "policy_nodes policy = (let match = nsel_MatchLabels (pspec_NodeSelector (pol_Spec policy)) in
     if 0 < length match then NodesWithLabels (map_of match) else AllNodes)"

lemma getTargetNodes_Deployment_ready:
  assumes "getTargetNodes_Deployment k policy w = (Inr nodes, w1)"
  obtains items where "fst (ListNode k (policy_nodes policy) w) = Inr items"
    and "nodes = map (\<lambda>n. meta_Name (node_Meta n)) (filter (\<lambda>n. isNodeReady n \<and> \<not> node_Unschedulable n) items)"
  using assms
  by (auto simp: getTargetNodes_Deployment_def policy_nodes_def Let_def ready_node_names_eq split: prod.splits sum.splits)

lemma pending_takes_names:
  assumes "ppi_store k stored" and "nts_Names (spec_Nodes (ppi_Spec p)) \<noteq> []" and "handlePending k p s = (Inr res, s')"
  shows "Requeue res \<and> (\<exists>new. stored (op_World s') (key_of (ppi_Meta p)) = Some new \<and>
    ppi_Phase new = PrePullImagePhaseInProgress \<and>
    map (\<lambda>ns. (ns_Node ns, ns_Status ns)) (ppi_Nodes new) =
      map (\<lambda>n. (n, NodePullStatusPending)) (nts_Names (spec_Nodes (ppi_Spec p))))"
proof -
  let ?names = "nts_Names (spec_Nodes (ppi_Spec p))"
  have t: "world (getTargetNodes_PPI k p) s = (Inr ?names, s)"
    using assms(2) by (simp add: world_def getTargetNodes_PPI_def)
  obtain now s1 where n: "world (Now k) s = (now, s1)" by (metis surj_pair)
  obtain p1 s2 where c: "setCondition_PPI k ConditionTypeReady ConditionFalse ''InProgress'' ''Pull operation in progress''
      (set_Status (initial_status ?names now) p) s1 = (p1, s2)" by (metis surj_pair)
  obtain u s3 where u: "world (StatusUpdatePPI k p1) s2 = (u, s3)" by (metis surj_pair)
  obtain q where q: "u = Inr q" "Requeue res" "op_World s' = op_World s3"
    using assms(2,3) t n c u
    by (auto simp: handlePending_def event_PPI_def split: sum.splits)
  from setCondition_frame [OF c] have p1: "key_of (ppi_Meta p1) = key_of (ppi_Meta p)"
    "ppi_Phase p1 = PrePullImagePhaseInProgress"
    "map (\<lambda>ns. (ns_Node ns, ns_Status ns)) (ppi_Nodes p1) = map (\<lambda>n. (n, NodePullStatusPending)) ?names"
    by (auto simp: set_Status_def initial_status_def zero_node_status_def)
  from world_eqD [OF u [unfolded q(1)]] have "StatusUpdatePPI k p1 (op_World s2) = (Inr q, op_World s3)" by simp
  from store_status [OF assms(1) this] p1(1) obtain new where
    "stored (op_World s3) (key_of (ppi_Meta p)) = Some new" "same_status (ppi_Status p1) (ppi_Status new)"
    unfolding status_updated_def by auto
  with p1(2,3) q show ?thesis by (auto simp: same_status_def)
qed

text \<open>
  (C18) The nodes that an object starts on are those the Deployment controller found: the nodes with
  the labels of the policy that were ready and schedulable when it listed them, in the order of the
  list, each pending. The object takes them from its specification and lists no nodes again.
\<close>

theorem object_starts_on_ready_nodes:
  assumes "image_api k stored deps" and "ppi_store k stored"
    and "getTargetNodes_Deployment k policy w = (Inr nodes, w1)" and "nodes \<noteq> []"
    and "stored w2 (image_key d img) = None" and "createPrePullImage k d policy img nodes w2 = (None, w3)"
    and "stored w3 (image_key d img) = Some q" and "spec_Nodes (ppi_Spec p) = spec_Nodes (ppi_Spec q)"
    and "handlePending k p s = (Inr res, s')"
  shows "Requeue res \<and> (\<exists>items new. fst (ListNode k (policy_nodes policy) w) = Inr items \<and>
    stored (op_World s') (key_of (ppi_Meta p)) = Some new \<and> ppi_Phase new = PrePullImagePhaseInProgress \<and>
    map (\<lambda>ns. (ns_Node ns, ns_Status ns)) (ppi_Nodes new) =
      map (\<lambda>n. (meta_Name (node_Meta n), NodePullStatusPending))
        (filter (\<lambda>n. isNodeReady n \<and> \<not> node_Unschedulable n) items))"
proof -
  obtain items where items: "fst (ListNode k (policy_nodes policy) w) = Inr items"
    "nodes = map (\<lambda>n. meta_Name (node_Meta n)) (filter (\<lambda>n. isNodeReady n \<and> \<not> node_Unschedulable n) items)"
    by (rule getTargetNodes_Deployment_ready [OF assms(3)])
  obtain g w4 where g: "GetPPI k (meta_Namespace (dep_Meta d), generatePrePullImageName (meta_Name (dep_Meta d)) img) w2 = (g, w4)"
    by (metis surj_pair)
  have "g \<noteq> Inr e" for e
    using image_api_get(1) [OF assms(1), of _ w2 e w4] g assms(5) by (auto simp: image_key_def)
  then obtain err where err: "g = Inl err" by (cases g) auto
  then have cr: "create_new_ppi k d policy img nodes w4 = (None, w3)"
    using assms(6) g by (auto simp: createPrePullImage_def Let_def split: if_splits)
  then obtain c where c: "CreatePPI k (new_ppi d policy img nodes) w4 = (Inr c, w3)"
    by (auto simp: create_new_ppi_def split: prod.splits sum.splits)
  have "key_of (ppi_Meta (new_ppi d policy img nodes)) = image_key d img"
    by (simp add: new_ppi_def key_of_def image_key_def zero_meta_def)
  with image_api_create(1) [OF assms(1) c] assms(7) have "spec_Nodes (ppi_Spec q) = spec_Nodes (ppi_Spec (new_ppi d policy img nodes))"
    by auto
  then have names: "nts_Names (spec_Nodes (ppi_Spec p)) = nodes"
    by (simp add: assms(8) new_ppi_def)
  with pending_takes_names [OF assms(2) _ assms(9)] assms(4) items show ?thesis
    by (auto simp: comp_def)
qed

text \<open>Three nodes, of which one is ready and schedulable.\<close>

definition sample_node :: "string \<Rightarrow> string \<Rightarrow> bool \<Rightarrow> Node" where
  "sample_node name ready cordoned = \<lparr>node_Meta = zero_meta\<lparr>meta_Name := name\<rparr>, node_Unschedulable = cordoned,
     node_Conditions = [\<lparr>nc_Type = ''Ready'', nc_Status = ready\<rparr>]\<rparr>"

definition three_nodes :: mem where
  "three_nodes = empty_mem\<lparr>mem_nodes :=
     [sample_node ''n1'' ''False'' False, sample_node ''n2'' ''True'' False, sample_node ''n3'' ''True'' True]\<rparr>"

lemma object_starts_on_ready_nodes_witness:
  "\<exists>(s' :: mem op) new. mem_ppis (op_World s') (image_key one_deployment ''a'') = Some new \<and>
     map (\<lambda>ns. (ns_Node ns, ns_Status ns)) (ppi_Nodes new) = [(''n2'', NodePullStatusPending)]"
proof -
  let ?q = "new_ppi one_deployment sample_policy ''a'' [''n2'']"
  let ?w = "snd (mem_create_ppi ?q three_nodes)"
  have nf: "policy_nodes sample_policy = AllNodes"
    by (simp add: policy_nodes_def sample_policy_def)
  have l: "ListNode mem_k8s AllNodes three_nodes = (Inr (mem_nodes three_nodes), three_nodes)"
    by (simp add: mem_list_node_def)
  have t: "getTargetNodes_Deployment mem_k8s sample_policy three_nodes = (Inr [''n2''], three_nodes)"
    using nf l by (simp add: getTargetNodes_Deployment_def policy_nodes_def three_nodes_def sample_node_def empty_mem_def
        isNodeReady_def ConditionTrue_def zero_meta_def Let_def)
  have key: "key_of (ppi_Meta ?q) = image_key one_deployment ''a''"
    by (simp add: new_ppi_def key_of_def image_key_def zero_meta_def)
  have e: "mem_ppis three_nodes = Map.empty" by (simp add: three_nodes_def empty_mem_def)
  have c: "createPrePullImage mem_k8s one_deployment sample_policy ''a'' [''n2''] three_nodes = (None, ?w)"
    by (simp add: createPrePullImage_def create_new_ppi_def mem_get_ppi_def mem_create_ppi_def e key not_found_def Let_def)
  have st: "mem_ppis ?w (image_key one_deployment ''a'') = Some ?q"
    by (simp add: mem_create_ppi_def e key Let_def)
  have "mem_failing ?w = 0"
    by (simp add: mem_create_ppi_def three_nodes_def empty_mem_def Let_def)
  then obtain res s' where h: "handlePending mem_k8s ?q (sample_op ?w) = (Inr res, s')"
    using st key by (simp add: handlePending_def getTargetNodes_PPI_def setCondition_PPI_def world_def sample_op_def
        mem_status_update_ppi_def set_Status_def new_ppi_def Let_def)
  have "mem_ppis three_nodes (image_key one_deployment ''a'') = None" by (simp add: e)
  from object_starts_on_ready_nodes [OF mem_image_api mem_ppi_store t _ this c st refl h]
  obtain items new where i: "fst (ListNode mem_k8s AllNodes three_nodes) = Inr items"
    and n: "mem_ppis (op_World s') (image_key one_deployment ''a'') = Some new"
    "map (\<lambda>ns. (ns_Node ns, ns_Status ns)) (ppi_Nodes new) = map (\<lambda>n. (meta_Name (node_Meta n), NodePullStatusPending))
        (filter (\<lambda>n. isNodeReady n \<and> \<not> node_Unschedulable n) items)"
    by (auto simp: nf key)
  have "items = mem_nodes three_nodes" using i l by simp
  then have "map (\<lambda>n. (meta_Name (node_Meta n), NodePullStatusPending))
      (filter (\<lambda>n. isNodeReady n \<and> \<not> node_Unschedulable n) items) = [(''n2'', NodePullStatusPending)]"
    by (simp add: three_nodes_def sample_node_def empty_mem_def isNodeReady_def ConditionTrue_def zero_meta_def)
  note nodes = trans [OF n(2) this]
  show ?thesis
    by (rule exI [of _ s'], rule exI [of _ new], rule conjI [OF n(1) nodes])
qed

end
