(* ===== verification/Spec2Isabelle.thy ===== *)
theory Spec2Isabelle
  imports KwarmPrelude RateLimiter LimiterMutex GoTime Sha256 ApiTypes Kubernetes Metrics Puller
    NodeFilter ImageController ImageNodes MemoryClient GoTimeFacts PullJobs ImagePhases ImageSystem
    GoJson DeploymentController PolicyController CutNames DeploymentImages DeploymentSystem PolicyCount
    ReconcileMetrics GoFlag Startup OperatorSystem ImageLiveness GoMemory DeepCopier DeepCopy DeepCopyFacts
    ApiJson ApiJsonFacts JsonSystem SchemeInit TargetNodes LostWrites
begin

text \<open>
  kwarm is a Kubernetes operator that pulls the images of deployments to the nodes before the
  pods need them. This is its verification development.

  \<^bold>\<open>The program.\<close> Three controllers run in one process (\<open>cmd/main.go\<close>), each a function that
  controller-runtime calls with the key of an object that changed. The Deployment controller
  (\<open>internal/controller/deployment_controller.go\<close>) finds the images of a deployment that changed
  since they were last recorded in an annotation and creates a PrePullImage for each. The
  PrePullImage controller (\<open>prepullimage_controller.go\<close>) takes such an object through its phases:
  it lists the target nodes, starts a pull job on each, follows the jobs, retries, sums up and
  finally deletes the object. The PrePullPolicy controller (\<open>prepullpolicy_controller.go\<close>) counts
  the deployments a policy selects. Pull jobs are built by \<open>internal/puller/job.go\<close>; the number of
  concurrent pulls is bounded by the rate limiter of \<open>internal/ratelimiter/ratelimiter.go\<close>, which
  all reconciles share; \<open>internal/metrics/metrics.go\<close> keeps gauges and counters. The resources are
  the types of \<open>api/v1alpha1\<close>.

  \<^bold>\<open>The model.\<close> A function of the program is a definition of the same name where it can be
  (with a suffix where two controllers have functions of one name, or HOL has one). A struct is
  a record, a pointer an option, an error a value on the left of a sum, \<open>int\<close>, \<open>int32\<close> and \<open>int64\<close>
  are machine words. State is passed explicitly: the record \<open>op\<close> holds the state of the outside
  world, the rate limiter, and the list of metric calls and events made so far. The outside
  world (the API server, the clock, the order in which Go ranges over a map) and the functions
  of apimachinery and controller-runtime are the record \<open>k8s\<close>, a parameter of every definition
  that uses them (for the start-up, the records \<open>runtime\<close> and \<open>scheme_lib\<close>; for the deep copies,
  \<open>machinery\<close>; for JSON, \<open>coders\<close>); what the theorems need of it is a named hypothesis:
  \<open>documented\<close>, \<open>ppi_store\<close>, \<open>job_store\<close>, \<open>image_api\<close>, \<open>order_law\<close>, \<open>deployment_list\<close>,
  \<open>policy_store\<close>, \<open>other_calls_quiet\<close>, \<open>machinery_ok\<close>, \<open>coders_ok\<close>, \<open>wire_forms\<close>, \<open>json_server\<close>,
  \<open>scheme_laws\<close>.

    \<^item> \<open>KwarmPrelude\<close>: Go integers, maps, errors, decimal printing, shared lemmas.
    \<^item> \<open>RateLimiter\<close>: the limiter, and the locale \<open>slot_limiter\<close>, the contract (a bounded multiset
      of slots), interpreted on the limiter's code. The controller's lemmas rest on the locale
      \<open>slot_account\<close>, any way of accounting for slots that an attempt and a release keep; it is
      interpreted three times: \<open>exact\<close> (the counters are the slots), \<open>bounded\<close> (they are within the
      limits) and \<open>covered\<close> (they cover the slots up to a given shortfall).
    \<^item> \<open>LimiterMutex\<close>: the limiter's methods statement by statement under the mutex, for any
      number of goroutines, and their linearizability.
    \<^item> \<open>GoTime\<close>, \<open>GoTimeFacts\<close>, \<open>Sha256\<close>, \<open>GoJson\<close>, \<open>GoFlag\<close>: what the program uses of the Go
      library: durations (with the roundings of \<open>float64\<close>), SHA-256, JSON of string maps, the
      command line.
    \<^item> \<open>CutNames\<close>: the locale \<open>cut_names\<close>, the contract of the two functions that make object
      names, interpreted on \<open>GenerateJobName\<close> (\<open>PullJobs\<close>) and on \<open>generatePrePullImageName\<close>
      (\<open>DeploymentSystem\<close>).
    \<^item> \<open>ApiTypes\<close>, \<open>Kubernetes\<close>: the resources and the interface to the API server.
    \<^item> \<open>ApiJson\<close>: the JSON of the resources by their struct tags, and the defaults that the API
      server fills in by their markers. \<open>ApiJsonFacts\<close> has the round trips, \<open>JsonSystem\<close> what they
      mean for the controllers.
    \<^item> \<open>GoMemory\<close>, \<open>DeepCopy\<close>: an explicit memory, and over it the generated deep copies of
      \<open>zz_generated.deepcopy.go\<close>, function by function. \<open>DeepCopier\<close> has the locales \<open>reader\<close> and
      \<open>deep_copier\<close>, the contract of a deep copy, and how fields, pointers, slices and maps keep
      it; \<open>DeepCopyFacts\<close> interprets it on the generated functions that need nothing from outside,
      and uses it as a predicate for the others, whose contract depends on \<open>machinery_ok\<close>.
    \<^item> \<open>Metrics\<close>, \<open>Puller\<close>, \<open>NodeFilter\<close>, \<open>ImageController\<close>, \<open>DeploymentController\<close>,
      \<open>PolicyController\<close>, \<open>Startup\<close>: the code of the files named above. \<open>SchemeInit\<close>: what runs before
      \<open>main\<close> (\<open>groupversion_info.go\<close> and the \<open>init\<close> functions), and the process as a whole.
    \<^item> \<open>MemoryClient\<close>: an in-memory API server, on which the hypotheses are shown satisfiable.
    \<^item> \<open>ImageNodes\<close>, \<open>ImagePhases\<close>, \<open>ImageLiveness\<close>, \<open>ImageSystem\<close>, \<open>LostWrites\<close>, \<open>PullJobs\<close>,
      \<open>DeploymentImages\<close>, \<open>DeploymentSystem\<close>, \<open>TargetNodes\<close>, \<open>PolicyCount\<close>,
      \<open>ReconcileMetrics\<close>, \<open>OperatorSystem\<close>: the properties.
      \<open>ReconcileMetrics\<close> has the locale \<open>reconciler\<close>, the shape of a \<open>Reconcile\<close> function,
      interpreted on all three.

  \<^bold>\<open>The theorems.\<close> The main one is \<open>ImageSystem.pulling_nodes_bounded\<close>, over every run of the
  operator, with failed reconciles and restarts: the nodes that the API server shows as pulling
  are at most the limits, plus the nodes that were pulling already when the process started
  (the limiter starts empty), plus the slots by which reconciles that then failed had lowered the
  counters (a lost status write, \<open>LostWrites\<close>). Without these the limits hold as they are, and
  without failed reconciles that touched the limiter its counters are the pulling nodes. It composes
  the contract of the limiter, the loop over the nodes (\<open>ImageNodes.node_outcome\<close> lists the
  outcomes of its body, and every fact on the loop is a case analysis on it), and the laws of the
  API server (\<open>ImageSystem.ppi_store\<close>). \<open>OperatorSystem.operator_refines_environment\<close> adds the other
  two controllers: their reconciles refine the steps allowed to the environment. For a
  PrePullImage there are further the life cycle of a node, the bound on the passes that change
  an object in any environment and the bound after which it has ended in a responsive one, the
  summary and the phase, retention and deletion, what a lost status write does to the limiter, job
  names, deadlines and the cleanup of jobs.
  For a deployment there are its images, what counts as changed, the round trip of the record
  in the annotation, what a successful and a failed reconcile leave, and object names. For
  policies there are the count, its agreement with the Deployment controller, and what is
  reported. Across the two, an object starts on the nodes that were ready when its deployment was
  reconciled, and what is stored of a specification is what JSON and the defaults leave of it. The
  start-up has the flags, the servers' options, and the order of the set-up calls. The rest of the
  model treats values as immutable; that a deep copy is the value, apart from its memory, is
  \<open>DeepCopyFacts.deep_copies_are_separate\<close>. Some theorems state what the
  code does where that is not what it means to do; the manifest lists them as findings.

  \<^bold>\<open>Bounds.\<close> \<open>whole_seconds\<close> is shown exact below \<open>2 ^ 23\<close> seconds. Counts of nodes are \<open>int32\<close>
  in the program, so theorems on counters are for fewer than \<open>2 ^ 31\<close> nodes. No definition uses
  fuel: every loop is over a list or decreases the length of a text.

  \<^bold>\<open>Not modelled.\<close> Log lines; the test helpers (\<open>test/utils\<close>); of JSON the text (but for the
  annotation of a deployment, \<open>GoJson\<close>), the metadata and the validation of the API server, which can
  only reject; in the memory the capacity of slices, and a copy into the memory of its source.
  Reads are of the current object: a stale read of controller-runtime's cache shows as the conflict
  of the write that follows it.
\<close>

end
